(* ===== verification/Prelude.thy ===== *)
theory Prelude
  imports Main "HOL-Library.Word" "HOL-Library.Sublist" "HOL-Library.Multiset"
    "HOL-Library.List_Lexorder" "HOL-Library.Char_ord" "HOL-Library.Code_Target_Numeral"
begin

text \<open>
  What every theory of the development shares: the machine types of Go that the provider
  uses, the functions of Go's \<open>strings\<close>, \<open>strconv\<close> and \<open>fmt\<close> packages that the sources
  call (on byte strings), and the generic facts about lists and strings that the component
  proofs rest on.  Nothing here is specific to libvirt.
\<close>

named_theorems go_simps \<open>unfolding rules of the Go string and number functions\<close>

section \<open>Machine types\<close>

type_synonym byte = "8 word"
type_synonym uint32 = "32 word"
type_synonym uint64 = "64 word"

text \<open>
  Go's \<open>int\<close> and \<open>uint\<close> are 64 bits wide on the platforms the provider is built for.  An
  \<open>int\<close> is modelled as a mathematical integer wherever the code only stores it; a conversion
  \<open>uint64(x)\<close> or \<open>uint(x)\<close> of an \<open>int\<close> wraps, which \<^const>\<open>word_of_int\<close> writes out.
\<close>

definition uint64_of_int :: "int \<Rightarrow> uint64" where
  "uint64_of_int i = word_of_int i"

lemma unat_uint64_of_int:
  assumes "0 \<le> i" "i < 2 ^ 64"
  shows "unat (uint64_of_int i) = nat i"
proof -
  have "uint (word_of_int i :: uint64) = i"
    using assms by (simp add: uint_word_of_int take_bit_int_eq_self)
  then show ?thesis
    by (metis uint64_of_int_def unat_eq_nat_uint)
qed

section \<open>Strings\<close>

text \<open>
  A Go string is a sequence of bytes; \<^typ>\<open>string\<close> is a list of 8-bit characters.
  \<open>strings.ToUpper\<close> and \<open>strings.ToLower\<close> are modelled on the ASCII letters, the only ones
  that occur in the MAC addresses, network modes and yes/no flags they are applied to.
\<close>

definition char_nat :: "char \<Rightarrow> nat" where
  "char_nat c = of_char c"

definition toUpperChar :: "char \<Rightarrow> char" where
  "toUpperChar c = (if 97 \<le> char_nat c \<and> char_nat c \<le> 122 then char_of (char_nat c - 32) else c)"

definition toLowerChar :: "char \<Rightarrow> char" where
  "toLowerChar c = (if 65 \<le> char_nat c \<and> char_nat c \<le> 90 then char_of (char_nat c + 32) else c)"

definition strToUpper :: "string \<Rightarrow> string" where
  "strToUpper s = map toUpperChar s"

definition strToLower :: "string \<Rightarrow> string" where
  "strToLower s = map toLowerChar s"

definition hasPrefix :: "string \<Rightarrow> string \<Rightarrow> bool" where
  "hasPrefix s p = prefix p s"

definition hasSuffix :: "string \<Rightarrow> string \<Rightarrow> bool" where
  "hasSuffix s p = suffix p s"

text \<open>\<open>strings.Split(s, sep)\<close> and \<open>strings.Join(xs, sep)\<close> with a one-byte separator.\<close>

fun strSplit :: "char \<Rightarrow> string \<Rightarrow> string list" where
  "strSplit c [] = [[]]"
| "strSplit c (x # xs) =
     (if x = c then [] # strSplit c xs
      else (case strSplit c xs of [] \<Rightarrow> [[x]] | y # ys \<Rightarrow> (x # y) # ys))"

fun strJoin :: "char \<Rightarrow> string list \<Rightarrow> string" where
  "strJoin c [] = []"
| "strJoin c [x] = x"
| "strJoin c (x # y # ys) = x @ c # strJoin c (y # ys)"

text \<open>\<open>strings.SplitN(s, sep, 2)\<close>: cut at the first separator only.\<close>

definition strSplitN2 :: "char \<Rightarrow> string \<Rightarrow> string list" where
  "strSplitN2 c s =
     (if c \<in> set s
      then [takeWhile (\<lambda>x. x \<noteq> c) s, tl (dropWhile (\<lambda>x. x \<noteq> c) s)]
      else [s])"

lemma strSplit_ne [simp]: "strSplit c s \<noteq> []"
  by (induction s) (auto split: list.splits)

lemma strSplit_no_sep: "c \<notin> set s \<Longrightarrow> strSplit c s = [s]"
  by (induction s) auto

lemma strSplit_append_sep:
  "c \<notin> set x \<Longrightarrow> strSplit c (x @ c # ys) = x # strSplit c ys"
  by (induction x) auto

lemma strSplit_parts_no_sep: "w \<in> set (strSplit c s) \<Longrightarrow> c \<notin> set w"
proof (induction s arbitrary: w)
  case (Cons x xs)
  then show ?case
    by (cases "strSplit c xs") (auto split: if_splits)
qed simp

lemma strJoin_Cons: "xs \<noteq> [] \<Longrightarrow> strJoin c (x # xs) = x @ c # strJoin c xs"
  by (cases xs) auto

lemma strJoin_strSplit [simp]: "strJoin c (strSplit c s) = s"
proof (induction s)
  case (Cons x xs)
  obtain y ys where split: "strSplit c xs = y # ys"
    by (cases "strSplit c xs") auto
  with Cons show ?case
    by (cases ys) auto
qed simp

lemma strSplit_strJoin:
  "xs \<noteq> [] \<Longrightarrow> \<forall>x \<in> set xs. c \<notin> set x \<Longrightarrow> strSplit c (strJoin c xs) = xs"
proof (induction xs rule: induct_list012)
  case (2 x)
  then show ?case by (simp add: strSplit_no_sep)
next
  case (3 x y zs)
  then show ?case by (simp add: strSplit_append_sep)
qed simp

lemma strSplitN2_length: "length (strSplitN2 c s) \<in> {1, 2}"
  by (simp add: strSplitN2_def)

lemma strSplitN2_append:
  "c \<notin> set k \<Longrightarrow> strSplitN2 c (k @ c # v) = [k, v]"
  by (auto simp: strSplitN2_def takeWhile_append dropWhile_append)

lemma strSplitN2_cases:
  assumes "c \<in> set s"
  obtains k v where "s = k @ c # v" "c \<notin> set k" "strSplitN2 c s = [k, v]"
proof -
  obtain k v where "s = k @ c # v" "c \<notin> set k"
    using split_list_first [OF assms] by blast
  then show ?thesis
    using that strSplitN2_append by blast
qed

section \<open>Numbers as text\<close>

text \<open>\<open>%d\<close> of a non-negative number.\<close>

definition digitChar :: "nat \<Rightarrow> char" where
  "digitChar d = char_of (48 + d)"

fun decString :: "nat \<Rightarrow> string" where
  "decString n = (if n < 10 then [digitChar n] else decString (n div 10) @ [digitChar (n mod 10)])"

declare decString.simps [simp del]

definition isDigit :: "char \<Rightarrow> bool" where
  "isDigit c \<longleftrightarrow> 48 \<le> char_nat c \<and> char_nat c \<le> 57"

definition digitVal :: "char \<Rightarrow> nat" where
  "digitVal c = char_nat c - 48"

definition decValue :: "string \<Rightarrow> nat" where
  "decValue s = foldl (\<lambda>acc c. 10 * acc + digitVal c) 0 s"

lemma char_nat_digitChar: "d < 10 \<Longrightarrow> char_nat (digitChar d) = 48 + d"
  by (simp add: char_nat_def digitChar_def)

lemma isDigit_digitChar [simp]: "d < 10 \<Longrightarrow> isDigit (digitChar d)"
  by (simp add: isDigit_def char_nat_digitChar)

lemma digitVal_digitChar [simp]: "d < 10 \<Longrightarrow> digitVal (digitChar d) = d"
  by (simp add: digitVal_def char_nat_digitChar)

lemma decString_digits: "c \<in> set (decString n) \<Longrightarrow> isDigit c"
proof (induction n rule: decString.induct)
  case (1 n)
  show ?case
  proof (cases "n < 10")
    case True
    with "1.prems" show ?thesis by (simp add: decString.simps [of n])
  next
    case False
    with 1 show ?thesis by (auto simp: decString.simps [of n])
  qed
qed

lemma decString_ne [simp]: "decString n \<noteq> []"
  by (subst decString.simps) simp

lemma decValue_decString [simp]: "decValue (decString n) = n"
proof (induction n rule: decString.induct)
  case (1 n)
  show ?case
  proof (cases "n < 10")
    case True
    then show ?thesis by (simp add: decString.simps [of n] decValue_def)
  next
    case False
    with 1 have "decValue (decString (n div 10)) = n div 10" by simp
    with False show ?thesis
      by (simp add: decString.simps [of n] decValue_def)
  qed
qed

text \<open>
  \<open>strconv.Atoi\<close>: an optional sign and at least one decimal digit, within the range of a
  64-bit \<open>int\<close>.  A syntax error yields 0, an out-of-range value the nearest bound; both come
  with an error, so the value and the error are returned together as in Go.
\<close>

datatype atoi_error = ErrSyntax | ErrRange

definition atoi_max :: int where "atoi_max = 2 ^ 63 - 1"
definition atoi_min :: int where "atoi_min = - (2 ^ 63)"

definition atoi :: "string \<Rightarrow> int \<times> atoi_error option" where
  "atoi s =
     (let neg = (case s of c # _ \<Rightarrow> c = CHR ''-'' | [] \<Rightarrow> False);
          ds = (case s of c # cs \<Rightarrow> if c = CHR ''-'' \<or> c = CHR ''+'' then cs else s | [] \<Rightarrow> [])
      in if ds = [] \<or> \<not> list_all isDigit ds then (0, Some ErrSyntax)
         else let v = (if neg then - int (decValue ds) else int (decValue ds))
              in if v > atoi_max then (atoi_max, Some ErrRange)
                 else if v < atoi_min then (atoi_min, Some ErrRange)
                 else (v, None))"

lemma isDigit_not_sign: "isDigit c \<Longrightarrow> c \<noteq> CHR ''-'' \<and> c \<noteq> CHR ''+''"
  by (auto simp: isDigit_def char_nat_def)

lemma atoi_decString: "int n \<le> atoi_max \<Longrightarrow> atoi (decString n) = (int n, None)"
proof -
  assume bound: "int n \<le> atoi_max"
  obtain c cs where s: "decString n = c # cs" by (cases "decString n") auto
  then have c: "c \<noteq> CHR ''-'' \<and> c \<noteq> CHR ''+''"
    using decString_digits [of c n] isDigit_not_sign by simp
  have "list_all isDigit (decString n)"
    using decString_digits by (simp add: list_all_iff)
  with s c bound show ?thesis
    using decValue_decString [of n]
    by (auto simp: atoi_def Let_def atoi_min_def simp del: decValue_decString)
qed

section \<open>The interface: texts that are read back\<close>

text \<open>
  What the provider relies on when it turns a value into text for libvirt or for the Terraform
  state: the text is read back as the value.  Then no two values have the same text.
\<close>

locale printer =
  fixes "write" :: "'a \<Rightarrow> string" and read :: "string \<Rightarrow> 'a option" and ok :: "'a \<Rightarrow> bool"
  assumes read_write: "ok x \<Longrightarrow> read (write x) = Some x"
begin

lemma write_inj: "ok x \<Longrightarrow> ok y \<Longrightarrow> write x = write y \<longleftrightarrow> x = y"
  using read_write by (metis option.inject)

lemma write_image: "ok x \<Longrightarrow> \<forall>y \<in> A. ok y \<Longrightarrow> write x \<in> write ` A \<longleftrightarrow> x \<in> A"
  using write_inj by (metis imageE imageI)

lemma distinct_write: "\<forall>x \<in> set xs. ok x \<Longrightarrow> distinct (map write xs) \<longleftrightarrow> distinct xs"
  by (induction xs) (simp_all add: write_image)

end

text \<open>Where the text is the first part of a longer one, its end has to be found.\<close>

locale separated_printer = printer "write" read ok
  for "write" :: "'a \<Rightarrow> string" and read :: "string \<Rightarrow> 'a option" and ok :: "'a \<Rightarrow> bool" +
  fixes sep :: char
  assumes no_sep: "ok x \<Longrightarrow> sep \<notin> set (write x)"
begin

lemma split_write: "ok x \<Longrightarrow> strSplitN2 sep (write x @ sep # rest) = [write x, rest]"
  by (rule strSplitN2_append) (rule no_sep)

lemma read_first: "ok x \<Longrightarrow> read (hd (strSplitN2 sep (write x @ sep # rest))) = Some x"
  by (simp add: split_write read_write)

end

interpretation decimal: printer decString "\<lambda>s. Some (decValue s)" "\<lambda>_. True"
  by unfold_locales simp

text \<open>\<open>%02x\<close> of a byte.\<close>

definition hexDigit :: "nat \<Rightarrow> char" where
  "hexDigit d = (if d < 10 then char_of (48 + d) else char_of (87 + d))"

definition hexByte :: "byte \<Rightarrow> string" where
  "hexByte b = [hexDigit (unat b div 16), hexDigit (unat b mod 16)]"

lemma hexDigit_inj: "d < 16 \<Longrightarrow> e < 16 \<Longrightarrow> hexDigit d = hexDigit e \<Longrightarrow> d = e"
  by (auto simp: hexDigit_def split: if_splits)

lemma hexByte_inj: "hexByte a = hexByte b \<Longrightarrow> a = b"
proof -
  assume eq: "hexByte a = hexByte b"
  have a: "unat a < 256" and b: "unat b < 256"
    using unsigned_less [of a] unsigned_less [of b] by simp_all
  have "unat a div 16 = unat b div 16"
    by (rule hexDigit_inj) (use a b eq in \<open>auto simp: hexByte_def\<close>)
  moreover have "unat a mod 16 = unat b mod 16"
    by (rule hexDigit_inj) (use a b eq in \<open>auto simp: hexByte_def\<close>)
  ultimately have "unat a = unat b"
    by (metis div_mult_mod_eq)
  then show "a = b" by (simp add: word_unat_eq_iff)
qed

section \<open>Lists\<close>

text \<open>The first element of a list that satisfies a test, with its index (a Go range loop with break).\<close>

fun findIndex :: "('a \<Rightarrow> bool) \<Rightarrow> 'a list \<Rightarrow> nat \<Rightarrow> nat option" where
  "findIndex p [] i = None"
| "findIndex p (x # xs) i = (if p x then Some i else findIndex p xs (Suc i))"

lemma find_append: "find p (xs @ ys) = (case find p xs of None \<Rightarrow> find p ys | Some x \<Rightarrow> Some x)"
  by (induction xs) auto

end
