(* ===== verification/Go_Monad.thy ===== *)
theory Go_Monad
  imports Prelude
begin

text \<open>
  Go functions that return \<open>(T, error)\<close> and act on shared state, as explicit state passing.
  A run ends in a value, in a Go \<open>error\<close>, in a panic, or never (blocked on a mutex, or a loop
  that does not leave).  \<open>safe P m\<close> says that every run of \<open>m\<close> from \<open>P\<close> ends and preserves \<open>P\<close>,
  whatever its outcome; the collection \<open>safe_intros\<close> holds one rule per combinator, so that a
  whole handler is walked through with one method call.
\<close>

section \<open>Errors and outcomes\<close>

text \<open>
  A Go \<open>error\<close> of the provider: an error of the libvirt client with its code and message, an
  error of the Go library or of an external program, or one made by \<open>fmt.Errorf\<close> or
  \<open>diag.Errorf\<close>, kept as its format and its arguments instead of the rendered text.  Only
  \<open>Wrapf\<close> (the verb \<open>%w\<close>) keeps its cause visible to \<open>errors.As\<close>; an error that is an
  argument of \<open>%s\<close> or \<open>%v\<close> is not.
\<close>

datatype goerror =
    LibvirtError uint32 string
  | SysError string
  | Errorf string "goarg list"
  | Wrapf string "goarg list" goerror
and goarg = SArg string | IArg int | EArg goerror

datatype 'a outcome = Ret 'a | Err goerror | Panic string | Blocked

type_synonym ('s, 'a) prog = "'s \<Rightarrow> 'a outcome \<times> 's"

section \<open>Combinators\<close>

definition ret :: "'a \<Rightarrow> ('s, 'a) prog" where
  "ret x = (\<lambda>s. (Ret x, s))"

definition throw :: "goerror \<Rightarrow> ('s, 'a) prog" where
  "throw e = (\<lambda>s. (Err e, s))"

definition panic :: "string \<Rightarrow> ('s, 'a) prog" where
  "panic msg = (\<lambda>s. (Panic msg, s))"

definition bindP :: "('s, 'a) prog \<Rightarrow> ('a \<Rightarrow> ('s, 'b) prog) \<Rightarrow> ('s, 'b) prog" where
  "bindP m f = (\<lambda>s. case m s of
      (Ret x, s') \<Rightarrow> f x s'
    | (Err e, s') \<Rightarrow> (Err e, s')
    | (Panic p, s') \<Rightarrow> (Panic p, s')
    | (Blocked, s') \<Rightarrow> (Blocked, s'))"

text \<open>\<open>x, err := m()\<close> where the code inspects \<open>err\<close> itself.\<close>

definition attempt :: "('s, 'a) prog \<Rightarrow> ('s, goerror + 'a) prog" where
  "attempt m = (\<lambda>s. case m s of
      (Ret x, s') \<Rightarrow> (Ret (Inr x), s')
    | (Err e, s') \<Rightarrow> (Ret (Inl e), s')
    | (Panic p, s') \<Rightarrow> (Panic p, s')
    | (Blocked, s') \<Rightarrow> (Blocked, s'))"

text \<open>\<open>if err := m(); err != nil { return f(err) }\<close>\<close>

definition orFail :: "('s, 'a) prog \<Rightarrow> (goerror \<Rightarrow> goerror) \<Rightarrow> ('s, 'a) prog" where
  "orFail m f = bindP (attempt m) (\<lambda>r. case r of Inl e \<Rightarrow> throw (f e) | Inr x \<Rightarrow> ret x)"

text \<open>
  \<open>defer fin()\<close>: the deferred call runs when the rest returns or panics, and not when the rest
  never returns.
\<close>

definition deferP :: "('s, unit) prog \<Rightarrow> ('s, 'a) prog \<Rightarrow> ('s, 'a) prog" where
  "deferP fin m = (\<lambda>s. case m s of
      (Blocked, s') \<Rightarrow> (Blocked, s')
    | (r, s') \<Rightarrow> (case fin s' of
          (Ret _, s'') \<Rightarrow> (r, s'')
        | (Err _, s'') \<Rightarrow> (r, s'')
        | (Panic p, s'') \<Rightarrow> (Panic p, s'')
        | (Blocked, s'') \<Rightarrow> (Blocked, s'')))"

definition getS :: "('s \<Rightarrow> 'a) \<Rightarrow> ('s, 'a) prog" where
  "getS f = (\<lambda>s. (Ret (f s), s))"

definition updS :: "('s \<Rightarrow> 's) \<Rightarrow> ('s, unit) prog" where
  "updS f = (\<lambda>s. (Ret (), f s))"

definition liftSum :: "goerror + 'a \<Rightarrow> ('s, 'a) prog" where
  "liftSum r = (case r of Inl e \<Rightarrow> throw e | Inr x \<Rightarrow> ret x)"

fun forP :: "'a list \<Rightarrow> ('a \<Rightarrow> ('s, unit) prog) \<Rightarrow> ('s, unit) prog" where
  "forP [] f = ret ()"
| "forP (x # xs) f = bindP (f x) (\<lambda>_. forP xs f)"

text \<open>A loop that appends one element to a slice in every round.\<close>

fun mapP :: "('a \<Rightarrow> ('s, 'b) prog) \<Rightarrow> 'a list \<Rightarrow> ('s, 'b list) prog" where
  "mapP f [] = ret []"
| "mapP f (x # xs) = bindP (f x) (\<lambda>y. bindP (mapP f xs) (\<lambda>ys. ret (y # ys)))"

lemmas prog_defs = ret_def throw_def panic_def bindP_def attempt_def orFail_def deferP_def
  getS_def updS_def liftSum_def

lemma ret_bind [simp]: "bindP (ret x) f = f x"
  by (simp add: ret_def bindP_def)

lemma throw_bind [simp]: "bindP (throw e) f = throw e"
  by (auto simp: throw_def bindP_def)

lemma bind_assoc: "bindP (bindP m f) g = bindP m (\<lambda>x. bindP (f x) g)"
  by (rule ext) (auto simp: bindP_def split: prod.splits outcome.splits)

section \<open>Total correctness with an invariant\<close>

text \<open>
  \<open>ends P m \<phi>\<close>: from a state with \<open>P\<close>, the run of \<open>m\<close> ends (it is not blocked), \<open>P\<close> holds
  afterwards whatever the outcome, and a returned value satisfies \<open>\<phi>\<close>.
\<close>

definition ends :: "('s \<Rightarrow> bool) \<Rightarrow> ('s, 'a) prog \<Rightarrow> ('a \<Rightarrow> bool) \<Rightarrow> bool" where
  "ends P m \<phi> \<longleftrightarrow> (\<forall>s. P s \<longrightarrow> fst (m s) \<noteq> Blocked \<and> P (snd (m s))
     \<and> (\<forall>x. fst (m s) = Ret x \<longrightarrow> \<phi> x))"

abbreviation safe :: "('s \<Rightarrow> bool) \<Rightarrow> ('s, 'a) prog \<Rightarrow> bool" where
  "safe P m \<equiv> ends P m (\<lambda>_. True)"

named_theorems safe_intros \<open>total preservation of an invariant, one rule per combinator\<close>

lemma endsI:
  "(\<And>s r s'. P s \<Longrightarrow> m s = (r, s') \<Longrightarrow> r \<noteq> Blocked \<and> P s' \<and> (\<forall>x. r = Ret x \<longrightarrow> \<phi> x)) \<Longrightarrow> ends P m \<phi>"
  unfolding ends_def by (metis prod.collapse)

lemma endsD:
  "ends P m \<phi> \<Longrightarrow> P s \<Longrightarrow> m s = (r, s') \<Longrightarrow> r \<noteq> Blocked \<and> P s' \<and> (\<forall>x. r = Ret x \<longrightarrow> \<phi> x)"
  by (force simp: ends_def)

lemma ends_weaken: "ends P m \<phi> \<Longrightarrow> (\<And>x. \<phi> x \<Longrightarrow> \<psi> x) \<Longrightarrow> ends P m \<psi>"
  by (auto simp: ends_def)

lemma ends_ret: "\<phi> x \<Longrightarrow> ends P (ret x) \<phi>"
  by (simp add: ends_def ret_def)

lemma ends_throw [safe_intros]: "ends P (throw e) \<phi>"
  by (simp add: ends_def throw_def)

lemma ends_panic [safe_intros]: "ends P (panic e) \<phi>"
  by (simp add: ends_def panic_def)

lemma safe_ret [safe_intros]: "safe P (ret x)"
  by (simp add: ends_ret)

lemma safe_getS [safe_intros]: "safe P (getS f)"
  by (simp add: ends_def getS_def)

lemma ends_getS: "(\<And>s. P s \<Longrightarrow> \<phi> (f s)) \<Longrightarrow> ends P (getS f) \<phi>"
  by (simp add: ends_def getS_def)

lemma ends_False: "ends P m (\<lambda>_. False) \<Longrightarrow> ends P m \<phi>"
  by (auto simp: ends_def)

lemma safe_updS: "(\<And>s. P s \<Longrightarrow> P (f s)) \<Longrightarrow> safe P (updS f)"
  by (simp add: ends_def updS_def)

lemma safe_liftSum [safe_intros]: "safe P (liftSum r)"
  by (cases r) (simp_all add: liftSum_def safe_ret ends_throw)

lemma ends_bind:
  assumes m: "ends P m \<phi>" and f: "\<And>x. \<phi> x \<Longrightarrow> ends P (f x) \<psi>"
  shows "ends P (bindP m f) \<psi>"
proof (rule endsI)
  fix s r s' assume s: "P s" and run: "bindP m f s = (r, s')"
  obtain r1 s1 where ms: "m s = (r1, s1)" by fastforce
  from endsD [OF m s ms] have "r1 \<noteq> Blocked" "P s1" "\<forall>x. r1 = Ret x \<longrightarrow> \<phi> x" by auto
  with ms run show "r \<noteq> Blocked \<and> P s' \<and> (\<forall>x. r = Ret x \<longrightarrow> \<psi> x)"
    by (cases r1) (auto simp: bindP_def dest!: endsD [OF f])
qed

lemma safe_bind [safe_intros]: "safe P m \<Longrightarrow> (\<And>x. ends P (f x) \<psi>) \<Longrightarrow> ends P (bindP m f) \<psi>"
  by (rule ends_bind)

lemma ends_attempt: "ends P m \<phi> \<Longrightarrow> ends P (attempt m) (\<lambda>r. case r of Inl e \<Rightarrow> True | Inr x \<Rightarrow> \<phi> x)"
  by (rule endsI) (auto simp: attempt_def split: prod.splits outcome.splits sum.splits dest!: endsD)

lemma safe_attempt [safe_intros]: "safe P m \<Longrightarrow> safe P (attempt m)"
  by (rule ends_weaken, erule ends_attempt) simp

lemma ends_orFail: "ends P m \<phi> \<Longrightarrow> ends P (orFail m f) \<phi>"
  unfolding orFail_def
  by (rule ends_bind, erule ends_attempt) (auto simp: ends_ret ends_throw split: sum.splits)

lemma safe_orFail [safe_intros]: "safe P m \<Longrightarrow> safe P (orFail m f)"
  by (rule ends_orFail)

lemma safe_forP [safe_intros]:
  "(\<And>x. x \<in> set xs \<Longrightarrow> safe P (f x)) \<Longrightarrow> safe P (forP xs f)"
  by (induction xs) (auto intro: safe_ret safe_bind)

lemma safe_mapP [safe_intros]: "(\<And>x. safe P (f x)) \<Longrightarrow> safe P (mapP f xs)"
  by (induction xs) (auto intro!: safe_ret safe_bind)

lemma ends_if [safe_intros]:
  "(b \<Longrightarrow> ends P m \<phi>) \<Longrightarrow> (\<not> b \<Longrightarrow> ends P n \<phi>) \<Longrightarrow> ends P (if b then m else n) \<phi>"
  by simp

lemma ends_option [safe_intros]:
  "(x = None \<Longrightarrow> ends P m \<phi>) \<Longrightarrow> (\<And>y. x = Some y \<Longrightarrow> ends P (f y) \<phi>) \<Longrightarrow>
   ends P (case x of None \<Rightarrow> m | Some y \<Rightarrow> f y) \<phi>"
  by (cases x) simp_all

lemma ends_sum [safe_intros]:
  "(\<And>y. x = Inl y \<Longrightarrow> ends P (f y) \<phi>) \<Longrightarrow> (\<And>y. x = Inr y \<Longrightarrow> ends P (g y) \<phi>) \<Longrightarrow>
   ends P (case x of Inl y \<Rightarrow> f y | Inr y \<Rightarrow> g y) \<phi>"
  by (cases x) simp_all

lemma ends_prod [safe_intros]:
  "(\<And>a b. x = (a, b) \<Longrightarrow> ends P (f a b) \<phi>) \<Longrightarrow> ends P (case x of (a, b) \<Rightarrow> f a b) \<phi>"
  by (cases x) simp_all

lemma ends_list [safe_intros]:
  "(x = [] \<Longrightarrow> ends P m \<phi>) \<Longrightarrow> (\<And>y ys. x = y # ys \<Longrightarrow> ends P (f y ys) \<phi>) \<Longrightarrow>
   ends P (case x of [] \<Rightarrow> m | y # ys \<Rightarrow> f y ys) \<phi>"
  by (cases x) simp_all

lemma ends_Let [safe_intros]: "(\<And>y. y = x \<Longrightarrow> ends P (f y) \<phi>) \<Longrightarrow> ends P (let y = x in f y) \<phi>"
  by simp

text \<open>The same with a weaker property \<open>Q\<close> at the end.\<close>

definition ends_in ::
  "('s \<Rightarrow> bool) \<Rightarrow> ('s \<Rightarrow> bool) \<Rightarrow> ('s, 'a) prog \<Rightarrow> ('a \<Rightarrow> bool) \<Rightarrow> bool" where
  "ends_in P Q m \<phi> \<longleftrightarrow> (\<forall>s. P s \<longrightarrow> fst (m s) \<noteq> Blocked \<and> Q (snd (m s))
     \<and> (\<forall>x. fst (m s) = Ret x \<longrightarrow> \<phi> x))"

lemma ends_in_ends: "ends_in P P m \<phi> = ends P m \<phi>"
  by (simp add: ends_in_def ends_def)

lemma ends_inI:
  "(\<And>s r s'. P s \<Longrightarrow> m s = (r, s') \<Longrightarrow> r \<noteq> Blocked \<and> Q s' \<and> (\<forall>x. r = Ret x \<longrightarrow> \<phi> x)) \<Longrightarrow> ends_in P Q m \<phi>"
  unfolding ends_in_def by (metis prod.collapse)

lemma ends_inD:
  "ends_in P Q m \<phi> \<Longrightarrow> P s \<Longrightarrow> m s = (r, s') \<Longrightarrow> r \<noteq> Blocked \<and> Q s' \<and> (\<forall>x. r = Ret x \<longrightarrow> \<phi> x)"
  by (force simp: ends_in_def)

lemma ends_in_weaken: "ends Q m \<phi> \<Longrightarrow> (\<And>s. P s \<Longrightarrow> Q s) \<Longrightarrow> ends_in P Q m \<phi>"
  by (auto simp: ends_in_def ends_def)

lemma ends_in_if:
  "(b \<Longrightarrow> ends_in P Q m \<phi>) \<Longrightarrow> (\<not> b \<Longrightarrow> ends_in P Q n \<phi>) \<Longrightarrow> ends_in P Q (if b then m else n) \<phi>"
  by simp

lemma ends_in_throw: "(\<And>s. P s \<Longrightarrow> Q s) \<Longrightarrow> ends_in P Q (throw e) \<phi>"
  by (simp add: ends_in_def throw_def)

lemma ends_in_bind:
  assumes m: "ends P m \<phi>" and f: "\<And>x. \<phi> x \<Longrightarrow> ends_in P Q (f x) \<psi>" and PQ: "\<And>s. P s \<Longrightarrow> Q s"
  shows "ends_in P Q (bindP m f) \<psi>"
proof (rule ends_inI)
  fix s r s' assume s: "P s" and run: "bindP m f s = (r, s')"
  obtain r1 s1 where ms: "m s = (r1, s1)" by fastforce
  from endsD [OF m s ms] have "r1 \<noteq> Blocked" "P s1" "\<forall>x. r1 = Ret x \<longrightarrow> \<phi> x" by auto
  with ms run PQ show "r \<noteq> Blocked \<and> Q s' \<and> (\<forall>x. r = Ret x \<longrightarrow> \<psi> x)"
    by (cases r1) (auto simp: bindP_def dest!: ends_inD [OF f])
qed

section \<open>Runs that end\<close>

text \<open>\<open>runs_to m s x s'\<close>: the run of \<open>m\<close> from \<open>s\<close> returns \<open>x\<close> in state \<open>s'\<close>.\<close>

definition runs_to :: "('s, 'a) prog \<Rightarrow> 's \<Rightarrow> 'a \<Rightarrow> 's \<Rightarrow> bool" where
  "runs_to m s x s' \<longleftrightarrow> m s = (Ret x, s')"

lemma runs_to_bindE:
  assumes "runs_to (bindP m f) s y s''"
  obtains x s' where "runs_to m s x s'" "runs_to (f x) s' y s''"
  using assms unfolding runs_to_def bindP_def
  by (auto split: prod.splits outcome.splits)

lemma runs_to_ret [simp]: "runs_to (ret x) s y s' \<longleftrightarrow> y = x \<and> s' = s"
  by (auto simp: runs_to_def ret_def)

lemma runs_to_throw [simp]: "\<not> runs_to (throw e) s y s'"
  by (simp add: runs_to_def throw_def)

lemma runs_to_panic [simp]: "\<not> runs_to (panic e) s y s'"
  by (simp add: runs_to_def panic_def)

lemma runs_to_orFail [simp]: "runs_to (orFail m f) s x s' \<longleftrightarrow> runs_to m s x s'"
  by (auto simp: runs_to_def orFail_def bindP_def attempt_def ret_def throw_def
      split: prod.splits outcome.splits sum.splits)

lemma runs_to_liftSum [simp]: "runs_to (liftSum r) s x s' \<longleftrightarrow> r = Inr x \<and> s' = s"
  by (cases r) (auto simp: liftSum_def)

section \<open>What a returned value satisfies\<close>

text \<open>\<open>yields m \<phi>\<close>: a value returned by \<open>m\<close>, from any state, satisfies \<open>\<phi>\<close>.\<close>

definition yields :: "('s, 'a) prog \<Rightarrow> ('a \<Rightarrow> bool) \<Rightarrow> bool" where
  "yields m \<phi> \<longleftrightarrow> (\<forall>s x s'. m s = (Ret x, s') \<longrightarrow> \<phi> x)"

lemma yieldsI: "(\<And>s x s'. m s = (Ret x, s') \<Longrightarrow> \<phi> x) \<Longrightarrow> yields m \<phi>"
  by (auto simp: yields_def)

lemma yieldsD: "yields m \<phi> \<Longrightarrow> m s = (Ret x, s') \<Longrightarrow> \<phi> x"
  by (auto simp: yields_def)

lemma yields_ret [simp]: "yields (ret x) \<phi> \<longleftrightarrow> \<phi> x"
  by (simp add: yields_def ret_def)

lemma yields_throw [simp]: "yields (throw e) \<phi>"
  by (simp add: yields_def throw_def)

lemma yields_panic [simp]: "yields (panic e) \<phi>"
  by (simp add: yields_def panic_def)

lemma yields_True [simp]: "yields m (\<lambda>_. True)"
  by (simp add: yields_def)

lemma yields_liftSum: "(\<And>x. r = Inr x \<Longrightarrow> \<phi> x) \<Longrightarrow> yields (liftSum r) \<phi>"
  by (cases r) (simp_all add: liftSum_def)

lemma yields_bind:
  "yields m \<phi> \<Longrightarrow> (\<And>x. \<phi> x \<Longrightarrow> yields (f x) \<psi>) \<Longrightarrow> yields (bindP m f) \<psi>"
proof (rule yieldsI)
  fix s y s' assume m: "yields m \<phi>" and f: "\<And>x. \<phi> x \<Longrightarrow> yields (f x) \<psi>" and "bindP m f s = (Ret y, s')"
  then obtain x s1 where "m s = (Ret x, s1)" "f x s1 = (Ret y, s')"
    by (auto simp: bindP_def split: prod.splits outcome.splits)
  with m f show "\<psi> y" by (blast dest: yieldsD)
qed

lemma yields_any_bind: "(\<And>x. yields (f x) \<psi>) \<Longrightarrow> yields (bindP m f) \<psi>"
  by (rule yields_bind [OF yields_True])

lemma yields_orFail: "yields m \<phi> \<Longrightarrow> yields (orFail m f) \<phi>"
  by (auto simp: yields_def orFail_def bindP_def attempt_def ret_def throw_def
      split: prod.splits outcome.splits sum.splits)

lemma yields_mapP:
  "(\<And>x. x \<in> set xs \<Longrightarrow> yields (f x) \<phi>) \<Longrightarrow> yields (mapP f xs) (\<lambda>ys. length ys = length xs \<and> list_all \<phi> ys)"
proof (induction xs)
  case (Cons x xs)
  show ?case
    unfolding mapP.simps
    by (rule yields_bind [OF Cons.prems], simp, rule yields_bind [OF Cons.IH]) (use Cons.prems in auto)
qed simp

lemma yields_defer: "yields m \<phi> \<Longrightarrow> yields (deferP fin m) \<phi>"
  by (auto simp: yields_def deferP_def split: prod.splits outcome.splits)

section \<open>errors.As over libvirt errors\<close>

text \<open>\<open>isError\<close> of \<open>utils.go\<close>: the code of the libvirt error found by unwrapping.\<close>

fun asLibvirtError :: "goerror \<Rightarrow> uint32 option" where
  "asLibvirtError (LibvirtError code msg) = Some code"
| "asLibvirtError (SysError msg) = None"
| "asLibvirtError (Errorf f args) = None"
| "asLibvirtError (Wrapf f args cause) = asLibvirtError cause"

definition isError :: "goerror \<Rightarrow> uint32 \<Rightarrow> bool" where
  "isError err errorCode =
     (case asLibvirtError err of Some code \<Rightarrow> code = errorCode | None \<Rightarrow> False)"

lemma isError_Wrapf [simp]: "isError (Wrapf f args e) c = isError e c"
  by (simp add: isError_def)

lemma isError_Errorf [simp]: "\<not> isError (Errorf f args) c"
  by (simp add: isError_def)

lemma isError_SysError [simp]: "\<not> isError (SysError m) c"
  by (simp add: isError_def)

lemma isError_LibvirtError [simp]: "isError (LibvirtError code m) c \<longleftrightarrow> code = c"
  by (simp add: isError_def)

end
