(* ===== verification/Mutex_KV.thy ===== *)
theory Mutex_KV
  imports Go_Monad
begin

text \<open>
  \<open>libvirt/helper/mutexkv/mutexkv.go\<close>: mutexes addressed by a string key, made on first use.
  First the data structure and its operations as one goroutine runs them, then the
  interface its callers rely on (the locale \<open>keyed_lock\<close>).
\<close>

section \<open>The store\<close>

text \<open>
  A \<open>*sync.Mutex\<close> is an address; \<open>locked\<close> is the state of the mutex at it and \<open>fresh\<close> the
  next address that \<open>&sync.Mutex{}\<close> returns.
\<close>

record mutexkv =
  store :: "string \<Rightarrow> nat option"
  locked :: "nat \<Rightarrow> bool"
  fresh :: nat

definition NewMutexKV :: mutexkv where
  "NewMutexKV = \<lparr>store = Map.empty, locked = (\<lambda>_. False), fresh = 0\<rparr>"

definition kv_make :: "string \<Rightarrow> mutexkv \<Rightarrow> mutexkv" where
  "kv_make key m = m\<lparr>store := (store m)(key \<mapsto> fresh m),
     locked := (locked m)(fresh m := False), fresh := Suc (fresh m)\<rparr>"

definition kv_get :: "string \<Rightarrow> mutexkv \<Rightarrow> nat \<times> mutexkv" where
  "kv_get key m = (case store m key of
      Some mutex \<Rightarrow> (mutex, m)
    | None \<Rightarrow> (fresh m, kv_make key m))"

definition kv_Lock :: "string \<Rightarrow> (mutexkv, unit) prog" where
  "kv_Lock key = (\<lambda>m. let (mutex, m') = kv_get key m in
     if locked m' mutex then (Blocked, m')
     else (Ret (), m'\<lparr>locked := (locked m')(mutex := True)\<rparr>))"

definition kv_Unlock :: "string \<Rightarrow> (mutexkv, unit) prog" where
  "kv_Unlock key = (\<lambda>m. let (mutex, m') = kv_get key m in
     if locked m' mutex then (Ret (), m'\<lparr>locked := (locked m')(mutex := False)\<rparr>)
     else (Panic ''sync: unlock of unlocked mutex'', m'))"

text \<open>The key is locked: it has a mutex and that mutex is locked.\<close>

definition holds :: "mutexkv \<Rightarrow> string \<Rightarrow> bool" where
  "holds m key = (case store m key of None \<Rightarrow> False | Some mutex \<Rightarrow> locked m mutex)"

definition kv_ok :: "mutexkv \<Rightarrow> bool" where
  "kv_ok m \<longleftrightarrow> inj_on (store m) (dom (store m)) \<and> (\<forall>k a. store m k = Some a \<longrightarrow> a < fresh m)"

lemma kv_okD: "kv_ok m \<Longrightarrow> store m k = Some a \<Longrightarrow> store m l = Some a \<Longrightarrow> k = l"
  by (auto simp: kv_ok_def inj_on_def dom_def)

lemma kv_ok_fresh: "kv_ok m \<Longrightarrow> store m k = Some a \<Longrightarrow> a < fresh m"
  by (auto simp: kv_ok_def)

lemma kv_ok_New: "kv_ok NewMutexKV"
  by (simp add: kv_ok_def NewMutexKV_def)

lemma kv_ok_make:
  assumes "kv_ok m" "store m key = None"
  shows "kv_ok (kv_make key m)"
proof -
  have "store m k \<noteq> Some (fresh m)" for k
    using kv_ok_fresh [OF assms(1)] by blast
  with assms show ?thesis
    unfolding kv_ok_def kv_make_def
    by (auto simp: inj_on_def less_Suc_eq)
qed

lemma kv_ok_locked [simp]: "kv_ok (m\<lparr>locked := l\<rparr>) = kv_ok m"
  by (simp add: kv_ok_def)

lemma holds_make:
  assumes "kv_ok m" "store m key = None"
  shows "holds (kv_make key m) = holds m"
proof
  fix k
  have "store m k \<noteq> Some (fresh m)"
    using kv_ok_fresh [OF assms(1)] by blast
  with assms(2) show "holds (kv_make key m) k = holds m k"
    by (auto simp: holds_def kv_make_def split: option.splits)
qed

lemma kv_get_spec:
  assumes "kv_ok m" "kv_get key m = (a, m')"
  shows "kv_ok m'" "store m' key = Some a" "holds m' = holds m"
    "locked m' a = holds m key"
proof -
  show "kv_ok m'" "store m' key = Some a"
    using assms kv_ok_make [of m key]
    by (auto simp: kv_get_def kv_make_def split: option.splits)
  show h: "holds m' = holds m"
    using assms holds_make [of m key]
    by (auto simp: kv_get_def split: option.splits)
  from \<open>store m' key = Some a\<close> have "holds m' key = locked m' a"
    by (simp add: holds_def)
  with h show "locked m' a = holds m key" by simp
qed

lemma holds_set:
  assumes "kv_ok m" "store m key = Some a"
  shows "holds (m\<lparr>locked := (locked m)(a := b)\<rparr>) = (holds m)(key := b)"
proof
  fix k
  show "holds (m\<lparr>locked := (locked m)(a := b)\<rparr>) k = ((holds m)(key := b)) k"
  proof (cases "k = key")
    case True
    with assms(2) show ?thesis by (simp add: holds_def)
  next
    case False
    then have "store m k \<noteq> Some a"
      using kv_okD [OF assms(1) _ assms(2)] by blast
    with False show ?thesis by (auto simp: holds_def split: option.splits)
  qed
qed

section \<open>The interface: locks addressed by keys\<close>

text \<open>
  What a handler relies on when it writes \<open>Lock(key); defer Unlock(key)\<close>: locking a free key
  takes it and nothing else, locking a key that is taken does not return, unlocking gives the
  key back, and unlocking a free key panics.
\<close>

locale keyed_lock =
  fixes lock :: "'k \<Rightarrow> ('s, unit) prog"
    and unlock :: "'k \<Rightarrow> ('s, unit) prog"
    and held :: "'s \<Rightarrow> 'k \<Rightarrow> bool"
    and ok :: "'s \<Rightarrow> bool"
  assumes lock_free: "ok s \<Longrightarrow> \<not> held s k \<Longrightarrow>
      \<exists>s'. lock k s = (Ret (), s') \<and> ok s' \<and> held s' = (held s)(k := True)"
    and lock_busy: "ok s \<Longrightarrow> held s k \<Longrightarrow>
      \<exists>s'. lock k s = (Blocked, s') \<and> ok s' \<and> held s' = held s"
    and unlock_held: "ok s \<Longrightarrow> held s k \<Longrightarrow>
      \<exists>s'. unlock k s = (Ret (), s') \<and> ok s' \<and> held s' = (held s)(k := False)"
    and unlock_free: "ok s \<Longrightarrow> \<not> held s k \<Longrightarrow>
      \<exists>p s'. unlock k s = (Panic p, s') \<and> ok s' \<and> held s' = held s"

text \<open>The client: \<open>m.Lock(key); defer m.Unlock(key); body\<close>.\<close>

definition withLock ::
  "('k \<Rightarrow> ('s, unit) prog) \<Rightarrow> ('k \<Rightarrow> ('s, unit) prog) \<Rightarrow> 'k \<Rightarrow> ('s, 'a) prog \<Rightarrow> ('s, 'a) prog" where
  "withLock lock unlock k body = bindP (lock k) (\<lambda>_. deferP (unlock k) body)"

context keyed_lock
begin

definition at :: "('k \<Rightarrow> bool) \<Rightarrow> 's \<Rightarrow> bool" where
  "at H s \<longleftrightarrow> ok s \<and> held s = H"

text \<open>
  The body runs with the key held; it ends when the body ends, and then, whatever the outcome,
  the keys held are those held before.  \<open>T\<close> is any further property that the body, and the
  two lock operations, keep.
\<close>

lemma withLock_ends_in:
  assumes free: "\<not> H k"
    and body: "ends_in (\<lambda>s. at (H(k := True)) s \<and> T s) (\<lambda>s. at (H(k := True)) s \<and> T' s) body \<phi>"
    and T: "\<And>s. T s \<Longrightarrow> T (snd (lock k s))" "\<And>s. T' s \<Longrightarrow> T' (snd (unlock k s))"
  shows "ends_in (\<lambda>s. at H s \<and> T s) (\<lambda>s. at H s \<and> T' s) (withLock lock unlock k body) \<phi>"
proof (rule ends_inI)
  fix s r s' assume s: "at H s \<and> T s" and run: "withLock lock unlock k body s = (r, s')"
  with free obtain s1 where l: "lock k s = (Ret (), s1)" and "at (H(k := True)) s1"
    using lock_free [of s k] by (auto simp: at_def)
  with s T(1) [of s] have s1: "at (H(k := True)) s1 \<and> T s1" by simp
  obtain r2 s2 where b: "body s1 = (r2, s2)" by fastforce
  from ends_inD [OF body s1 b] have r2: "r2 \<noteq> Blocked" "\<forall>x. r2 = Ret x \<longrightarrow> \<phi> x"
    and s2: "at (H(k := True)) s2" "T' s2" by blast+
  then obtain s3 where u: "unlock k s2 = (Ret (), s3)" and "at (H(k := False)) s3"
    using unlock_held [of s2 k] by (auto simp: at_def)
  moreover have "H(k := False) = H" using free by (simp add: fun_upd_idem)
  moreover have "T' s3" using T(2) [OF s2(2)] u by simp
  ultimately have "at H s3 \<and> T' s3" by simp
  with l b u run r2 show "r \<noteq> Blocked \<and> (at H s' \<and> T' s') \<and> (\<forall>x. r = Ret x \<longrightarrow> \<phi> x)"
    by (cases r2) (auto simp: withLock_def bindP_def deferP_def)
qed

lemmas withLock_ends = withLock_ends_in [where T' = T and T = T for T, unfolded ends_in_ends]

text \<open>A handler that finds its key taken does nothing before it is granted.\<close>

lemma withLock_busy:
  assumes "ok s" "held s k"
  shows "fst (withLock lock unlock k body s) = Blocked"
  using lock_busy [OF assms] by (auto simp: withLock_def bindP_def)

end

text \<open>The store of mutexes provides the interface.\<close>

interpretation kvl: keyed_lock kv_Lock kv_Unlock holds kv_ok
proof
  fix m k assume ok: "kv_ok m"
  obtain a m' where g: "kv_get k m = (a, m')" by fastforce
  note spec = kv_get_spec [OF ok g]
  note upd = holds_set [OF spec(1,2)]
  show "\<not> holds m k \<Longrightarrow> \<exists>s'. kv_Lock k m = (Ret (), s') \<and> kv_ok s' \<and> holds s' = (holds m)(k := True)"
    using g spec upd [of True] by (simp add: kv_Lock_def)
  show "holds m k \<Longrightarrow> \<exists>s'. kv_Lock k m = (Blocked, s') \<and> kv_ok s' \<and> holds s' = holds m"
    using g spec by (simp add: kv_Lock_def)
  show "holds m k \<Longrightarrow> \<exists>s'. kv_Unlock k m = (Ret (), s') \<and> kv_ok s' \<and> holds s' = (holds m)(k := False)"
    using g spec upd [of False] by (simp add: kv_Unlock_def)
  show "\<not> holds m k \<Longrightarrow> \<exists>p s'. kv_Unlock k m = (Panic p, s') \<and> kv_ok s' \<and> holds s' = holds m"
    using g spec by (simp add: kv_Unlock_def)
qed

end
