(* ===== verification/Mutex_Interleaving.thy ===== *)
theory Mutex_Interleaving
  imports Mutex_KV
begin

text \<open>
  Any number of goroutines that call \<open>Lock(key)\<close> and \<open>Unlock(key)\<close> of one \<open>MutexKV\<close>.  The body
  of \<open>get\<close> is split at its map accesses: it takes the guard mutex \<open>m.lock\<close>, reads the map,
  inserts a new mutex when the key is absent, and releases the guard on return.  The
  invariant says how guard, store and program counters agree; mutual exclusion per key, the
  absence of an unlock of an unlocked mutex and the absence of deadlock follow from it.
\<close>

section \<open>Goroutines\<close>

datatype kvop = OpLock | OpUnlock

text \<open>
  Where a goroutine stands: \<open>Get\<close>: before \<open>m.lock.Lock()\<close>; \<open>InGet\<close>: at the map lookup; \<open>Make\<close>:
  at the insertion; \<open>Got\<close>: \<open>get\<close> has returned, at \<open>.Lock()\<close> or \<open>.Unlock()\<close> of the mutex;
  \<open>Crit\<close>: \<open>Lock(key)\<close> has returned; \<open>Crashed\<close>: one of the fatal errors of the Go runtime,
  \<open>sync: unlock of unlocked mutex\<close> or \<open>concurrent map writes\<close> (\<open>concurrent map read and map write\<close>).
\<close>

datatype pc = Idle | Get kvop string | InGet kvop string | Make kvop string
  | Got kvop string nat | Crit string | Crashed

record sys =
  pcs :: "nat \<Rightarrow> pc"
  guard :: "nat option"
  kvs :: mutexkv

definition init_sys :: sys where
  "init_sys = \<lparr>pcs = (\<lambda>_. Idle), guard = None, kvs = NewMutexKV\<rparr>"

abbreviation goto :: "sys \<Rightarrow> nat \<Rightarrow> pc \<Rightarrow> sys" where
  "goto s i p \<equiv> s\<lparr>pcs := (pcs s)(i := p)\<rparr>"

text \<open>
  At an access to the map, and at one that writes.  Two goroutines that are both at an access, one
  of them at a write, are what Go's runtime stops the program for; nothing but the guard keeps a
  goroutine from getting there.
\<close>

fun in_guard :: "pc \<Rightarrow> bool" where
  "in_guard (InGet op k) = True"
| "in_guard (Make op k) = True"
| "in_guard _ = False"

fun at_write :: "pc \<Rightarrow> bool" where
  "at_write (Make op k) = True"
| "at_write _ = False"

inductive kv_step :: "sys \<Rightarrow> nat \<Rightarrow> sys \<Rightarrow> bool" where
  call_lock: "pcs s i = Idle \<Longrightarrow> kv_step s i (goto s i (Get OpLock k))"
| call_unlock: "pcs s i = Crit k \<Longrightarrow> kv_step s i (goto s i (Get OpUnlock k))"
| take_guard: "pcs s i = Get op k \<Longrightarrow> guard s = None \<Longrightarrow>
    kv_step s i (goto (s\<lparr>guard := Some i\<rparr>) i (InGet op k))"
| found: "pcs s i = InGet op k \<Longrightarrow> store (kvs s) k = Some a \<Longrightarrow>
    kv_step s i (goto (s\<lparr>guard := None\<rparr>) i (Got op k a))"
| absent: "pcs s i = InGet op k \<Longrightarrow> store (kvs s) k = None \<Longrightarrow>
    kv_step s i (goto s i (Make op k))"
| insert: "pcs s i = Make op k \<Longrightarrow>
    kv_step s i (goto (s\<lparr>guard := None, kvs := kv_make k (kvs s)\<rparr>) i (Got op k (fresh (kvs s))))"
| acquire: "pcs s i = Got OpLock k a \<Longrightarrow> \<not> locked (kvs s) a \<Longrightarrow>
    kv_step s i (goto (s\<lparr>kvs := (kvs s)\<lparr>locked := (locked (kvs s))(a := True)\<rparr>\<rparr>) i (Crit k))"
| release: "pcs s i = Got OpUnlock k a \<Longrightarrow> locked (kvs s) a \<Longrightarrow>
    kv_step s i (goto (s\<lparr>kvs := (kvs s)\<lparr>locked := (locked (kvs s))(a := False)\<rparr>\<rparr>) i Idle)"
| crash: "pcs s i = Got OpUnlock k a \<Longrightarrow> \<not> locked (kvs s) a \<Longrightarrow>
    kv_step s i (goto s i Crashed)"
| race: "i \<noteq> j \<Longrightarrow> in_guard (pcs s i) \<Longrightarrow> in_guard (pcs s j) \<Longrightarrow> at_write (pcs s i) \<or> at_write (pcs s j) \<Longrightarrow>
    kv_step s i (goto s i Crashed)"

inductive kv_reachable :: "sys \<Rightarrow> bool" where
  kv_start: "kv_reachable init_sys"
| kv_next: "kv_reachable s \<Longrightarrow> kv_step s i t \<Longrightarrow> kv_reachable t"

section \<open>The invariant\<close>

text \<open>The goroutine owns the key: it is past \<open>Lock(key)\<close> and has not finished \<open>Unlock(key)\<close>.\<close>

fun owns_pc :: "pc \<Rightarrow> string \<Rightarrow> bool" where
  "owns_pc (Crit k) l = (k = l)"
| "owns_pc (Get OpUnlock k) l = (k = l)"
| "owns_pc (InGet OpUnlock k) l = (k = l)"
| "owns_pc (Make OpUnlock k) l = (k = l)"
| "owns_pc (Got OpUnlock k a) l = (k = l)"
| "owns_pc _ l = False"

definition owns :: "sys \<Rightarrow> nat \<Rightarrow> string \<Rightarrow> bool" where
  "owns s i k = owns_pc (pcs s i) k"

definition guard_inv :: "sys \<Rightarrow> bool" where
  "guard_inv s \<longleftrightarrow> (\<forall>i. in_guard (pcs s i) \<longleftrightarrow> guard s = Some i)"

definition store_inv :: "sys \<Rightarrow> bool" where
  "store_inv s \<longleftrightarrow> kv_ok (kvs s)
     \<and> (\<forall>i op k. pcs s i = Make op k \<longrightarrow> store (kvs s) k = None)
     \<and> (\<forall>i op k a. pcs s i = Got op k a \<longrightarrow> store (kvs s) k = Some a)"

definition owner_inv :: "sys \<Rightarrow> bool" where
  "owner_inv s \<longleftrightarrow> (\<forall>i k. owns s i k \<longrightarrow> holds (kvs s) k)
     \<and> (\<forall>i j k. owns s i k \<longrightarrow> owns s j k \<longrightarrow> i = j)
     \<and> (\<forall>k. holds (kvs s) k \<longrightarrow> (\<exists>i. owns s i k))
     \<and> (\<forall>i. pcs s i \<noteq> Crashed)"

definition kv_inv :: "sys \<Rightarrow> bool" where
  "kv_inv s \<longleftrightarrow> guard_inv s \<and> store_inv s \<and> owner_inv s"

lemma kv_inv_init: "kv_inv init_sys"
  using kv_ok_New
  by (simp add: kv_inv_def guard_inv_def store_inv_def owner_inv_def init_sys_def owns_def)
    (simp add: holds_def NewMutexKV_def)

text \<open>The three ways a step can change the guard: not at all, taking it, giving it back.\<close>

lemma guard_inv_same:
  "guard_inv s \<Longrightarrow> in_guard p = in_guard (pcs s i) \<Longrightarrow>
   guard_inv (s\<lparr>kvs := m, pcs := (pcs s)(i := p)\<rparr>) \<and> guard_inv (goto s i p)"
  by (simp add: guard_inv_def)

lemma guard_inv_take:
  "guard_inv s \<Longrightarrow> guard s = None \<Longrightarrow> in_guard p \<Longrightarrow>
   guard_inv (s\<lparr>guard := Some i, pcs := (pcs s)(i := p)\<rparr>)"
  by (simp add: guard_inv_def)

lemma guard_inv_leave:
  assumes "guard_inv s" "in_guard (pcs s i)" "\<not> in_guard p"
  shows "guard_inv (s\<lparr>guard := None, pcs := (pcs s)(i := p)\<rparr>)"
    "guard_inv (s\<lparr>guard := None, kvs := m, pcs := (pcs s)(i := p)\<rparr>)"
proof -
  from assms(1,2) have "guard s = Some i" unfolding guard_inv_def by blast
  with assms show "guard_inv (s\<lparr>guard := None, pcs := (pcs s)(i := p)\<rparr>)"
    "guard_inv (s\<lparr>guard := None, kvs := m, pcs := (pcs s)(i := p)\<rparr>)"
    by (simp_all add: guard_inv_def)
qed

lemma guard_inv_unique:
  "guard_inv s \<Longrightarrow> in_guard (pcs s i) \<Longrightarrow> in_guard (pcs s j) \<Longrightarrow> i = j"
  unfolding guard_inv_def by (metis option.inject)

lemma guard_inv_step: "kv_step s i t \<Longrightarrow> guard_inv s \<Longrightarrow> guard_inv t"
proof (induction rule: kv_step.induct)
  case (race i j s)
  then show ?case using guard_inv_unique by blast
qed (simp_all add: guard_inv_same guard_inv_take guard_inv_leave)

lemma store_inv_step: "kv_step s i t \<Longrightarrow> guard_inv s \<Longrightarrow> store_inv s \<Longrightarrow> store_inv t"
proof (induction rule: kv_step.induct)
  case (insert s i op k)
  have none: "store (kvs s) k = None" using insert by (auto simp: store_inv_def)
  have alone: "pcs s j \<noteq> Make op' k'" if "j \<noteq> i" for j op' k'
    using guard_inv_unique [OF insert.prems(1), of i j] insert.hyps that by auto
  have got: "k' \<noteq> k" if "pcs s j = Got op' k' a" for j op' k' a
    using that insert.prems(2) none by (auto simp: store_inv_def)
  show ?case
    using insert.prems(2) kv_ok_make [OF _ none] alone got
    by (auto simp: store_inv_def kv_make_def)
next
  case (race i j s)
  then show ?case using guard_inv_unique by blast
qed (auto simp: store_inv_def)

lemma owns_simps [simp]:
  "owns (goto s i p) j k = (if j = i then owns_pc p k else owns s j k)"
  by (simp add: owns_def)

lemma owns_guard [simp]: "owns (s\<lparr>guard := g\<rparr>) = owns s" "owns (s\<lparr>kvs := m\<rparr>) = owns s"
  by (simp_all add: owns_def fun_eq_iff)

lemma owner_inv_same:
  assumes "owner_inv s" "\<And>j k. owns t j k = owns s j k" "holds (kvs t) = holds (kvs s)"
    "\<And>j. pcs t j \<noteq> Crashed"
  shows "owner_inv t"
  using assms by (simp add: owner_inv_def)

lemma owner_inv_grant:
  assumes inv: "owner_inv s" and free: "\<And>j. \<not> owns s j k"
    and own: "\<And>j l. owns t j l \<longleftrightarrow> owns s j l \<or> j = i \<and> l = k"
    and holds: "holds (kvs t) = (holds (kvs s))(k := True)" and alive: "\<And>j. pcs t j \<noteq> Crashed"
  shows "owner_inv t"
proof -
  have "owns t j l \<Longrightarrow> owns t j' l \<Longrightarrow> j = j'" for j j' l
    using inv free by (auto simp: own owner_inv_def)
  moreover have "holds (kvs t) l \<Longrightarrow> \<exists>j. owns t j l" for l
    using inv by (auto simp: own holds owner_inv_def split: if_splits)
  ultimately show ?thesis
    using inv alive unfolding owner_inv_def by (auto simp: own holds)
qed

lemma owner_inv_return:
  assumes inv: "owner_inv s" and mine: "owns s i k"
    and own: "\<And>j l. owns t j l \<longleftrightarrow> owns s j l \<and> j \<noteq> i"
    and only: "\<And>l. owns s i l \<Longrightarrow> l = k"
    and holds: "holds (kvs t) = (holds (kvs s))(k := False)" and alive: "\<And>j. pcs t j \<noteq> Crashed"
  shows "owner_inv t"
proof -
  have uniq: "owns s j l \<Longrightarrow> owns s j' l \<Longrightarrow> j = j'" for j j' l
    using inv unfolding owner_inv_def by blast
  have "owns t j l \<Longrightarrow> holds (kvs t) l" for j l
    using inv uniq [OF _ mine, of j] by (auto simp: own holds owner_inv_def)
  moreover have "holds (kvs t) l \<Longrightarrow> \<exists>j. owns t j l" for l
  proof -
    assume "holds (kvs t) l"
    then have "l \<noteq> k" "holds (kvs s) l" by (auto simp: holds split: if_splits)
    then obtain j where "owns s j l" using inv unfolding owner_inv_def by blast
    with \<open>l \<noteq> k\<close> only show ?thesis by (auto simp: own)
  qed
  ultimately show ?thesis
    using alive uniq unfolding owner_inv_def by (auto simp: own)
qed

lemma owner_inv_alive: "owner_inv s \<Longrightarrow> p \<noteq> Crashed \<Longrightarrow> ((pcs s)(i := p)) j \<noteq> Crashed"
  by (simp add: owner_inv_def)

lemma owns_at: "owns s i k = owns_pc (pcs s i) k"
  by (simp add: owns_def)

lemma owner_inv_step:
  "kv_step s i t \<Longrightarrow> store_inv s \<Longrightarrow> owner_inv s \<Longrightarrow> guard_inv s \<Longrightarrow> owner_inv t"
proof (induction rule: kv_step.induct)
  case (race i j s)
  then show ?case using guard_inv_unique by blast
next
  case (call_lock s i k)
  show ?case
    by (rule owner_inv_same [OF call_lock.prems(2)])
      (use call_lock owner_inv_alive in \<open>auto simp: owns_at\<close>)
next
  case (call_unlock s i k)
  show ?case
    by (rule owner_inv_same [OF call_unlock.prems(2)])
      (use call_unlock owner_inv_alive in \<open>auto simp: owns_at\<close>)
next
  case (take_guard s i op k)
  show ?case
    by (rule owner_inv_same [OF take_guard.prems(2)])
      (use take_guard owner_inv_alive in \<open>cases op; auto simp: owns_at\<close>)+
next
  case (found s i op k a)
  show ?case
    by (rule owner_inv_same [OF found.prems(2)])
      (use found owner_inv_alive in \<open>cases op; auto simp: owns_at\<close>)+
next
  case (absent s i op k)
  show ?case
    by (rule owner_inv_same [OF absent.prems(2)])
      (use absent owner_inv_alive in \<open>cases op; auto simp: owns_at\<close>)+
next
  case (insert s i op k)
  then have "holds (kv_make k (kvs s)) = holds (kvs s)"
    by (auto simp: store_inv_def intro!: holds_make)
  then show ?case
    by (intro owner_inv_same [OF insert.prems(2)])
      (use insert owner_inv_alive in \<open>cases op; auto simp: owns_at\<close>)+
next
  case (acquire s i k a)
  then have ok: "kv_ok (kvs s)" "store (kvs s) k = Some a" by (auto simp: store_inv_def)
  with acquire have free: "\<not> holds (kvs s) k" by (simp add: holds_def)
  then have noone: "\<not> owns s j k" for j
    using acquire.prems(2) by (auto simp: owner_inv_def)
  show ?case
    by (rule owner_inv_grant [OF acquire.prems(2) noone, where i = i])
      (use acquire.hyps owner_inv_alive [OF acquire.prems(2)] holds_set [OF ok, of True]
        in \<open>auto simp: owns_at\<close>)
next
  case (release s i k a)
  then have ok: "kv_ok (kvs s)" "store (kvs s) k = Some a" by (auto simp: store_inv_def)
  have mine: "owns s i k" using release.hyps by (simp add: owns_at)
  show ?case
    by (rule owner_inv_return [OF release.prems(2) mine])
      (use release.hyps owner_inv_alive [OF release.prems(2)] holds_set [OF ok, of False]
        in \<open>auto simp: owns_at\<close>)
next
  case (crash s i k a)
  then have "\<not> holds (kvs s) k" by (auto simp: store_inv_def holds_def)
  moreover have "owns s i k" using crash.hyps by (simp add: owns_at)
  ultimately have False using crash.prems(2) by (auto simp: owner_inv_def)
  then show ?case ..
qed

lemma kv_inv_step: "kv_step s i t \<Longrightarrow> kv_inv s \<Longrightarrow> kv_inv t"
  unfolding kv_inv_def by (blast intro: guard_inv_step store_inv_step owner_inv_step)

lemma kv_reachable_inv: "kv_reachable s \<Longrightarrow> kv_inv s"
  by (induction rule: kv_reachable.induct) (blast intro: kv_inv_init kv_inv_step)+

section \<open>Mutual exclusion, no crash, no deadlock\<close>

inductive_cases kv_stepE: "kv_step s i t"

text \<open>Some goroutine that is inside \<open>Lock\<close> or \<open>Unlock\<close>, or holds a key, can move.\<close>

definition can_move :: "sys \<Rightarrow> bool" where
  "can_move s \<longleftrightarrow> (\<exists>j t. pcs s j \<noteq> Idle \<and> kv_step s j t)"

lemma can_moveI: "kv_step s j t \<Longrightarrow> pcs s j \<noteq> Idle \<Longrightarrow> can_move s"
  by (auto simp: can_move_def)

lemma can_move_in_guard: "in_guard (pcs s j) \<Longrightarrow> can_move s"
proof (cases "pcs s j")
  case (InGet op k)
  then show ?thesis
    by (cases "store (kvs s) k") (auto intro: can_moveI [OF found] can_moveI [OF absent])
next
  case (Make op k)
  then show ?thesis by (auto intro: can_moveI [OF insert])
qed auto

lemma can_move_get: "kv_inv s \<Longrightarrow> pcs s j = Get op k \<Longrightarrow> can_move s"
proof (cases "guard s")
  case (Some i)
  moreover assume "kv_inv s"
  ultimately have "in_guard (pcs s i)" by (simp add: kv_inv_def guard_inv_def)
  then show ?thesis by (rule can_move_in_guard)
qed (auto intro: can_moveI [OF take_guard])

lemma can_move_owner:
  assumes inv: "kv_inv s" and own: "owns s j k"
  shows "can_move s"
proof (cases "pcs s j")
  case (Get op l)
  with inv show ?thesis by (rule can_move_get)
next
  case (Got op l a)
  with inv have st: "store (kvs s) l = Some a" by (auto simp: kv_inv_def store_inv_def)
  from Got own have op: "op = OpUnlock" "l = k" by (cases op; simp add: owns_at)+
  from inv own have "holds (kvs s) k" by (auto simp: kv_inv_def owner_inv_def)
  with st op have "locked (kvs s) a" by (simp add: holds_def)
  with Got op show ?thesis by (auto intro: can_moveI [OF release])
qed (use own can_move_in_guard [of s j] in \<open>auto simp: owns_at intro: can_moveI [OF call_unlock]\<close>)

lemma can_move_busy:
  assumes inv: "kv_inv s" and busy: "pcs s i \<noteq> Idle"
  shows "can_move s"
proof (cases "pcs s i")
  case (Get op k)
  with inv show ?thesis by (rule can_move_get)
next
  case (Got op k a)
  with inv have st: "store (kvs s) k = Some a" by (auto simp: kv_inv_def store_inv_def)
  show ?thesis
  proof (cases "op = OpLock \<and> \<not> locked (kvs s) a")
    case True
    with Got show ?thesis by (auto intro: can_moveI [OF acquire])
  next
    case False
    with Got st have "op = OpUnlock \<Longrightarrow> owns s i k" "op = OpLock \<Longrightarrow> holds (kvs s) k"
      by (auto simp: owns_at holds_def)
    then obtain j where "owns s j k"
      using inv by (cases op) (auto simp: kv_inv_def owner_inv_def)
    with inv show ?thesis by (rule can_move_owner)
  qed
next
  case (Crit k)
  then show ?thesis by (auto intro: can_moveI [OF call_unlock])
next
  case Crashed
  with inv show ?thesis by (simp add: kv_inv_def owner_inv_def)
qed (use busy can_move_in_guard [of s i] in auto)

section \<open>Properties\<close>

text \<open>C5: Two goroutines are never both past \<open>Lock(key)\<close> for the same key, in any interleaving of
  any number of goroutines, although the mutex of a key is made lazily by whoever comes first.\<close>

theorem mutexkv_mutual_exclusion:
  assumes "kv_reachable s" "pcs s i = Crit k" "pcs s j = Crit k"
  shows "i = j"
proof -
  from assms have "owns s i k" "owns s j k" by (simp_all add: owns_at)
  with kv_reachable_inv [OF assms(1)] show ?thesis
    unfolding kv_inv_def owner_inv_def by blast
qed

lemma kv_run_to_make: "\<exists>s. kv_reachable s \<and> pcs s 0 = Make OpLock ''p'' \<and> pcs s 1 = Idle"
proof -
  define s1 where "s1 = goto init_sys 0 (Get OpLock ''p'')"
  define s2 where "s2 = goto (s1\<lparr>guard := Some 0\<rparr>) 0 (InGet OpLock ''p'')"
  have "kv_step init_sys 0 s1"
    unfolding s1_def by (rule call_lock) (simp add: init_sys_def)
  with kv_start have 1: "kv_reachable s1" by (rule kv_next)
  have "kv_step s1 0 s2"
    unfolding s2_def by (rule take_guard) (simp_all add: s1_def init_sys_def)
  with 1 have 2: "kv_reachable s2" by (rule kv_next)
  have "kv_step s2 0 (goto s2 0 (Make OpLock ''p''))"
    by (rule absent) (simp_all add: s2_def s1_def init_sys_def NewMutexKV_def)
  with 2 have "kv_reachable (goto s2 0 (Make OpLock ''p''))" by (rule kv_next)
  then show ?thesis
    by (intro exI [of _ "goto s2 0 (Make OpLock ''p'')"]) (simp add: s2_def s1_def init_sys_def)
qed

lemma kv_run_to_crit: "\<exists>s. kv_reachable s \<and> pcs s 0 = Crit ''p''"
proof -
  from kv_run_to_make obtain s3 where 3: "kv_reachable s3" "pcs s3 0 = Make OpLock ''p''" by blast
  define s4 where "s4 = goto (s3\<lparr>guard := None, kvs := kv_make ''p'' (kvs s3)\<rparr>) 0
    (Got OpLock ''p'' (fresh (kvs s3)))"
  have "kv_step s3 0 s4"
    unfolding s4_def by (rule insert) (rule 3(2))
  with 3(1) have 4: "kv_reachable s4" by (rule kv_next)
  have pc: "pcs s4 0 = Got OpLock ''p'' (fresh (kvs s3))" by (simp add: s4_def)
  have "\<not> locked (kvs s4) (fresh (kvs s3))" by (simp add: s4_def kv_make_def)
  with kv_next [OF 4 acquire [OF pc]] show ?thesis
    by (intro exI conjI) (assumption, simp)
qed

theorem mutexkv_mutual_exclusion_witness:
  "\<exists>s. kv_reachable s \<and> pcs s 0 = Crit ''p'' \<and> (\<forall>j. pcs s j = Crit ''p'' \<longrightarrow> 0 = j)"
proof -
  from kv_run_to_crit obtain s where s: "kv_reachable s" "pcs s 0 = Crit ''p''" by blast
  show ?thesis
    using s mutexkv_mutual_exclusion [OF s] by blast
qed

text \<open>C25: In no interleaving of callers that unlock only what they locked does the Go runtime stop the
  program: no two goroutines access the map of mutexes at the same time with one of them writing,
  and no unlocked mutex is unlocked.\<close>

theorem mutexkv_never_crashes:
  assumes "kv_reachable s"
  shows "pcs s i \<noteq> Crashed"
  using kv_reachable_inv [OF assms] by (simp add: kv_inv_def owner_inv_def)

text \<open>One goroutine is about to insert a mutex, and another one has called \<open>get\<close>.\<close>

theorem mutexkv_never_crashes_witness:
  "\<exists>s. kv_reachable s \<and> pcs s 0 = Make OpLock ''p'' \<and> pcs s 1 = Get OpLock ''q'' \<and> (\<forall>i. pcs s i \<noteq> Crashed)"
proof -
  from kv_run_to_make obtain s where s: "kv_reachable s" "pcs s 0 = Make OpLock ''p''" "pcs s 1 = Idle" by blast
  from s(1) call_lock [OF s(3)] have "kv_reachable (goto s 1 (Get OpLock ''q''))" by (rule kv_next)
  from this mutexkv_never_crashes [OF this] show ?thesis
    by (intro exI [of _ "goto s 1 (Get OpLock ''q'')"]) (use s in simp)
qed

text \<open>C26: The lazily filled map of mutexes does not deadlock: whenever some goroutine is inside
  \<open>Lock\<close> or \<open>Unlock\<close> or holds a key, one of those goroutines can take a step.\<close>

theorem mutexkv_no_deadlock:
  assumes "kv_reachable s" "pcs s i \<noteq> Idle"
  shows "\<exists>j t. pcs s j \<noteq> Idle \<and> kv_step s j t"
  using can_move_busy [OF kv_reachable_inv [OF assms(1)] assms(2)] by (simp add: can_move_def)

theorem mutexkv_no_deadlock_witness:
  "\<exists>s j t. kv_reachable s \<and> pcs s j \<noteq> Idle \<and> kv_step s j t"
proof -
  from kv_run_to_crit obtain s where s: "kv_reachable s" "pcs s 0 = Crit ''p''" by blast
  show ?thesis
    using s mutexkv_no_deadlock [OF s(1), of 0] by auto
qed

end
