(* ===== verification/Net_IP.thy ===== *)
theory Net_IP
  imports Prelude
begin

text \<open>
  The part of Go's package \<open>net\<close> that the sources use: \<open>net.IP\<close> and \<open>net.IPMask\<close> as byte
  slices (4 or 16 bytes long, \<open>nil\<close> the empty one), parsing and printing of addresses,
  \<open>ParseCIDR\<close>, \<open>CIDRMask\<close>, \<open>IP.Mask\<close>, \<open>IPMask.Size\<close>, \<open>IPNet.Contains\<close>.  Addresses are also
  read as numbers (\<open>ipNum\<close>), and the lemmas at the end say what masking does to the number.
\<close>

unbundle bit_operations_syntax

section \<open>Addresses and masks\<close>

type_synonym ip = "byte list"
type_synonym ipmask = "byte list"

record ipnet =
  IP :: ip
  Mask :: ipmask

definition v4InV6Prefix :: "byte list" where
  "v4InV6Prefix = replicate 10 0 @ [0xff, 0xff]"

definition To4 :: "ip \<Rightarrow> ip option" where
  "To4 ip = (if length ip = 4 then Some ip
     else if length ip = 16 \<and> take 12 ip = v4InV6Prefix then Some (drop 12 ip)
     else None)"

definition To16 :: "ip \<Rightarrow> ip option" where
  "To16 ip = (if length ip = 4 then Some (v4InV6Prefix @ ip)
     else if length ip = 16 then Some ip
     else None)"

text \<open>\<open>CIDRMask(ones, bits)\<close>: byte by byte, full bytes first.\<close>

fun maskBytes :: "nat \<Rightarrow> nat \<Rightarrow> ipmask" where
  "maskBytes n 0 = []"
| "maskBytes n (Suc l) =
     (if n \<ge> 8 then 0xff # maskBytes (n - 8) l
      else NOT (drop_bit n 0xff) # maskBytes 0 l)"

definition CIDRMask :: "nat \<Rightarrow> nat \<Rightarrow> ipmask" where
  "CIDRMask ones bits =
     (if (bits \<noteq> 32 \<and> bits \<noteq> 128) \<or> ones > bits then [] else maskBytes ones (bits div 8))"

text \<open>\<open>IPMask.Size()\<close>: the number of leading one bits, and \<open>0, 0\<close> when a one follows a zero.\<close>

fun simpleMaskLength :: "ipmask \<Rightarrow> nat option" where
  "simpleMaskLength [] = Some 0"
| "simpleMaskLength (b # bs) =
     (if b = 0xff then map_option ((+) 8) (simpleMaskLength bs)
      else (case find (\<lambda>n. b = NOT (drop_bit n 0xff)) [0..<8] of
              Some n \<Rightarrow> if list_all (\<lambda>x. x = 0) bs then Some n else None
            | None \<Rightarrow> None))"

definition mask_Size :: "ipmask \<Rightarrow> nat \<times> nat" where
  "mask_Size m = (case simpleMaskLength m of Some ones \<Rightarrow> (ones, length m * 8) | None \<Rightarrow> (0, 0))"

text \<open>\<open>IP.Mask(mask)\<close>; \<open>None\<close> is \<open>nil\<close>.\<close>

definition ip_Mask :: "ip \<Rightarrow> ipmask \<Rightarrow> ip option" where
  "ip_Mask ip0 mask0 =
     (let msk = (if length mask0 = 16 \<and> length ip0 = 4 \<and> take 12 mask0 = replicate 12 0xff
                  then drop 12 mask0 else mask0);
          ip = (if length msk = 4 \<and> length ip0 = 16 \<and> take 12 ip0 = v4InV6Prefix
                then drop 12 ip0 else ip0)
      in if length ip \<noteq> length msk then None else Some (map2 (AND) ip msk))"

section \<open>Parsing\<close>

definition parseOctet :: "string \<Rightarrow> byte option" where
  "parseOctet s =
     (if s = [] \<or> \<not> list_all isDigit s then None
      else if decValue s > 255 then None
      else if length s > 1 \<and> hd s = CHR ''0'' then None
      else Some (of_nat (decValue s)))"

definition parseIPv4 :: "string \<Rightarrow> ip option" where
  "parseIPv4 s = (case map parseOctet (strSplit CHR ''.'' s) of
      [Some a, Some b, Some c, Some d] \<Rightarrow> Some (v4InV6Prefix @ [a, b, c, d])
    | _ \<Rightarrow> None)"

definition isHexDigit :: "char \<Rightarrow> bool" where
  "isHexDigit c \<longleftrightarrow> isDigit c \<or> (97 \<le> char_nat c \<and> char_nat c \<le> 102)
     \<or> (65 \<le> char_nat c \<and> char_nat c \<le> 70)"

definition hexVal :: "char \<Rightarrow> nat" where
  "hexVal c = (if isDigit c then digitVal c
     else if 97 \<le> char_nat c then char_nat c - 87 else char_nat c - 55)"

definition hexValue :: "string \<Rightarrow> nat" where
  "hexValue s = foldl (\<lambda>acc c. 16 * acc + hexVal c) 0 s"

text \<open>
  The loop of \<open>parseIPv6\<close>: at most eight groups; \<open>acc\<close> are the bytes so far, \<open>e\<close> the position
  of the ellipsis.  The result is \<open>None\<close> where the code returns \<open>nil\<close> inside the loop, else
  the bytes, the ellipsis and what is left of the text.
\<close>

fun v6loop :: "nat \<Rightarrow> byte list \<Rightarrow> nat option \<Rightarrow> string \<Rightarrow> (byte list \<times> nat option \<times> string) option" where
  "v6loop 0 acc e s = Some (acc, e, s)"
| "v6loop (Suc g) acc e s =
     (let ds = takeWhile isHexDigit s; c = length ds; n = hexValue ds; s' = drop c s;
          acc' = acc @ [of_nat (n div 256), of_nat (n mod 256)]
      in if ds = [] \<or> n > 0xFFFF then None
         else if s' \<noteq> [] \<and> hd s' = CHR ''.'' then
           (if e = None \<and> length acc \<noteq> 12 then None
            else if length acc + 4 > 16 then None
            else (case parseIPv4 s of None \<Rightarrow> None | Some ip4 \<Rightarrow> Some (acc @ drop 12 ip4, e, [])))
         else if s' = [] then Some (acc', e, [])
         else if hd s' \<noteq> CHR '':'' \<or> length s' = 1 then None
         else if hd (tl s') = CHR '':'' then
           (if e \<noteq> None then None
            else if tl (tl s') = [] then Some (acc', Some (length acc'), [])
            else v6loop g acc' (Some (length acc')) (tl (tl s')))
         else v6loop g acc' e (tl s'))"

definition v6finish :: "byte list \<times> nat option \<times> string \<Rightarrow> ip option" where
  "v6finish r = (case r of (acc, e, s) \<Rightarrow>
     if s \<noteq> [] then None
     else if length acc < 16 then
       (case e of None \<Rightarrow> None
        | Some p \<Rightarrow> Some (take p acc @ replicate (16 - length acc) 0 @ drop p acc))
     else if e \<noteq> None then None else Some acc)"

definition parseIPv6 :: "string \<Rightarrow> ip option" where
  "parseIPv6 s =
     (if take 2 s = ''::'' then
        (if drop 2 s = [] then Some (replicate 16 0)
         else Option.bind (v6loop 8 [] (Some 0) (drop 2 s)) v6finish)
      else Option.bind (v6loop 8 [] None s) v6finish)"

text \<open>\<open>net.ParseIP\<close>: the first dot or colon decides the family.\<close>

definition ParseIP :: "string \<Rightarrow> ip option" where
  "ParseIP s = (case find (\<lambda>c. c = CHR ''.'' \<or> c = CHR '':'') s of
      None \<Rightarrow> None
    | Some c \<Rightarrow> if c = CHR ''.'' then parseIPv4 s else parseIPv6 s)"

text \<open>\<open>net.ParseCIDR\<close>; the error is \<open>None\<close>.\<close>

definition ParseCIDR :: "string \<Rightarrow> (ip \<times> ipnet) option" where
  "ParseCIDR s = (case strSplitN2 CHR ''/'' s of
      [addrS, bitsS] \<Rightarrow>
        (let v4 = parseIPv4 addrS; iplen = (if v4 = None then 16 else 4);
             parsed = (if v4 = None then parseIPv6 addrS else v4)
         in case parsed of
              None \<Rightarrow> None
            | Some ip \<Rightarrow>
                if bitsS = [] \<or> \<not> list_all isDigit bitsS \<or> decValue bitsS > 8 * iplen then None
                else let m = CIDRMask (decValue bitsS) (8 * iplen)
                     in (case ip_Mask ip m of
                           Some net \<Rightarrow> Some (ip, \<lparr>IP = net, Mask = m\<rparr>)
                         | None \<Rightarrow> Some (ip, \<lparr>IP = [], Mask = m\<rparr>)))
    | _ \<Rightarrow> None)"

section \<open>Printing\<close>

fun hexString :: "nat \<Rightarrow> string" where
  "hexString n = (if n < 16 then [hexDigit n] else hexString (n div 16) @ [hexDigit (n mod 16)])"

declare hexString.simps [simp del]

fun groups :: "byte list \<Rightarrow> nat list" where
  "groups (a # b # bs) = (256 * unat a + unat b) # groups bs"
| "groups _ = []"

text \<open>The first longest run of zero groups, from \<open>e0\<close> to \<open>e1\<close> exclusive.\<close>

function bestRun :: "nat list \<Rightarrow> nat \<Rightarrow> nat \<times> nat \<Rightarrow> nat \<times> nat" where
  "bestRun gs i (e0, e1) =
     (if i \<ge> length gs then (e0, e1)
      else let j = i + length (takeWhile (\<lambda>g. g = 0) (drop i gs))
           in if j > i \<and> j - i > e1 - e0 then bestRun gs (Suc j) (i, j) else bestRun gs (Suc i) (e0, e1))"
  by pat_completeness auto
termination
  by (relation "measure (\<lambda>(gs, i, e). length gs - i)") (auto simp: Let_def)

declare bestRun.simps [simp del]

definition ipString :: "ip \<Rightarrow> string" where
  "ipString ip =
     (if ip = [] then ''<nil>''
      else (case To4 ip of
        Some p4 \<Rightarrow> strJoin CHR ''.'' (map (\<lambda>b. decString (unat b)) p4)
      | None \<Rightarrow>
          if length ip \<noteq> 16 then CHR ''?'' # concat (map hexByte ip)
          else let gs = groups ip; (e0, e1) = bestRun gs 0 (0, 0)
               in if e1 - e0 \<le> 1 then strJoin CHR '':'' (map hexString gs)
                  else strJoin CHR '':'' (map hexString (take e0 gs)) @ ''::''
                       @ strJoin CHR '':'' (map hexString (drop e1 gs))))"

text \<open>\<open>IPNet.Contains\<close>, with \<open>networkNumberAndMask\<close> inlined.\<close>

definition net_Contains :: "ipnet \<Rightarrow> ip \<Rightarrow> bool" where
  "net_Contains n ip0 =
     (let nip = (case To4 (IP n) of Some x \<Rightarrow> x | None \<Rightarrow> if length (IP n) = 16 then IP n else []);
          m = (if length (Mask n) = 4 then (if length nip = 4 then Mask n else [])
               else if length (Mask n) = 16 then (if length nip = 4 then drop 12 (Mask n) else Mask n)
               else []);
          ip = (case To4 ip0 of Some x \<Rightarrow> x | None \<Rightarrow> ip0)
      in length ip = length nip \<and> nip \<noteq> [] \<and> m \<noteq> []
         \<and> list_all (\<lambda>((a, b), k). a AND k = b AND k) (zip (zip nip ip) m))"


section \<open>Addresses as numbers\<close>

definition ipNum :: "byte list \<Rightarrow> nat" where
  "ipNum bs = foldl (\<lambda>acc b. 256 * acc + unat b) 0 bs"

lemma unat_byte: "unat (b :: byte) < 256"
  using unsigned_less [of b, where 'a=nat] by simp

lemma foldl_num: "foldl (\<lambda>acc b. 256 * acc + unat (b :: byte)) a bs = a * 256 ^ length bs + ipNum bs"
proof (induction bs arbitrary: a)
  case (Cons b bs)
  show ?case
    using Cons [of "256 * a + unat b"] Cons [of "unat b"]
    by (simp add: ipNum_def algebra_simps)
qed (simp add: ipNum_def)

lemma ipNum_Nil [simp]: "ipNum [] = 0"
  by (simp add: ipNum_def)

lemma ipNum_Cons: "ipNum (b # bs) = unat b * 256 ^ length bs + ipNum bs"
  using foldl_num [of "unat b" bs] by (simp add: ipNum_def)

lemma ipNum_append: "ipNum (as @ bs) = ipNum as * 256 ^ length bs + ipNum bs"
  using foldl_num [of "ipNum as" bs] by (simp add: ipNum_def)

lemma ipNum_snoc: "ipNum (bs @ [b]) = 256 * ipNum bs + unat b"
  by (simp add: ipNum_append ipNum_Cons)

lemma ipNum_bound: "ipNum bs < 256 ^ length bs"
proof (induction bs)
  case (Cons b bs)
  have "(unat b + 1) * 256 ^ length bs \<le> 256 * 256 ^ length bs"
    using unat_byte [of b] by (intro mult_le_mono1) simp
  then have "unat b * 256 ^ length bs + 256 ^ length bs \<le> 256 ^ length (b # bs)"
    by (simp add: add_mult_distrib)
  with Cons show ?case unfolding ipNum_Cons by linarith
qed simp

lemma ipNum_inj: "length as = length bs \<Longrightarrow> ipNum as = ipNum bs \<Longrightarrow> as = bs"
proof (induction as bs rule: list_induct2)
  case (Cons a as b bs)
  have as: "ipNum as < 256 ^ length bs" and bs: "ipNum bs < 256 ^ length bs"
    using ipNum_bound [of as] ipNum_bound [of bs] Cons by simp_all
  have eq: "unat a * 256 ^ length bs + ipNum as = unat b * 256 ^ length bs + ipNum bs"
    using Cons by (simp add: ipNum_Cons)
  from arg_cong [OF eq, of "\<lambda>x. x div 256 ^ length bs"] as bs have "unat a = unat b" by simp
  with eq Cons show ?case by (simp add: word_unat_eq_iff)
qed simp

text \<open>What a mask byte does to an address byte.\<close>

lemma drop_bit_ff: "n < 8 \<Longrightarrow> drop_bit n (0xff :: byte) = mask (8 - n)"
proof -
  have "\<forall>n \<in> set [0..<8]. drop_bit n (0xff :: byte) = mask (8 - n)" by code_simp
  then show "n < 8 \<Longrightarrow> drop_bit n (0xff :: byte) = mask (8 - n)" by simp
qed

lemma round_down_byte: "k \<le> 8 \<Longrightarrow> unat (b :: byte) div 2 ^ k * 2 ^ k + (2 ^ k - 1) < 256"
proof -
  assume k: "k \<le> 8"
  then have e: "(256::nat) = 2 ^ (8 - k) * 2 ^ k"
    by (simp flip: power_add)
  have "unat b div 2 ^ k < 2 ^ (8 - k)"
    by (rule less_mult_imp_div_less) (use unat_byte [of b] e in simp)
  then have "(unat b div 2 ^ k + 1) * 2 ^ k \<le> 2 ^ (8 - k) * 2 ^ k"
    by (intro mult_le_mono1) simp
  moreover have "(0::nat) < 2 ^ k" by simp
  ultimately show ?thesis using e unfolding add_mult_distrib by linarith
qed

lemma unat_and_not_mask:
  assumes "k \<le> 8" shows "unat ((b :: byte) AND NOT (mask k)) = unat b div 2 ^ k * 2 ^ k"
proof -
  have "b AND NOT (mask k) = push_bit k (drop_bit k b)"
    by (rule bit_word_eqI) (auto simp: bit_simps)
  moreover have "unat (push_bit k (drop_bit k b)) = unat b div 2 ^ k * 2 ^ k"
  proof -
    have "take_bit 8 (unat b) = unat b"
      by (rule take_bit_nat_eq_self) (use unat_byte [of b] in simp)
    moreover have "take_bit 8 (unat b div 2 ^ k * 2 ^ k) = unat b div 2 ^ k * 2 ^ k"
    proof (rule take_bit_nat_eq_self)
      show "unat b div 2 ^ k * 2 ^ k < 2 ^ 8"
        using le_less_trans [OF div_times_less_eq_dividend unat_byte] by simp
    qed
    ultimately show ?thesis
      unfolding unsigned_push_bit_eq unsigned_drop_bit_eq by (simp add: push_bit_eq_mult drop_bit_eq_div)
  qed
  ultimately show ?thesis by (simp only:)
qed

lemma unat_or_mask:
  assumes "k \<le> 8" shows "unat ((b :: byte) OR mask k) = unat b div 2 ^ k * 2 ^ k + (2 ^ k - 1)"
proof -
  have "b OR mask k = (b AND NOT (mask k)) + mask k"
    by (subst disjunctive_add) (auto simp: bit_simps intro: bit_word_eqI)
  moreover have "unat (mask k :: byte) = 2 ^ k - 1"
  proof -
    have "\<forall>k \<in> set [0..<9]. unat (mask k :: byte) = 2 ^ k - 1" by code_simp
    with assms show ?thesis by simp
  qed
  ultimately show ?thesis
    using round_down_byte [OF assms, of b] unat_and_not_mask [OF assms, of b]
    by (simp add: unat_add_lem [THEN iffD1])
qed

lemma length_maskBytes [simp]: "length (maskBytes n l) = l"
  by (induction n l rule: maskBytes.induct) auto

lemma maskBytes_0: "maskBytes 0 l = replicate l 0"
  by (induction l) auto

text \<open>
  An address and a mask of \<open>l\<close> bytes and \<open>n\<close> ones: masking rounds the number down to a multiple
  of \<open>2 ^ h\<close>, \<open>h\<close> the number of host bits, and setting the host bits rounds it up to the last
  number of its block.
\<close>

lemma map2_and_0: "length ip = l \<Longrightarrow> map2 (AND) ip (replicate l (0 :: byte)) = replicate l 0"
  by (induction l arbitrary: ip) (auto simp: length_Suc_conv)

lemma map2_or_ff: "length ip = l \<Longrightarrow> map2 (\<lambda>b m. b OR NOT m) ip (replicate l (0 :: byte)) = replicate l (-1)"
  by (induction l arbitrary: ip) (auto simp: length_Suc_conv)

lemma ipNum_replicate_0 [simp]: "ipNum (replicate l 0) = 0"
  by (induction l) (simp_all add: ipNum_Cons)

lemma ipNum_replicate_ff: "ipNum (replicate l (-1)) = 256 ^ l - 1"
proof (induction l)
  case (Suc l)
  have "unat (-1 :: byte) = 255" by (simp add: unsigned_minus_1_eq_mask mask_eq_exp_minus_1)
  moreover have "(1::nat) \<le> 256 ^ l" by simp
  ultimately show ?case using Suc by (simp add: ipNum_Cons)
qed simp

lemma div_block: 
  fixes a x r :: nat
  assumes "x < m" shows "(a * m + x) div m * m = a * m"
  using assms by simp

lemma byte_ff: "(255 :: byte) = -1"
  by code_simp

lemma host_bits: "n < 8 \<Longrightarrow> 8 * Suc l - n = 8 * l + (8 - n)"
  by simp

lemma high_byte:
  assumes "8 \<le> n" "n \<le> 8 * Suc l" "length bs = l"
  shows "ipNum (b # bs) div 2 ^ (8 * Suc l - n) * 2 ^ (8 * Suc l - n)
    = unat b * 256 ^ l + ipNum bs div 2 ^ (8 * l - (n - 8)) * 2 ^ (8 * l - (n - 8))"
    and "8 * Suc l - n = 8 * l - (n - 8)"
proof -
  let ?h = "8 * l - (n - 8)"
  show h: "8 * Suc l - n = ?h" using assms by simp
  have "(256::nat) ^ l = 2 ^ (8 * l)" by (simp add: power_mult)
  also have "8 * l = (n - 8) + ?h" using assms by simp
  finally have p: "(256::nat) ^ l = 2 ^ (n - 8) * 2 ^ ?h" by (simp only: power_add)
  have "(unat b * 256 ^ l + ipNum bs) div 2 ^ ?h = unat b * 2 ^ (n - 8) + ipNum bs div 2 ^ ?h"
    unfolding p by (simp flip: mult.assoc)
  then show "ipNum (b # bs) div 2 ^ (8 * Suc l - n) * 2 ^ (8 * Suc l - n)
    = unat b * 256 ^ l + ipNum bs div 2 ^ ?h * 2 ^ ?h"
    unfolding h using assms p by (simp add: ipNum_Cons algebra_simps)
qed

lemma mixed_byte:
  assumes "n < 8" "length bs = l"
  shows "ipNum (b # bs) div 2 ^ (8 * Suc l - n) = unat b div 2 ^ (8 - n)"
    and "(2::nat) ^ (8 * Suc l - n) = 2 ^ (8 - n) * 256 ^ l"
proof -
  show e: "(2::nat) ^ (8 * Suc l - n) = 2 ^ (8 - n) * 256 ^ l"
    unfolding host_bits [OF assms(1)] power_add by (simp add: power_mult)
  have "ipNum bs < 256 ^ l" using ipNum_bound [of bs] assms by simp
  then show "ipNum (b # bs) div 2 ^ (8 * Suc l - n) = unat b div 2 ^ (8 - n)"
    unfolding e using assms by (simp add: ipNum_Cons mult.commute [of "2 ^ (8 - n)"] div_mult2_eq)
qed

lemma ipNum_and_mask:
  "length ip = l \<Longrightarrow> n \<le> 8 * l \<Longrightarrow>
   ipNum (map2 (AND) ip (maskBytes n l)) = ipNum ip div 2 ^ (8 * l - n) * 2 ^ (8 * l - n)"
proof (induction n l arbitrary: ip rule: maskBytes.induct)
  case (2 n l)
  then obtain b bs where ip: "ip = b # bs" "length bs = l" by (auto simp: length_Suc_conv)
  show ?case
  proof (cases "n \<ge> 8")
    case True
    then have "ipNum (map2 (AND) bs (maskBytes (n - 8) l))
        = ipNum bs div 2 ^ (8 * l - (n - 8)) * 2 ^ (8 * l - (n - 8))"
      using 2 ip by auto
    with True ip show ?thesis
      using high_byte(1) [of n l bs b] high_byte(2) [of n l bs] 2 by (simp add: ipNum_Cons byte_ff)
  next
    case False
    then show ?thesis
      using ip unat_and_not_mask [of "8 - n" b] map2_and_0 [of bs l] mixed_byte(1) [of n bs l b] mixed_byte(2) [of n bs l]
      by (simp add: ipNum_Cons drop_bit_ff maskBytes_0)
  qed
qed simp

lemma last_of_block:
  fixes q p m :: nat
  assumes "0 < p" "0 < m"
  shows "(q * p + (p - 1)) * m + (m - 1) = q * (p * m) + (p * m - 1)"
  using assms by (cases p; cases m) (simp_all add: algebra_simps)

lemma ipNum_or_mask:
  "length ip = l \<Longrightarrow> n \<le> 8 * l \<Longrightarrow>
   ipNum (map2 (\<lambda>b m. b OR NOT m) ip (maskBytes n l))
   = ipNum ip div 2 ^ (8 * l - n) * 2 ^ (8 * l - n) + (2 ^ (8 * l - n) - 1)"
proof (induction n l arbitrary: ip rule: maskBytes.induct)
  case (2 n l)
  then obtain b bs where ip: "ip = b # bs" "length bs = l" by (auto simp: length_Suc_conv)
  show ?case
  proof (cases "n \<ge> 8")
    case True
    have ih: "ipNum (map2 (\<lambda>b m. b OR NOT m) bs (maskBytes (n - 8) l))
        = ipNum bs div 2 ^ (8 * l - (n - 8)) * 2 ^ (8 * l - (n - 8)) + (2 ^ (8 * l - (n - 8)) - 1)"
      using 2 True ip by auto
    moreover have "ipNum (b # bs) div 2 ^ (8 * Suc l - n) * 2 ^ (8 * Suc l - n)
        = unat b * 256 ^ l + ipNum bs div 2 ^ (8 * l - (n - 8)) * 2 ^ (8 * l - (n - 8))"
      using high_byte(1) [of n l bs b] True 2 ip by simp
    moreover have "ipNum (map2 (\<lambda>b m. b OR NOT m) ip (maskBytes n (Suc l)))
        = unat b * 256 ^ l + ipNum (map2 (\<lambda>b m. b OR NOT m) bs (maskBytes (n - 8) l))"
      using True ip by (simp add: ipNum_Cons byte_ff)
    ultimately show ?thesis
      using high_byte(2) [of n l bs] True 2 ip by (simp only:)
  next
    case False
    have "ipNum (map2 (\<lambda>b m. b OR NOT m) ip (maskBytes n (Suc l)))
        = (unat b div 2 ^ (8 - n) * 2 ^ (8 - n) + (2 ^ (8 - n) - 1)) * 256 ^ l + (256 ^ l - 1)"
      using False ip unat_or_mask [of "8 - n" b] map2_or_ff [of bs l]
      by (simp add: ipNum_Cons drop_bit_ff maskBytes_0 ipNum_replicate_ff)
    with False ip mixed_byte(1) [of n bs l b] mixed_byte(2) [of n bs l] show ?thesis
      by (simp only: last_of_block zero_less_power zero_less_numeral not_le)
  qed
qed simp

end
