(* ===== verification/Net_Utils.thy ===== *)
theory Net_Utils
  imports Net_IP Go_Monad
begin

text \<open>
  \<open>utils_net.go\<close> and \<open>getNetworkIPConfig\<close> of \<open>network.go\<close>: random MAC addresses, the address
  range of a subnet capped at 16 host bits, and the host address and DHCP range derived from it.
  The properties at the end say which addresses these are, as numbers.
\<close>

unbundle bit_operations_syntax

section \<open>MAC addresses\<close>

text \<open>\<open>rand.Read\<close> fills three bytes or fails; what it does is the argument.\<close>

definition randomMACAddress :: "goerror + byte \<times> byte \<times> byte \<Rightarrow> goerror + string" where
  "randomMACAddress rnd = (case rnd of
      Inl err \<Rightarrow> Inl err
    | Inr (r0, r1, r2) \<Rightarrow>
        (let b0 = (r0 OR 2) AND 0xfe;
             b0 = b0 OR 2;
             b0 = (if b0 = 0xfe then 0xee else b0)
         in Inr (''52:54:00:'' @ hexByte b0 @ '':'' @ hexByte r1 @ '':'' @ hexByte r2)))"

section \<open>The range of a subnet\<close>

definition getNetMaskWithMax16Bits :: "ipmask \<Rightarrow> ipmask" where
  "getNetMaskWithMax16Bits m =
     (let (ones, bits) = mask_Size m
      in if bits - ones > 16 then
           if bits = 128 then CIDRMask (128 - 16) 128 else CIDRMask (32 - 16) 32
         else m)"

text \<open>\<open>None\<close>: the index into the mask is out of range.\<close>

definition getLastIP :: "ipnet \<Rightarrow> ip \<Rightarrow> ip option" where
  "getLastIP network netIP =
     (let intMask = getNetMaskWithMax16Bits (Mask network)
      in if length intMask < length netIP then None
         else Some (map2 (\<lambda>netIPByte msk. netIPByte OR NOT msk) netIP intMask))"

text \<open>A \<open>nil\<close> address is the empty one.\<close>

definition networkRange :: "ipnet \<Rightarrow> (ip \<times> ip) option" where
  "networkRange network =
     (let netIP = (case To4 (IP network) of Some ip4 \<Rightarrow> ip4
                   | None \<Rightarrow> (case To16 (IP network) of Some ip16 \<Rightarrow> ip16 | None \<Rightarrow> []))
      in case getLastIP network netIP of
           None \<Rightarrow> None
         | Some lastIP \<Rightarrow> Some ((case ip_Mask netIP (Mask network) of Some ip \<Rightarrow> ip | None \<Rightarrow> []), lastIP))"

section \<open>Host address and DHCP range\<close>

record NetworkDHCPRange =
  Start :: string
  End :: string

record NetworkDHCPHost =
  MAC :: string
  HostIP :: string
  HostName :: string

record NetworkDHCP =
  Ranges :: "NetworkDHCPRange list"
  DHCPHosts :: "NetworkDHCPHost list"

record NetworkIP =
  Address :: string
  Family :: string
  Prefix :: nat
  DHCP :: "NetworkDHCP option"

text \<open>\<open>ip[len(ip)-1]++\<close> and \<open>--\<close> on a byte; they panic on an empty address.\<close>

definition incLast :: "ip \<Rightarrow> ip option" where
  "incLast ip = (if ip = [] then None else Some (butlast ip @ [last ip + 1]))"

definition decLast :: "ip \<Rightarrow> ip option" where
  "decLast ip = (if ip = [] then None else Some (butlast ip @ [last ip - 1]))"

definition getNetworkIPConfig :: "string \<Rightarrow> (NetworkIP \<times> NetworkDHCP) outcome" where
  "getNetworkIPConfig address = (case ParseCIDR address of
      None \<Rightarrow> Err (Wrapf ''error parsing addresses definition '%s': %w'' [SArg address]
                  (SysError ''invalid CIDR address''))
    | Some (_, ipNet) \<Rightarrow>
        (let (ones, bits) = mask_Size (Mask ipNet);
             family = (if bits = 16 * 8 then ''ipv6'' else ''ipv4'');
             subnetBits = bits - ones
         in if subnetBits < 3 then
              Err (Errorf ''netmask seems to be too strict: only %d IPs available (%s)''
                     [IArg (2 ^ subnetBits - 3), SArg family])
            else (case networkRange ipNet of
                None \<Rightarrow> Panic ''index out of range''
              | Some (start, end) \<Rightarrow> (case incLast start of
                    None \<Rightarrow> Panic ''index out of range''
                  | Some start1 \<Rightarrow>
                      (let dni = \<lparr>Address = ipString start1, Family = family, Prefix = ones, DHCP = None\<rparr>
                       in case incLast start1 of
                            None \<Rightarrow> Panic ''index out of range''
                          | Some start2 \<Rightarrow> (case decLast end of
                                None \<Rightarrow> Panic ''index out of range''
                              | Some end1 \<Rightarrow>
                                  Ret (dni, \<lparr>Ranges = [\<lparr>Start = ipString start2, End = ipString end1\<rparr>],
                                             DHCPHosts = []\<rparr>)))))))"

section \<open>Lemmas\<close>

lemma simpleMaskLength_partial:
  "n < 8 \<Longrightarrow> simpleMaskLength (NOT (drop_bit n 0xff) # replicate l 0) = Some n"
proof -
  have "\<forall>n \<in> set [0..<8]. NOT (drop_bit n (0xff :: byte)) \<noteq> 0xff \<and>
      find (\<lambda>i. NOT (drop_bit n (0xff :: byte)) = NOT (drop_bit i 0xff)) [0..<8] = Some n"
    by code_simp
  then show "n < 8 \<Longrightarrow> simpleMaskLength (NOT (drop_bit n 0xff) # replicate l 0) = Some n"
    by (simp add: list_all_iff)
qed

lemma simpleMaskLength_maskBytes: "n \<le> 8 * l \<Longrightarrow> simpleMaskLength (maskBytes n l) = Some n"
proof (induction n l rule: maskBytes.induct)
  case (2 n l)
  show ?case
  proof (cases "n \<ge> 8")
    case True
    with 2 show ?thesis by simp
  next
    case False
    with simpleMaskLength_partial [of n l] show ?thesis by (simp add: maskBytes_0)
  qed
qed simp

lemma mask_Size_CIDRMask:
  "bits = 32 \<or> bits = 128 \<Longrightarrow> n \<le> bits \<Longrightarrow> mask_Size (CIDRMask n bits) = (n, bits)"
  by (auto simp: mask_Size_def CIDRMask_def simpleMaskLength_maskBytes)

lemma length_CIDRMask: "bits = 32 \<or> bits = 128 \<Longrightarrow> n \<le> bits \<Longrightarrow> length (CIDRMask n bits) = bits div 8"
  by (auto simp: CIDRMask_def)

text \<open>What \<open>ParseCIDR\<close> yields: a proper mask, and the network address under it.\<close>

lemma parseIPv4_shape:
  assumes "parseIPv4 s = Some x"
  obtains a b c d where "x = v4InV6Prefix @ [a, b, c, d]"
  using assms by (auto simp: parseIPv4_def split: list.splits option.splits)

lemma v6loop_length:
  "v6loop g acc e s = Some (acc', e', s') \<Longrightarrow> length acc + 2 * g \<le> 16 \<Longrightarrow> length acc' \<le> 16"
proof (induction g acc e s rule: v6loop.induct)
  case (2 g acc e s)
  then show ?case
    by (auto simp: Let_def v4InV6Prefix_def elim!: parseIPv4_shape split: if_splits option.splits)
qed simp

lemma parseIPv6_length: "parseIPv6 s = Some x \<Longrightarrow> length x = 16"
proof -
  have fin: "length x = 16" if "v6loop 8 [] e t = Some r" "v6finish r = Some x" for e t r
  proof -
    obtain acc e' t' where r: "r = (acc, e', t')" by (cases r)
    with that v6loop_length [of 8 "[]" e t acc e' t'] have "length acc \<le> 16" by simp
    with that r show ?thesis by (auto simp: v6finish_def split: if_splits option.splits)
  qed
  assume "parseIPv6 s = Some x"
  then show ?thesis
    by (auto simp: parseIPv6_def bind_eq_Some_conv split: if_splits intro: fin)
qed

lemma ParseCIDR_shape:
  assumes "ParseCIDR s = Some (ip, net)"
  obtains l n x where "l = 4 \<or> l = 16" "n \<le> 8 * l" "Mask net = maskBytes n l" "length x = l"
    "IP net = map2 (AND) x (maskBytes n l)"
proof -
  from assms obtain addrS bitsS where sp: "strSplitN2 CHR ''/'' s = [addrS, bitsS]"
    by (auto simp: ParseCIDR_def split: list.splits)
  show ?thesis
  proof (cases "parseIPv4 addrS")
    case None
    with assms sp obtain y where y: "parseIPv6 addrS = Some y" and n: "decValue bitsS \<le> 128"
      by (auto simp: ParseCIDR_def split: option.splits if_splits)
    then have len: "length y = 16" by (simp add: parseIPv6_length)
    with assms sp None y n show ?thesis
      by (intro that [of 16 "decValue bitsS" y])
        (auto simp: ParseCIDR_def ip_Mask_def CIDRMask_def Let_def split: if_splits option.splits)
  next
    case (Some y)
    then obtain a b c d where y: "y = v4InV6Prefix @ [a, b, c, d]" by (rule parseIPv4_shape)
    from assms sp Some have n: "decValue bitsS \<le> 32"
      by (auto simp: ParseCIDR_def split: option.splits if_splits)
    with assms sp Some y show ?thesis
      by (intro that [of 4 "decValue bitsS" "[a, b, c, d]"])
        (auto simp: ParseCIDR_def ip_Mask_def CIDRMask_def Let_def v4InV6Prefix_def
          split: if_splits option.splits)
  qed
qed

lemma mask_Size_maskBytes: "n \<le> 8 * l \<Longrightarrow> mask_Size (maskBytes n l) = (n, 8 * l)"
  by (simp add: mask_Size_def simpleMaskLength_maskBytes mult.commute)

lemma getNetMask_maskBytes:
  assumes "l = 4 \<or> l = 16" "n \<le> 8 * l"
  shows "getNetMaskWithMax16Bits (maskBytes n l) = maskBytes (max n (8 * l - 16)) l"
  using assms
  by (cases "n < 8 * l - 16")
    (auto simp: getNetMaskWithMax16Bits_def mask_Size_maskBytes CIDRMask_def max.absorb1 max.absorb2)

text \<open>Incrementing and decrementing the last byte, away from the carry.\<close>

lemma ipNum_last: "ip \<noteq> [] \<Longrightarrow> ipNum ip = 256 * ipNum (butlast ip) + unat (last ip)"
  using ipNum_snoc [of "butlast ip" "last ip"] by simp

lemma ipNum_last_mod: "ip \<noteq> [] \<Longrightarrow> ipNum ip mod 256 = unat (last ip)"
  using unat_byte [of "last ip"] by (simp add: ipNum_last)

lemma incLast_num:
  assumes "ip \<noteq> []" "ipNum ip mod 256 < 255"
  obtains ip' where "incLast ip = Some ip'" "ipNum ip' = ipNum ip + 1" "length ip' = length ip" "ip' \<noteq> []"
proof -
  have "unat (last ip + 1) = unat (last ip) + 1"
    using assms by (simp add: ipNum_last_mod unat_plus_if' )
  with assms that show ?thesis
    by (auto simp: incLast_def ipNum_snoc ipNum_last)
qed

lemma decLast_num:
  assumes "ip \<noteq> []" "0 < ipNum ip mod 256"
  obtains ip' where "decLast ip = Some ip'" "ipNum ip' = ipNum ip - 1" "length ip' = length ip" "ip' \<noteq> []"
proof -
  have pos: "0 < unat (last ip)" using assms by (simp add: ipNum_last_mod)
  then have "unat (last ip - 1) = unat (last ip) - 1"
    by (simp add: unat_minus_one word_neq_0_conv unat_gt_0)
  with assms pos that show ?thesis
    by (auto simp: decLast_def ipNum_snoc ipNum_last)
qed

text \<open>A mask byte is full exactly when the ones reach past it.\<close>

lemma nth_maskBytes: "i < l \<Longrightarrow> maskBytes n l ! i = 0xff \<longleftrightarrow> 8 * Suc i \<le> n"
proof (induction n l arbitrary: i rule: maskBytes.induct)
  case (2 n l)
  have "\<forall>n \<in> set [0..<8]. NOT (drop_bit n (0xff :: byte)) \<noteq> 0xff" by code_simp
  with 2 show ?case by (cases i) (auto simp: maskBytes_0)
qed simp

lemma maskBytes_prefix: "8 * k \<le> n \<Longrightarrow> k \<le> l \<Longrightarrow> take k (maskBytes n l) = replicate k 0xff"
  by (rule nth_equalityI) (auto simp: nth_maskBytes)

lemma and_eq_ff: "x AND m = (0xff :: byte) \<Longrightarrow> m = 0xff"
proof (rule bit_word_eqI)
  fix i assume "x AND m = 0xff" "i < LENGTH(8)"
  then have "bit (x AND m) i" by (simp add: byte_ff)
  then show "bit m i \<longleftrightarrow> bit (0xff :: byte) i" using \<open>i < LENGTH(8)\<close> by (simp add: byte_ff bit_simps)
qed

lemma mapped_net:
  assumes "n \<le> 128" "length x = 16" "take 12 (map2 (AND) x (maskBytes n 16)) = v4InV6Prefix"
  shows "96 \<le> n"
proof -
  have "take 12 (map2 (AND) x (maskBytes n 16)) ! 11 = x ! 11 AND maskBytes n 16 ! 11"
    using assms(2) by (simp only: nth_take) simp
  also have "take 12 (map2 (AND) x (maskBytes n 16)) ! 11 = 0xff"
    unfolding assms(3) by (simp add: v4InV6Prefix_def nth_append)
  finally have "maskBytes n 16 ! 11 = 0xff" using and_eq_ff by metis
  then show ?thesis by (simp add: nth_maskBytes)
qed

text \<open>The range of a network whose address is not an IPv4 address in IPv6 clothing.\<close>

lemma networkRange_plain:
  assumes l: "l = 4 \<or> l = 16" and n: "n \<le> 8 * l" and x: "length x = l"
    and net: "Mask net = maskBytes n l" "IP net = map2 (AND) x (maskBytes n l)"
    and plain: "l = 4 \<or> To4 (IP net) = None"
  obtains first last where "networkRange net = Some (first, last)"
    "length first = l" "length last = l" "ipNum first = ipNum (IP net)"
    "ipNum last = ipNum (IP net) + (2 ^ min (8 * l - n) 16 - 1)"
    "ipNum (IP net) mod 2 ^ (8 * l - n) = 0"
proof -
  let ?h = "8 * l - n" and ?m = "max n (8 * l - 16)"
  have len: "length (IP net) = l" using net x by simp
  have N: "ipNum (IP net) = ipNum x div 2 ^ ?h * 2 ^ ?h"
    unfolding net by (rule ipNum_and_mask [OF x n])
  then have mod0: "ipNum (IP net) mod 2 ^ ?h = 0" by simp
  have "8 * l - ?m = min ?h 16" using n l by auto
  moreover have "?m \<le> 8 * l" using n l by auto
  ultimately have last: "ipNum (map2 (\<lambda>b m. b OR NOT m) (IP net) (maskBytes ?m l))
      = ipNum (IP net) div 2 ^ min ?h 16 * 2 ^ min ?h 16 + (2 ^ min ?h 16 - 1)"
    using ipNum_or_mask [OF len, of ?m] by simp
  have "(2::nat) ^ min ?h 16 dvd 2 ^ ?h" by (simp add: le_imp_power_dvd)
  then have "2 ^ min ?h 16 dvd ipNum (IP net)" using N by (metis dvd_mult)
  then have div: "ipNum (IP net) div 2 ^ min ?h 16 * 2 ^ min ?h 16 = ipNum (IP net)" by simp
  have first: "ipNum (map2 (AND) (IP net) (maskBytes n l)) = ipNum (IP net)"
    using ipNum_and_mask [OF len n] mod0 by (metis mod_0_imp_dvd dvd_div_mult_self)
  have netIP: "(case To4 (IP net) of Some ip4 \<Rightarrow> ip4
      | None \<Rightarrow> (case To16 (IP net) of Some ip16 \<Rightarrow> ip16 | None \<Rightarrow> [])) = IP net"
    using l plain len by (auto simp: To4_def To16_def)
  have msk: "ip_Mask (IP net) (maskBytes n l) = Some (map2 (AND) (IP net) (maskBytes n l))"
    using l len by (auto simp: ip_Mask_def)
  have "networkRange net = Some (map2 (AND) (IP net) (maskBytes n l),
      map2 (\<lambda>b m. b OR NOT m) (IP net) (maskBytes ?m l))"
    using len netIP msk getNetMask_maskBytes [OF l n]
    by (simp add: networkRange_def getLastIP_def net(1) Let_def)
  then show ?thesis
    by (rule that) (use len first last div mod0 in simp_all)
qed

lemma mod_2_power:
  fixes N :: nat
  assumes "N mod 2 ^ h = 0" "3 \<le> h"
  shows "N mod 8 = 0"
proof -
  have "(2::nat) ^ 3 dvd 2 ^ h" using assms(2) by (rule le_imp_power_dvd)
  with assms(1) have "2 ^ 3 dvd N" by (meson dvd_trans mod_0_imp_dvd)
  then show ?thesis by simp
qed

lemma mod8_mod256: "(n :: nat) mod 256 mod 8 = n mod 8"
  by (rule mod_mod_cancel) simp

lemma mod8_room: "(n :: nat) mod 8 = 0 \<Longrightarrow> n mod 256 < 255"
  using mod8_mod256 [of n] mod_less_divisor [of 256 n] by (cases "n mod 256 = 255") auto

lemma mod8_room1: "(n :: nat) mod 8 = 0 \<Longrightarrow> Suc n mod 256 < 255"
  using mod8_mod256 [of "Suc n"] mod_less_divisor [of 256 "Suc n"]
  by (cases "Suc n mod 256 = 255") (auto simp: mod_Suc)

lemma mod8_pos: "((n :: nat) + 1) mod 8 = 0 \<Longrightarrow> 0 < n mod 256"
  using mod8_mod256 [of n] by (cases "n mod 256 = 0") (auto simp: mod_Suc)

lemma getNetworkIPConfig_numbers:
  assumes parse: "ParseCIDR address = Some (ip, net)" and size: "mask_Size (Mask net) = (ones, bits)"
    and h: "3 \<le> bits - ones" and plain: "length (IP net) = 16 \<longrightarrow> To4 (IP net) = None"
  shows "\<exists>host first last dni dhcp. getNetworkIPConfig address = Ret (dni, dhcp)
    \<and> Address dni = ipString host \<and> Prefix dni = ones
    \<and> Family dni = (if length (IP net) = 4 then ''ipv4'' else ''ipv6'')
    \<and> Ranges dhcp = [\<lparr>Start = ipString first, End = ipString last\<rparr>]
    \<and> length host = length (IP net) \<and> length first = length (IP net) \<and> length last = length (IP net)
    \<and> ipNum host = ipNum (IP net) + 1 \<and> ipNum first = ipNum (IP net) + 2
    \<and> ipNum last = ipNum (IP net) + 2 ^ min (bits - ones) 16 - 2"
proof -
  from parse obtain l n x where l: "l = 4 \<or> l = 16" and n: "n \<le> 8 * l"
    and net: "Mask net = maskBytes n l" "IP net = map2 (AND) x (maskBytes n l)" and x: "length x = l"
    by (rule ParseCIDR_shape)
  with size have sz: "ones = n" "bits = 8 * l" by (simp_all add: mask_Size_maskBytes)
  have len: "length (IP net) = l" using net x by simp
  let ?h = "bits - ones"
  obtain a z where range: "networkRange net = Some (a, z)" "length a = l" "length z = l"
    and a: "ipNum a = ipNum (IP net)" and z: "ipNum z = ipNum (IP net) + (2 ^ min ?h 16 - 1)"
    and N: "ipNum (IP net) mod 2 ^ ?h = 0"
    using networkRange_plain [OF l n x net] plain l len sz by auto
  have N8: "ipNum (IP net) mod 8 = 0" by (rule mod_2_power [OF N h])
  have "(8::nat) dvd 2 ^ min ?h 16" using h le_imp_power_dvd [of 3 "min ?h 16" "2::nat"] by simp
  then obtain q where q: "(2::nat) ^ min ?h 16 = 8 * q" by blast
  then have "0 < q" by (cases q) auto
  have ne: "a \<noteq> []" "z \<noteq> []" using range l by auto
  have a8: "ipNum a mod 8 = 0" using a N8 by simp
  then have a256: "ipNum a mod 256 < 255" by (rule mod8_room)
  then obtain a1 where a1: "incLast a = Some a1" "ipNum a1 = ipNum a + 1" "length a1 = length a" "a1 \<noteq> []"
    by (elim incLast_num [OF ne(1)]) auto
  have "ipNum a1 mod 256 < 255" using a1 a8 by (simp add: mod8_room1)
  then obtain a2 where a2: "incLast a1 = Some a2" "ipNum a2 = ipNum a1 + 1" "length a2 = length a1"
    by (elim incLast_num [OF a1(4)]) auto
  have "ipNum z + 1 = ipNum (IP net) + 8 * q" using z q \<open>0 < q\<close> by simp
  then have "(ipNum z + 1) mod 8 = 0" using N8 by simp
  then have "0 < ipNum z mod 256" by (rule mod8_pos)
  then obtain z1 where z1: "decLast z = Some z1" "ipNum z1 = ipNum z - 1" "length z1 = length z"
    by (elim decLast_num [OF ne(2)]) auto
  have big: "(2::nat) \<le> 2 ^ min ?h 16" using q \<open>0 < q\<close> by simp
  then have zn: "ipNum z1 = ipNum (IP net) + 2 ^ min ?h 16 - 2"
    using z1(2) z by linarith
  define dni where "dni = \<lparr>Address = ipString a1, Family = (if bits = 128 then ''ipv6'' else ''ipv4''),
      Prefix = ones, DHCP = None\<rparr>"
  define dhcp where "dhcp = \<lparr>Ranges = [\<lparr>Start = ipString a2, End = ipString z1\<rparr>], DHCPHosts = []\<rparr>"
  have "getNetworkIPConfig address = Ret (dni, dhcp)"
    using parse size h range a1 a2 z1 by (simp add: getNetworkIPConfig_def dni_def dhcp_def Let_def)
  then show ?thesis
    by (intro exI [of _ a1] exI [of _ a2] exI [of _ z1] exI [of _ dni] exI [of _ dhcp])
      (use a a1 a2 z1 zn range len l sz in \<open>auto simp: dni_def dhcp_def\<close>)
qed

section \<open>Properties\<close>

text \<open>C4: For a CIDR whose network is a plain IPv4 or IPv6 address \<open>N\<close> with at least three host
  bits \<open>h\<close>, the host gets address \<open>N + 1\<close> and DHCP serves exactly \<open>N + 2\<close> up to
  \<open>N + 2^min h 16 - 2\<close>: the network address, the host address and the last (broadcast) address
  are left out, no byte wraps, and at most 65536 addresses are considered.\<close>

theorem getNetworkIPConfig_range:
  assumes parse: "ParseCIDR address = Some (ip, net)" and size: "mask_Size (Mask net) = (ones, bits)"
    and h: "3 \<le> bits - ones" and plain: "length (IP net) = 16 \<longrightarrow> To4 (IP net) = None"
  shows "\<exists>host first last dni dhcp. getNetworkIPConfig address = Ret (dni, dhcp)
    \<and> Address dni = ipString host \<and> Prefix dni = ones
    \<and> Family dni = (if length (IP net) = 4 then ''ipv4'' else ''ipv6'')
    \<and> Ranges dhcp = [\<lparr>Start = ipString first, End = ipString last\<rparr>]
    \<and> length host = length (IP net) \<and> length first = length (IP net) \<and> length last = length (IP net)
    \<and> ipNum host = ipNum (IP net) + 1 \<and> ipNum first = ipNum (IP net) + 2
    \<and> ipNum last = ipNum (IP net) + 2 ^ min (bits - ones) 16 - 2"
  using assms by (rule getNetworkIPConfig_numbers)

definition demo_net :: ipnet where
  "demo_net = \<lparr>IP = [10, 17, 3, 0], Mask = [0xff, 0xff, 0xff, 0]\<rparr>"

lemma demo_parse: "ParseCIDR ''10.17.3.5/24'' = Some (v4InV6Prefix @ [10, 17, 3, 5], demo_net)"
  by code_simp

theorem getNetworkIPConfig_range_witness:
  "\<exists>host first last dni dhcp. getNetworkIPConfig ''10.17.3.5/24'' = Ret (dni, dhcp)
    \<and> Address dni = ipString host
    \<and> Ranges dhcp = [\<lparr>Start = ipString first, End = ipString last\<rparr>]
    \<and> ipNum host = ipNum [10, 17, 3, 1] \<and> ipNum first = ipNum [10, 17, 3, 2]
    \<and> ipNum last = ipNum [10, 17, 3, 254]"
proof -
  have size: "mask_Size (Mask demo_net) = (24, 32)" by code_simp
  have num: "ipNum (IP demo_net) + 1 = ipNum [10, 17, 3, 1]" "ipNum (IP demo_net) + 2 = ipNum [10, 17, 3, 2]"
    "ipNum (IP demo_net) + 2 ^ min (32 - 24) 16 - 2 = ipNum [10, 17, 3, 254]"
    by (code_simp)+
  have len: "length (IP demo_net) = 4" by (simp add: demo_net_def)
  have h: "3 \<le> 32 - (24 :: nat)" and plain: "length (IP demo_net) = 16 \<longrightarrow> To4 (IP demo_net) = None"
    by (simp_all add: len)
  show ?thesis
    using getNetworkIPConfig_range [OF demo_parse size h plain] unfolding num by blast
qed

text \<open>A subnet with fewer than three host bits is refused with the number of addresses left
  after the network, the host and the broadcast address, and its family.\<close>

lemma getNetworkIPConfig_too_strict:
  assumes "ParseCIDR address = Some (ip, net)" "mask_Size (Mask net) = (ones, bits)" "bits - ones < 3"
  shows "getNetworkIPConfig address =
    Err (Errorf ''netmask seems to be too strict: only %d IPs available (%s)''
      [IArg (2 ^ (bits - ones) - 3), SArg (if bits = 128 then ''ipv6'' else ''ipv4'')])"
  using assms by (simp add: getNetworkIPConfig_def)

lemma getNetworkIPConfig_too_strict_witness:
  "getNetworkIPConfig ''10.17.3.5/30'' =
    Err (Errorf ''netmask seems to be too strict: only %d IPs available (%s)'' [IArg 1, SArg ''ipv4''])"
proof -
  have "ParseCIDR ''10.17.3.5/30'' = Some (v4InV6Prefix @ [10, 17, 3, 5],
      \<lparr>IP = [10, 17, 3, 4], Mask = [0xff, 0xff, 0xff, 0xfc]\<rparr>)"
    "mask_Size [0xff, 0xff, 0xff, 0xfc] = (30, 32)"
    by code_simp+
  then show ?thesis using getNetworkIPConfig_too_strict [of "''10.17.3.5/30''"] by simp
qed

text \<open>
  The network of an IPv4-mapped CIDR: both ends of the range are the address of the network, since
  the bytes of the host part are beyond the first four of the 16-byte mask.
\<close>

lemma map2_and_idem: "length xs = length (ms :: byte list) \<Longrightarrow> map2 (AND) (map2 (AND) xs ms) ms = map2 (AND) xs ms"
  by (induction xs ms rule: list_induct2) (simp_all add: and.assoc)

lemma networkRange_mapped:
  assumes n: "n \<le> 128" and net: "Mask net = maskBytes n 16" "IP net = map2 (AND) x (maskBytes n 16)" and x: "length x = 16"
    and mapped: "To4 (IP net) \<noteq> None"
  shows "take 12 (IP net) = v4InV6Prefix" "networkRange net = Some (drop 12 (IP net), drop 12 (IP net))"
proof -
  from mapped net x show pre: "take 12 (IP net) = v4InV6Prefix" by (auto simp: To4_def split: if_splits)
  have len: "length (IP net) = 16" using net x by simp
  have "96 \<le> n" by (rule mapped_net [of n x]) (use n x pre net in simp_all)
  then have msk: "take 12 (maskBytes n 16) = replicate 12 0xff"
    using maskBytes_prefix [of 12 n 16] by simp
  have t4: "To4 (IP net) = Some (drop 12 (IP net))"
    using pre len by (simp add: To4_def)
  have "map2 (AND) (drop 12 (IP net)) (drop 12 (maskBytes n 16)) = drop 12 (IP net)"
    using map2_and_idem [of x "maskBytes n 16"] x net by (simp flip: drop_zip drop_map)
  then have first: "ip_Mask (drop 12 (IP net)) (maskBytes n 16) = Some (drop 12 (IP net))"
    using msk len by (simp add: ip_Mask_def Let_def)
  have "take 4 (maskBytes (max n 112) 16) = replicate 4 0xff"
    using maskBytes_prefix [of 4 "max n 112" 16] by simp
  then obtain m where m: "maskBytes (max n 112) 16 = replicate 4 0xff @ m"
    by (metis append_take_drop_id)
  have "(- 256 :: byte) = 0" by simp
  then have keep: "b OR - 256 = b" for b :: byte by (metis or.right_neutral)
  have "map2 (\<lambda>b m. b OR NOT m) (drop 12 (IP net)) (maskBytes (max n 112) 16) = drop 12 (IP net)"
    by (rule nth_equalityI) (use len in \<open>simp_all add: m nth_append keep\<close>)
  then have last: "getLastIP net (drop 12 (IP net)) = Some (drop 12 (IP net))"
    using getNetMask_maskBytes [of 16 n] n len net by (simp add: getLastIP_def)
  show "networkRange net = Some (drop 12 (IP net), drop 12 (IP net))"
    using t4 first last net by (simp add: networkRange_def Let_def)
qed

text \<open>C30: Whatever the text of the address, \<open>getNetworkIPConfig\<close> returns a configuration or an
  error: none of its index expressions is out of range.\<close>

theorem getNetworkIPConfig_no_panic:
  "(\<exists>r. getNetworkIPConfig address = Ret r) \<or> (\<exists>e. getNetworkIPConfig address = Err e)"
proof (cases "ParseCIDR address")
  case None
  then show ?thesis by (simp add: getNetworkIPConfig_def)
next
  case (Some p)
  obtain ip net where p: "p = (ip, net)" by (cases p)
  with Some have parse: "ParseCIDR address = Some (ip, net)" by simp
  then obtain l n x where l: "l = 4 \<or> l = 16" and n: "n \<le> 8 * l"
    and net: "Mask net = maskBytes n l" "IP net = map2 (AND) x (maskBytes n l)" and x: "length x = l"
    by (rule ParseCIDR_shape)
  obtain a z where range: "networkRange net = Some (a, z)" and ne: "a \<noteq> []" "z \<noteq> []"
  proof (cases "l = 4 \<or> To4 (IP net) = None")
    case True
    from networkRange_plain [OF l n x net True] show ?thesis
      using that l by (metis length_0_conv zero_neq_numeral)
  next
    case False
    with l have l16: "l = 16" by simp
    from networkRange_mapped(2) [of n net x] that False n net x show ?thesis by (simp add: l16)
  qed
  then show ?thesis using parse
    by (cases "mask_Size (Mask net)") (simp add: getNetworkIPConfig_def incLast_def decLast_def Let_def)
qed

text \<open>C32: Every IPv4 network that is written as an IPv4-mapped IPv6 CIDR gets a range that ends one
  address before the network itself (with the last byte wrapping from 0 to 255) instead of one
  before its broadcast address, and the family \<open>ipv6\<close> beside IPv4 addresses: the last address is
  computed with the first bytes of the 16-byte mask.\<close>

theorem getNetworkIPConfig_mapped_wraps:
  assumes parse: "ParseCIDR address = Some (ip, net)" and mapped: "IP net = v4InV6Prefix @ [a, b, c, d]"
    and size: "mask_Size (Mask net) = (ones, bits)" "3 \<le> bits - ones"
  shows "getNetworkIPConfig address =
     Ret (\<lparr>Address = ipString [a, b, c, d + 1], Family = ''ipv6'', Prefix = ones, DHCP = None\<rparr>,
          \<lparr>Ranges = [\<lparr>Start = ipString [a, b, c, d + 2], End = ipString [a, b, c, d - 1]\<rparr>], DHCPHosts = []\<rparr>)"
proof -
  from parse obtain l n x where l: "l = 4 \<or> l = 16" and n: "n \<le> 8 * l"
    and net: "Mask net = maskBytes n l" "IP net = map2 (AND) x (maskBytes n l)" and x: "length x = l"
    by (rule ParseCIDR_shape)
  have len: "length v4InV6Prefix = 12" by (simp add: v4InV6Prefix_def)
  then have "length (IP net) = 16" by (simp add: mapped)
  with net x have l16: "l = 16" by simp
  have "To4 (IP net) = Some [a, b, c, d]" by (simp add: mapped To4_def len)
  then have "networkRange net = Some (drop 12 (IP net), drop 12 (IP net))"
    by (intro networkRange_mapped(2) [of n net x]) (use n net x l16 in simp_all)
  then have range: "networkRange net = Some ([a, b, c, d], [a, b, c, d])" by (simp add: mapped len)
  have "bits = 128" using size(1) net n l16 by (simp add: mask_Size_maskBytes)
  then show ?thesis
    using parse size range by (simp add: getNetworkIPConfig_def incLast_def decLast_def Let_def add.assoc)
qed

theorem getNetworkIPConfig_mapped_wraps_witness:
  "getNetworkIPConfig ''::ffff:10.0.0.0/120'' =
     Ret (\<lparr>Address = ''10.0.0.1'', Family = ''ipv6'', Prefix = 120, DHCP = None\<rparr>,
          \<lparr>Ranges = [\<lparr>Start = ''10.0.0.2'', End = ''10.0.0.255''\<rparr>], DHCPHosts = []\<rparr>)"
proof -
  let ?net = "\<lparr>IP = v4InV6Prefix @ [10, 0, 0, 0], Mask = maskBytes 120 16\<rparr>"
  have "ParseCIDR ''::ffff:10.0.0.0/120'' = Some (v4InV6Prefix @ [10, 0, 0, 0], ?net)"
    "mask_Size (maskBytes 120 16) = (120, 128)"
    "ipString [10, 0, 0, 0 + 1] = ''10.0.0.1''" "ipString [10, 0, 0, 0 + 2] = ''10.0.0.2''"
    "ipString [10, 0, 0, 0 - 1] = ''10.0.0.255''"
    by code_simp+
  from getNetworkIPConfig_mapped_wraps [OF this(1), of 10 0 0 0 120 128] this(2-) show ?thesis by simp
qed

text \<open>A random MAC address has libvirt's prefix and a first random byte that is unicast,
  locally administered and not the reserved \<open>fe\<close>, whatever bytes the generator gives.\<close>

lemma randomMACAddress_shape:
  "\<exists>b0 b1 b2. randomMACAddress (Inr rnd)
      = Inr (''52:54:00:'' @ hexByte b0 @ '':'' @ hexByte b1 @ '':'' @ hexByte b2)
    \<and> \<not> bit b0 0 \<and> bit b0 1 \<and> b0 \<noteq> 0xfe \<and> (b1, b2) = snd rnd"
proof -
  obtain r0 r1 r2 where rnd: "rnd = (r0, r1, r2)" by (cases rnd)
  define c where "c = ((r0 OR 2) AND 0xfe) OR 2"
  have c: "\<not> bit c 0" "bit c 1"
    by (simp_all add: c_def bit_simps numeral_2_eq_2 bit_numeral_rec)
  show ?thesis
  proof (cases "c = 0xfe")
    case True
    then show ?thesis
      by (intro exI [of _ "0xee"] exI [of _ r1] exI [of _ r2]) (simp add: randomMACAddress_def rnd c_def Let_def)
  next
    case False
    with c show ?thesis
      by (intro exI [of _ c] exI [of _ r1] exI [of _ r2]) (simp add: randomMACAddress_def rnd c_def Let_def)
  qed
qed

end
