(* ===== verification/Utils.thy ===== *)
theory Utils
  imports Go_Monad
begin

text \<open>
  The small pure helpers: \<open>diskLetterForIndex\<close> and \<open>formatBoolYesNo\<close> of \<open>utils.go\<close>,
  \<open>utils_libvirt.go\<close>, \<open>util/strconv.go\<close>, \<open>helper/suppress/strings.go\<close>,
  \<open>helper/hashcode/checksum.go\<close>, and the retry loop \<open>waitForSuccess\<close> with its clock.
\<close>

section \<open>Disk letters\<close>

definition diskLetters :: string where
  "diskLetters = ''abcdefghijklmnopqrstuvwxyz''"

text \<open>
  The index is a loop counter of the callers, hence a natural number.  The code divides by
  \<open>len(diskLetters)\<close>, 26, and appends the letter of the remainder.
\<close>

function diskLetterForIndex :: "nat \<Rightarrow> string" where
  "diskLetterForIndex i =
     (let q = i div length diskLetters; r = i mod length diskLetters; letter = diskLetters ! r
      in if q = 0 then [letter] else diskLetterForIndex (q - 1) @ [letter])"
  by pat_completeness auto
termination
  by (relation "measure id") (auto simp: diskLetters_def)

declare diskLetterForIndex.simps [simp del]

lemma length_diskLetters [simp]: "length diskLetters = 26"
  by (simp add: diskLetters_def)

lemma diskLetterForIndex_small: "i < 26 \<Longrightarrow> diskLetterForIndex i = [diskLetters ! i]"
  by (simp add: diskLetterForIndex.simps [of i])

lemma diskLetterForIndex_large:
  "26 \<le> i \<Longrightarrow> diskLetterForIndex i = diskLetterForIndex (i div 26 - 1) @ [diskLetters ! (i mod 26)]"
  by (subst diskLetterForIndex.simps) (auto simp: Let_def)

text \<open>Reading a device suffix back as an index: base 26 with the digits 1 to 26.\<close>

definition letterValue :: "char \<Rightarrow> nat" where
  "letterValue c = char_nat c - 96"

definition indexOfDiskLetter :: "string \<Rightarrow> nat" where
  "indexOfDiskLetter s = foldl (\<lambda>acc c. 26 * acc + letterValue c) 0 s - 1"

lemma diskLetters_nth:
  assumes "r < 26" shows "diskLetters ! r = char_of (97 + r)"
proof -
  have "\<forall>r \<in> set [0..<26]. diskLetters ! r = char_of (97 + r)" by code_simp
  with assms show ?thesis by simp
qed

lemma letterValue_nth: "r < 26 \<Longrightarrow> letterValue (diskLetters ! r) = r + 1"
  by (simp add: diskLetters_nth letterValue_def char_nat_def)

lemma diskLetter_value:
  "foldl (\<lambda>acc c. 26 * acc + letterValue c) 0 (diskLetterForIndex i) = i + 1"
proof (induction i rule: less_induct)
  case (less i)
  show ?case
  proof (cases "i < 26")
    case True
    then show ?thesis by (simp add: diskLetterForIndex_small letterValue_nth)
  next
    case False
    then have ih: "foldl (\<lambda>acc c. 26 * acc + letterValue c) 0 (diskLetterForIndex (i div 26 - Suc 0)) = i div 26"
      using less [of "i div 26 - 1"] by simp
    from False show ?thesis
      by (simp add: diskLetterForIndex_large ih letterValue_nth)
  qed
qed

interpretation disk_letters: printer diskLetterForIndex "\<lambda>s. Some (indexOfDiskLetter s)" "\<lambda>_. True"
  by unfold_locales (simp add: indexOfDiskLetter_def diskLetter_value)

lemmas diskLetterForIndex_inj = disk_letters.write_inj [OF TrueI TrueI]

lemma diskLetterForIndex_set: "set (diskLetterForIndex i) \<subseteq> set diskLetters"
proof (induction i rule: less_induct)
  case (less i)
  show ?case
  proof (cases "i < 26")
    case True
    then show ?thesis
      using nth_mem [of i diskLetters] by (simp add: diskLetterForIndex_small)
  next
    case False
    then have "i div 26 - 1 < i" by linarith
    then have "set (diskLetterForIndex (i div 26 - 1)) \<subseteq> set diskLetters" by (rule less)
    with False show ?thesis
      using nth_mem [of "i mod 26" diskLetters] by (simp add: diskLetterForIndex_large)
  qed
qed

text \<open>C31: A disk letter identifies its disk: reading the letters back as a number gives the index,
  for every index (so \<open>z\<close> is followed by \<open>aa\<close>, and no two disks share a suffix).\<close>

theorem diskLetterForIndex_roundtrip: "indexOfDiskLetter (diskLetterForIndex i) = i"
  by (simp add: indexOfDiskLetter_def diskLetter_value)

section \<open>Booleans as text and as integers\<close>

definition formatBoolYesNo :: "bool \<Rightarrow> string" where
  "formatBoolYesNo b = (if b then ''yes'' else ''no'')"

definition util_FormatBoolYesNo :: "bool \<Rightarrow> string" where
  "util_FormatBoolYesNo b = (if b then ''yes'' else ''no'')"

definition int2bool :: "int \<Rightarrow> bool" where
  "int2bool b = (b = 1)"

definition bool2int :: "bool \<Rightarrow> 32 word" where
  "bool2int b = (if b then 1 else 0)"

lemma int2bool_bool2int [simp]: "int2bool (sint (bool2int b)) = b"
  by (simp add: int2bool_def bool2int_def)

section \<open>Attribute comparison and hash codes\<close>

text \<open>\<open>suppress.CaseDifference\<close>: \<open>strings.EqualFold\<close> on the ASCII letters.\<close>

definition CaseDifference :: "string \<Rightarrow> string \<Rightarrow> bool" where
  "CaseDifference old new = (strToLower old = strToLower new)"

text \<open>\<open>crc32.ChecksumIEEE\<close>: the reflected polynomial, one bit at a time.\<close>

unbundle bit_operations_syntax

definition crc32_bit :: "uint32 \<Rightarrow> uint32" where
  "crc32_bit c = (if bit c 0 then (drop_bit 1 c) XOR 0xEDB88320 else drop_bit 1 c)"

definition crc32_byte :: "uint32 \<Rightarrow> char \<Rightarrow> uint32" where
  "crc32_byte c x = (crc32_bit ^^ 8) (c XOR of_nat (char_nat x))"

definition ChecksumIEEE :: "string \<Rightarrow> uint32" where
  "ChecksumIEEE s = NOT (foldl crc32_byte (NOT 0) s)"

text \<open>\<open>hashcode.String\<close>: \<open>int(uint32)\<close> on a 64-bit \<open>int\<close>, then the two sign tests.\<close>

definition hashcode_String :: "string \<Rightarrow> int" where
  "hashcode_String s =
     (let v = uint (ChecksumIEEE s)
      in if v \<ge> 0 then v else if - v \<ge> 0 then - v else 0)"

lemma hashcode_String_eq: "hashcode_String s = uint (ChecksumIEEE s)"
  by (simp add: hashcode_String_def)

lemma hashcode_String_range: "0 \<le> hashcode_String s \<and> hashcode_String s < 2 ^ 32"
  using uint_lt2p [of "ChecksumIEEE s"] by (simp add: hashcode_String_eq)

section \<open>Waiting for success\<close>

text \<open>
  \<open>waitForSuccess\<close> loops until the call succeeds or the clock has moved more than
  \<open>WaitTimeout\<close> past the start.  The clock is a field of the state: \<open>now\<close> reads it and
  \<open>sleep d\<close> moves it by at least \<open>d\<close>, as \<open>time.Sleep\<close> guarantees; how far it moves is the
  environment's choice, and so is the time a call of \<open>f\<close> takes.  The loop carries fuel;
  \<open>waitForSuccess_fuel\<close> is the number of rounds that the interval and the timeout allow.
\<close>

fun waitLoop ::
  "nat \<Rightarrow> ('s \<Rightarrow> nat) \<Rightarrow> (nat \<Rightarrow> 's \<Rightarrow> 's) \<Rightarrow> nat \<Rightarrow> nat \<Rightarrow> nat \<Rightarrow> string
   \<Rightarrow> ('s, unit) prog \<Rightarrow> ('s, unit) prog" where
  "waitLoop 0 now sleep interval timeout start errorMessage f = (\<lambda>s. (Blocked, s))"
| "waitLoop (Suc fuel) now sleep interval timeout start errorMessage f =
     bindP (attempt f) (\<lambda>r. case r of
       Inr _ \<Rightarrow> ret ()
     | Inl err \<Rightarrow>
         bindP (updS (sleep interval)) (\<lambda>_.
         bindP (getS now) (\<lambda>t.
         if t - start > timeout then throw (Wrapf ''%s: %w'' [SArg errorMessage] err)
         else waitLoop fuel now sleep interval timeout start errorMessage f)))"

definition waitForSuccess_fuel :: "nat \<Rightarrow> nat \<Rightarrow> nat" where
  "waitForSuccess_fuel interval timeout = timeout div interval + 2"

definition waitForSuccess ::
  "('s \<Rightarrow> nat) \<Rightarrow> (nat \<Rightarrow> 's \<Rightarrow> 's) \<Rightarrow> nat \<Rightarrow> nat \<Rightarrow> string \<Rightarrow> ('s, unit) prog \<Rightarrow> ('s, unit) prog" where
  "waitForSuccess now sleep interval timeout errorMessage f =
     bindP (getS now) (\<lambda>start.
       waitLoop (waitForSuccess_fuel interval timeout) now sleep interval timeout start errorMessage f)"

text \<open>What the loop needs of its clock and of \<open>f\<close>: time does not run backwards.\<close>

definition clock_ok :: "('s \<Rightarrow> nat) \<Rightarrow> (nat \<Rightarrow> 's \<Rightarrow> 's) \<Rightarrow> bool" where
  "clock_ok now sleep \<longleftrightarrow> (\<forall>d s. now s + d \<le> now (sleep d s))"

definition keeps_time :: "('s \<Rightarrow> nat) \<Rightarrow> ('s, 'a) prog \<Rightarrow> bool" where
  "keeps_time now f \<longleftrightarrow> (\<forall>s. now s \<le> now (snd (f s)))"

lemma waitLoop_ends:
  assumes clock: "clock_ok now sleep" "keeps_time now f" and f: "\<And>s. fst (f s) \<noteq> Blocked"
    and pos: "0 < interval"
  shows "start + timeout < now s + interval * fuel \<Longrightarrow> start \<le> now s \<Longrightarrow>
    fst (waitLoop (Suc fuel) now sleep interval timeout start msg f s) \<noteq> Blocked"
proof (induction fuel arbitrary: s)
  case 0
  obtain r s1 where run: "f s = (r, s1)" by fastforce
  with clock f [of s] have "now s \<le> now s1" "r \<noteq> Blocked"
    by (auto simp: keeps_time_def dest: spec [of _ s])
  moreover have "now s1 + interval \<le> now (sleep interval s1)"
    using clock(1) by (simp add: clock_ok_def)
  ultimately show ?case
    using 0 run by (cases r) (auto simp: prog_defs)
next
  case (Suc fuel)
  obtain r s1 where run: "f s = (r, s1)" by fastforce
  with clock f [of s] have t1: "now s \<le> now s1" and r: "r \<noteq> Blocked"
    by (auto simp: keeps_time_def dest: spec [of _ s])
  have t2: "now s1 + interval \<le> now (sleep interval s1)"
    using clock(1) by (simp add: clock_ok_def)
  have "fst (waitLoop (Suc fuel) now sleep interval timeout start msg f (sleep interval s1)) \<noteq> Blocked"
    by (rule Suc.IH) (use Suc.prems t1 t2 in auto)
  with run r show ?case
    by (cases r) (auto simp: prog_defs)
qed

text \<open>C29: \<open>waitForSuccess\<close> returns: with a clock that \<open>time.Sleep\<close> moves by at least the
  interval, the loop leaves after at most \<open>timeout div interval + 2\<close> rounds, whatever the
  call it repeats answers.\<close>

theorem waitForSuccess_returns:
  assumes "clock_ok now sleep" "keeps_time now f" "\<And>s. fst (f s) \<noteq> Blocked" "0 < interval"
  shows "fst (waitForSuccess now sleep interval timeout msg f s) \<noteq> Blocked"
proof -
  have "timeout < interval * (timeout div interval + 1)"
    using assms(4) by (metis dividend_less_times_div mult_Suc_right add.commute plus_1_eq_Suc)
  then show ?thesis
    using waitLoop_ends [OF assms, of "now s" timeout s "timeout div interval + 1" msg]
    by (simp add: waitForSuccess_def waitForSuccess_fuel_def bindP_def getS_def)
qed

lemma waitLoop_keeps:
  assumes f: "safe P f" and sleep: "\<And>s. P s \<Longrightarrow> P (sleep interval s)"
  shows "P s \<Longrightarrow> P (snd (waitLoop fuel now sleep interval timeout start msg f s))"
proof (induction fuel arbitrary: s)
  case (Suc fuel)
  obtain r s1 where run: "f s = (r, s1)" by fastforce
  with f Suc.prems have "P s1" "r \<noteq> Blocked" by (auto dest: endsD)
  with run Suc.IH [of "sleep interval s1"] sleep show ?case
    by (cases r) (auto simp: prog_defs)
qed simp

lemma waitForSuccess_ends:
  assumes "clock_ok now sleep" "keeps_time now f" "\<And>s. fst (f s) \<noteq> Blocked" "0 < interval"
    and f: "safe P f" and sleep: "\<And>s. P s \<Longrightarrow> P (sleep interval s)"
  shows "safe P (waitForSuccess now sleep interval timeout msg f)"
proof -
  have "timeout < interval * (timeout div interval + 1)"
    using assms(4) by (metis dividend_less_times_div mult_Suc_right add.commute plus_1_eq_Suc)
  then have "fst (waitForSuccess now sleep interval timeout msg f s) \<noteq> Blocked" for s
    using waitLoop_ends [OF assms(1-4), of "now s" timeout s "timeout div interval + 1" msg]
    by (simp add: waitForSuccess_def waitForSuccess_fuel_def bindP_def getS_def)
  then show ?thesis
    using waitLoop_keeps [of P f sleep interval] f sleep
    by (auto simp: ends_def waitForSuccess_def bindP_def getS_def)
qed

definition demo_clock :: "nat \<times> nat \<Rightarrow> nat" where "demo_clock = fst"
definition demo_sleep :: "nat \<Rightarrow> nat \<times> nat \<Rightarrow> nat \<times> nat" where
  "demo_sleep d s = (fst s + d, snd s)"
definition demo_failing :: "(nat \<times> nat, unit) prog" where
  "demo_failing = (\<lambda>s. (Err (SysError ''refused''), (fst s, Suc (snd s))))"

theorem waitForSuccess_returns_witness:
  "fst (waitForSuccess demo_clock demo_sleep 1 300 ''refresh'' demo_failing (0, 0)) \<noteq> Blocked"
proof (rule waitForSuccess_returns)
  show "clock_ok demo_clock demo_sleep" "keeps_time demo_clock demo_failing"
    by (simp_all add: clock_ok_def keeps_time_def demo_clock_def demo_sleep_def demo_failing_def)
  show "fst (demo_failing s) \<noteq> Blocked" for s by (simp add: demo_failing_def)
qed simp

end
