(* ===== verification/Provider_State.thy ===== *)
theory Provider_State
  imports Mutex_KV Utils
begin

text \<open>
  What a resource handler works on: the provider's \<open>Client\<close> (\<open>config.go\<close>) with its mutexes, the
  world outside (the libvirt daemon, files, HTTP servers, the clock), and the resource data
  that the Terraform SDK hands to the handler.  The daemon and the SDK are not code of the
  repository: their calls are arguments of the definitions, collected in records, and what is
  relied on is stated by the predicates \<open>sdk_ok\<close> here and \<open>..._laws\<close> in the components.
  A ghost trace records every call with the mutexes held when it is made.
\<close>

section \<open>Values of the configuration\<close>

text \<open>\<open>TSet\<close> is a \<open>*schema.Set\<close>, as the list that its method \<open>List\<close> returns.\<close>

datatype tfval =
    TStr string
  | TInt int
  | TBool bool
  | TList "tfval list"
  | TMap "(string \<times> tfval) list"
  | TSet "tfval list"
  | TNil

section \<open>The state of a handler\<close>

record event =
  ev_call :: string
  ev_args :: "string list"
  ev_pools :: "string \<Rightarrow> bool"
  ev_net :: bool

text \<open>
  \<open>connected\<close>: \<open>client.libvirt\<close> is not nil.  \<open>poolMutexKV\<close> and \<open>networkMutex\<close> are the fields of
  \<open>Client\<close>; of \<open>networkMutex\<close> only whether it is locked matters.
\<close>

record ('w, 'd) prov =
  connected :: bool
  poolMutexKV :: mutexkv
  networkMutex :: bool
  world :: 'w
  rdata :: 'd
  trace :: "event list"

type_synonym ('w, 'a) rpc = "'w \<Rightarrow> (goerror + 'a) \<times> 'w"

definition call :: "string \<Rightarrow> string list \<Rightarrow> ('w, 'a) rpc \<Rightarrow> (('w, 'd) prov, 'a) prog" where
  "call name args f = (\<lambda>s.
     let s1 = s\<lparr>trace := trace s @ [\<lparr>ev_call = name, ev_args = args,
                ev_pools = holds (poolMutexKV s), ev_net = networkMutex s\<rparr>]\<rparr>
     in case f (world s) of
          (Inl e, w) \<Rightarrow> (Err e, s1\<lparr>world := w\<rparr>)
        | (Inr x, w) \<Rightarrow> (Ret x, s1\<lparr>world := w\<rparr>))"

lemma yields_call: "yields (call name args f) (\<lambda>x. \<exists>w w'. f w = (Inr x, w'))"
  by (rule yieldsI) (auto simp: call_def Let_def split: prod.splits sum.splits)

section \<open>The mutexes of the client\<close>

definition poolLock :: "string \<Rightarrow> (('w, 'd) prov, unit) prog" where
  "poolLock key = (\<lambda>s. case kv_Lock key (poolMutexKV s) of (r, m) \<Rightarrow> (r, s\<lparr>poolMutexKV := m\<rparr>))"

definition poolUnlock :: "string \<Rightarrow> (('w, 'd) prov, unit) prog" where
  "poolUnlock key = (\<lambda>s. case kv_Unlock key (poolMutexKV s) of (r, m) \<Rightarrow> (r, s\<lparr>poolMutexKV := m\<rparr>))"

definition netLock :: "unit \<Rightarrow> (('w, 'd) prov, unit) prog" where
  "netLock k = (\<lambda>s. if networkMutex s then (Blocked, s) else (Ret (), s\<lparr>networkMutex := True\<rparr>))"

definition netUnlock :: "unit \<Rightarrow> (('w, 'd) prov, unit) prog" where
  "netUnlock k = (\<lambda>s. if networkMutex s then (Ret (), s\<lparr>networkMutex := False\<rparr>)
     else (Panic ''sync: unlock of unlocked mutex'', s))"

interpretation pl: keyed_lock poolLock poolUnlock "\<lambda>s. holds (poolMutexKV s)" "\<lambda>s. kv_ok (poolMutexKV s)"
proof
  fix s :: "('w, 'd) prov" and k assume ok: "kv_ok (poolMutexKV s)"
  show "\<not> holds (poolMutexKV s) k \<Longrightarrow> \<exists>s'. poolLock k s = (Ret (), s') \<and> kv_ok (poolMutexKV s')
      \<and> holds (poolMutexKV s') = (holds (poolMutexKV s))(k := True)"
    using kvl.lock_free [OF ok, of k] by (auto simp: poolLock_def)
  show "holds (poolMutexKV s) k \<Longrightarrow> \<exists>s'. poolLock k s = (Blocked, s') \<and> kv_ok (poolMutexKV s')
      \<and> holds (poolMutexKV s') = holds (poolMutexKV s)"
    using kvl.lock_busy [OF ok, of k] by (auto simp: poolLock_def)
  show "holds (poolMutexKV s) k \<Longrightarrow> \<exists>s'. poolUnlock k s = (Ret (), s') \<and> kv_ok (poolMutexKV s')
      \<and> holds (poolMutexKV s') = (holds (poolMutexKV s))(k := False)"
    using kvl.unlock_held [OF ok, of k] by (auto simp: poolUnlock_def)
  show "\<not> holds (poolMutexKV s) k \<Longrightarrow> \<exists>p s'. poolUnlock k s = (Panic p, s') \<and> kv_ok (poolMutexKV s')
      \<and> holds (poolMutexKV s') = holds (poolMutexKV s)"
    using kvl.unlock_free [OF ok, of k] by (auto simp: poolUnlock_def)
qed

interpretation nl: keyed_lock netLock netUnlock "\<lambda>s _. networkMutex s" "\<lambda>_. True"
  by unfold_locales (auto simp: netLock_def netUnlock_def fun_eq_iff)

definition withPoolLock :: "string \<Rightarrow> (('w, 'd) prov, 'a) prog \<Rightarrow> (('w, 'd) prov, 'a) prog" where
  "withPoolLock = withLock poolLock poolUnlock"

definition withNetLock :: "(('w, 'd) prov, 'a) prog \<Rightarrow> (('w, 'd) prov, 'a) prog" where
  "withNetLock = withLock netLock netUnlock ()"

section \<open>The invariant of a handler\<close>

text \<open>
  \<open>inv H n E\<close>: the pool locks held are \<open>H\<close>, the network mutex is locked iff \<open>n\<close>, and every call
  made so far satisfies \<open>E\<close>.  It does not speak about the world or the resource data.
\<close>

definition inv ::
  "(string \<Rightarrow> bool) \<Rightarrow> bool \<Rightarrow> (event \<Rightarrow> bool) \<Rightarrow> ('w, 'd) prov \<Rightarrow> bool" where
  "inv H n E s \<longleftrightarrow> kv_ok (poolMutexKV s) \<and> holds (poolMutexKV s) = H \<and> networkMutex s = n
     \<and> list_all E (trace s)"

definition blind :: "(('w, 'd) prov \<Rightarrow> bool) \<Rightarrow> bool" where
  "blind P \<longleftrightarrow> (\<forall>s w. P (s\<lparr>world := w\<rparr>) = P s)"

lemma blind_inv [simp]: "blind (inv H n E)"
  by (simp add: blind_def inv_def)

lemma inv_world [simp]: "inv H n E (s\<lparr>world := w\<rparr>) = inv H n E s"
  by (simp add: inv_def)

lemma inv_rdata [simp]: "inv H n E (s\<lparr>rdata := d\<rparr>) = inv H n E s"
  by (simp add: inv_def)

lemma ends_call:
  assumes "E \<lparr>ev_call = name, ev_args = args, ev_pools = H, ev_net = n\<rparr>"
    and "\<And>w x w'. f w = (Inr x, w') \<Longrightarrow> \<phi> x"
  shows "ends (inv H n E) (call name args f) \<phi>"
  using assms by (auto simp: ends_def call_def inv_def Let_def split: prod.splits sum.splits)

lemma safe_call:
  "E \<lparr>ev_call = name, ev_args = args, ev_pools = H, ev_net = n\<rparr> \<Longrightarrow> safe (inv H n E) (call name args f)"
  by (rule ends_call) simp_all

text \<open>\<open>T\<close> is a further property of the state that does not speak about the mutexes.\<close>

lemma ends_in_withPoolLock:
  assumes "\<not> H k"
    and body: "ends_in (\<lambda>s. inv (H(k := True)) n E s \<and> T s) (\<lambda>s. inv (H(k := True)) n E s \<and> T' s) body \<phi>"
    and T: "\<And>s m. T (s\<lparr>poolMutexKV := m\<rparr>) = T s" "\<And>s m. T' (s\<lparr>poolMutexKV := m\<rparr>) = T' s"
  shows "ends_in (\<lambda>s. inv H n E s \<and> T s) (\<lambda>s. inv H n E s \<and> T' s) (withPoolLock k body) \<phi>"
proof -
  let ?T = "\<lambda>T s. (networkMutex s = n \<and> list_all E (trace s)) \<and> T s"
  have inv: "(\<lambda>s. inv H n E s \<and> T s) = (\<lambda>s. pl.at H s \<and> ?T T s)" for H and T :: "('a, 'b) prov \<Rightarrow> bool"
    by (auto simp: inv_def pl.at_def)
  show ?thesis
    unfolding withPoolLock_def inv
    by (rule pl.withLock_ends_in)
      (use assms in \<open>auto simp: inv poolLock_def poolUnlock_def T split: prod.splits\<close>)
qed

lemmas ends_withPoolLock_and = ends_in_withPoolLock [where T' = T and T = T for T, unfolded ends_in_ends]

lemma ends_withPoolLock:
  "\<not> H k \<Longrightarrow> ends (inv (H(k := True)) n E) body \<phi> \<Longrightarrow> ends (inv H n E) (withPoolLock k body) \<phi>"
  using ends_withPoolLock_and [where T = "\<lambda>_. True"] by simp

lemma ends_withNetLock:
  assumes "ends (inv H True E) body \<phi>"
  shows "ends (inv H False E) (withNetLock body) \<phi>"
proof -
  let ?T = "\<lambda>s. kv_ok (poolMutexKV s) \<and> holds (poolMutexKV s) = H \<and> list_all E (trace s)"
  have inv: "inv H n E = (\<lambda>s. nl.at (\<lambda>_. n) s \<and> ?T s)" for n
    by (auto simp: inv_def nl.at_def fun_eq_iff)
  have "(\<lambda>_::unit. True) = (\<lambda>_. False)(() := True)" by auto
  with assms show ?thesis
    unfolding withNetLock_def inv
    by (intro nl.withLock_ends) (auto simp: netLock_def netUnlock_def)
qed

section \<open>The locking discipline\<close>

text \<open>
  A call that changes a storage pool or its volumes has the name of the pool as its first
  argument and is to be made with the mutex of that pool held; a network is to be defined with the
  network mutex held.  The calls that change a network are named too.
\<close>

definition changesPool :: "string set" where
  "changesPool = {''StoragePoolDefineXML'', ''StoragePoolCreate'', ''StoragePoolRefresh'', ''StoragePoolBuild'',
     ''StoragePoolSetAutostart'', ''StoragePoolDestroy'', ''StoragePoolDelete'', ''StoragePoolUndefine'',
     ''StorageVolCreateXML'', ''StorageVolUpload'', ''StorageVolDelete''}"

definition definesNetwork :: "string set" where
  "definesNetwork = {''NetworkDefineXML''}"

definition changesNetwork :: "string set" where
  "changesNetwork = {''NetworkDefineXML'', ''NetworkCreate'', ''NetworkDestroy'', ''NetworkUndefine'',
     ''NetworkSetAutostart'', ''NetworkUpdate''}"

lemmas event_names = changesPool_def definesNetwork_def changesNetwork_def

definition event_ok :: "event \<Rightarrow> bool" where
  "event_ok e \<longleftrightarrow>
     (ev_call e \<in> changesPool \<longrightarrow> (case ev_args e of p # _ \<Rightarrow> ev_pools e p | [] \<Rightarrow> False))
   \<and> (ev_call e \<in> definesNetwork \<longrightarrow> ev_net e)"

abbreviation disciplined :: "(string \<Rightarrow> bool) \<Rightarrow> bool \<Rightarrow> ('w, 'd) prov \<Rightarrow> bool" where
  "disciplined H n \<equiv> inv H n event_ok"

text \<open>
  Reading a volume starts its pool when that is not active, whether or not the caller holds the
  mutex of the pool: the discipline with this exception.
\<close>

definition event_but_start :: "event \<Rightarrow> bool" where
  "event_but_start e \<longleftrightarrow> ev_call e = ''StoragePoolCreate'' \<or> event_ok e"

text \<open>
  \<open>quiet H n C\<close>: while the mutexes in \<open>H\<close> (and the network mutex, if \<open>n\<close>) are held, by whomever, a
  call is made that leaves the pools and networks alone, or is one of \<open>C\<close>.
\<close>

definition quiet :: "(string \<Rightarrow> bool) \<Rightarrow> bool \<Rightarrow> string set \<Rightarrow> event \<Rightarrow> bool" where
  "quiet H n C e \<longleftrightarrow> ev_pools e = H \<and> ev_net e = n \<and> (ev_call e \<in> changesPool \<union> changesNetwork \<longrightarrow> ev_call e \<in> C)"

text \<open>Predicates on calls that follow from the discipline.\<close>

definition tolerates :: "(event \<Rightarrow> bool) \<Rightarrow> bool" where
  "tolerates E \<longleftrightarrow> (\<forall>e. event_ok e \<longrightarrow> E e)"

lemma tolerates_simps [safe_intros, simp]: "tolerates event_ok" "tolerates event_but_start"
  by (simp_all add: tolerates_def event_but_start_def)

lemma event_ok_pool:
  "H p \<Longrightarrow> name \<notin> definesNetwork \<Longrightarrow>
   event_ok \<lparr>ev_call = name, ev_args = p # args, ev_pools = H, ev_net = n\<rparr>"
  by (simp add: event_ok_def)

lemma event_ok_net:
  "name \<notin> changesPool \<Longrightarrow> event_ok \<lparr>ev_call = name, ev_args = args, ev_pools = H, ev_net = True\<rparr>"
  by (simp add: event_ok_def)

lemma safe_call_ok:
  "tolerates E \<Longrightarrow> event_ok \<lparr>ev_call = name, ev_args = args, ev_pools = H, ev_net = n\<rparr> \<Longrightarrow>
   safe (inv H n E) (call name args f)"
  by (rule safe_call) (simp add: tolerates_def)

text \<open>
  \<open>admits_call name P\<close>: the call preserves \<open>P\<close>, whatever its arguments.  \<open>admits P\<close>: \<open>P\<close> does not
  speak about the world, and every call that changes no pool and no network preserves it.
\<close>

definition admits_call :: "string \<Rightarrow> (('w, 'd) prov \<Rightarrow> bool) \<Rightarrow> bool" where
  "admits_call name P \<longleftrightarrow> (\<forall>s args. P s \<longrightarrow>
     P (s\<lparr>trace := trace s @ [\<lparr>ev_call = name, ev_args = args, ev_pools = holds (poolMutexKV s),
        ev_net = networkMutex s\<rparr>]\<rparr>))"

definition admits :: "(('w, 'd) prov \<Rightarrow> bool) \<Rightarrow> bool" where
  "admits P \<longleftrightarrow> blind P \<and> (\<forall>name. name \<notin> changesPool \<longrightarrow> name \<notin> changesNetwork \<longrightarrow> admits_call name P)"

lemma admits_blind: "admits P \<Longrightarrow> blind P"
  by (simp add: admits_def)

lemma admits_inv:
  "(\<And>name args. name \<notin> changesPool \<Longrightarrow> name \<notin> changesNetwork \<Longrightarrow>
     E \<lparr>ev_call = name, ev_args = args, ev_pools = H, ev_net = n\<rparr>) \<Longrightarrow> admits (inv H n E)"
  by (auto simp: admits_def admits_call_def inv_def blind_def)

lemma admits_tolerates: "tolerates E \<Longrightarrow> admits (inv H n E)"
  by (rule admits_inv) (auto simp: tolerates_def event_ok_def event_names)

lemmas admits_disciplined [safe_intros, simp] = admits_tolerates [OF tolerates_simps(1)]
lemmas admits_but_start [safe_intros, simp] = admits_tolerates [OF tolerates_simps(2)]

lemma admits_quiet [safe_intros, simp]: "admits (inv H n (quiet H n C))"
  by (rule admits_inv) (simp add: quiet_def)

lemma admits_call_disciplined [safe_intros, simp]:
  "name \<notin> changesPool \<Longrightarrow> name \<notin> definesNetwork \<Longrightarrow> admits_call name (disciplined H n)"
  by (simp add: admits_call_def inv_def event_ok_def)

lemma admits_call_but_start [safe_intros, simp]: "admits_call ''StoragePoolCreate'' (inv H n event_but_start)"
  by (simp add: admits_call_def inv_def event_but_start_def)

lemma admits_call_quiet [safe_intros, simp]: "name \<in> C \<Longrightarrow> admits_call name (inv H n (quiet H n C))"
  by (simp add: admits_call_def inv_def quiet_def)

lemma admits_conj: "admits P \<Longrightarrow> admits (\<lambda>s. P s \<and> D (rdata s))"
  by (auto simp: admits_def admits_call_def blind_def)

lemma ends_admitted:
  assumes "admits P" "admits_call name P" and "\<And>w x w'. f w = (Inr x, w') \<Longrightarrow> \<phi> x"
  shows "ends P (call name args f) \<phi>"
  using assms by (auto simp: ends_def call_def Let_def admits_def admits_call_def blind_def split: prod.splits sum.splits)

lemma ends_read:
  assumes "admits P" "name \<notin> changesPool" "name \<notin> changesNetwork"
    and "\<And>w x w'. f w = (Inr x, w') \<Longrightarrow> \<phi> x"
  shows "ends P (call name args f) \<phi>"
  using assms by (intro ends_admitted) (auto simp: admits_def)

lemma safe_read [safe_intros]:
  "admits P \<Longrightarrow> name \<notin> changesPool \<Longrightarrow> name \<notin> changesNetwork \<Longrightarrow> safe P (call name args f)"
  by (rule ends_read) simp_all

text \<open>A call by its name: it changes nothing, or is admitted.\<close>

lemma safe_named:
  assumes "admits P" "name \<in> changesPool \<union> changesNetwork \<Longrightarrow> admits_call name P"
  shows "safe P (call name args f)"
  using assms by (intro ends_admitted) (auto simp: admits_def)

section \<open>What is claimed of a handler\<close>

text \<open>A state in which no mutex is held, with all calls so far as they should be.\<close>

definition idle :: "('w, 'd) prov \<Rightarrow> bool" where
  "idle s \<longleftrightarrow> disciplined (\<lambda>_. False) False s"

text \<open>
  \<open>handler_ok\<close>: started with no mutex held, the handler ends (no self-deadlock, no endless wait),
  gives back every mutex whatever its outcome, and makes every call that changes a pool or defines
  a network under the mutex that protects it.  \<open>handler_keeps E\<close>: the same, but of its calls it is
  claimed that they satisfy \<open>E\<close>.
\<close>

definition handler_keeps :: "(event \<Rightarrow> bool) \<Rightarrow> (('w, 'd) prov, 'a) prog \<Rightarrow> bool" where
  "handler_keeps E m \<longleftrightarrow> (\<forall>s. inv (\<lambda>_. False) False E s \<longrightarrow> fst (m s) \<noteq> Blocked \<and> inv (\<lambda>_. False) False E (snd (m s)))"

definition handler_ok :: "(('w, 'd) prov, 'a) prog \<Rightarrow> bool" where
  "handler_ok m \<longleftrightarrow> (\<forall>s. idle s \<longrightarrow> fst (m s) \<noteq> Blocked \<and> idle (snd (m s)))"

lemma handler_keepsI: "safe (inv (\<lambda>_. False) False E) m \<Longrightarrow> handler_keeps E m"
  by (simp add: handler_keeps_def ends_def)

lemma handler_okI: "safe (disciplined (\<lambda>_. False) False) m \<Longrightarrow> handler_ok m"
  by (simp add: handler_ok_def idle_def ends_def)

lemma handler_ok_keeps: "handler_ok m \<longleftrightarrow> handler_keeps event_ok m"
  by (simp add: handler_ok_def handler_keeps_def idle_def)

text \<open>
  A handler that takes no mutex: whichever mutexes other handlers hold, even all of them, it ends,
  and while it runs they stay as they are; and it makes no call that changes a pool or a network
  but those in \<open>C\<close>.
\<close>

definition takes_no_mutex :: "string set \<Rightarrow> (('w, 'd) prov, 'a) prog \<Rightarrow> bool" where
  "takes_no_mutex C m \<longleftrightarrow> (\<forall>H n s. inv H n (quiet H n C) s \<longrightarrow>
     fst (m s) \<noteq> Blocked \<and> inv H n (quiet H n C) (snd (m s)))"

lemma takes_no_mutex_keeps: "takes_no_mutex C m \<Longrightarrow> handler_keeps (quiet (\<lambda>_. False) False C) m"
  by (simp add: takes_no_mutex_def handler_keeps_def)

lemma takes_no_mutexI: "(\<And>H n. safe (inv H n (quiet H n C)) m) \<Longrightarrow> takes_no_mutex C m"
  by (simp add: takes_no_mutex_def ends_def)

end
