(* ===== verification/Terraform_SDK.thy ===== *)
theory Terraform_SDK
  imports Provider_State
begin

text \<open>
  The calls of the Terraform plugin SDK, of the Go runtime and of \<open>google/uuid\<close> that the
  handlers make, as arguments of the definitions.  \<open>timeout.go\<close> and the UUID helpers of
  \<open>utils_libvirt.go\<close> are modelled here.  The predicates \<open>wait_ok\<close>, \<open>retry_ok\<close> and \<open>runtime_ok\<close>
  state the documented behaviour that the component proofs use; \<open>pollState\<close> and \<open>pollRetry\<close> are
  bounded polling loops that satisfy them, for the witnesses.
\<close>

section \<open>Resource data and polling\<close>

text \<open>\<open>resource.StateChangeConf\<close>, with its times in seconds; \<open>Refresh\<close> is passed beside it.\<close>

record state_conf =
  Pending :: "string list"
  Target :: "string list"
  Timeout :: nat
  Delay :: nat
  MinTimeout :: nat

definition resourceStateTimeout :: nat where "resourceStateTimeout = 60"
definition resourceStateDelay :: nat where "resourceStateDelay = 5"
definition resourceStateMinTimeout :: nat where "resourceStateMinTimeout = 3"

text \<open>
  The result of a function passed to \<open>resource.RetryContext\<close>; \<open>RetryDone\<close> is a nil
  \<open>*resource.RetryError\<close> and carries what the closure has assigned to the variables of its
  caller (a boolean, where it assigns nothing).
\<close>

datatype 'a retry = RetryDone 'a | RetryableError goerror | NonRetryableError goerror

text \<open>
  \<open>schema.ResourceData\<close> is the type variable \<open>'d\<close>.  \<open>sdGetOk\<close> is \<open>None\<close> where the second result
  of \<open>GetOk\<close> is false.  \<open>sdRetryVol\<close> is \<open>RetryContext\<close> with the closure of the volume resource,
  which assigns a volume of type \<open>'v\<close>.
\<close>

record ('w, 'd, 'v) sdk =
  sdGet :: "'d \<Rightarrow> string \<Rightarrow> tfval"
  sdGetOk :: "'d \<Rightarrow> string \<Rightarrow> tfval option"
  sdGetOkExists :: "'d \<Rightarrow> string \<Rightarrow> tfval option"
  sdHasChange :: "'d \<Rightarrow> string \<Rightarrow> bool"
  sdGetChange :: "'d \<Rightarrow> string \<Rightarrow> tfval \<times> tfval"
  sdId :: "'d \<Rightarrow> string"
  sdSetId :: "string \<Rightarrow> 'd \<Rightarrow> 'd"
  sdSet :: "string \<Rightarrow> tfval \<Rightarrow> 'd \<Rightarrow> goerror option \<times> 'd"
  sdSetConnInfo :: "(string \<times> string) list \<Rightarrow> 'd \<Rightarrow> 'd"
  sdTimeoutCreate :: "'d \<Rightarrow> nat"
  sdWaitForState :: "state_conf \<Rightarrow> (('w, 'd) prov, string) prog \<Rightarrow> (('w, 'd) prov, unit) prog"
  sdRetry :: "(('w, 'd) prov, bool retry) prog \<Rightarrow> (('w, 'd) prov, bool) prog"
  sdRetryVol :: "(('w, 'd) prov, 'v retry) prog \<Rightarrow> (('w, 'd) prov, 'v) prog"

record 'w runtime =
  rtNow :: "'w \<Rightarrow> nat"
  rtSleep :: "nat \<Rightarrow> 'w \<Rightarrow> 'w"
  uuidParse :: "string \<Rightarrow> string option"
  uuidToString :: "string \<Rightarrow> string"

text \<open>Reading and writing resource data.  A type assertion that fails panics.\<close>

definition dGetOk :: "('w, 'd, 'v) sdk \<Rightarrow> string \<Rightarrow> (('w, 'd) prov, tfval option) prog" where
  "dGetOk S k = getS (\<lambda>s. sdGetOk S (rdata s) k)"

definition dSetTo :: "('w, 'd, 'v) sdk \<Rightarrow> string \<Rightarrow> (('w, 'd) prov, bool) prog" where
  "dSetTo S k = getS (\<lambda>s. sdGetOk S (rdata s) k \<noteq> None)"

definition dHasChange :: "('w, 'd, 'v) sdk \<Rightarrow> string \<Rightarrow> (('w, 'd) prov, bool) prog" where
  "dHasChange S k = getS (\<lambda>s. sdHasChange S (rdata s) k)"

definition assertStr :: "tfval \<Rightarrow> (('w, 'd) prov, string) prog" where
  "assertStr v = (case v of TStr x \<Rightarrow> ret x | _ \<Rightarrow> panic ''interface conversion'')"

definition assertInt :: "tfval \<Rightarrow> (('w, 'd) prov, int) prog" where
  "assertInt v = (case v of TInt x \<Rightarrow> ret x | _ \<Rightarrow> panic ''interface conversion'')"

definition assertBool :: "tfval \<Rightarrow> (('w, 'd) prov, bool) prog" where
  "assertBool v = (case v of TBool x \<Rightarrow> ret x | _ \<Rightarrow> panic ''interface conversion'')"

definition assertList :: "tfval \<Rightarrow> (('w, 'd) prov, tfval list) prog" where
  "assertList v = (case v of TList x \<Rightarrow> ret x | _ \<Rightarrow> panic ''interface conversion'')"

definition assertMap :: "tfval \<Rightarrow> (('w, 'd) prov, (string \<times> tfval) list) prog" where
  "assertMap v = (case v of TMap x \<Rightarrow> ret x | _ \<Rightarrow> panic ''interface conversion'')"

definition dStr :: "('w, 'd, 'v) sdk \<Rightarrow> string \<Rightarrow> (('w, 'd) prov, string) prog" where
  "dStr S k = bindP (getS (\<lambda>s. sdGet S (rdata s) k)) assertStr"

definition dInt :: "('w, 'd, 'v) sdk \<Rightarrow> string \<Rightarrow> (('w, 'd) prov, int) prog" where
  "dInt S k = bindP (getS (\<lambda>s. sdGet S (rdata s) k)) assertInt"

definition dBool :: "('w, 'd, 'v) sdk \<Rightarrow> string \<Rightarrow> (('w, 'd) prov, bool) prog" where
  "dBool S k = bindP (getS (\<lambda>s. sdGet S (rdata s) k)) assertBool"

definition dId :: "('w, 'd, 'v) sdk \<Rightarrow> (('w, 'd) prov, string) prog" where
  "dId S = getS (\<lambda>s. sdId S (rdata s))"

definition dSetId :: "('w, 'd, 'v) sdk \<Rightarrow> string \<Rightarrow> (('w, 'd) prov, unit) prog" where
  "dSetId S i = updS (\<lambda>s. s\<lparr>rdata := sdSetId S i (rdata s)\<rparr>)"

text \<open>\<open>d.Set(k, v)\<close> with its error ignored, as most of the callers do, and with its error.\<close>

definition dSet :: "('w, 'd, 'v) sdk \<Rightarrow> string \<Rightarrow> tfval \<Rightarrow> (('w, 'd) prov, unit) prog" where
  "dSet S k v = updS (\<lambda>s. s\<lparr>rdata := snd (sdSet S k v (rdata s))\<rparr>)"

definition dSetErr :: "('w, 'd, 'v) sdk \<Rightarrow> string \<Rightarrow> tfval \<Rightarrow> (('w, 'd) prov, unit) prog" where
  "dSetErr S k v = (\<lambda>s. case sdSet S k v (rdata s) of
      (None, d) \<Rightarrow> (Ret (), s\<lparr>rdata := d\<rparr>)
    | (Some e, d) \<Rightarrow> (Err e, s\<lparr>rdata := d\<rparr>))"

text \<open>\<open>if virConn == nil { return diag.Errorf(LibVirtConIsNil) }\<close>\<close>

definition LibVirtConIsNil :: string where
  "LibVirtConIsNil = ''the libvirt connection was nil''"

definition requireConn :: "(('w, 'd) prov, 'a) prog \<Rightarrow> (('w, 'd) prov, 'a) prog" where
  "requireConn body = (\<lambda>s. if connected s then body s else (Err (Errorf LibVirtConIsNil []), s))"

text \<open>\<open>uuid.MustParse\<close> panics on a text that is not a UUID.\<close>

definition parseUUID :: "'w runtime \<Rightarrow> string \<Rightarrow> (('w, 'd) prov, string) prog" where
  "parseUUID R uuidStr = (case uuidParse R uuidStr of Some u \<Rightarrow> ret u | None \<Rightarrow> panic ''uuid: Parse'')"

definition uuidString :: "'w runtime \<Rightarrow> string \<Rightarrow> string" where
  "uuidString R lvUUID = uuidToString R lvUUID"

text \<open>\<open>waitForSuccess\<close> with the clock of the world, \<open>WaitSleepInterval\<close> and \<open>WaitTimeout\<close>.\<close>

definition WaitSleepInterval :: nat where "WaitSleepInterval = 1"
definition WaitTimeout :: nat where "WaitTimeout = 300"

definition waitSuccess ::
  "'w runtime \<Rightarrow> string \<Rightarrow> (('w, 'd) prov, unit) prog \<Rightarrow> (('w, 'd) prov, unit) prog" where
  "waitSuccess R = waitForSuccess (\<lambda>s. rtNow R (world s))
     (\<lambda>t s. s\<lparr>world := rtSleep R t (world s)\<rparr>) WaitSleepInterval WaitTimeout"

section \<open>What is relied on\<close>

definition wait_ok :: "('w, 'd, 'v) sdk \<Rightarrow> bool" where
  "wait_ok S \<longleftrightarrow>
     (\<forall>P conf refresh. blind P \<longrightarrow> safe P refresh \<longrightarrow> safe P (sdWaitForState S conf refresh))
   \<and> (\<forall>conf refresh s s'. sdWaitForState S conf refresh s = (Ret (), s') \<longrightarrow>
        (\<exists>s0 st. refresh s0 = (Ret st, s') \<and> st \<in> set (Target conf)))"

definition retry_law ::
  "((('w, 'd) prov, 'a retry) prog \<Rightarrow> (('w, 'd) prov, 'a) prog) \<Rightarrow> bool" where
  "retry_law retry \<longleftrightarrow>
     (\<forall>P f. blind P \<longrightarrow> safe P f \<longrightarrow> safe P (retry f))
   \<and> (\<forall>f s x s'. retry f s = (Ret x, s') \<longrightarrow> (\<exists>s0. f s0 = (Ret (RetryDone x), s')))
   \<and> (\<forall>f s e s'. retry f s = (Err e, s') \<longrightarrow> (\<exists>c. isError e c) \<longrightarrow>
        (\<exists>s0. f s0 = (Err e, s') \<or> f s0 = (Ret (RetryableError e), s') \<or> f s0 = (Ret (NonRetryableError e), s')))"

definition retry_ok :: "('w, 'd, 'v) sdk \<Rightarrow> bool" where
  "retry_ok S \<longleftrightarrow> retry_law (sdRetry S) \<and> retry_law (sdRetryVol S)"

definition runtime_ok :: "'w runtime \<Rightarrow> bool" where
  "runtime_ok R \<longleftrightarrow> (\<forall>t w. rtNow R w + t \<le> rtNow R (rtSleep R t w))"

definition forward :: "'w runtime \<Rightarrow> ('w, 'a) rpc \<Rightarrow> bool" where
  "forward R f \<longleftrightarrow> (\<forall>w. rtNow R w \<le> rtNow R (snd (f w)))"

section \<open>The invariant through these calls\<close>

lemma safe_inv_dGetOk [safe_intros]: "safe P (dGetOk S k)"
  by (simp add: dGetOk_def safe_getS)

lemma safe_dSetTo [safe_intros]: "safe P (dSetTo S k)"
  by (simp add: dSetTo_def safe_getS)

lemma safe_dHasChange [safe_intros]: "safe P (dHasChange S k)"
  by (simp add: dHasChange_def safe_getS)

lemma safe_assert [safe_intros]:
  "safe P (assertStr v)" "safe P (assertInt v)" "safe P (assertBool v)" "safe P (assertList v)"
  "safe P (assertMap v)"
  by (cases v; simp add: assertStr_def assertInt_def assertBool_def assertList_def assertMap_def
      safe_ret ends_panic)+

lemma safe_dStr [safe_intros]: "safe P (dStr S k)" "safe P (dInt S k)" "safe P (dBool S k)"
  unfolding dStr_def dInt_def dBool_def by (intro safe_intros)+

text \<open>Reads of a resource data that is known.\<close>

lemma ends_dGetOk: "(\<And>s. P s \<Longrightarrow> rdata s = d) \<Longrightarrow> ends P (dGetOk S k) (\<lambda>x. x = sdGetOk S d k)"
  unfolding dGetOk_def by (rule ends_getS) simp

lemma ends_dSetTo: "(\<And>s. P s \<Longrightarrow> rdata s = d) \<Longrightarrow> ends P (dSetTo S k) (\<lambda>x. x = (sdGetOk S d k \<noteq> None))"
  unfolding dSetTo_def by (rule ends_getS) simp

lemma safe_dId [safe_intros]: "safe P (dId S)"
  by (simp add: dId_def safe_getS)

lemma safe_dSet [safe_intros]: "safe (inv H n E) (dSet S k v)" "safe (inv H n E) (dSetId S i)"
  by (simp_all add: dSet_def dSetId_def ends_def updS_def)

lemma safe_dSetErr [safe_intros]: "safe (inv H n E) (dSetErr S k v)"
  by (auto simp: dSetErr_def ends_def split: prod.splits option.splits)

lemma safe_requireConn [safe_intros]: "ends P body \<phi> \<Longrightarrow> ends P (requireConn body) \<phi>"
  by (auto simp: ends_def requireConn_def)

lemma safe_parseUUID [safe_intros]: "safe P (parseUUID R u)"
  unfolding parseUUID_def by (intro safe_intros)

lemma safe_wait: "wait_ok S \<Longrightarrow> blind P \<Longrightarrow> safe P refresh \<Longrightarrow> safe P (sdWaitForState S conf refresh)"
  unfolding wait_ok_def by blast

lemma safe_retry:
  "retry_ok S \<Longrightarrow> blind P \<Longrightarrow> safe P f \<Longrightarrow> safe P (sdRetry S f)"
  "retry_ok S \<Longrightarrow> blind P \<Longrightarrow> safe P g \<Longrightarrow> safe P (sdRetryVol S g)"
  by (simp_all add: retry_ok_def retry_law_def)

lemma safe_waitSuccess:
  assumes "runtime_ok R" "forward R f"
    and E: "E \<lparr>ev_call = name, ev_args = args, ev_pools = H, ev_net = n\<rparr>"
  shows "safe (inv H n E) (waitSuccess R msg (call name args f))"
proof -
  have clock: "clock_ok (\<lambda>s. rtNow R (world s)) (\<lambda>t s. s\<lparr>world := rtSleep R t (world s)\<rparr>)"
    using assms(1) by (simp add: clock_ok_def runtime_ok_def)
  have time: "keeps_time (\<lambda>s. rtNow R (world s)) (call name args f)"
    using assms(2)
    by (auto simp: keeps_time_def call_def forward_def Let_def split: prod.splits sum.splits)
      (metis snd_conv)+
  have nb: "fst (call name args f s) \<noteq> Blocked" for s
    by (auto simp: call_def Let_def split: prod.splits sum.splits)
  have body: "safe (inv H n E) (call name args f)" by (rule safe_call) (rule E)
  show ?thesis
    unfolding waitSuccess_def
    by (rule waitForSuccess_ends [OF clock time nb _ body]) (simp_all add: WaitSleepInterval_def)
qed

section \<open>Polling loops that satisfy the laws\<close>

fun pollState :: "nat \<Rightarrow> state_conf \<Rightarrow> (('w, 'd) prov, string) prog \<Rightarrow> (('w, 'd) prov, unit) prog" where
  "pollState 0 conf refresh = throw (SysError ''timeout while waiting for state'')"
| "pollState (Suc n) conf refresh = bindP refresh (\<lambda>st.
     if st \<in> set (Target conf) then ret ()
     else if st \<in> set (Pending conf) then pollState n conf refresh
     else throw (SysError ''unexpected state''))"

fun pollRetry :: "nat \<Rightarrow> (('w, 'd) prov, 'a retry) prog \<Rightarrow> (('w, 'd) prov, 'a) prog" where
  "pollRetry 0 f = throw (SysError ''timeout'')"
| "pollRetry (Suc n) f = bindP f (\<lambda>r. case r of
      RetryDone x \<Rightarrow> ret x
    | RetryableError e \<Rightarrow> (if n = 0 then throw e else pollRetry n f)
    | NonRetryableError e \<Rightarrow> throw e)"

lemma safe_pollState: "safe P refresh \<Longrightarrow> safe P (pollState n conf refresh)"
  by (induction n) (auto intro!: safe_intros)

lemma safe_pollRetry: "safe P f \<Longrightarrow> safe P (pollRetry n f)"
  by (induction n) (auto intro!: safe_intros split: retry.split)

lemma pollState_Ret:
  "pollState n conf refresh s = (Ret (), s') \<Longrightarrow>
   \<exists>s0 st. refresh s0 = (Ret st, s') \<and> st \<in> set (Target conf)"
  by (induction n arbitrary: s)
    (auto simp: prog_defs split: prod.splits outcome.splits if_splits)

lemma pollRetry_Ret:
  "pollRetry n f s = (Ret x, s') \<Longrightarrow> \<exists>s0. f s0 = (Ret (RetryDone x), s')"
  by (induction n arbitrary: s)
    (auto simp: prog_defs split: prod.splits outcome.splits if_splits retry.splits)

lemma pollRetry_Err:
  "pollRetry n f s = (Err e, s') \<Longrightarrow> isError e c \<Longrightarrow>
   \<exists>s0. f s0 = (Err e, s') \<or> f s0 = (Ret (RetryableError e), s') \<or> f s0 = (Ret (NonRetryableError e), s')"
  by (induction n arbitrary: s)
    (auto simp: prog_defs split: prod.splits outcome.splits if_splits retry.splits)

lemma pollState_ok: "sdWaitForState S = pollState n \<Longrightarrow> wait_ok S"
  unfolding wait_ok_def by (auto intro: safe_pollState dest: pollState_Ret)

lemma pollRetry_ok: "sdRetry S = pollRetry n \<Longrightarrow> sdRetryVol S = pollRetry m \<Longrightarrow> retry_ok S"
  unfolding retry_ok_def retry_law_def by (auto intro: safe_pollRetry dest: pollRetry_Ret pollRetry_Err)

end
