(* ===== verification/Storage_API.thy ===== *)
theory Storage_API
  imports Terraform_SDK
begin

text \<open>
  The storage calls of the libvirt client, the XML structures of a volume and a pool with the
  fields that the provider reads or writes, and the calls on files and HTTP servers.  All of
  them are arguments of the definitions; \<open>storage_laws\<close> states what is documented of the
  daemon's replies and used in the proofs.
\<close>

section \<open>Error numbers of libvirt\<close>

definition ErrNoDomain :: uint32 where "ErrNoDomain = 42"
definition ErrNoNetwork :: uint32 where "ErrNoNetwork = 43"
definition ErrNoStoragePool :: uint32 where "ErrNoStoragePool = 49"
definition ErrNoStorageVol :: uint32 where "ErrNoStorageVol = 50"
definition ErrStorageVolExist :: uint32 where "ErrStorageVolExist = 90"

section \<open>Handles and XML structures\<close>

record StoragePool =
  sp_Name :: string
  sp_UUID :: string

record StorageVol =
  sv_Pool :: string
  sv_Name :: string
  sv_Key :: string

text \<open>
  \<open>libvirtxml.StorageVolume\<close>.  A pointer to a structure is an option; a structure of which
  the provider uses one field (\<open>Format.Type\<close>, \<open>Permissions.Mode\<close>, \<open>Timestamps.Mtime\<close>) is that
  field.
\<close>

record StorageVolumeSize =
  Unit :: string
  Value :: uint64

record StorageVolumeTarget =
  Format :: "string option"
  Permissions :: "string option"
  Timestamps :: "string option"

record StorageVolumeBackingStore =
  bs_Path :: string
  bs_Format :: "string option"

record StorageVolume =
  vol_Name :: string
  vol_Target :: "StorageVolumeTarget option"
  vol_Capacity :: "StorageVolumeSize option"
  vol_BackingStore :: "StorageVolumeBackingStore option"

text \<open>\<open>libvirtxml.StoragePool\<close>; the target is its path.\<close>

record StoragePoolXML =
  pool_Type :: string
  pool_Name :: string
  pool_Target :: "string option"

section \<open>Readers, files and HTTP\<close>

datatype reader = FileReader nat | BodyReader nat

record file_info =
  fi_Size :: int
  fi_ModTime :: int

record http_request =
  rq_Method :: string
  rq_URL :: string
  rq_Headers :: "(string \<times> string) list"

record http_response =
  StatusCode :: int
  Status :: string
  ContentLength :: string
  Body :: nat

record url =
  u_Scheme :: string
  u_Path :: string
  u_String :: string

record 'w io =
  osOpen :: "string \<Rightarrow> ('w, nat) rpc"
  fileStat :: "nat \<Rightarrow> ('w, file_info) rpc"
  ReadAtLeast :: "nat \<Rightarrow> nat \<Rightarrow> ('w, byte list) rpc"
  osStatIsDir :: "string \<Rightarrow> ('w, bool) rpc"
  httpDo :: "http_request \<Rightarrow> ('w, http_response) rpc"
  ReadAll :: "nat \<Rightarrow> ('w, byte list) rpc"
  NewRequest :: "string \<Rightarrow> goerror option"
  urlParse :: "string \<Rightarrow> goerror + url"
  filepathClean :: "string \<Rightarrow> string"
  httpTimeFormat :: "int \<Rightarrow> string"
  GOOS :: string

section \<open>The storage calls\<close>

record 'w storage =
  StoragePoolLookupByName :: "string \<Rightarrow> ('w, StoragePool) rpc"
  StoragePoolLookupByUUID :: "string \<Rightarrow> ('w, StoragePool) rpc"
  StoragePoolLookupByVolume :: "StorageVol \<Rightarrow> ('w, StoragePool) rpc"
  StoragePoolRefresh :: "StoragePool \<Rightarrow> nat \<Rightarrow> ('w, unit) rpc"
  StoragePoolIsActive :: "StoragePool \<Rightarrow> ('w, int) rpc"
  StoragePoolCreate :: "StoragePool \<Rightarrow> nat \<Rightarrow> ('w, unit) rpc"
  StoragePoolDefineXML :: "string \<Rightarrow> nat \<Rightarrow> ('w, StoragePool) rpc"
  StoragePoolBuild :: "StoragePool \<Rightarrow> nat \<Rightarrow> ('w, unit) rpc"
  StoragePoolSetAutostart :: "StoragePool \<Rightarrow> nat \<Rightarrow> ('w, unit) rpc"
  StoragePoolDestroy :: "StoragePool \<Rightarrow> ('w, unit) rpc"
  StoragePoolDelete :: "StoragePool \<Rightarrow> nat \<Rightarrow> ('w, unit) rpc"
  StoragePoolUndefine :: "StoragePool \<Rightarrow> ('w, unit) rpc"
  StoragePoolGetInfo :: "StoragePool \<Rightarrow> ('w, byte \<times> uint64 \<times> uint64 \<times> uint64) rpc"
  StoragePoolGetXMLDesc :: "StoragePool \<Rightarrow> nat \<Rightarrow> ('w, string) rpc"
  StorageVolLookupByKey :: "string \<Rightarrow> ('w, StorageVol) rpc"
  StorageVolLookupByName :: "StoragePool \<Rightarrow> string \<Rightarrow> ('w, StorageVol) rpc"
  StorageVolCreateXML :: "StoragePool \<Rightarrow> string \<Rightarrow> nat \<Rightarrow> ('w, StorageVol) rpc"
  StorageVolGetXMLDesc :: "StorageVol \<Rightarrow> nat \<Rightarrow> ('w, string) rpc"
  StorageVolGetPath :: "StorageVol \<Rightarrow> ('w, string) rpc"
  StorageVolGetInfo :: "StorageVol \<Rightarrow> ('w, byte \<times> uint64 \<times> uint64) rpc"
  StorageVolUpload :: "StorageVol \<Rightarrow> reader \<Rightarrow> nat \<Rightarrow> uint64 \<Rightarrow> nat \<Rightarrow> ('w, unit) rpc"
  StorageVolDelete :: "StorageVol \<Rightarrow> nat \<Rightarrow> ('w, unit) rpc"
  volEncode :: "StorageVolume \<Rightarrow> goerror + string"
  volDecode :: "string \<Rightarrow> goerror + StorageVolume"
  poolEncode :: "StoragePoolXML \<Rightarrow> goerror + string"
  poolDecode :: "string \<Rightarrow> goerror + StoragePoolXML"

text \<open>
  A pool looked up by name has that name, a volume looked up in or created in a pool belongs
  to it, and the pool looked up by volume is the volume's.
\<close>

definition storage_laws :: "'w storage \<Rightarrow> bool" where
  "storage_laws st \<longleftrightarrow>
     (\<forall>name w p w'. StoragePoolLookupByName st name w = (Inr p, w') \<longrightarrow> sp_Name p = name)
   \<and> (\<forall>p name w v w'. StorageVolLookupByName st p name w = (Inr v, w') \<longrightarrow> sv_Pool v = sp_Name p)
   \<and> (\<forall>p xml fl w v w'. StorageVolCreateXML st p xml fl w = (Inr v, w') \<longrightarrow> sv_Pool v = sp_Name p)
   \<and> (\<forall>v w p w'. StoragePoolLookupByVolume st v w = (Inr p, w') \<longrightarrow> sp_Name p = sv_Pool v)"

lemma storage_lawsD:
  assumes "storage_laws st"
  shows "StoragePoolLookupByName st name w = (Inr p, w') \<Longrightarrow> sp_Name p = name"
    and "StorageVolLookupByName st p name w = (Inr v, w') \<Longrightarrow> sv_Pool v = sp_Name p"
    and "StorageVolCreateXML st p xml fl w = (Inr v, w') \<Longrightarrow> sv_Pool v = sp_Name p"
    and "StoragePoolLookupByVolume st v w = (Inr p, w') \<Longrightarrow> sp_Name p = sv_Pool v"
  using assms unfolding storage_laws_def by blast+

definition refresh_forward :: "'w runtime \<Rightarrow> 'w storage \<Rightarrow> bool" where
  "refresh_forward R st \<longleftrightarrow> (\<forall>p fl. forward R (StoragePoolRefresh st p fl))"

text \<open>\<open>xmlMarshallIndented\<close> of \<open>utils.go\<close>: the encoder, which the argument stands for, with its
  error replaced.\<close>

definition xmlMarshallIndented :: "('x \<Rightarrow> goerror + string) \<Rightarrow> 'x \<Rightarrow> goerror + string" where
  "xmlMarshallIndented encode b = (case encode b of
      Inl _ \<Rightarrow> Inl (Errorf ''could not marshall this: %s'' [])
    | Inr s \<Rightarrow> Inr s)"

section \<open>The calls as handlers make them\<close>

text \<open>
  Every call is recorded with its name and, first among its arguments, the name of the pool
  it acts on.
\<close>

definition poolCall :: "string \<Rightarrow> StoragePool \<Rightarrow> ('w, 'a) rpc \<Rightarrow> (('w, 'd) prov, 'a) prog" where
  "poolCall name p f = call name [sp_Name p] f"

definition volCall :: "string \<Rightarrow> StorageVol \<Rightarrow> ('w, 'a) rpc \<Rightarrow> (('w, 'd) prov, 'a) prog" where
  "volCall name v f = call name [sv_Pool v, sv_Name v, sv_Key v] f"

lemma safe_poolCall [safe_intros]:
  "admits P \<Longrightarrow> (name \<in> changesPool \<union> changesNetwork \<Longrightarrow> admits_call name P) \<Longrightarrow> safe P (poolCall name p f)"
  unfolding poolCall_def by (rule safe_named)

lemma safe_volCall [safe_intros]:
  "admits P \<Longrightarrow> name \<notin> changesPool \<Longrightarrow> name \<notin> changesNetwork \<Longrightarrow> safe P (volCall name v f)"
  unfolding volCall_def by (rule safe_read)

lemma yields_volCall: "yields (volCall name v f) (\<lambda>x. \<exists>w w'. f w = (Inr x, w'))"
  unfolding volCall_def by (rule yields_call)

lemma safe_poolCall_locked:
  "H (sp_Name p) \<Longrightarrow> name \<notin> definesNetwork \<Longrightarrow> tolerates E \<Longrightarrow> safe (inv H n E) (poolCall name p f)"
  unfolding poolCall_def by (intro safe_call_ok event_ok_pool)

lemma safe_volCall_locked:
  "H (sv_Pool v) \<Longrightarrow> name \<notin> definesNetwork \<Longrightarrow> tolerates E \<Longrightarrow> safe (inv H n E) (volCall name v f)"
  unfolding volCall_def by (intro safe_call_ok event_ok_pool)

end
