(* ===== verification/Demo_World.thy ===== *)
theory Demo_World
  imports Storage_API
begin

text \<open>
  A small concrete world for the witnesses: a daemon with named pools (active or not) and
  volumes, files that are byte lists, an HTTP server that answers with a list of status codes,
  a clock, and resource data that is an association list.  It satisfies the laws that the
  properties assume of the real ones.
\<close>

section \<open>Resource data\<close>

record rdemo =
  rd_vals :: "(string \<times> tfval) list"
  rd_id :: string

definition demo_lookup :: "string \<Rightarrow> rdemo \<Rightarrow> tfval option" where
  "demo_lookup k d = map_of (rd_vals d) k"

definition demo_zero :: "tfval option \<Rightarrow> bool" where
  "demo_zero v = (v = None \<or> v = Some (TStr []) \<or> v = Some (TInt 0) \<or> v = Some (TBool False)
     \<or> v = Some (TList []) \<or> v = Some (TMap []))"

definition demo_get :: "rdemo \<Rightarrow> string \<Rightarrow> tfval" where
  "demo_get d k = (case demo_lookup k d of Some v \<Rightarrow> v | None \<Rightarrow> TStr [])"

definition demo_getok :: "rdemo \<Rightarrow> string \<Rightarrow> tfval option" where
  "demo_getok d k = (let v = demo_lookup k d in if demo_zero v then None else v)"

definition demo_set :: "string \<Rightarrow> tfval \<Rightarrow> rdemo \<Rightarrow> goerror option \<times> rdemo" where
  "demo_set k v d = (None, d\<lparr>rd_vals := (k, v) # rd_vals d\<rparr>)"

definition demo_sdk :: "('w, rdemo, StorageVol) sdk" where
  "demo_sdk = \<lparr>sdGet = demo_get, sdGetOk = demo_getok, sdGetOkExists = (\<lambda>d k. demo_lookup k d),
     sdHasChange = (\<lambda>_ _. False), sdGetChange = (\<lambda>d k. (demo_get d k, demo_get d k)),
     sdId = rd_id, sdSetId = (\<lambda>i d. d\<lparr>rd_id := i\<rparr>), sdSet = demo_set,
     sdSetConnInfo = (\<lambda>_ d. d), sdTimeoutCreate = (\<lambda>_. 300),
     sdWaitForState = pollState 3, sdRetry = pollRetry 3, sdRetryVol = pollRetry 3\<rparr>"

lemma demo_sdk_ok: "wait_ok demo_sdk" "retry_ok demo_sdk"
  by (rule pollState_ok [where n = 3] pollRetry_ok [where n = 3 and m = 3]; simp add: demo_sdk_def)+

section \<open>The world\<close>

record dworld =
  dw_clock :: nat
  dw_pools :: "(string \<times> bool) list"
  dw_vols :: "(StorageVol \<times> StorageVolume) list"
  dw_files :: "(string \<times> byte list) list"
  dw_http :: "int list"

definition demo_runtime :: "dworld runtime" where
  "demo_runtime = \<lparr>rtNow = dw_clock, rtSleep = (\<lambda>t w. w\<lparr>dw_clock := dw_clock w + t\<rparr>),
     uuidParse = Some, uuidToString = id\<rparr>"

lemma demo_runtime_ok: "runtime_ok demo_runtime"
  by (simp add: runtime_ok_def demo_runtime_def)

definition no_pool :: goerror where "no_pool = LibvirtError ErrNoStoragePool ''Storage pool not found''"
definition no_vol :: goerror where "no_vol = LibvirtError ErrNoStorageVol ''Storage volume not found''"

definition demo_pool :: "string \<Rightarrow> StoragePool" where
  "demo_pool name = \<lparr>sp_Name = name, sp_UUID = name\<rparr>"

definition demo_findPool :: "string \<Rightarrow> (dworld, StoragePool) rpc" where
  "demo_findPool name w =
     (case map_of (dw_pools w) name of Some _ \<Rightarrow> (Inr (demo_pool name), w) | None \<Rightarrow> (Inl no_pool, w))"

text \<open>A volume of a pool that is not started is not found.\<close>

definition demo_findVol :: "(StorageVol \<Rightarrow> bool) \<Rightarrow> (dworld, StorageVol \<times> StorageVolume) rpc" where
  "demo_findVol p w =
     (case find (\<lambda>(v, _). p v \<and> map_of (dw_pools w) (sv_Pool v) = Some True) (dw_vols w) of
        Some x \<Rightarrow> (Inr x, w) | None \<Rightarrow> (Inl no_vol, w))"

definition rpc_map :: "('a \<Rightarrow> 'b) \<Rightarrow> ('w, 'a) rpc \<Rightarrow> ('w, 'b) rpc" where
  "rpc_map f r w = (case r w of (Inl e, w') \<Rightarrow> (Inl e, w') | (Inr x, w') \<Rightarrow> (Inr (f x), w'))"

definition demo_create :: "StoragePool \<Rightarrow> string \<Rightarrow> (dworld, StorageVol) rpc" where
  "demo_create p name w =
     (let v = \<lparr>sv_Pool = sp_Name p, sv_Name = name, sv_Key = sp_Name p @ ''/'' @ name\<rparr>;
          d = \<lparr>vol_Name = name,
               vol_Target = Some \<lparr>Format = Some ''qcow2'', Permissions = None, Timestamps = None\<rparr>,
               vol_Capacity = Some \<lparr>Unit = ''bytes'', Value = 1024\<rparr>, vol_BackingStore = None\<rparr>
      in if \<exists>x \<in> set (dw_vols w). sv_Key (fst x) = sv_Key v
         then (Inl (LibvirtError ErrStorageVolExist ''storage vol already exists''), w)
         else (Inr v, w\<lparr>dw_vols := (v, d) # dw_vols w\<rparr>))"

definition demo_setActive :: "string \<Rightarrow> bool \<Rightarrow> dworld \<Rightarrow> dworld" where
  "demo_setActive name b w = w\<lparr>dw_pools := (name, b) # dw_pools w\<rparr>"

definition demo_removePool :: "string \<Rightarrow> dworld \<Rightarrow> dworld" where
  "demo_removePool name w = w\<lparr>dw_pools := filter (\<lambda>x. fst x \<noteq> name) (dw_pools w)\<rparr>"

definition demo_storage :: "dworld storage" where
  "demo_storage = \<lparr>
     StoragePoolLookupByName = demo_findPool,
     StoragePoolLookupByUUID = demo_findPool,
     StoragePoolLookupByVolume = (\<lambda>v. demo_findPool (sv_Pool v)),
     StoragePoolRefresh = (\<lambda>p _ w. (Inr (), w)),
     StoragePoolIsActive = (\<lambda>p w. (Inr (if map_of (dw_pools w) (sp_Name p) = Some True then 1 else 0), w)),
     StoragePoolCreate = (\<lambda>p _ w. (Inr (), demo_setActive (sp_Name p) True w)),
     StoragePoolDefineXML = (\<lambda>xml _ w. (Inr (demo_pool xml), demo_setActive xml False w)),
     StoragePoolBuild = (\<lambda>p _ w. (Inr (), w)),
     StoragePoolSetAutostart = (\<lambda>p _ w. (Inr (), w)),
     StoragePoolDestroy = (\<lambda>p w. (Inr (), demo_setActive (sp_Name p) False w)),
     StoragePoolDelete = (\<lambda>p _ w. (Inr (), w)),
     StoragePoolUndefine = (\<lambda>p w. (Inr (), demo_removePool (sp_Name p) w)),
     StoragePoolGetInfo = (\<lambda>p w.
       (Inr (if map_of (dw_pools w) (sp_Name p) = Some True then 2 else 0, 0, 0, 0), w)),
     StoragePoolGetXMLDesc = (\<lambda>p _ w. (Inr (sp_Name p), w)),
     StorageVolLookupByKey = (\<lambda>key. rpc_map fst (demo_findVol (\<lambda>v. sv_Key v = key))),
     StorageVolLookupByName = (\<lambda>p name. rpc_map fst (demo_findVol (\<lambda>v. sv_Pool v = sp_Name p \<and> sv_Name v = name))),
     StorageVolCreateXML = (\<lambda>p xml _. demo_create p xml),
     StorageVolGetXMLDesc = (\<lambda>v _. rpc_map (\<lambda>x. vol_Name (snd x)) (demo_findVol (\<lambda>x. x = v))),
     StorageVolGetPath = (\<lambda>v w. (Inr (''/'' @ sv_Key v), w)),
     StorageVolGetInfo = (\<lambda>v w. (Inr (0, 1024, 0), w)),
     StorageVolUpload = (\<lambda>v src off sz fl w. (Inr (), w)),
     StorageVolDelete = (\<lambda>v fl w. (Inr (), w\<lparr>dw_vols := filter (\<lambda>x. fst x \<noteq> v) (dw_vols w)\<rparr>)),
     volEncode = (\<lambda>v. Inr (vol_Name v)),
     volDecode = (\<lambda>name. Inr \<lparr>vol_Name = name,
       vol_Target = Some \<lparr>Format = Some ''qcow2'', Permissions = None, Timestamps = None\<rparr>,
       vol_Capacity = Some \<lparr>Unit = ''bytes'', Value = 1024\<rparr>, vol_BackingStore = None\<rparr>),
     poolEncode = (\<lambda>p. Inr (pool_Name p)),
     poolDecode = (\<lambda>name. Inr \<lparr>pool_Type = ''dir'', pool_Name = name, pool_Target = Some ''/p''\<rparr>)\<rparr>"

lemma demo_findVol_sound: "demo_findVol p w = (Inr x, w') \<Longrightarrow> p (fst x) \<and> x \<in> set (dw_vols w)"
  by (auto simp: demo_findVol_def find_Some_iff split: option.splits) (metis nth_mem)

lemma demo_storage_laws: "storage_laws demo_storage"
  unfolding storage_laws_def demo_storage_def
  by (auto simp: demo_findPool_def demo_pool_def demo_create_def rpc_map_def Let_def
      dest!: demo_findVol_sound split: option.splits prod.splits sum.splits if_splits)

lemma demo_refresh_forward: "refresh_forward demo_runtime demo_storage"
  by (simp add: refresh_forward_def forward_def demo_storage_def)

definition demo_io :: "dworld io" where
  "demo_io = \<lparr>
     osOpen = (\<lambda>path w. (if path \<in> fst ` set (dw_files w) then Inr 3 else Inl (SysError ''no such file''), w)),
     fileStat = (\<lambda>f w. (Inr \<lparr>fi_Size = 4096, fi_ModTime = 0\<rparr>, w)),
     ReadAtLeast = (\<lambda>f n w. (case dw_files w of (_, bs) # _ \<Rightarrow> Inr (take n bs) | [] \<Rightarrow> Inl (SysError ''EOF''), w)),
     osStatIsDir = (\<lambda>path w. (Inl (SysError ''no such file''), w)),
     httpDo = (\<lambda>req w. case dw_http w of
         [] \<Rightarrow> (Inl (SysError ''connection refused''), w)
       | c # cs \<Rightarrow> (Inr \<lparr>StatusCode = c, Status = ''status'', ContentLength = ''1024'', Body = 7\<rparr>, w\<lparr>dw_http := cs\<rparr>)),
     ReadAll = (\<lambda>b w. (Inr [0x51, 0x46, 0x49, 0xfb, 0, 0, 0, 3], w)),
     NewRequest = (\<lambda>_. None),
     urlParse = (\<lambda>s. Inr \<lparr>u_Scheme = (if hasPrefix s ''http'' then ''http'' else []), u_Path = s, u_String = s\<rparr>),
     filepathClean = id,
     httpTimeFormat = (\<lambda>_. ''Thu, 01 Jan 1970''),
     GOOS = ''linux''\<rparr>"

definition demo_world :: dworld where
  "demo_world = \<lparr>dw_clock = 0, dw_pools = [(''default'', True)],
     dw_vols = [(\<lparr>sv_Pool = ''default'', sv_Name = ''base'', sv_Key = ''default/base''\<rparr>,
       \<lparr>vol_Name = ''base'',
        vol_Target = Some \<lparr>Format = Some ''qcow2'', Permissions = None, Timestamps = None\<rparr>,
        vol_Capacity = Some \<lparr>Unit = ''bytes'', Value = 1024\<rparr>, vol_BackingStore = None\<rparr>)],
     dw_files = [], dw_http = []\<rparr>"

definition demo_state :: "dworld \<Rightarrow> (string \<times> tfval) list \<Rightarrow> string \<Rightarrow> (dworld, rdemo) prov" where
  "demo_state w vals i = \<lparr>connected = True, poolMutexKV = NewMutexKV, networkMutex = False,
     world = w, rdata = \<lparr>rd_vals = vals, rd_id = i\<rparr>, trace = []\<rparr>"

lemma idle_demo_state: "idle (demo_state w vals i)"
proof -
  have "holds NewMutexKV = (\<lambda>_. False)"
    by (simp add: fun_eq_iff holds_def NewMutexKV_def)
  then show ?thesis by (simp add: idle_def inv_def demo_state_def kv_ok_New)
qed

end
