(* ===== verification/Volume_Image.thy ===== *)
theory Volume_Image
  imports Demo_World
begin

text \<open>
  \<open>volume_image.go\<close> and \<open>utils_volume.go\<close>: the source of a volume as a local file or an HTTP
  URL, the test for the qcow2 header, and the import of the source into a volume with its
  retries.  Closing files and response bodies is not modelled.
\<close>

section \<open>Modification times and the copier\<close>

text \<open>A time is its number of nanoseconds since the epoch; \<open>strconv.Atoi\<close> errors are ignored.\<close>

definition timeFromEpoch :: "string \<Rightarrow> int" where
  "timeFromEpoch str =
     (let ts = strSplit CHR ''.'' str;
          ns = (if length ts = 2 then fst (atoi (ts ! 1)) else 0);
          s = fst (atoi (ts ! 0))
      in s * 1000000000 + ns)"

definition newCopier :: "'w storage \<Rightarrow> StorageVol \<Rightarrow> uint64 \<Rightarrow> reader \<Rightarrow> (('w, 'd) prov, unit) prog" where
  "newCopier st volume sz src =
     orFail (volCall ''StorageVolUpload'' volume (StorageVolUpload st volume src 0 sz 0))
       (Wrapf ''error while uploading volume %w'' [])"

section \<open>The qcow2 header\<close>

definition isQCOW2Header :: "byte list \<Rightarrow> goerror + bool" where
  "isQCOW2Header buf =
     (if length buf < 8 then
        Inl (Errorf ''expected header of 8 bytes. Got %d'' [IArg (int (length buf))])
      else Inr (buf ! 0 = of_nat (char_nat CHR ''Q'') \<and> buf ! 1 = of_nat (char_nat CHR ''F'') \<and>
                buf ! 2 = of_nat (char_nat CHR ''I'') \<and> buf ! 3 = 0xfb \<and>
                buf ! 4 = 0 \<and> buf ! 5 = 0 \<and> buf ! 6 = 0 \<and> buf ! 7 = 3))"

section \<open>Images\<close>

datatype image = LocalImage string | HttpImage url

definition image_String :: "image \<Rightarrow> string" where
  "image_String img = (case img of LocalImage path \<Rightarrow> path | HttpImage u \<Rightarrow> u_String u)"

definition httpCall :: "'w io \<Rightarrow> http_request \<Rightarrow> (('w, 'd) prov, http_response) prog" where
  "httpCall io req = call ''http.Do'' [rq_Method req, rq_URL req] (httpDo io req)"

definition openFile :: "'w io \<Rightarrow> string \<Rightarrow> (('w, 'd) prov, nat) prog" where
  "openFile io path = call ''os.Open'' [path] (osOpen io path)"

definition statFile :: "'w io \<Rightarrow> nat \<Rightarrow> (('w, 'd) prov, file_info) prog" where
  "statFile io file = call ''Stat'' [] (fileStat io file)"

definition localImage_Size :: "'w io \<Rightarrow> string \<Rightarrow> (('w, 'd) prov, uint64) prog" where
  "localImage_Size io path =
     bindP (openFile io path) (\<lambda>file.
     bindP (statFile io file) (\<lambda>fi.
     ret (uint64_of_int (fi_Size fi))))"

definition localImage_IsQCOW2 :: "'w io \<Rightarrow> string \<Rightarrow> (('w, 'd) prov, bool) prog" where
  "localImage_IsQCOW2 io path =
     bindP (orFail (openFile io path) (Wrapf ''error while opening %s: %w'' [SArg path])) (\<lambda>file.
     bindP (call ''ReadAtLeast'' [] (ReadAtLeast io file 8)) (\<lambda>buf.
     liftSum (isQCOW2Header buf)))"

definition localImage_Import ::
  "'w io \<Rightarrow> string \<Rightarrow> (reader \<Rightarrow> (('w, 'd) prov, unit) prog) \<Rightarrow> StorageVolume \<Rightarrow> (('w, 'd) prov, unit) prog" where
  "localImage_Import io path copier vol =
     bindP (orFail (openFile io path) (Wrapf ''error while opening %s: %w'' [SArg path])) (\<lambda>file.
     bindP (statFile io file) (\<lambda>fi.
     case vol_Target vol of
       None \<Rightarrow> panic ''nil pointer dereference''
     | Some target \<Rightarrow>
         (case Timestamps target of
            Some mtime \<Rightarrow>
              if mtime \<noteq> [] \<and> fi_ModTime fi = timeFromEpoch mtime then ret ()
              else copier (FileReader file)
          | None \<Rightarrow> copier (FileReader file))))"

definition StatusOK :: int where "StatusOK = 200"
definition StatusPartialContent :: int where "StatusPartialContent = 206"
definition StatusNotModified :: int where "StatusNotModified = 304"
definition StatusForbidden :: int where "StatusForbidden = 403"
definition StatusInternalServerError :: int where "StatusInternalServerError = 500"

definition httpReq :: "string \<Rightarrow> url \<Rightarrow> (string \<times> string) list \<Rightarrow> http_request" where
  "httpReq method u hs = \<lparr>rq_Method = method, rq_URL = u_String u, rq_Headers = hs\<rparr>"

definition httpImage_Size :: "'w io \<Rightarrow> url \<Rightarrow> (('w, 'd) prov, uint64) prog" where
  "httpImage_Size io u =
     bindP (httpCall io (httpReq ''HEAD'' u [])) (\<lambda>head.
     bindP (if StatusCode head = StatusForbidden then httpCall io (httpReq ''GET'' u []) else ret head)
       (\<lambda>response.
     if StatusCode response \<noteq> StatusOK then
       throw (Errorf ''error accessing remote resource: %s - %s'' [SArg (u_String u), SArg (Status response)])
     else (case atoi (ContentLength response) of
        (len, None) \<Rightarrow> ret (uint64_of_int len)
      | (len, Some e) \<Rightarrow>
          throw (Wrapf ''error while getting Content-Length of %s: %w - got %s''
                   [SArg (u_String u), SArg (ContentLength response)] (SysError ''strconv.Atoi'')))))"

text \<open>The error of \<open>http.NewRequest\<close> is dropped; the request is then nil.\<close>

definition httpImage_IsQCOW2 :: "'w io \<Rightarrow> url \<Rightarrow> (('w, 'd) prov, bool) prog" where
  "httpImage_IsQCOW2 io u =
     (case NewRequest io (u_String u) of
        Some _ \<Rightarrow> panic ''nil pointer dereference''
      | None \<Rightarrow>
          bindP (httpCall io (httpReq ''GET'' u [(''Range'', ''bytes=0-7'')])) (\<lambda>response.
          if StatusCode response \<noteq> StatusPartialContent then
            throw (Errorf ''can't retrieve partial header of resource to determine file type: %s - %s''
                     [SArg (u_String u), SArg (Status response)])
          else
            bindP (call ''io.ReadAll'' [] (ReadAll io (Body response))) (\<lambda>header.
            if length header < 8 then
              throw (Errorf ''can't retrieve read header of resource to determine file type: %s - %d bytes read''
                       [SArg (u_String u), IArg (int (length header))])
            else liftSum (isQCOW2Header header))))"

definition maxHTTPRetries :: nat where "maxHTTPRetries = 3"
definition retryWait :: nat where "retryWait = 2"

text \<open>The loop over \<open>retryCount\<close>; the argument counts the attempts left.\<close>

definition downloadError :: "url \<Rightarrow> http_response option \<Rightarrow> goerror" where
  "downloadError u response = Errorf ''error while downloading %s: %v''
     [SArg (u_String u), SArg (case response of Some r \<Rightarrow> Status r | None \<Rightarrow> ''<nil>'')]"

fun httpAttempts ::
  "'w runtime \<Rightarrow> 'w io \<Rightarrow> url \<Rightarrow> http_request \<Rightarrow> (reader \<Rightarrow> (('w, 'd) prov, unit) prog)
   \<Rightarrow> http_response option \<Rightarrow> nat \<Rightarrow> (('w, 'd) prov, unit) prog" where
  "httpAttempts R io u req copier prev 0 = throw (downloadError u prev)"
| "httpAttempts R io u req copier prev (Suc n) =
     bindP (orFail (httpCall io req) (Wrapf ''error while downloading %s: %w'' [SArg (u_String u)]))
       (\<lambda>response.
     if StatusCode response = StatusNotModified then ret ()
     else if StatusCode response = StatusOK then copier (BodyReader (Body response))
     else if StatusCode response < StatusInternalServerError then throw (downloadError u (Some response))
     else bindP (updS (\<lambda>s. s\<lparr>world := rtSleep R retryWait (world s)\<rparr>)) (\<lambda>_.
          httpAttempts R io u req copier (Some response) n))"

definition httpImage_Import ::
  "'w runtime \<Rightarrow> 'w io \<Rightarrow> url \<Rightarrow> (reader \<Rightarrow> (('w, 'd) prov, unit) prog) \<Rightarrow> StorageVolume
   \<Rightarrow> (('w, 'd) prov, unit) prog" where
  "httpImage_Import R io u copier vol =
     (case NewRequest io (u_String u) of
        Some err \<Rightarrow> throw (Wrapf ''error while downloading %s: %w'' [SArg (u_String u)] err)
      | None \<Rightarrow>
         (case vol_Target vol of
            None \<Rightarrow> panic ''nil pointer dereference''
          | Some target \<Rightarrow>
              (let hs = (case Timestamps target of
                   Some mtime \<Rightarrow>
                     if mtime \<noteq> [] then [(''If-Modified-Since'', httpTimeFormat io (timeFromEpoch mtime))]
                     else []
                 | None \<Rightarrow> [])
               in httpAttempts R io u (httpReq ''GET'' u hs) copier None maxHTTPRetries)))"

definition image_Size :: "'w io \<Rightarrow> image \<Rightarrow> (('w, 'd) prov, uint64) prog" where
  "image_Size io img = (case img of
      LocalImage path \<Rightarrow> localImage_Size io path | HttpImage u \<Rightarrow> httpImage_Size io u)"

definition image_IsQCOW2 :: "'w io \<Rightarrow> image \<Rightarrow> (('w, 'd) prov, bool) prog" where
  "image_IsQCOW2 io img = (case img of
      LocalImage path \<Rightarrow> localImage_IsQCOW2 io path | HttpImage u \<Rightarrow> httpImage_IsQCOW2 io u)"

definition image_Import ::
  "'w runtime \<Rightarrow> 'w io \<Rightarrow> image \<Rightarrow> (reader \<Rightarrow> (('w, 'd) prov, unit) prog) \<Rightarrow> StorageVolume
   \<Rightarrow> (('w, 'd) prov, unit) prog" where
  "image_Import R io img copier vol = (case img of
      LocalImage path \<Rightarrow> localImage_Import io path copier vol
    | HttpImage u \<Rightarrow> httpImage_Import R io u copier vol)"

definition newImage :: "'w io \<Rightarrow> string \<Rightarrow> (('w, 'd) prov, image) prog" where
  "newImage io source = (case urlParse io source of
      Inl err \<Rightarrow> throw (Wrapf ''can't parse source '%s' as url: %w'' [SArg source] err)
    | Inr u \<Rightarrow>
        if hasPrefix (u_Scheme u) ''http'' then ret (HttpImage u)
        else if u_Scheme u = ''file'' \<and> GOOS io = ''windows'' then
          ret (LocalImage (filepathClean io
            (if hasPrefix (u_Path u) ''/'' then tl (u_Path u) else u_Path u)))
        else if u_Scheme u = ''file'' \<or> u_Scheme u = [] then ret (LocalImage (u_Path u))
        else
          bindP (if GOOS io = ''windows''
                 then bindP (attempt (call ''os.Stat'' [u_String u] (osStatIsDir io (u_String u))))
                        (\<lambda>r. ret (r = Inr False))
                 else ret False) (\<lambda>isPath.
          if isPath then ret (LocalImage (filepathClean io source))
          else throw (Errorf ''don't know how to handle image URI from '%v' (scheme: %s)''
                        [SArg (u_String u), SArg (u_Scheme u)])))"

section \<open>The discipline\<close>

lemma safe_newCopier:
  "H (sv_Pool v) \<Longrightarrow> tolerates E \<Longrightarrow> safe (inv H n E) (newCopier st v sz src)"
  unfolding newCopier_def by (intro safe_intros safe_volCall_locked admits_tolerates) (simp_all add: event_names)

lemma safe_httpCall [safe_intros]: "admits P \<Longrightarrow> safe P (httpCall io req)"
  unfolding httpCall_def by (intro safe_intros) (simp_all add: event_names)

lemma safe_openFile [safe_intros]: "admits P \<Longrightarrow> safe P (openFile io path)"
  unfolding openFile_def by (intro safe_intros) (simp_all add: event_names)

lemma safe_statFile [safe_intros]: "admits P \<Longrightarrow> safe P (statFile io f)"
  unfolding statFile_def by (intro safe_intros) (simp_all add: event_names)

lemma safe_image_Size [safe_intros]: "admits P \<Longrightarrow> safe P (image_Size io img)"
  unfolding image_Size_def localImage_Size_def httpImage_Size_def
  by (cases img) (auto intro!: safe_intros)

lemma safe_image_IsQCOW2 [safe_intros]: "admits P \<Longrightarrow> safe P (image_IsQCOW2 io img)"
  unfolding image_IsQCOW2_def localImage_IsQCOW2_def httpImage_IsQCOW2_def
  by (cases img) (auto intro!: safe_intros simp: event_names)

lemma safe_newImage [safe_intros]: "admits P \<Longrightarrow> safe P (newImage io src)"
  unfolding newImage_def by (intro safe_intros) (simp_all add: event_names)

lemma safe_sleep [safe_intros]: "admits P \<Longrightarrow> safe P (updS (\<lambda>s. s\<lparr>world := f (world s)\<rparr>))"
  by (simp add: ends_def updS_def admits_def blind_def)

lemma safe_httpAttempts:
  "admits P \<Longrightarrow> (\<And>src. safe P (copier src)) \<Longrightarrow> safe P (httpAttempts R io u req copier prev k)"
  by (induction k arbitrary: prev) (auto intro!: safe_intros)

lemma safe_image_Import:
  "admits P \<Longrightarrow> (\<And>src. safe P (copier src)) \<Longrightarrow> safe P (image_Import R io img copier vol)"
  unfolding image_Import_def localImage_Import_def httpImage_Import_def
  by (cases img) (auto intro!: safe_intros safe_httpAttempts)

section \<open>Properties\<close>

text \<open>The header test accepts exactly the buffers whose first eight bytes are the qcow2 magic
  number and version 3, and fails exactly on shorter buffers.\<close>

lemma isQCOW2Header_spec:
  "isQCOW2Header buf = Inr b \<longleftrightarrow>
     8 \<le> length buf \<and> b = (take 8 buf = [0x51, 0x46, 0x49, 0xfb, 0, 0, 0, 3])"
proof (cases "8 \<le> length buf")
  case True
  then obtain b0 b1 b2 b3 b4 b5 b6 b7 rest where "buf = b0 # b1 # b2 # b3 # b4 # b5 # b6 # b7 # rest"
    by (auto simp: Suc_le_length_iff eval_nat_numeral)
  then show ?thesis
    by (auto simp: isQCOW2Header_def char_nat_def eval_nat_numeral)
qed (simp add: isQCOW2Header_def)

definition httpEvent :: "('w, 'd) prov \<Rightarrow> url \<Rightarrow> event" where
  "httpEvent s u = \<lparr>ev_call = ''http.Do'', ev_args = [''GET'', u_String u],
     ev_pools = holds (poolMutexKV s), ev_net = networkMutex s\<rparr>"

definition uploadEvent :: "('w, 'd) prov \<Rightarrow> StorageVol \<Rightarrow> event" where
  "uploadEvent s v = \<lparr>ev_call = ''StorageVolUpload'', ev_args = [sv_Pool v, sv_Name v, sv_Key v],
     ev_pools = holds (poolMutexKV s), ev_net = networkMutex s\<rparr>"

lemma httpAttempts_trace:
  "httpAttempts R io u (httpReq ''GET'' u hs) (newCopier st v sz) prev n s = (r, s') \<Longrightarrow>
   \<exists>k up. k \<le> n \<and> trace s' = trace s @ replicate k (httpEvent s u) @ up
     \<and> (up = [] \<or> 0 < k \<and> up = [uploadEvent s v]) \<and> (r = Ret () \<longrightarrow> 0 < k)"
proof (induction n arbitrary: prev s)
  case 0
  then show ?case by (auto simp: throw_def)
next
  case (Suc n)
  obtain r1 w1 where h: "httpDo io (httpReq ''GET'' u hs) (world s) = (r1, w1)" by fastforce
  define s1 where "s1 = s\<lparr>trace := trace s @ [httpEvent s u], world := w1\<rparr>"
  have run1: "httpCall io (httpReq ''GET'' u hs) s =
      ((case r1 of Inl e \<Rightarrow> Err e | Inr x \<Rightarrow> Ret x), s1)"
    using h by (simp add: httpCall_def call_def httpReq_def httpEvent_def s1_def Let_def split: sum.split)
  have ev: "httpEvent s1 u = httpEvent s u" "uploadEvent s1 v = uploadEvent s v"
    by (simp_all add: httpEvent_def uploadEvent_def s1_def)
  show ?case
  proof (cases r1)
    case (Inl e)
    with Suc.prems run1 show ?thesis
      by (intro exI [of _ 1] exI [of _ "[]"]) (auto simp: prog_defs s1_def)
  next
    case (Inr response)
    consider (notmod) "StatusCode response = StatusNotModified" | (ok) "StatusCode response = StatusOK"
      | (client) "StatusCode response \<noteq> StatusNotModified" "StatusCode response \<noteq> StatusOK"
          "StatusCode response < StatusInternalServerError"
      | (server) "\<not> StatusCode response < StatusInternalServerError"
      by blast
    then show ?thesis
    proof cases
      case notmod
      with Suc.prems run1 Inr show ?thesis
        by (intro exI [of _ 1] exI [of _ "[]"]) (auto simp: prog_defs s1_def)
    next
      case ok
      then have run: "newCopier st v sz (BodyReader (Body response)) s1 = (r, s')"
        using Suc.prems run1 Inr by (simp add: prog_defs StatusOK_def StatusNotModified_def)
      then have "trace s' = trace s1 @ [uploadEvent s1 v]"
        by (auto simp: newCopier_def volCall_def call_def uploadEvent_def prog_defs Let_def
            split: prod.splits sum.splits)
      then show ?thesis
        by (intro exI [of _ 1] exI [of _ "[uploadEvent s v]"]) (simp add: uploadEvent_def s1_def)
    next
      case client
      with Suc.prems run1 Inr show ?thesis
        by (intro exI [of _ 1] exI [of _ "[]"]) (auto simp: prog_defs s1_def)
    next
      case server
      define s2 where "s2 = s1\<lparr>world := rtSleep R retryWait (world s1)\<rparr>"
      have "httpAttempts R io u (httpReq ''GET'' u hs) (newCopier st v sz) (Some response) n s2 = (r, s')"
        using server Suc.prems run1 Inr
        by (simp add: prog_defs s2_def StatusNotModified_def StatusOK_def StatusInternalServerError_def)
      from Suc.IH [OF this] obtain k up where ih: "k \<le> n" "trace s' = trace s2 @ replicate k (httpEvent s2 u) @ up"
        "up = [] \<or> 0 < k \<and> up = [uploadEvent s2 v]" by blast
      have "httpEvent s2 u = httpEvent s u" "uploadEvent s2 v = uploadEvent s v" "trace s2 = trace s @ [httpEvent s u]"
        by (simp_all add: s2_def s1_def httpEvent_def uploadEvent_def)
      with ih show ?thesis
        by (intro exI [of _ "Suc k"] exI [of _ up]) auto
    qed
  qed
qed

text \<open>C27: Importing from a URL makes at most \<open>maxHTTPRetries\<close> requests, all of them GETs of that
  URL, uploads at most once and only after them, and does not succeed without a request.\<close>

theorem httpImage_Import_requests:
  "httpImage_Import R io u (newCopier st v sz) vol s = (r, s') \<Longrightarrow>
   \<exists>k up. k \<le> maxHTTPRetries \<and> trace s' = trace s @ replicate k (httpEvent s u) @ up
     \<and> (up = [] \<or> 0 < k \<and> up = [uploadEvent s v]) \<and> (r = Ret () \<longrightarrow> 0 < k)"
  unfolding httpImage_Import_def
  by (auto split: option.splits simp: Let_def throw_def panic_def dest!: httpAttempts_trace)

text \<open>Two server errors, then the file: three requests and an upload.\<close>

definition demo_http :: "(dworld, rdemo) prov" where
  "demo_http = demo_state (demo_world\<lparr>dw_http := [500, 503, 200]\<rparr>) [] []"

definition demo_url :: url where
  "demo_url = \<lparr>u_Scheme = ''http'', u_Path = ''/a'', u_String = ''http://h/a''\<rparr>"

definition demo_import :: "unit outcome \<times> (dworld, rdemo) prov" where
  "demo_import = httpImage_Import demo_runtime demo_io demo_url
     (newCopier demo_storage \<lparr>sv_Pool = ''p'', sv_Name = ''v'', sv_Key = ''k''\<rparr> 1024)
     \<lparr>vol_Name = ''v'', vol_Target = Some \<lparr>Format = None, Permissions = None, Timestamps = None\<rparr>,
      vol_Capacity = None, vol_BackingStore = None\<rparr> demo_http"

theorem httpImage_Import_requests_witness:
  "\<exists>k up. k \<le> maxHTTPRetries \<and> trace (snd demo_import) = replicate k (httpEvent demo_http demo_url) @ up
     \<and> (up = [] \<or> 0 < k) \<and> fst demo_import = Ret () \<and> 0 < k"
proof -
  have ret: "fst demo_import = Ret ()"
    by (simp add: demo_import_def httpImage_Import_def demo_io_def demo_http_def demo_state_def
        maxHTTPRetries_def eval_nat_numeral demo_world_def httpCall_def call_def prog_defs
        StatusNotModified_def StatusOK_def StatusInternalServerError_def demo_runtime_def
        newCopier_def volCall_def demo_storage_def)
  have run: "demo_import = (fst demo_import, snd demo_import)" by simp
  have "trace demo_http = []" by (simp add: demo_http_def demo_state_def)
  with httpImage_Import_requests [OF run [unfolded demo_import_def], folded demo_import_def] ret
  show ?thesis by auto
qed

end
