(* ===== verification/Volume.thy ===== *)
theory Volume
  imports Volume_Image
begin

text \<open>
  \<open>volume.go\<close> and \<open>volume_def.go\<close>: volume definitions and their backing stores as read from the
  daemon, waiting for a volume to appear or to go, and the deletion of a volume.
\<close>

section \<open>Definitions\<close>

definition newDefVolume :: StorageVolume where
  "newDefVolume = \<lparr>vol_Name = [],
     vol_Target = Some \<lparr>Format = Some ''qcow2'', Permissions = Some ''644'', Timestamps = None\<rparr>,
     vol_Capacity = Some \<lparr>Unit = ''bytes'', Value = 1\<rparr>, vol_BackingStore = None\<rparr>"

definition newDefVolumeFromXML :: "'w storage \<Rightarrow> string \<Rightarrow> goerror + StorageVolume" where
  "newDefVolumeFromXML st s = volDecode st s"

text \<open>
  When the XML does not decode, the name in the error is that of the empty definition that
  \<open>newDefVolumeFromXML\<close> returns with it.
\<close>

definition newDefVolumeFromLibvirt :: "'w storage \<Rightarrow> StorageVol \<Rightarrow> (('w, 'd) prov, StorageVolume) prog" where
  "newDefVolumeFromLibvirt st volume =
     bindP (orFail (volCall ''StorageVolGetXMLDesc'' volume (StorageVolGetXMLDesc st volume 0))
              (Wrapf ''could not get XML description for volume %s: %w'' [SArg (sv_Name volume)]))
       (\<lambda>volumeDefXML.
     orFail (liftSum (newDefVolumeFromXML st volumeDefXML))
       (Wrapf ''could not get a volume definition from XML for %s: %w'' [SArg []]))"

definition newDefBackingStoreFromLibvirt ::
  "'w storage \<Rightarrow> StorageVol \<Rightarrow> (('w, 'd) prov, StorageVolumeBackingStore) prog" where
  "newDefBackingStoreFromLibvirt st baseVolume =
     bindP (orFail (newDefVolumeFromLibvirt st baseVolume) (Wrapf ''could not get volume: %w'' []))
       (\<lambda>baseVolumeDef.
     bindP (orFail (volCall ''StorageVolGetPath'' baseVolume (StorageVolGetPath st baseVolume))
              (Wrapf ''could not get base image path: %w'' []))
       (\<lambda>baseVolPath.
     case vol_Target baseVolumeDef of
       None \<Rightarrow> panic ''nil pointer dereference''
     | Some target \<Rightarrow> ret \<lparr>bs_Path = baseVolPath, bs_Format = Format target\<rparr>))"

section \<open>Waiting\<close>

definition volExistsID :: string where "volExistsID = ''EXISTS''"
definition volNotExistsID :: string where "volNotExistsID = ''NOT-EXISTS''"

definition lookupVolByKey :: "'w storage \<Rightarrow> string \<Rightarrow> (('w, 'd) prov, StorageVol) prog" where
  "lookupVolByKey st key = call ''StorageVolLookupByKey'' [key] (StorageVolLookupByKey st key)"

definition volumeExistsStateRefreshFunc :: "'w storage \<Rightarrow> string \<Rightarrow> (('w, 'd) prov, string) prog" where
  "volumeExistsStateRefreshFunc st key =
     bindP (attempt (lookupVolByKey st key)) (\<lambda>r. case r of
       Inl err \<Rightarrow> if isError err ErrNoStorageVol then ret volNotExistsID else throw err
     | Inr _ \<Rightarrow> ret volExistsID)"

definition waitForStateVolumeExists ::
  "('w, 'd, 'v) sdk \<Rightarrow> 'w storage \<Rightarrow> string \<Rightarrow> (('w, 'd) prov, unit) prog" where
  "waitForStateVolumeExists S st key =
     sdWaitForState S \<lparr>Pending = [volNotExistsID], Target = [volExistsID],
       Timeout = resourceStateTimeout, Delay = 0, MinTimeout = resourceStateMinTimeout\<rparr>
       (volumeExistsStateRefreshFunc st key)"

definition volumeWaitDeleted ::
  "('w, 'd, 'v) sdk \<Rightarrow> 'w storage \<Rightarrow> string \<Rightarrow> (('w, 'd) prov, unit) prog" where
  "volumeWaitDeleted S st key =
     sdWaitForState S \<lparr>Pending = [volExistsID], Target = [volNotExistsID],
       Timeout = resourceStateTimeout, Delay = 0, MinTimeout = resourceStateMinTimeout\<rparr>
       (volumeExistsStateRefreshFunc st key)"

section \<open>Deletion\<close>

text \<open>The part of \<open>volumeDelete\<close> that runs with the mutex of the pool held.\<close>

definition deleteFromPool ::
  "('w, 'd, 'v) sdk \<Rightarrow> 'w runtime \<Rightarrow> 'w storage \<Rightarrow> string \<Rightarrow> StorageVol \<Rightarrow> StoragePool
   \<Rightarrow> (('w, 'd) prov, unit) prog" where
  "deleteFromPool S R st key volume volPool =
     bindP (waitSuccess R ''error refreshing pool for volume''
              (poolCall ''StoragePoolRefresh'' volPool (StoragePoolRefresh st volPool 0))) (\<lambda>_.
     bindP (bindP (attempt (volCall ''StorageVolGetXMLDesc'' volume (StorageVolGetXMLDesc st volume 0)))
       (\<lambda>desc. case desc of
         Inl err \<Rightarrow>
           if \<not> isError err ErrNoStorageVol
           then throw (Wrapf ''can't retrieve volume %s XML desc: %w'' [SArg key] err)
           else ret ()
       | Inr _ \<Rightarrow> ret ())) (\<lambda>_.
     bindP (attempt (volCall ''StorageVolDelete'' volume (StorageVolDelete st volume 0)))
       (\<lambda>del. case del of
         Inl err \<Rightarrow>
           if \<not> isError err ErrNoStorageVol
           then throw (Wrapf ''can't delete volume %s: %w'' [SArg key] err)
           else ret ()
       | Inr _ \<Rightarrow> volumeWaitDeleted S st key)))"

definition volumeDelete ::
  "('w, 'd, 'v) sdk \<Rightarrow> 'w runtime \<Rightarrow> 'w storage \<Rightarrow> string \<Rightarrow> (('w, 'd) prov, unit) prog" where
  "volumeDelete S R st key = requireConn (
     bindP (attempt (lookupVolByKey st key)) (\<lambda>r. case r of
       Inl err \<Rightarrow>
         if isError err ErrNoStorageVol then ret ()
         else throw (Wrapf ''volumeDelete: Can't retrieve volume %s: %w'' [SArg key] err)
     | Inr volume \<Rightarrow>
         bindP (orFail (volCall ''StoragePoolLookupByVolume'' volume (StoragePoolLookupByVolume st volume))
                  (Wrapf ''error retrieving pool for volume: %w'' [])) (\<lambda>volPool.
         if sp_Name volPool = [] then
           throw (Errorf ''error retrieving name of pool for volume key: %s'' [SArg (sv_Key volume)])
         else withPoolLock (sp_Name volPool) (deleteFromPool S R st key volume volPool))))"

section \<open>The discipline\<close>

lemma safe_lookupVolByKey [safe_intros]: "admits P \<Longrightarrow> safe P (lookupVolByKey st key)"
  unfolding lookupVolByKey_def by (intro safe_intros) (simp_all add: event_names)

lemma safe_volumeExists [safe_intros]: "admits P \<Longrightarrow> safe P (volumeExistsStateRefreshFunc st key)"
  unfolding volumeExistsStateRefreshFunc_def by (intro safe_intros)

lemma safe_volume_waits:
  assumes "wait_ok S" "admits P"
  shows "safe P (waitForStateVolumeExists S st key)" "safe P (volumeWaitDeleted S st key)"
  unfolding waitForStateVolumeExists_def volumeWaitDeleted_def
  by (intro safe_wait safe_volumeExists admits_blind assms)+

lemma safe_newDefVolumeFromLibvirt [safe_intros]: "admits P \<Longrightarrow> safe P (newDefVolumeFromLibvirt st v)"
  unfolding newDefVolumeFromLibvirt_def by (intro safe_intros) (simp_all add: event_names)

lemma safe_newDefBackingStore [safe_intros]: "admits P \<Longrightarrow> safe P (newDefBackingStoreFromLibvirt st v)"
  unfolding newDefBackingStoreFromLibvirt_def by (intro safe_intros) (simp_all add: event_names)

lemma ends_lookup_by_volume:
  assumes "storage_laws st" "admits P"
  shows "ends P (volCall ''StoragePoolLookupByVolume'' v (StoragePoolLookupByVolume st v))
    (\<lambda>p. sp_Name p = sv_Pool v)"
  unfolding volCall_def
  by (rule ends_read) (use assms storage_lawsD(4) [OF assms(1)] in \<open>auto simp: event_names\<close>)

lemma safe_refresh:
  assumes "runtime_ok R" "refresh_forward R st" "H (sp_Name p)"
  shows "safe (disciplined H n) (waitSuccess R msg (poolCall ''StoragePoolRefresh'' p (StoragePoolRefresh st p 0)))"
  unfolding poolCall_def
  by (rule safe_waitSuccess)
    (use assms in \<open>auto simp: refresh_forward_def event_ok_def event_names\<close>)

lemma safe_deleteFromPool:
  assumes "wait_ok S" "runtime_ok R" "refresh_forward R st" "H (sp_Name p)" "sp_Name p = sv_Pool v"
  shows "safe (disciplined H n) (deleteFromPool S R st key v p)"
proof -
  have names: "''StorageVolGetXMLDesc'' \<notin> definesNetwork" "''StorageVolDelete'' \<notin> definesNetwork"
    by (simp_all add: event_names)
  show ?thesis
    unfolding deleteFromPool_def
    by (intro safe_intros safe_refresh safe_volume_waits safe_volCall_locked names)
      (use assms in simp_all)
qed

lemma safe_volumeDelete:
  assumes "wait_ok S" "runtime_ok R" "storage_laws st" "refresh_forward R st"
  shows "safe (disciplined (\<lambda>_. False) n) (volumeDelete S R st key)"
proof -
  have step: "safe (disciplined (\<lambda>_. False) n) (withPoolLock (sp_Name p) (deleteFromPool S R st key v p))"
    if "sp_Name p = sv_Pool v" for v p
    by (intro ends_withPoolLock safe_deleteFromPool) (use assms that in simp_all)
  show ?thesis
    unfolding volumeDelete_def
    by (intro safe_requireConn safe_bind [OF safe_attempt [OF safe_lookupVolByKey [OF admits_disciplined]]] ends_sum ends_if
        ends_bind [OF ends_orFail [OF ends_lookup_by_volume [OF assms(3) admits_disciplined]]] safe_ret ends_throw step)
qed

section \<open>Properties\<close>

text \<open>C21: Deleting a volume always returns, gives back the pool mutex on every path, and refreshes
  the pool and deletes the volume only with the mutex of its pool held.\<close>

theorem volumeDelete_disciplined:
  assumes "wait_ok S" "runtime_ok R" "storage_laws st" "refresh_forward R st"
  shows "handler_ok (volumeDelete S R st key)"
  by (rule handler_okI) (rule safe_volumeDelete [OF assms])

theorem volumeDelete_disciplined_witness:
  "handler_ok (volumeDelete demo_sdk demo_runtime demo_storage ''default/base'')"
  by (rule volumeDelete_disciplined)
    (rule demo_sdk_ok demo_runtime_ok demo_storage_laws demo_refresh_forward)+

text \<open>Deleting a volume that the daemon does not know is a success that only looks it up.\<close>

lemma volumeDelete_absent:
  assumes "connected s" "StorageVolLookupByKey st key (world s) = (Inl err, w)" "isError err ErrNoStorageVol"
  shows "volumeDelete S R st key s = (Ret (), s\<lparr>world := w,
    trace := trace s @ [\<lparr>ev_call = ''StorageVolLookupByKey'', ev_args = [key],
      ev_pools = holds (poolMutexKV s), ev_net = networkMutex s\<rparr>]\<rparr>)"
  using assms by (simp add: volumeDelete_def requireConn_def lookupVolByKey_def call_def prog_defs Let_def)

theorem volumeDelete_absent_witness:
  "fst (volumeDelete demo_sdk demo_runtime demo_storage ''nope'' (demo_state demo_world [] [])) = Ret ()"
proof -
  have "StorageVolLookupByKey demo_storage ''nope'' demo_world = (Inl no_vol, demo_world)"
    by (simp add: demo_storage_def rpc_map_def demo_findVol_def demo_world_def)
  then show ?thesis
    by (subst volumeDelete_absent [where err = no_vol and w = demo_world])
      (simp_all add: demo_state_def no_vol_def)
qed












end
