(* ===== verification/Xslt.thy ===== *)
theory Xslt
  imports Demo_World
begin

text \<open>
  \<open>utils_xslt.go\<close>: a user stylesheet applied to the XML of a resource with \<open>xsltproc\<close>, through
  two temporary files, and the comparison of stylesheets up to white space.  The file calls
  and the external program are arguments.
\<close>

record 'w xslt_io =
  CreateTemp :: "string \<Rightarrow> ('w, string) rpc"
  WriteFile :: "string \<Rightarrow> string \<Rightarrow> ('w, unit) rpc"
  CloseFile :: "string \<Rightarrow> ('w, unit) rpc"
  RemoveFile :: "string \<Rightarrow> ('w, unit) rpc"
  ExecOutput :: "string list \<Rightarrow> ('w, string) rpc"

text \<open>For the witnesses: a program that copies its input.\<close>

definition demo_xslt :: "dworld xslt_io" where
  "demo_xslt = \<lparr>CreateTemp = (\<lambda>p w. (Inr p, w)), WriteFile = (\<lambda>_ _ w. (Inr (), w)),
     CloseFile = (\<lambda>_ w. (Inr (), w)), RemoveFile = (\<lambda>_ w. (Inr (), w)),
     ExecOutput = (\<lambda>args w. (Inr (concat args), w))\<rparr>"

text \<open>\<open>strings.TrimSpace\<close> on ASCII white space.\<close>

definition isSpace :: "char \<Rightarrow> bool" where
  "isSpace c \<longleftrightarrow> c = CHR '' '' \<or> (9 \<le> char_nat c \<and> char_nat c \<le> 13)"

definition TrimSpace :: "string \<Rightarrow> string" where
  "TrimSpace s = rev (dropWhile isSpace (rev (dropWhile isSpace s)))"

definition nl :: char where "nl = char_of (10 :: nat)"

definition identitySpaceStripXSLT :: string where
  "identitySpaceStripXSLT = concat (map (\<lambda>l. l @ [nl])
     ['''', ''<xsl:stylesheet version=\"1.0\" xmlns:xsl=\"http://www.w3.org/1999/XSL/Transform\">'',
      ''  <xsl:strip-space elements=\"*\" />'',
      ''  <xsl:template match=\"@*|node()\">'',
      ''    <xsl:copy>'',
      ''      <xsl:apply-templates select=\"@*|node()\"/>'',
      ''    </xsl:copy>'',
      ''  </xsl:template>'',
      ''</xsl:stylesheet>''])"

definition removeTemp :: "'w xslt_io \<Rightarrow> string \<Rightarrow> (('w, 'd) prov, unit) prog" where
  "removeTemp x name = call ''os.Remove'' [name] (RemoveFile x name)"

definition transformXML :: "'w xslt_io \<Rightarrow> string \<Rightarrow> string \<Rightarrow> (('w, 'd) prov, string) prog" where
  "transformXML x xmlS xsltS =
     (if TrimSpace xsltS = [] then ret xmlS
      else
        bindP (call ''os.CreateTemp'' [''terraform-provider-libvirt-xslt'']
                 (CreateTemp x ''terraform-provider-libvirt-xslt'')) (\<lambda>xsltFile.
        deferP (removeTemp x xsltFile) (
        bindP (call ''Write'' [xsltFile] (WriteFile x xsltFile (TrimSpace xsltS))) (\<lambda>_.
        bindP (call ''Close'' [xsltFile] (CloseFile x xsltFile)) (\<lambda>_.
        bindP (call ''os.CreateTemp'' [''terraform-provider-libvirt-xml'']
                 (CreateTemp x ''terraform-provider-libvirt-xml'')) (\<lambda>xmlFile.
        deferP (removeTemp x xmlFile) (
        bindP (call ''Write'' [xmlFile] (WriteFile x xmlFile xmlS)) (\<lambda>_.
        bindP (call ''Close'' [xmlFile] (CloseFile x xmlFile)) (\<lambda>_.
        call ''xsltproc'' [xsltFile, xmlFile]
          (ExecOutput x [''xsltproc'', ''--nomkdir'', ''--nonet'', ''--nowrite'', xsltFile, xmlFile]))))))))))"

definition xsltDiffSupressFunc :: "'w xslt_io \<Rightarrow> string \<Rightarrow> string \<Rightarrow> (('w, 'd) prov, bool) prog" where
  "xsltDiffSupressFunc x old new =
     bindP (attempt (transformXML x old identitySpaceStripXSLT)) (\<lambda>r. case r of
       Inl err \<Rightarrow> ret (old = new)
     | Inr oldStrip \<Rightarrow>
         bindP (attempt (transformXML x new identitySpaceStripXSLT)) (\<lambda>r'. case r' of
           Inl err \<Rightarrow> ret (old = new)
         | Inr newStrip \<Rightarrow> ret (oldStrip = newStrip)))"

definition transformResourceXML ::
  "('w, 'd, 'v) sdk \<Rightarrow> 'w xslt_io \<Rightarrow> string \<Rightarrow> (('w, 'd) prov, string) prog" where
  "transformResourceXML S x xml =
     bindP (dGetOk S ''xml.0.xslt'') (\<lambda>r. case r of
       None \<Rightarrow> ret xml
     | Some v \<Rightarrow> bindP (assertStr v) (\<lambda>xslt. transformXML x xml xslt))"

section \<open>The discipline\<close>

lemma ends_defer [safe_intros]: "safe P fin \<Longrightarrow> ends P m \<phi> \<Longrightarrow> ends P (deferP fin m) \<phi>"
proof (rule endsI)
  fix s r s' assume fin: "safe P fin" and m: "ends P m \<phi>" and s: "P s" and run: "deferP fin m s = (r, s')"
  obtain r1 s1 where ms: "m s = (r1, s1)" by fastforce
  from endsD [OF m s ms] have 1: "r1 \<noteq> Blocked" "P s1" "\<forall>x. r1 = Ret x \<longrightarrow> \<phi> x" by blast+
  obtain r2 s2 where fs: "fin s1 = (r2, s2)" by fastforce
  from endsD [OF fin 1(2) fs] have "r2 \<noteq> Blocked" "P s2" by blast+
  with ms fs run 1 show "r \<noteq> Blocked \<and> P s' \<and> (\<forall>x. r = Ret x \<longrightarrow> \<phi> x)"
    by (cases r1; cases r2) (auto simp: deferP_def)
qed

lemma safe_transformXML [safe_intros]: "admits P \<Longrightarrow> safe P (transformXML x xml xslt)"
  unfolding transformXML_def removeTemp_def by (intro safe_intros) (simp_all add: event_names)

lemma safe_transformResourceXML [safe_intros]: "admits P \<Longrightarrow> safe P (transformResourceXML S x xml)"
  unfolding transformResourceXML_def by (intro safe_intros)

section \<open>Temporary files\<close>

text \<open>The temporary files made and removed by the calls of a trace.\<close>

definition removed :: "('w, 'd) prov \<Rightarrow> string list" where
  "removed s = concat (map ev_args (filter (\<lambda>e. ev_call e = ''os.Remove'') (trace s)))"

definition written :: "('w, 'd) prov \<Rightarrow> string list" where
  "written s = concat (map ev_args (filter (\<lambda>e. ev_call e = ''Write'') (trace s)))"

text \<open>\<open>tidy F m\<close>: every file that \<open>m\<close> writes is in \<open>F\<close> or removed by \<open>m\<close>, and \<open>m\<close> ends.\<close>

definition tidy :: "string set \<Rightarrow> (('w, 'd) prov, 'a) prog \<Rightarrow> bool" where
  "tidy F m \<longleftrightarrow> (\<forall>s r s'. m s = (r, s') \<longrightarrow> r \<noteq> Blocked \<and>
     (\<exists>rs ws. removed s' = removed s @ rs \<and> written s' = written s @ ws \<and> set ws \<subseteq> F \<union> set rs))"

lemma tidyI:
  "(\<And>s r s'. m s = (r, s') \<Longrightarrow> r \<noteq> Blocked \<and>
     (\<exists>rs ws. removed s' = removed s @ rs \<and> written s' = written s @ ws \<and> set ws \<subseteq> F \<union> set rs)) \<Longrightarrow> tidy F m"
  by (simp add: tidy_def)

lemma tidyD:
  assumes "tidy F m" "m s = (r, s')"
  obtains rs ws where "r \<noteq> Blocked" "removed s' = removed s @ rs" "written s' = written s @ ws"
    "set ws \<subseteq> F \<union> set rs"
  using assms unfolding tidy_def by blast

lemma tidy_call: "name \<noteq> ''os.Remove'' \<Longrightarrow> name \<noteq> ''Write'' \<Longrightarrow> tidy F (call name args f)"
  by (rule tidyI) (auto simp: call_def removed_def written_def Let_def split: prod.splits sum.splits)

lemma tidy_write: "file \<in> F \<Longrightarrow> tidy F (call ''Write'' [file] f)"
  by (rule tidyI) (auto simp: call_def removed_def written_def Let_def split: prod.splits sum.splits)

lemma tidy_ret: "tidy F (ret x)"
  by (rule tidyI) (auto simp: ret_def)

lemma tidy_bind:
  assumes m: "tidy F m" and f: "\<And>x. tidy F (f x)"
  shows "tidy F (bindP m f)"
proof (rule tidyI)
  fix s r s' assume run: "bindP m f s = (r, s')"
  obtain r1 s1 where ms: "m s = (r1, s1)" by fastforce
  from tidyD [OF m ms] obtain rs ws where 1: "r1 \<noteq> Blocked" "removed s1 = removed s @ rs"
    "written s1 = written s @ ws" "set ws \<subseteq> F \<union> set rs" .
  show "r \<noteq> Blocked \<and> (\<exists>rs ws. removed s' = removed s @ rs \<and> written s' = written s @ ws
      \<and> set ws \<subseteq> F \<union> set rs)"
  proof (cases "\<exists>x. r1 = Ret x")
    case True
    then obtain x where "r1 = Ret x" ..
    with ms run have "f x s1 = (r, s')" by (simp add: bindP_def)
    from tidyD [OF f this] obtain rs' ws' where 2: "r \<noteq> Blocked" "removed s' = removed s1 @ rs'"
      "written s' = written s1 @ ws'" "set ws' \<subseteq> F \<union> set rs'" .
    with 1 show ?thesis by (intro conjI exI [of _ "rs @ rs'"] exI [of _ "ws @ ws'"]) auto
  next
    case False
    with ms run 1 show ?thesis by (cases r1) (auto simp: bindP_def)
  qed
qed

lemma tidy_defer:
  assumes m: "tidy (insert file F) m"
  shows "tidy F (deferP (removeTemp x file) m)"
proof (rule tidyI)
  fix s r s' assume run: "deferP (removeTemp x file) m s = (r, s')"
  obtain r1 s1 where ms: "m s = (r1, s1)" by fastforce
  from tidyD [OF m ms] obtain rs ws where 1: "r1 \<noteq> Blocked" "removed s1 = removed s @ rs"
    "written s1 = written s @ ws" "set ws \<subseteq> insert file F \<union> set rs" .
  obtain r2 s2 where rm: "removeTemp x file s1 = (r2, s2)" by fastforce
  then have 2: "removed s2 = removed s1 @ [file]" "written s2 = written s1"
      "r2 = Ret () \<or> (\<exists>e. r2 = Err e)"
    by (auto simp: removeTemp_def call_def removed_def written_def Let_def split: prod.splits sum.splits)
  from 1(1) 2(3) ms rm run have "r = r1" "s' = s2" by (cases r1; auto simp: deferP_def)+
  with 1 2 show "r \<noteq> Blocked \<and> (\<exists>rs ws. removed s' = removed s @ rs \<and> written s' = written s @ ws
      \<and> set ws \<subseteq> F \<union> set rs)"
    by (intro conjI exI [of _ "rs @ [file]"] exI [of _ ws]) auto
qed

text \<open>C28: Applying a stylesheet leaves no temporary file behind: every file it has written is
  removed by the time it returns, on every path, and it always returns.\<close>

theorem transformXML_removes_temps: "tidy {} (transformXML x xmlS xsltS)"
  unfolding transformXML_def
  by (simp add: tidy_ret, intro impI tidy_bind tidy_defer tidy_call tidy_write) simp_all

text \<open>White space around a stylesheet does not matter.\<close>

lemma dropWhile_space: "list_all isSpace w \<Longrightarrow> dropWhile isSpace (w @ s) = dropWhile isSpace s"
  by (induction w) auto

lemma TrimSpace_left: "list_all isSpace w \<Longrightarrow> TrimSpace (w @ s) = TrimSpace s"
  by (simp add: TrimSpace_def dropWhile_space)

lemma TrimSpace_right: "list_all isSpace w \<Longrightarrow> TrimSpace (s @ w) = TrimSpace s"
proof (cases "\<exists>c \<in> set s. \<not> isSpace c")
  case True
  assume w: "list_all isSpace w"
  from True have "dropWhile isSpace (s @ w) = dropWhile isSpace s @ w"
    by (auto simp: dropWhile_append)
  with w show ?thesis
    by (simp add: TrimSpace_def dropWhile_space list_all_iff)
next
  case False
  assume w: "list_all isSpace w"
  then have "list_all isSpace (s @ w)" "list_all isSpace s" using False by (auto simp: list_all_iff)
  then have "dropWhile isSpace (s @ w) = []" "dropWhile isSpace s = []"
    by (simp_all add: list_all_iff)
  then show ?thesis by (simp only: TrimSpace_def)
qed

lemma transformXML_space:
  "list_all isSpace a \<Longrightarrow> list_all isSpace b \<Longrightarrow> transformXML x xml (a @ s @ b) = transformXML x xml s"
  by (simp add: transformXML_def TrimSpace_left TrimSpace_right del: append_assoc flip: append_assoc)

end
