(* ===== verification/Volume_Resource.thy ===== *)
theory Volume_Resource
  imports Volume Xslt
begin

text \<open>
  \<open>resource_libvirt_volume.go\<close>: creating a volume (from a source image, or empty and possibly
  over a backing store), reading it back into the resource data, and deleting it.
\<close>

section \<open>Create\<close>

definition setFormat :: "string \<Rightarrow> StorageVolume \<Rightarrow> StorageVolume" where
  "setFormat f v = v\<lparr>vol_Target := map_option (\<lambda>t. t\<lparr>Format := Some f\<rparr>) (vol_Target v)\<rparr>"

definition setValue :: "uint64 \<Rightarrow> StorageVolume \<Rightarrow> StorageVolume" where
  "setValue n v = v\<lparr>vol_Capacity := map_option (\<lambda>c. c\<lparr>Value := n\<rparr>) (vol_Capacity v)\<rparr>"

definition setUnit :: "string \<Rightarrow> StorageVolume \<Rightarrow> StorageVolume" where
  "setUnit u v = v\<lparr>vol_Capacity := map_option (\<lambda>c. c\<lparr>Unit := u\<rparr>) (vol_Capacity v)\<rparr>"

text \<open>The branch with a source image.\<close>

definition volumeFromSource ::
  "('w, 'd, 'v) sdk \<Rightarrow> 'w io \<Rightarrow> string \<Rightarrow> string option \<Rightarrow> StorageVolume
   \<Rightarrow> (('w, 'd) prov, image option \<times> StorageVolume) prog" where
  "volumeFromSource S io source givenFormat volumeDef =
     bindP (dSetTo S ''size'') (\<lambda>hasSize.
     if hasSize then throw (Errorf ''size can't be specified when also source is given'' [])
     else bindP (dSetTo S ''base_volume_id'') (\<lambda>hasId.
     if hasId then throw (Errorf ''base_volume_id can't be specified when also source is given'' [])
     else bindP (dSetTo S ''base_volume_name'') (\<lambda>hasName.
     if hasName then throw (Errorf ''base_volume_name can't be specified when also source is given'' [])
     else bindP (newImage io source) (\<lambda>img.
     bindP (orFail (image_IsQCOW2 io img)
              (\<lambda>err. Errorf ''error while determining image type for %s: %s''
                       [SArg (image_String img), EArg err])) (\<lambda>isQCOW2.
     let volumeDef = (if isQCOW2 then setFormat ''qcow2'' volumeDef else volumeDef) in
     if (case givenFormat of Some f \<Rightarrow> isQCOW2 \<and> f \<noteq> ''qcow2'' | None \<Rightarrow> False) then
       throw (Errorf ''format other than QCOW2 explicitly specified for image detected as QCOW2 image: %s''
                [SArg (image_String img)])
     else bindP (image_Size io img) (\<lambda>sz.
     ret (Some img, setValue sz (setUnit ''B'' volumeDef))))))))"

text \<open>The volume that the new one is based on; the zero value when none is given.\<close>

definition noVolume :: StorageVol where
  "noVolume = \<lparr>sv_Pool = [], sv_Name = [], sv_Key = []\<rparr>"

definition findBaseVolume ::
  "('w, 'd, 'v) sdk \<Rightarrow> 'w storage \<Rightarrow> StoragePool \<Rightarrow> (('w, 'd) prov, StorageVol) prog" where
  "findBaseVolume S st pool =
     bindP (dGetOk S ''base_volume_id'') (\<lambda>baseVolumeID. case baseVolumeID of
       Some v \<Rightarrow>
         bindP (dSetTo S ''base_volume_name'') (\<lambda>hasName.
         if hasName then throw (Errorf ''base_volume_name can't be specified when also base_volume_id is given'' [])
         else bindP (assertStr v) (\<lambda>key.
           orFail (lookupVolByKey st key) (\<lambda>err. Errorf ''can't retrieve volume ID '%s': %v'' [SArg key, EArg err])))
     | None \<Rightarrow>
         bindP (dGetOk S ''base_volume_name'') (\<lambda>baseVolumeName. case baseVolumeName of
           None \<Rightarrow> ret noVolume
         | Some n \<Rightarrow>
             bindP (bindP (dSetTo S ''base_volume_pool'') (\<lambda>hasPool.
               if hasPool then
                 bindP (dStr S ''base_volume_pool'') (\<lambda>baseVolumePoolName.
                 orFail (call ''StoragePoolLookupByName'' [baseVolumePoolName]
                           (StoragePoolLookupByName st baseVolumePoolName))
                   (\<lambda>_. Errorf (''can't find storage pool '%s'' @ [CHR 0x27]) [SArg baseVolumePoolName]))
               else ret pool)) (\<lambda>baseVolumePool.
             bindP (assertStr n) (\<lambda>name.
             orFail (call ''StorageVolLookupByName'' [sp_Name baseVolumePool, name]
                       (StorageVolLookupByName st baseVolumePool name))
               (\<lambda>err. Errorf ''can't retrieve base volume with name '%s': %s'' [SArg name, EArg err])))))"

text \<open>The branch without a source image: size and backing store.\<close>

definition volumeFromBacking ::
  "('w, 'd, 'v) sdk \<Rightarrow> 'w storage \<Rightarrow> StoragePool \<Rightarrow> StorageVolume
   \<Rightarrow> (('w, 'd) prov, image option \<times> StorageVolume) prog" where
  "volumeFromBacking S st pool volumeDef =
     bindP (bindP (dSetTo S ''size'') (\<lambda>hasSize.
       if hasSize then bindP (dInt S ''size'') (\<lambda>n. ret (setValue (uint64_of_int n) volumeDef))
       else ret volumeDef)) (\<lambda>volumeDef.
     bindP (findBaseVolume S st pool) (\<lambda>baseVolume.
     if sv_Name baseVolume = [] then ret (None, volumeDef)
     else
       bindP (orFail (newDefBackingStoreFromLibvirt st baseVolume)
                (\<lambda>err. Errorf ''could not retrieve backing store definition: %s'' [EArg err]))
         (\<lambda>backingStoreFragmentDef.
       bindP (newDefVolumeFromLibvirt st baseVolume) (\<lambda>backingStoreVolumeDef.
       bindP (bindP (dSetTo S ''size'') (\<lambda>hasSize.
         if hasSize then ret volumeDef
         else (case vol_Capacity backingStoreVolumeDef of
                 None \<Rightarrow> panic ''nil pointer dereference''
               | Some c \<Rightarrow> ret (setValue (Value c) volumeDef)))) (\<lambda>volumeDef.
       if (case (vol_Capacity backingStoreVolumeDef, vol_Capacity volumeDef) of
             (Some c, Some c') \<Rightarrow> Value c' < Value c | _ \<Rightarrow> False) then
         throw (Errorf ''when 'size' is specified, it shouldn't be smaller than the backing store'' [])
       else ret (None, volumeDef\<lparr>vol_BackingStore := Some backingStoreFragmentDef\<rparr>))))))"

definition volumeDefinition ::
  "('w, 'd, 'v) sdk \<Rightarrow> 'w io \<Rightarrow> 'w storage \<Rightarrow> StoragePool
   \<Rightarrow> (('w, 'd) prov, image option \<times> StorageVolume) prog" where
  "volumeDefinition S io st pool =
     bindP (dGetOk S ''name'') (\<lambda>name.
     bindP (case name of
        None \<Rightarrow> ret newDefVolume
      | Some v \<Rightarrow> bindP (assertStr v) (\<lambda>n. ret (newDefVolume\<lparr>vol_Name := n\<rparr>))) (\<lambda>volumeDef.
     bindP (dGetOk S ''format'') (\<lambda>format.
     bindP (case format of
        None \<Rightarrow> ret None
      | Some v \<Rightarrow> bindP (assertStr v) (\<lambda>f. ret (Some f))) (\<lambda>givenFormat.
     let volumeDef = (case givenFormat of None \<Rightarrow> volumeDef | Some f \<Rightarrow> setFormat f volumeDef) in
     bindP (dGetOk S ''source'') (\<lambda>source. case source of
        Some v \<Rightarrow> bindP (assertStr v) (\<lambda>src. volumeFromSource S io src givenFormat volumeDef)
      | None \<Rightarrow> volumeFromBacking S st pool volumeDef)))))"

section \<open>Read\<close>

definition nativeSize :: "uint64 \<Rightarrow> tfval" where
  "nativeSize n = TInt (uint n)"

text \<open>The closure of the retry: it starts the pool when the volume is not found and the pool is
  not active.\<close>

definition volumeReadAttempt ::
  "('w, 'd, StorageVol) sdk \<Rightarrow> 'w storage \<Rightarrow> string \<Rightarrow> (('w, 'd) prov, StorageVol retry) prog" where
  "volumeReadAttempt S st poolName =
     bindP (dId S) (\<lambda>key.
     bindP (attempt (lookupVolByKey st key)) (\<lambda>r. case r of
       Inr volume \<Rightarrow> ret (RetryDone volume)
     | Inl lookupErr \<Rightarrow>
         if \<not> isError lookupErr ErrNoStorageVol then ret (NonRetryableError lookupErr)
         else
           bindP (attempt (call ''StoragePoolLookupByName'' [poolName] (StoragePoolLookupByName st poolName)))
             (\<lambda>p. case p of
               Inl err \<Rightarrow> ret (NonRetryableError (Wrapf ''error retrieving pool %s for volume %s: %w''
                                [SArg poolName, SArg key] err))
             | Inr volPool \<Rightarrow>
                 bindP (attempt (poolCall ''StoragePoolIsActive'' volPool (StoragePoolIsActive st volPool)))
                   (\<lambda>a. case a of
                     Inl err \<Rightarrow> ret (NonRetryableError (Wrapf
                       ''error retrieving status of pool %s for volume %s: %w'' [SArg poolName, SArg key] err))
                   | Inr active \<Rightarrow>
                       if active = 1 then ret (NonRetryableError lookupErr)
                       else
                         bindP (attempt (poolCall ''StoragePoolCreate'' volPool (StoragePoolCreate st volPool 0)))
                           (\<lambda>c. case c of
                             Inl err \<Rightarrow> ret (NonRetryableError (Wrapf ''error starting pool %s: %w''
                                              [SArg poolName] err))
                           | Inr _ \<Rightarrow> ret (RetryableError lookupErr))))))"

definition resourceLibvirtVolumeRead ::
  "('w, 'd, StorageVol) sdk \<Rightarrow> 'w storage \<Rightarrow> (('w, 'd) prov, unit) prog" where
  "resourceLibvirtVolumeRead S st = requireConn (
     bindP (dStr S ''pool'') (\<lambda>poolName.
     bindP (attempt (sdRetryVol S (volumeReadAttempt S st poolName))) (\<lambda>r. case r of
       Inl err \<Rightarrow> if isError err ErrNoStorageVol then dSetId S [] else throw err
     | Inr volume \<Rightarrow>
         bindP (orFail (volCall ''StoragePoolLookupByVolume'' volume (StoragePoolLookupByVolume st volume))
                  (\<lambda>err. Errorf ''error retrieving pool for volume: %s'' [EArg err])) (\<lambda>volPool.
         bindP (dSet S ''pool'' (TStr (sp_Name volPool))) (\<lambda>_.
         bindP (dSet S ''name'' (TStr (sv_Name volume))) (\<lambda>_.
         bindP (attempt (volCall ''StorageVolGetInfo'' volume (StorageVolGetInfo st volume))) (\<lambda>i. case i of
           Inl err \<Rightarrow>
             if isError err ErrNoStorageVol then dSetId S []
             else throw (Errorf ''error retrieving volume info: %s'' [EArg err])
         | Inr (_, sz, _) \<Rightarrow>
             bindP (dSet S ''size'' (nativeSize sz)) (\<lambda>_.
             bindP (newDefVolumeFromLibvirt st volume) (\<lambda>volumeDef.
             case vol_Target volumeDef of
               None \<Rightarrow> ret ()
             | Some target \<Rightarrow>
                 (case Format target of
                    None \<Rightarrow> ret ()
                  | Some f \<Rightarrow> if f = [] then ret () else dSet S ''format'' (TStr f)))))))))))"

section \<open>The handlers\<close>

definition refreshPool ::
  "('w, 'd, 'v) sdk \<Rightarrow> 'w storage \<Rightarrow> StoragePool \<Rightarrow> (('w, 'd) prov, bool) prog" where
  "refreshPool S st pool = sdRetry S (
     bindP (attempt (poolCall ''StoragePoolRefresh'' pool (StoragePoolRefresh st pool 0))) (\<lambda>r.
     ret (case r of Inl err \<Rightarrow> RetryableError err | Inr _ \<Rightarrow> RetryDone True)))"

definition createVolume ::
  "'w storage \<Rightarrow> StoragePool \<Rightarrow> string \<Rightarrow> string \<Rightarrow> (('w, 'd) prov, StorageVol) prog" where
  "createVolume st pool data name =
     bindP (attempt (call ''StorageVolCreateXML'' [sp_Name pool, data] (StorageVolCreateXML st pool data 0)))
       (\<lambda>r. case r of
         Inr volume \<Rightarrow> ret volume
       | Inl err \<Rightarrow>
           if \<not> isError err ErrStorageVolExist
           then throw (Errorf ''error creating libvirt volume: %s'' [EArg err])
           else orFail (call ''StorageVolLookupByName'' [sp_Name pool, name] (StorageVolLookupByName st pool name))
                  (\<lambda>err. Errorf ''error looking up libvirt volume: %s'' [EArg err]))"

definition uploadSource ::
  "('w, 'd, 'v) sdk \<Rightarrow> 'w runtime \<Rightarrow> 'w io \<Rightarrow> 'w storage \<Rightarrow> image option \<Rightarrow> StorageVolume \<Rightarrow> StorageVol
   \<Rightarrow> (('w, 'd) prov, unit) prog" where
  "uploadSource S R io st img volumeDef volume =
     bindP (dSetTo S ''source'') (\<lambda>hasSource.
     if \<not> hasSource then ret ()
     else (case (img, vol_Capacity volumeDef) of
         (Some i, Some c) \<Rightarrow>
           bindP (attempt (image_Import R io i (newCopier st volume (Value c)) volumeDef)) (\<lambda>r. case r of
             Inr _ \<Rightarrow> ret ()
           | Inl err \<Rightarrow>
               bindP (dSet S ''id'' (TStr [])) (\<lambda>_.
               throw (Errorf ''error while uploading source %s: %s'' [SArg (image_String i), EArg err])))
       | _ \<Rightarrow> panic ''nil pointer dereference''))"

text \<open>The part of \<open>Create\<close> after the definition of the volume has been made up.\<close>

definition storeVolume ::
  "('w, 'd, StorageVol) sdk \<Rightarrow> 'w runtime \<Rightarrow> 'w io \<Rightarrow> 'w xslt_io \<Rightarrow> 'w storage \<Rightarrow> StoragePool
   \<Rightarrow> image option \<Rightarrow> StorageVolume \<Rightarrow> (('w, 'd) prov, unit) prog" where
  "storeVolume S R io x st pool img volumeDef =
     bindP (orFail (liftSum (xmlMarshallIndented (volEncode st) volumeDef))
              (\<lambda>err. Errorf ''error serializing libvirt volume: %s'' [EArg err])) (\<lambda>data.
     bindP (orFail (transformResourceXML S x data)
              (\<lambda>err. Errorf ''error applying XSLT stylesheet: %s'' [EArg err])) (\<lambda>data.
     bindP (createVolume st pool data (vol_Name volumeDef)) (\<lambda>volume.
     bindP (dSetId S (sv_Key volume)) (\<lambda>_.
     bindP (uploadSource S R io st img volumeDef volume) (\<lambda>_.
     bindP (waitForStateVolumeExists S st (sv_Key volume)) (\<lambda>_.
     resourceLibvirtVolumeRead S st))))))"

definition resourceLibvirtVolumeCreate ::
  "('w, 'd, StorageVol) sdk \<Rightarrow> 'w runtime \<Rightarrow> 'w io \<Rightarrow> 'w xslt_io \<Rightarrow> 'w storage \<Rightarrow> (('w, 'd) prov, unit) prog" where
  "resourceLibvirtVolumeCreate S R io x st = requireConn (
     bindP (dSetTo S ''pool'') (\<lambda>hasPool.
     bindP (if hasPool then dStr S ''pool'' else ret ''default'') (\<lambda>poolName.
     withPoolLock poolName (
       bindP (orFail (call ''StoragePoolLookupByName'' [poolName] (StoragePoolLookupByName st poolName))
                (\<lambda>_. Errorf (''can't find storage pool '%s'' @ [CHR 0x27]) [SArg poolName])) (\<lambda>pool.
       bindP (refreshPool S st pool) (\<lambda>_.
       bindP (volumeDefinition S io st pool) (\<lambda>(img, volumeDef).
       storeVolume S R io x st pool img volumeDef)))))))"

definition resourceLibvirtVolumeDelete ::
  "('w, 'd, StorageVol) sdk \<Rightarrow> 'w runtime \<Rightarrow> 'w storage \<Rightarrow> (('w, 'd) prov, unit) prog" where
  "resourceLibvirtVolumeDelete S R st = requireConn (bindP (dId S) (volumeDelete S R st))"

section \<open>The discipline\<close>

lemma safe_volumeFromSource [safe_intros]: "admits P \<Longrightarrow> safe P (volumeFromSource S io src f def)"
  unfolding volumeFromSource_def by (intro safe_intros)

lemma safe_findBaseVolume [safe_intros]: "admits P \<Longrightarrow> safe P (findBaseVolume S st pool)"
  unfolding findBaseVolume_def by (intro safe_intros) (simp_all add: event_names)

lemma safe_volumeFromBacking [safe_intros]: "admits P \<Longrightarrow> safe P (volumeFromBacking S st pool def)"
  unfolding volumeFromBacking_def by (intro safe_intros)

lemma safe_volumeDefinition [safe_intros]: "admits P \<Longrightarrow> safe P (volumeDefinition S io st pool)"
  unfolding volumeDefinition_def by (intro safe_intros)

lemma safe_volumeReadAttempt [safe_intros]:
  "admits P \<Longrightarrow> admits_call ''StoragePoolCreate'' P \<Longrightarrow> safe P (volumeReadAttempt S st pool)"
  unfolding volumeReadAttempt_def by (intro safe_intros) (simp_all add: event_names)

lemma safe_volumeRead:
  fixes S :: "('w, 'd, StorageVol) sdk"
  assumes "retry_ok S" "admits (inv H n E :: ('w, 'd) prov \<Rightarrow> bool)"
    "admits_call ''StoragePoolCreate'' (inv H n E :: ('w, 'd) prov \<Rightarrow> bool)"
  shows "safe (inv H n E) (resourceLibvirtVolumeRead S st)"
  unfolding resourceLibvirtVolumeRead_def
  by (intro safe_intros safe_retry assms(1)) (simp_all add: assms event_names)

lemma safe_refreshPool:
  assumes "retry_ok S" "H (sp_Name p)" "tolerates E"
  shows "safe (inv H n E) (refreshPool S st p)"
  unfolding refreshPool_def
  by (intro safe_retry safe_bind safe_attempt safe_ret safe_poolCall_locked assms blind_inv) (simp add: event_names)

lemma ends_lookup_pool:
  assumes "storage_laws st" "admits P"
  shows "ends P (call ''StoragePoolLookupByName'' [name] (StoragePoolLookupByName st name)) (\<lambda>p. sp_Name p = name)"
  by (rule ends_read) (use assms storage_lawsD(1) [OF assms(1)] in \<open>auto simp: event_names\<close>)

lemma ends_createVolume:
  assumes laws: "storage_laws st" and H: "H (sp_Name p)" and E: "tolerates E"
  shows "ends (inv H n E) (createVolume st p data name) (\<lambda>v. sv_Pool v = sp_Name p)"
proof -
  have create: "ends (inv H n E) (call ''StorageVolCreateXML'' [sp_Name p, data] (StorageVolCreateXML st p data 0))
      (\<lambda>v. sv_Pool v = sp_Name p)"
    by (rule ends_call) (use H E storage_lawsD(3) [OF laws] in \<open>auto simp: tolerates_def event_ok_def event_names\<close>)
  have lookup: "ends (inv H n E) (call ''StorageVolLookupByName'' [sp_Name p, name]
      (StorageVolLookupByName st p name)) (\<lambda>v. sv_Pool v = sp_Name p)"
    by (rule ends_read [OF admits_tolerates [OF E]]) (use storage_lawsD(2) [OF laws] in \<open>auto simp: event_names\<close>)
  show ?thesis
    unfolding createVolume_def
    by (rule ends_bind [OF ends_attempt [OF create]])
      (auto intro: ends_throw ends_ret ends_orFail [OF lookup] split: sum.split)
qed

lemma safe_uploadSource:
  "H (sv_Pool v) \<Longrightarrow> safe (inv H n event_but_start) (uploadSource S R io st img def v)"
  unfolding uploadSource_def
  by (intro safe_intros safe_image_Import safe_newCopier) auto

lemma safe_storeVolume:
  assumes "wait_ok S" "retry_ok S" "storage_laws st" "H (sp_Name p)"
  shows "safe (inv H n event_but_start) (storeVolume S R io x st p img def)"
proof -
  have stored: "safe (inv H n event_but_start) (bindP (dSetId S (sv_Key v)) (\<lambda>_.
     bindP (uploadSource S R io st img def v) (\<lambda>_.
     bindP (waitForStateVolumeExists S st (sv_Key v)) (\<lambda>_.
     resourceLibvirtVolumeRead S st))))" if "sv_Pool v = sp_Name p" for v
    by (intro safe_bind safe_dSet safe_uploadSource safe_volume_waits safe_volumeRead admits_but_start
        admits_call_but_start)
      (use assms that in auto)
  show ?thesis
    unfolding storeVolume_def
    by (intro safe_bind [OF safe_orFail] ends_bind [OF ends_createVolume [where H = H]] stored
        safe_liftSum safe_transformResourceXML admits_but_start tolerates_simps assms)
qed

lemma safe_volumeCreate:
  assumes "wait_ok S" "retry_ok S" "storage_laws st"
  shows "safe (inv (\<lambda>_. False) n event_but_start) (resourceLibvirtVolumeCreate S R io x st)"
proof -
  have locked: "safe (inv ((\<lambda>_. False)(sp_Name p := True)) n event_but_start)
     (bindP (refreshPool S st p) (\<lambda>_. bindP (volumeDefinition S io st p) (\<lambda>(img, volumeDef).
        storeVolume S R io x st p img volumeDef)))" for p
    by (intro safe_bind ends_prod safe_refreshPool safe_volumeDefinition safe_storeVolume
        admits_but_start tolerates_simps)
      (use assms in auto)
  have lookup: "ends (inv ((\<lambda>_. False)(name := True)) n event_but_start)
      (orFail (call ''StoragePoolLookupByName'' [name] (StoragePoolLookupByName st name)) f) (\<lambda>p. sp_Name p = name)"
    for name f
    by (intro ends_orFail ends_lookup_pool assms admits_but_start)
  have body: "safe (inv (\<lambda>_. False) n event_but_start) (withPoolLock name (
       bindP (orFail (call ''StoragePoolLookupByName'' [name] (StoragePoolLookupByName st name)) f) (\<lambda>p.
       bindP (refreshPool S st p) (\<lambda>_. bindP (volumeDefinition S io st p) (\<lambda>(img, volumeDef).
         storeVolume S R io x st p img volumeDef)))))" for name f
    by (rule ends_withPoolLock, simp, rule ends_bind [OF lookup]) (use locked in blast)
  show ?thesis
    unfolding resourceLibvirtVolumeCreate_def
    by (intro safe_requireConn safe_bind [OF safe_dSetTo] safe_bind [OF ends_if] body safe_dStr safe_ret)
qed

section \<open>Properties\<close>

text \<open>C1: Creating a volume always returns, gives back the mutex of its pool on every path, and
  refreshes the pool, creates the volume and uploads its source only with that mutex held.  The only
  call that changes a pool and is not claimed to be made under the mutex of that pool is the start of
  an inactive pool, by the \<open>Read\<close> at the end of \<open>Create\<close>.\<close>

theorem volumeCreate_disciplined:
  assumes "wait_ok S" "retry_ok S" "storage_laws st"
  shows "handler_keeps event_but_start (resourceLibvirtVolumeCreate S R io x st)"
  by (rule handler_keepsI) (rule safe_volumeCreate [OF assms])

text \<open>C24: Deleting the volume whose key is the resource's id refreshes the pool and deletes the
  volume only with the mutex of the pool held, and gives it back on every path.  Reading a volume
  takes no mutex at all: whichever mutexes other handlers hold, it ends, and the only call by which it
  changes a pool, the start of an inactive one, is made without any.\<close>

theorem volumeRead_Delete_disciplined:
  assumes "wait_ok S" "retry_ok S" "runtime_ok R" "storage_laws st" "refresh_forward R st"
  shows "takes_no_mutex {''StoragePoolCreate''} (resourceLibvirtVolumeRead S st)
    \<and> handler_ok (resourceLibvirtVolumeDelete S R st)"
proof
  show "takes_no_mutex {''StoragePoolCreate''} (resourceLibvirtVolumeRead S st)"
    by (intro takes_no_mutexI safe_volumeRead [OF assms(2)] admits_quiet admits_call_quiet) simp
  have "safe (disciplined (\<lambda>_. False) False) (resourceLibvirtVolumeDelete S R st)"
    unfolding resourceLibvirtVolumeDelete_def
    by (intro safe_intros safe_volumeDelete assms)
  then show "handler_ok (resourceLibvirtVolumeDelete S R st)" by (rule handler_okI)
qed

theorem volumeCreate_disciplined_witness:
  "handler_keeps event_but_start (resourceLibvirtVolumeCreate demo_sdk demo_runtime demo_io demo_xslt demo_storage)"
  by (rule volumeCreate_disciplined) (rule demo_sdk_ok demo_storage_laws)+

theorem volumeRead_Delete_disciplined_witness:
  "takes_no_mutex {''StoragePoolCreate''} (resourceLibvirtVolumeRead demo_sdk demo_storage)
   \<and> handler_ok (resourceLibvirtVolumeDelete demo_sdk demo_runtime demo_storage)"
  by (rule volumeRead_Delete_disciplined)
    (rule demo_sdk_ok demo_runtime_ok demo_storage_laws demo_refresh_forward)+

subsection \<open>Rejected configurations\<close>

definition given :: "('w, 'd, 'v) sdk \<Rightarrow> 'd \<Rightarrow> string \<Rightarrow> bool" where
  "given S d k \<longleftrightarrow> sdGetOk S d k \<noteq> None"

text \<open>A source excludes a size and a base volume; a base volume is given by id or by name.\<close>

definition volume_conflict :: "('w, 'd, 'v) sdk \<Rightarrow> 'd \<Rightarrow> bool" where
  "volume_conflict S d \<longleftrightarrow>
     (if given S d ''source''
      then given S d ''size'' \<or> given S d ''base_volume_id'' \<or> given S d ''base_volume_name''
      else given S d ''base_volume_id'' \<and> given S d ''base_volume_name'')"

lemma ends_volumeFromSource_conflict:
  assumes d: "\<And>s. P s \<Longrightarrow> rdata s = d" and P: "admits P"
    and c: "given S d ''size'' \<or> given S d ''base_volume_id'' \<or> given S d ''base_volume_name''"
  shows "ends P (volumeFromSource S io src f def) (\<lambda>_. False)"
  unfolding volumeFromSource_def
  by (intro ends_bind [OF ends_dSetTo [OF d]] ends_if ends_throw) (use c in \<open>auto simp: given_def\<close>)

lemma ends_findBaseVolume_conflict:
  assumes d: "\<And>s. P s \<Longrightarrow> rdata s = d" and P: "admits P"
    and c: "given S d ''base_volume_id''" "given S d ''base_volume_name''"
  shows "ends P (findBaseVolume S st pool) (\<lambda>_. False)"
  unfolding findBaseVolume_def
  by (intro ends_bind [OF ends_dSetTo [OF d]] ends_bind [OF ends_dGetOk [OF d]] ends_if ends_throw ends_option)
    (use c in \<open>auto simp: given_def\<close>)

lemma ends_volumeDefinition_conflict:
  assumes d: "\<And>s. P s \<Longrightarrow> rdata s = d" and P: "admits P" and c: "volume_conflict S d"
  shows "ends P (volumeDefinition S io st pool) (\<lambda>_. False)"
proof -
  have src: "ends P (volumeFromSource S io src f def) (\<lambda>_. False)" if "given S d ''source''" for src f def
    by (rule ends_volumeFromSource_conflict [OF d P]) (use c that in \<open>simp_all add: volume_conflict_def\<close>)
  have bk: "ends P (volumeFromBacking S st pool def) (\<lambda>_. False)" if "\<not> given S d ''source''" for def
  proof -
    have base: "ends P (findBaseVolume S st pool) (\<lambda>_. False)"
      by (rule ends_findBaseVolume_conflict [OF d P]) (use c that in \<open>simp_all add: volume_conflict_def\<close>)
    show ?thesis
      unfolding volumeFromBacking_def
      by (rule safe_bind) (intro safe_intros P, rule ends_bind [OF base], simp)
  qed
  show ?thesis
    unfolding volumeDefinition_def
    by (intro ends_bind [OF ends_dGetOk [OF d]] safe_bind [OF ends_option] safe_bind [OF safe_assert(1)]
        safe_ret ends_Let ends_option src bk)
      (auto simp: given_def dest: sym)
qed

text \<open>What the trace gets in a run from \<open>s\<close> to \<open>s'\<close>.\<close>

definition new_events :: "('w, 'd) prov \<Rightarrow> ('w, 'd) prov \<Rightarrow> event list" where
  "new_events s s' = drop (length (trace s)) (trace s')"

text \<open>C20: A volume configuration with contradicting attributes (a source and a size or a base
  volume, or a base volume by id and by name) is refused: \<open>Create\<close> returns without success and
  has neither created nor uploaded nor deleted a volume.\<close>

theorem volumeCreate_conflict:
  fixes s :: "('w, 'd) prov"
  assumes laws: "retry_ok S" and idle: "idle s" and c: "volume_conflict S (rdata s)"
  shows "let (r, s') = resourceLibvirtVolumeCreate S R io x st s in
    (\<forall>y. r \<noteq> Ret y) \<and> r \<noteq> Blocked
    \<and> list_all (\<lambda>e. ev_call e \<notin> {''StorageVolCreateXML'', ''StorageVolUpload'', ''StorageVolDelete''})
        (new_events s s')"
proof -
  let ?E = "\<lambda>e. ev_call e \<notin> {''StorageVolCreateXML'', ''StorageVolUpload'', ''StorageVolDelete''}"
  define T where "T = (\<lambda>s' :: ('w, 'd) prov. rdata s' = rdata s \<and> (\<exists>new. trace s' = trace s @ new \<and> list_all ?E new))"
  let ?P = "\<lambda>H s'. inv H False (\<lambda>_. True) s' \<and> T s'"
  have adm: "admits (?P H)" for H
    unfolding admits_def admits_call_def blind_def inv_def T_def by (auto simp: event_names)
  have pc: "safe (?P H) (poolCall ''StoragePoolRefresh'' p f)" for H p and f :: "('w, unit) rpc"
    by (auto simp: ends_def poolCall_def call_def inv_def T_def Let_def split: prod.splits sum.splits)
  have refresh: "safe (?P H) (refreshPool S st p)" for H p
    unfolding refreshPool_def
    by (intro safe_retry(1) [OF laws] safe_bind [OF safe_attempt [OF pc]] safe_ret admits_blind [OF adm])
  have reject: "ends (?P H) (volumeDefinition S io st p) (\<lambda>_. False)" for H p
    by (rule ends_volumeDefinition_conflict [OF _ adm c]) (simp add: T_def)
  have locked: "ends (?P H) (bindP (orFail (call ''StoragePoolLookupByName'' [name]
      (StoragePoolLookupByName st name)) f) (\<lambda>p.
       bindP (refreshPool S st p) (\<lambda>_. bindP (volumeDefinition S io st p) (\<lambda>(img, volumeDef).
         storeVolume S R io x st p img volumeDef)))) (\<lambda>_. False)" for H name f
    by (intro safe_bind [OF safe_orFail] safe_bind [OF refresh] safe_read adm
        ends_bind [OF reject]) (simp_all add: event_names)
  have body: "ends (?P (\<lambda>_. False)) (withPoolLock name (bindP (orFail (call ''StoragePoolLookupByName'' [name]
      (StoragePoolLookupByName st name)) f) (\<lambda>p.
       bindP (refreshPool S st p) (\<lambda>_. bindP (volumeDefinition S io st p) (\<lambda>(img, volumeDef).
         storeVolume S R io x st p img volumeDef))))) (\<lambda>_. False)" for name f
    by (rule ends_withPoolLock_and) (simp, rule locked, simp_all add: T_def)
  have "ends (?P (\<lambda>_. False)) (resourceLibvirtVolumeCreate S R io x st) (\<lambda>_. False)"
    unfolding resourceLibvirtVolumeCreate_def
    by (intro safe_requireConn safe_bind [OF safe_dSetTo] safe_bind [OF ends_if] body safe_dStr safe_ret)
  moreover have "?P (\<lambda>_. False) s"
    using idle by (auto simp: idle_def inv_def T_def list_all_iff)
  ultimately show ?thesis
    by (auto simp: T_def new_events_def dest!: endsD split: prod.splits)
qed

theorem volumeCreate_conflict_witness:
  "let (r, s') = resourceLibvirtVolumeCreate demo_sdk demo_runtime demo_io demo_xslt demo_storage
       (demo_state demo_world [(''source'', TStr ''/img''), (''size'', TInt 5)] [])
   in \<forall>y. r \<noteq> Ret y"
proof -
  have "volume_conflict (demo_sdk :: (dworld, rdemo, StorageVol) sdk)
      (rdata (demo_state demo_world [(''source'', TStr ''/img''), (''size'', TInt 5)] []))"
    by (simp add: volume_conflict_def given_def demo_sdk_def demo_state_def demo_getok_def demo_lookup_def demo_zero_def)
  from volumeCreate_conflict [OF demo_sdk_ok(2) idle_demo_state this, where R = demo_runtime and io = demo_io
      and x = demo_xslt and st = demo_storage]
  show ?thesis by (auto simp: Let_def split: prod.splits)
qed

subsection \<open>Accepted configurations\<close>

text \<open>\<open>bdef\<close> is the definition that the daemon gave for the volume \<open>v\<close>, at path \<open>b\<close>.\<close>

definition backing_of :: "'w storage \<Rightarrow> StorageVol \<Rightarrow> StorageVolume \<Rightarrow> StorageVolumeBackingStore \<Rightarrow> bool" where
  "backing_of st v bdef b \<longleftrightarrow> sv_Name v \<noteq> []
     \<and> (\<exists>w xml w'. StorageVolGetXMLDesc st v 0 w = (Inr xml, w') \<and> volDecode st xml = Inr bdef)
     \<and> (\<exists>w w'. StorageVolGetPath st v w = (Inr (bs_Path b), w'))"

lemma yields_newDefVolumeFromLibvirt:
  "yields (newDefVolumeFromLibvirt st v)
     (\<lambda>bdef. \<exists>w xml w'. StorageVolGetXMLDesc st v 0 w = (Inr xml, w') \<and> volDecode st xml = Inr bdef)"
  unfolding newDefVolumeFromLibvirt_def newDefVolumeFromXML_def
  by (rule yields_bind [OF yields_orFail [OF yields_volCall]])
    (auto intro!: yields_orFail yields_liftSum)

lemma yields_newDefBackingStore:
  "yields (newDefBackingStoreFromLibvirt st v) (\<lambda>b. \<exists>w w'. StorageVolGetPath st v w = (Inr (bs_Path b), w'))"
  unfolding newDefBackingStoreFromLibvirt_def
  by (rule yields_any_bind, rule yields_bind [OF yields_orFail [OF yields_volCall]])
    (auto split: option.split)

text \<open>A definition without a backing store, or with one that it is large enough for.\<close>

definition capacity_ok :: "'w storage \<Rightarrow> StorageVolume \<Rightarrow> bool" where
  "capacity_ok st def \<longleftrightarrow> (case vol_BackingStore def of None \<Rightarrow> True
     | Some b \<Rightarrow> (\<exists>v bdef. backing_of st v bdef b \<and>
         (\<forall>c. vol_Capacity bdef = Some c \<longrightarrow> (\<exists>c'. vol_Capacity def = Some c' \<and> Value c \<le> Value c'))))"

definition fresh_def :: "StorageVolume \<Rightarrow> bool" where
  "fresh_def def \<longleftrightarrow> vol_BackingStore def = None \<and> vol_Capacity def \<noteq> None"

lemma fresh_def_intros [simp]:
  "fresh_def newDefVolume" "fresh_def def \<Longrightarrow> fresh_def (setFormat f def)"
  "fresh_def def \<Longrightarrow> fresh_def (setValue n def)" "fresh_def def \<Longrightarrow> fresh_def (setUnit u def)"
  "fresh_def (newDefVolume\<lparr>vol_Name := m\<rparr>)"
  by (auto simp: fresh_def_def newDefVolume_def setFormat_def setValue_def setUnit_def)

lemma fresh_def_ok: "fresh_def def \<Longrightarrow> capacity_ok st def"
  by (simp add: fresh_def_def capacity_ok_def)

lemma yields_backingStore:
  assumes v: "sv_Name v \<noteq> []" and def: "fresh_def def"
  shows "yields (bindP (orFail (newDefBackingStoreFromLibvirt st v) f) (\<lambda>frag.
       bindP (newDefVolumeFromLibvirt st v) (\<lambda>bdef.
       bindP (bindP (dSetTo S ''size'') (\<lambda>hasSize.
         if hasSize then ret def
         else (case vol_Capacity bdef of
                 None \<Rightarrow> panic p
               | Some c \<Rightarrow> ret (setValue (Value c) def)))) (\<lambda>volumeDef.
       if (case (vol_Capacity bdef, vol_Capacity volumeDef) of
             (Some c, Some c') \<Rightarrow> Value c' < Value c | _ \<Rightarrow> False) then throw e
       else ret (None, volumeDef\<lparr>vol_BackingStore := Some frag\<rparr>)))))
     (\<lambda>(img, d). capacity_ok st d)"
proof (intro yields_bind [OF yields_orFail [OF yields_newDefBackingStore]]
    yields_bind [OF yields_newDefVolumeFromLibvirt])
  fix frag :: StorageVolumeBackingStore and bdef :: StorageVolume
  assume frag: "\<exists>w w'. StorageVolGetPath st v w = (Inr (bs_Path frag), w')"
    and bdef: "\<exists>w xml w'. StorageVolGetXMLDesc st v 0 w = (Inr xml, w') \<and> volDecode st xml = Inr bdef"
  have backed: "backing_of st v bdef frag"
    using v frag bdef by (simp add: backing_of_def)
  have sized: "yields (bindP (dSetTo S ''size'') (\<lambda>hasSize.
         if hasSize then ret def
         else (case vol_Capacity bdef of
                 None \<Rightarrow> panic p
               | Some c \<Rightarrow> ret (setValue (Value c) def)))) fresh_def"
    by (rule yields_any_bind) (use def in \<open>auto split: option.split\<close>)
  show "yields (bindP (bindP (dSetTo S ''size'') (\<lambda>hasSize.
         if hasSize then ret def
         else (case vol_Capacity bdef of
                 None \<Rightarrow> panic p
               | Some c \<Rightarrow> ret (setValue (Value c) def)))) (\<lambda>volumeDef.
       if (case (vol_Capacity bdef, vol_Capacity volumeDef) of
             (Some c, Some c') \<Rightarrow> Value c' < Value c | _ \<Rightarrow> False) then throw e
       else ret (None, volumeDef\<lparr>vol_BackingStore := Some frag\<rparr>))) (\<lambda>(img, d). capacity_ok st d)"
  proof (rule yields_bind [OF sized])
    fix d assume "fresh_def d"
    with backed show "yields (if (case (vol_Capacity bdef, vol_Capacity d) of
             (Some c, Some c') \<Rightarrow> Value c' < Value c | _ \<Rightarrow> False) then throw e
       else ret (None, d\<lparr>vol_BackingStore := Some frag\<rparr>)) (\<lambda>(img, d). capacity_ok st d)"
      by (auto simp: capacity_ok_def fresh_def_def not_less split: option.splits
          intro!: exI [of _ v] exI [of _ bdef])
  qed
qed

lemma yields_volumeFromBacking:
  assumes "fresh_def def"
  shows "yields (volumeFromBacking S st pool def) (\<lambda>(img, d). capacity_ok st d)"
proof -
  have sized: "yields (bindP (dSetTo S ''size'') (\<lambda>hasSize.
       if hasSize then bindP (dInt S ''size'') (\<lambda>n. ret (setValue (uint64_of_int n) def))
       else ret def)) fresh_def"
    by (rule yields_any_bind) (use assms in \<open>auto intro: yields_any_bind\<close>)
  show ?thesis
    unfolding volumeFromBacking_def
    by (rule yields_bind [OF sized], rule yields_any_bind)
      (use yields_backingStore fresh_def_ok in \<open>auto\<close>)
qed

lemma yields_volumeFromSource:
  "fresh_def def \<Longrightarrow> yields (volumeFromSource S io src f def) (\<lambda>(img, d). capacity_ok st d)"
  unfolding volumeFromSource_def
  by (intro yields_any_bind) (auto simp: Let_def intro!: yields_any_bind fresh_def_ok)

text \<open>C18: A volume with a backing store is at least as large as the backing store: the capacity
  in an accepted definition is at least the one that the daemon reports for the base volume,
  compared as the unsigned 64-bit numbers they are.\<close>

theorem volumeDefinition_capacity: "yields (volumeDefinition S io st pool) (\<lambda>(img, def). capacity_ok st def)"
proof -
  have named: "yields (case name of
        None \<Rightarrow> ret newDefVolume
      | Some v \<Rightarrow> bindP (assertStr v) (\<lambda>n. ret (newDefVolume\<lparr>vol_Name := n\<rparr>))) fresh_def" for name
    by (auto intro: yields_any_bind split: option.split)
  show ?thesis
    unfolding volumeDefinition_def
    by (rule yields_any_bind, rule yields_bind [OF named], intro yields_any_bind)
      (auto simp: Let_def intro!: yields_any_bind yields_volumeFromSource yields_volumeFromBacking
        split: option.splits)
qed

text \<open>An image that is not qcow2, given without a format, is stored in a volume that is declared
  as qcow2: nothing but a given format replaces the default of \<open>newDefVolume\<close>.\<close>

lemma volumeFromSource_default_format:
  "yields (volumeFromSource S io src None (newDefVolume\<lparr>vol_Name := name\<rparr>))
     (\<lambda>(img, def). map_option Format (vol_Target def) = Some (Some ''qcow2''))"
  unfolding volumeFromSource_def
  by (intro yields_any_bind)
    (auto simp: Let_def setFormat_def setValue_def setUnit_def newDefVolume_def intro!: yields_any_bind)

end
