(* ===== verification/Pool.thy ===== *)
theory Pool
  imports Xslt
begin

text \<open>
  \<open>pool.go\<close> and \<open>resource_libvirt_pool.go\<close>: waiting for a storage pool to appear or to go, and
  creating, reading and deleting a pool of type \<open>dir\<close>.
\<close>

section \<open>Waiting\<close>

definition poolStateExists :: string where "poolStateExists = ''EXISTS''"
definition poolStateNotExists :: string where "poolStateNotExists = ''NOT-EXISTS''"

definition lookupPoolByUUID :: "'w storage \<Rightarrow> string \<Rightarrow> (('w, 'd) prov, StoragePool) prog" where
  "lookupPoolByUUID st uuid = call ''StoragePoolLookupByUUID'' [uuid] (StoragePoolLookupByUUID st uuid)"

definition poolStateRefreshFunc :: "'w storage \<Rightarrow> string \<Rightarrow> (('w, 'd) prov, string) prog" where
  "poolStateRefreshFunc st uuid =
     bindP (attempt (lookupPoolByUUID st uuid)) (\<lambda>r. case r of
       Inl err \<Rightarrow> if isError err ErrNoStoragePool then ret poolStateNotExists else throw err
     | Inr _ \<Rightarrow> ret poolStateExists)"

definition waitForStatePoolExists ::
  "('w, 'd, 'v) sdk \<Rightarrow> 'w storage \<Rightarrow> string \<Rightarrow> (('w, 'd) prov, unit) prog" where
  "waitForStatePoolExists S st uuid =
     sdWaitForState S \<lparr>Pending = [poolStateNotExists], Target = [poolStateExists],
       Timeout = resourceStateTimeout, Delay = resourceStateDelay, MinTimeout = resourceStateMinTimeout\<rparr>
       (poolStateRefreshFunc st uuid)"

definition waitForStatePoolDeleted ::
  "('w, 'd, 'v) sdk \<Rightarrow> 'w storage \<Rightarrow> string \<Rightarrow> (('w, 'd) prov, unit) prog" where
  "waitForStatePoolDeleted S st uuid =
     sdWaitForState S \<lparr>Pending = [poolStateExists], Target = [poolStateNotExists],
       Timeout = resourceStateTimeout, Delay = resourceStateDelay, MinTimeout = resourceStateMinTimeout\<rparr>
       (poolStateRefreshFunc st uuid)"

section \<open>The handlers\<close>

text \<open>When the XML of the pool cannot be decoded, the error of \<open>Read\<close> names the structure that was to
  be filled, whose name is still empty, and not the pool.\<close>

definition resourceLibvirtPoolRead ::
  "('w, 'd, 'v) sdk \<Rightarrow> 'w runtime \<Rightarrow> 'w storage \<Rightarrow> (('w, 'd) prov, unit) prog" where
  "resourceLibvirtPoolRead S R st = requireConn (
     bindP (dId S) (\<lambda>i.
     bindP (parseUUID R i) (\<lambda>uuid.
     bindP (attempt (lookupPoolByUUID st uuid)) (\<lambda>r. case r of
       Inl err \<Rightarrow>
         if isError err ErrNoStoragePool then dSetId S []
         else throw (Errorf ''error retrieving libvirt pool %s'' [EArg err])
     | Inr pool \<Rightarrow>
         bindP (dSet S ''name'' (TStr (sp_Name pool))) (\<lambda>_.
         bindP (orFail (poolCall ''StoragePoolGetInfo'' pool (StoragePoolGetInfo st pool))
                  (\<lambda>err. Errorf ''error retrieving pool info: %s'' [EArg err]))
           (\<lambda>(_, capacity, allocation, available).
         bindP (dSet S ''capacity'' (TInt (uint capacity))) (\<lambda>_.
         bindP (dSet S ''allocation'' (TInt (uint allocation))) (\<lambda>_.
         bindP (dSet S ''available'' (TInt (uint available))) (\<lambda>_.
         bindP (orFail (poolCall ''StoragePoolGetXMLDesc'' pool (StoragePoolGetXMLDesc st pool 0))
                  (\<lambda>err. Errorf ''could not get XML description for pool %s: %s'' [SArg (sp_Name pool), EArg err]))
           (\<lambda>poolDefXML.
         bindP (orFail (liftSum (poolDecode st poolDefXML))
                  (\<lambda>err. Errorf ''could not get a pool definition from XML for %s: %s'' [SArg [], EArg err]))
           (\<lambda>poolDef.
         let poolPath = (case pool_Target poolDef of Some p \<Rightarrow> p | None \<Rightarrow> []) in
         bindP (if poolPath = [] then ret () else dSet S ''path'' (TStr poolPath)) (\<lambda>_.
         if pool_Type poolDef = [] then ret () else dSet S ''type'' (TStr (pool_Type poolDef))))))))))))))"

text \<open>The part of \<open>Create\<close> that runs with the mutex of the pool held.\<close>

definition createPool ::
  "('w, 'd, 'v) sdk \<Rightarrow> 'w runtime \<Rightarrow> 'w xslt_io \<Rightarrow> 'w storage \<Rightarrow> string \<Rightarrow> (('w, 'd) prov, unit) prog" where
  "createPool S R x st poolName =
     bindP (attempt (call ''StoragePoolLookupByName'' [poolName] (StoragePoolLookupByName st poolName)))
       (\<lambda>r. case r of
       Inr _ \<Rightarrow> throw (Errorf ''storage pool '%s' already exists'' [SArg poolName])
     | Inl _ \<Rightarrow>
         bindP (dStr S ''path'') (\<lambda>poolPath.
         if poolPath = [] then
           throw (Errorf ''\"path\" attribute is requires for storage pools of type \"dir\"'' [])
         else
           bindP (orFail (liftSum (xmlMarshallIndented (poolEncode st)
                      \<lparr>pool_Type = ''dir'', pool_Name = poolName, pool_Target = Some poolPath\<rparr>))
                    (\<lambda>err. Errorf ''error serializing libvirt storage pool: %s'' [EArg err])) (\<lambda>data.
           bindP (orFail (transformResourceXML S x data)
                    (\<lambda>err. Errorf ''error applying XSLT stylesheet: %s'' [EArg err])) (\<lambda>data.
           bindP (orFail (call ''StoragePoolDefineXML'' [poolName, data] (StoragePoolDefineXML st data 0))
                    (\<lambda>err. Errorf ''error creating libvirt storage pool: %s'' [EArg err])) (\<lambda>pool.
           bindP (orFail (poolCall ''StoragePoolBuild'' pool (StoragePoolBuild st pool 0))
                    (\<lambda>err. Errorf ''error building libvirt storage pool: %s'' [EArg err])) (\<lambda>_.
           bindP (orFail (poolCall ''StoragePoolSetAutostart'' pool (StoragePoolSetAutostart st pool 1))
                    (\<lambda>err. Errorf ''error setting up libvirt storage pool: %s'' [EArg err])) (\<lambda>_.
           bindP (orFail (poolCall ''StoragePoolCreate'' pool (StoragePoolCreate st pool 0))
                    (\<lambda>err. Errorf ''error starting libvirt storage pool: %s'' [EArg err])) (\<lambda>_.
           bindP (orFail (poolCall ''StoragePoolRefresh'' pool (StoragePoolRefresh st pool 0))
                    (\<lambda>err. Errorf ''error refreshing libvirt storage pool: %s'' [EArg err])) (\<lambda>_.
           let i = uuidString R (sp_UUID pool) in
           if i = [] then throw (Errorf ''error retrieving libvirt pool id: %s'' [SArg (sp_Name pool)])
           else
             bindP (dSetId S i) (\<lambda>_.
             bindP (waitForStatePoolExists S st (sp_UUID pool)) (\<lambda>_.
             resourceLibvirtPoolRead S R st)))))))))))"

definition resourceLibvirtPoolCreate ::
  "('w, 'd, 'v) sdk \<Rightarrow> 'w runtime \<Rightarrow> 'w xslt_io \<Rightarrow> 'w storage \<Rightarrow> (('w, 'd) prov, unit) prog" where
  "resourceLibvirtPoolCreate S R x st = requireConn (
     bindP (dStr S ''type'') (\<lambda>poolType.
     if poolType \<noteq> ''dir'' then
       throw (Errorf ''only storage pools of type \"dir\" are supported'' [])
     else
       bindP (dStr S ''name'') (\<lambda>poolName.
       withPoolLock poolName (createPool S R x st poolName))))"

text \<open>\<open>libvirt.StoragePoolInactive\<close>.\<close>

definition StoragePoolInactive :: byte where "StoragePoolInactive = 0"

definition deletePool ::
  "('w, 'd, 'v) sdk \<Rightarrow> 'w storage \<Rightarrow> string \<Rightarrow> StoragePool \<Rightarrow> (('w, 'd) prov, unit) prog" where
  "deletePool S st uuid pool =
     bindP (orFail (poolCall ''StoragePoolGetInfo'' pool (StoragePoolGetInfo st pool))
              (\<lambda>err. Errorf ''error retrieving storage pool info: %s'' [EArg err]))
       (\<lambda>(state, _, _, _).
     bindP (if state \<noteq> StoragePoolInactive
            then orFail (poolCall ''StoragePoolDestroy'' pool (StoragePoolDestroy st pool))
                   (\<lambda>err. Errorf ''error deleting storage pool: %s'' [EArg err])
            else ret ()) (\<lambda>_.
     bindP (orFail (poolCall ''StoragePoolDelete'' pool (StoragePoolDelete st pool 0))
              (\<lambda>err. Errorf ''error deleting storage pool: %s'' [EArg err])) (\<lambda>_.
     bindP (orFail (poolCall ''StoragePoolUndefine'' pool (StoragePoolUndefine st pool))
              (\<lambda>err. Errorf ''error deleting storage pool: %s'' [EArg err])) (\<lambda>_.
     waitForStatePoolDeleted S st uuid))))"

definition resourceLibvirtPoolDelete ::
  "('w, 'd, 'v) sdk \<Rightarrow> 'w runtime \<Rightarrow> 'w storage \<Rightarrow> (('w, 'd) prov, unit) prog" where
  "resourceLibvirtPoolDelete S R st = requireConn (
     bindP (dId S) (\<lambda>i.
     bindP (parseUUID R i) (\<lambda>uuid.
     bindP (attempt (lookupPoolByUUID st uuid)) (\<lambda>r. case r of
       Inl err \<Rightarrow>
         if isError err ErrNoStoragePool then dSetId S []
         else throw (Errorf ''error retrieving storage pool info: %s'' [EArg err])
     | Inr pool \<Rightarrow> withPoolLock (sp_Name pool) (deletePool S st uuid pool)))))"

section \<open>The discipline\<close>

lemma safe_lookupPoolByUUID [safe_intros]: "admits P \<Longrightarrow> safe P (lookupPoolByUUID st u)"
  unfolding lookupPoolByUUID_def by (intro safe_intros) (simp_all add: event_names)

lemma safe_poolStateRefresh [safe_intros]: "admits P \<Longrightarrow> safe P (poolStateRefreshFunc st u)"
  unfolding poolStateRefreshFunc_def by (intro safe_intros)

lemma safe_pool_waits:
  assumes "wait_ok S" "admits P"
  shows "safe P (waitForStatePoolExists S st u)" "safe P (waitForStatePoolDeleted S st u)"
  unfolding waitForStatePoolExists_def waitForStatePoolDeleted_def
  by (intro safe_wait safe_poolStateRefresh admits_blind assms)+

lemma safe_poolRead: "safe (disciplined H n) (resourceLibvirtPoolRead S R st)"
  unfolding resourceLibvirtPoolRead_def
  by (intro safe_intros) (simp_all add: event_names)

lemma safe_deletePool:
  assumes "wait_ok S" "H (sp_Name p)"
  shows "safe (disciplined H n) (deletePool S st u p)"
  unfolding deletePool_def
  by (intro safe_intros safe_orFail safe_bind ends_prod safe_poolCall_locked safe_pool_waits assms)
    (simp_all add: event_names)

lemma safe_poolDelete:
  assumes "wait_ok S"
  shows "safe (disciplined (\<lambda>_. False) n) (resourceLibvirtPoolDelete S R st)"
  unfolding resourceLibvirtPoolDelete_def
  by (intro safe_intros ends_withPoolLock safe_deletePool assms) simp_all

text \<open>
  The pool that the daemon defines from the XML of a pool has the name in the XML.  A stylesheet
  may change that name, so the discipline of \<open>Create\<close> is stated without one.
\<close>

definition define_law :: "'w storage \<Rightarrow> bool" where
  "define_law st \<longleftrightarrow> (\<forall>def data w p w'. poolEncode st def = Inr data \<longrightarrow>
     StoragePoolDefineXML st data 0 w = (Inr p, w') \<longrightarrow> sp_Name p = pool_Name def)"

definition no_xslt :: "('w, 'd, 'v) sdk \<Rightarrow> ('w, 'd) prov \<Rightarrow> bool" where
  "no_xslt S s \<longleftrightarrow> sdGetOk S (rdata s) ''xml.0.xslt'' = None"

lemma ends_transformResourceXML_none:
  "(\<And>s. P s \<Longrightarrow> no_xslt S s) \<Longrightarrow> ends P (transformResourceXML S x data) (\<lambda>y. y = data)"
  unfolding transformResourceXML_def dGetOk_def
  by (rule ends_bind [where \<phi> = "\<lambda>v. v = None"], rule ends_getS) (auto simp: no_xslt_def ends_ret)

lemma ends_defined:
  assumes "define_law st" "poolEncode st def = Inr data" "H name"
  shows "ends (\<lambda>s. disciplined H n s \<and> no_xslt S s)
    (call ''StoragePoolDefineXML'' (name # args) (StoragePoolDefineXML st data 0)) (\<lambda>p. sp_Name p = pool_Name def)"
proof -
  have "StoragePoolDefineXML st data 0 w = (Inr p, w') \<Longrightarrow> sp_Name p = pool_Name def" for w p w'
    using assms unfolding define_law_def by blast
  moreover have "event_ok \<lparr>ev_call = ''StoragePoolDefineXML'', ev_args = name # args, ev_pools = H, ev_net = n\<rparr>"
    using assms(3) by (intro event_ok_pool) (simp_all add: event_names)
  ultimately show ?thesis
    by (auto simp: ends_def call_def inv_def no_xslt_def Let_def split: prod.splits sum.splits)
qed

lemma ends_encoded:
  "ends P (orFail (liftSum (xmlMarshallIndented enc b)) f) (\<lambda>data. enc b = Inr data)"
  by (rule ends_orFail)
    (auto simp: xmlMarshallIndented_def liftSum_def ends_ret ends_throw split: sum.splits)

lemma safe_createPool:
  assumes wait: "wait_ok S" and law: "define_law st" and H: "H name"
  shows "ends_in (\<lambda>s. disciplined H n s \<and> no_xslt S s) (disciplined H n) (createPool S R x st name) (\<lambda>_. True)"
proof -
  let ?P = "\<lambda>s. disciplined H n s \<and> no_xslt S s"
  have adm: "admits ?P"
    using admits_conj [OF admits_disciplined, of H n "\<lambda>d. sdGetOk S d ''xml.0.xslt'' = None"]
    by (simp add: no_xslt_def)
  have built: "safe (disciplined H n) (
      bindP (orFail (poolCall ''StoragePoolBuild'' p (StoragePoolBuild st p 0)) f1) (\<lambda>_.
      bindP (orFail (poolCall ''StoragePoolSetAutostart'' p (StoragePoolSetAutostart st p 1)) f2) (\<lambda>_.
      bindP (orFail (poolCall ''StoragePoolCreate'' p (StoragePoolCreate st p 0)) f3) (\<lambda>_.
      bindP (orFail (poolCall ''StoragePoolRefresh'' p (StoragePoolRefresh st p 0)) f4) (\<lambda>_.
      let i = uuidString R (sp_UUID p) in
      if i = [] then throw e
      else bindP (dSetId S i) (\<lambda>_. bindP (waitForStatePoolExists S st (sp_UUID p)) (\<lambda>_.
             resourceLibvirtPoolRead S R st)))))))" if "sp_Name p = name" for p f1 f2 f3 f4 e
    by (intro safe_bind [OF safe_orFail [OF safe_poolCall_locked]] safe_bind [OF safe_dSet(2)]
        safe_bind [OF safe_pool_waits(1)] safe_poolRead ends_Let ends_if ends_throw wait admits_disciplined)
      (use that H in \<open>simp_all add: event_names\<close>)
  have weak: "ends_in ?P (disciplined H n) m (\<lambda>_. True)" if "safe (disciplined H n) m" for m
    by (rule ends_in_weaken [OF that]) simp
  show ?thesis
    unfolding createPool_def
    apply (rule ends_in_bind [OF safe_attempt [OF safe_read [OF adm]]])
       apply (simp_all add: event_names)
    apply (split sum.split, intro conjI allI impI)
     apply (rule ends_in_bind [OF safe_dStr(1)])
      apply (rule ends_in_if, rule weak, rule ends_throw)
      apply (rule ends_in_bind [OF ends_encoded])
       apply (rule ends_in_bind [OF ends_orFail [OF ends_transformResourceXML_none]], simp)
        apply (rule ends_in_bind [OF ends_orFail [OF ends_defined [OF law]]])
          apply (hypsubst, assumption)
         apply (rule H)
         apply (rule weak, rule built, simp)
        apply simp_all
    apply (rule weak, rule ends_throw)
    done
qed

lemma safe_poolCreate:
  assumes "wait_ok S" "define_law st"
  shows "ends_in (\<lambda>s. disciplined (\<lambda>_. False) n s \<and> no_xslt S s) (disciplined (\<lambda>_. False) n)
    (resourceLibvirtPoolCreate S R x st) (\<lambda>_. True)"
proof -
  let ?P = "\<lambda>s. disciplined (\<lambda>_. False) n s \<and> no_xslt S s"
  have locked: "ends_in ?P (disciplined (\<lambda>_. False) n) (withPoolLock name (createPool S R x st name)) (\<lambda>_. True)" for name
    using ends_in_withPoolLock [where H = "\<lambda>_. False" and k = name and n = n and E = event_ok and T = "no_xslt S"
        and T' = "\<lambda>_. True" and body = "createPool S R x st name" and \<phi> = "\<lambda>_. True"]
      safe_createPool [OF assms, of "(\<lambda>_. False)(name := True)" name n R x]
    by (simp add: no_xslt_def)
  have "ends_in ?P (disciplined (\<lambda>_. False) n) (bindP (dStr S ''type'') (\<lambda>poolType.
     if poolType \<noteq> ''dir'' then throw e
     else bindP (dStr S ''name'') (\<lambda>poolName. withPoolLock poolName (createPool S R x st poolName)))) (\<lambda>_. True)" for e
    by (rule ends_in_bind [OF safe_dStr(1)], rule ends_in_if, rule ends_in_throw, simp,
        rule ends_in_bind [OF safe_dStr(1)], rule locked) simp_all
  then show ?thesis
    unfolding resourceLibvirtPoolCreate_def by (auto simp: requireConn_def ends_in_def)
qed

section \<open>Properties\<close>

text \<open>C22: Creating a pool (without a stylesheet) always returns, gives back the mutex of the pool on
  every path, and defines, builds, autostarts, starts and refreshes the pool only with that mutex held.\<close>

theorem poolCreate_disciplined:
  assumes "wait_ok S" "define_law st" "idle s" "no_xslt S s"
  shows "fst (resourceLibvirtPoolCreate S R x st s) \<noteq> Blocked \<and> idle (snd (resourceLibvirtPoolCreate S R x st s))"
  using safe_poolCreate [OF assms(1,2), of False R x] assms(3,4)
  by (simp add: ends_in_def idle_def)

text \<open>C23: Deleting and reading a pool always return, and destroy, delete and undefine it only with
  its mutex held, which is given back on every path.\<close>

theorem poolDelete_Read_disciplined:
  assumes "wait_ok S"
  shows "handler_ok (resourceLibvirtPoolDelete S R st) \<and> handler_ok (resourceLibvirtPoolRead S R st)"
  by (intro conjI handler_okI safe_poolDelete safe_poolRead assms)

theorem poolDelete_Read_disciplined_witness:
  "handler_ok (resourceLibvirtPoolDelete demo_sdk demo_runtime demo_storage)
   \<and> handler_ok (resourceLibvirtPoolRead demo_sdk demo_runtime demo_storage)"
  by (rule poolDelete_Read_disciplined) (rule demo_sdk_ok)

definition demo_newPool :: "(dworld, rdemo) prov" where
  "demo_newPool = demo_state demo_world
     [(''type'', TStr ''dir''), (''name'', TStr ''images''), (''path'', TStr ''/images'')] []"

lemma demo_define_law: "define_law demo_storage"
  by (auto simp: define_law_def demo_storage_def demo_pool_def)

theorem poolCreate_disciplined_witness:
  "fst (resourceLibvirtPoolCreate demo_sdk demo_runtime demo_xslt demo_storage demo_newPool) \<noteq> Blocked
   \<and> idle (snd (resourceLibvirtPoolCreate demo_sdk demo_runtime demo_xslt demo_storage demo_newPool))"
proof (rule poolCreate_disciplined)
  show "wait_ok demo_sdk" "define_law demo_storage" by (rule demo_sdk_ok demo_define_law)+
  show "idle demo_newPool" unfolding demo_newPool_def by (rule idle_demo_state)
  show "no_xslt demo_sdk demo_newPool"
    by (simp add: no_xslt_def demo_newPool_def demo_state_def demo_sdk_def demo_getok_def demo_lookup_def demo_zero_def)
qed

end
