(* ===== verification/Net_Text.thy ===== *)
theory Net_Text
  imports Net_Utils
begin

text \<open>
  Printing an IPv4 address and reading it back, as plain text and in a CIDR.
\<close>

lemma decString_hd: "0 < n \<Longrightarrow> hd (decString n) \<noteq> CHR ''0''"
proof (induction n rule: decString.induct)
  case (1 n)
  show ?case
  proof (cases "n < 10")
    case True
    then have "char_nat (digitChar n) = 48 + n" by (rule char_nat_digitChar)
    with 1 True show ?thesis
      by (auto simp: decString.simps [of n] char_nat_def)
  next
    case False
    then have "hd (decString n) = hd (decString (n div 10))"
      by (simp add: decString.simps [of n])
    with False 1 show ?thesis by simp
  qed
qed

lemma decString_small: "n < 10 \<Longrightarrow> length (decString n) = 1"
  by (simp add: decString.simps [of n])

lemma parseOctet_decString: "n < 256 \<Longrightarrow> parseOctet (decString n) = Some (of_nat n)"
proof -
  assume n: "n < 256"
  have "list_all isDigit (decString n)" using decString_digits by (simp add: list_all_iff)
  moreover have "\<not> (length (decString n) > 1 \<and> hd (decString n) = CHR ''0'')"
    using decString_hd [of n] decString_small [of n] by (cases "n = 0") auto
  ultimately show ?thesis using n by (auto simp: parseOctet_def)
qed

lemma decString_no_sep: "\<not> isDigit c \<Longrightarrow> c \<notin> set (decString n)"
  using decString_digits by blast

lemma not_digits [simp]: "\<not> isDigit CHR ''.''" "\<not> isDigit CHR ''/''" "\<not> isDigit CHR '':''"
  by (simp_all add: isDigit_def char_nat_def)

definition octets :: "byte list \<Rightarrow> string list" where
  "octets ip = map (\<lambda>b. decString (unat b)) ip"

lemma strSplit_octets: "ip \<noteq> [] \<Longrightarrow> strSplit CHR ''.'' (strJoin CHR ''.'' (octets ip)) = octets ip"
  by (rule strSplit_strJoin) (auto simp: octets_def decString_no_sep)

lemma parse_octets: "map parseOctet (octets ip) = map Some ip"
  using unat_byte by (induction ip) (auto simp: octets_def parseOctet_decString)

lemma ipString_4: "length ip = 4 \<Longrightarrow> ipString ip = strJoin CHR ''.'' (octets ip)"
  by (auto simp: ipString_def To4_def octets_def)

lemma parseIPv4_ipString: "length ip = 4 \<Longrightarrow> parseIPv4 (ipString ip) = Some (v4InV6Prefix @ ip)"
proof -
  assume len: "length ip = 4"
  then obtain a b c d where ip: "ip = [a, b, c, d]"
    by (auto simp: length_Suc_conv eval_nat_numeral)
  have "map parseOctet (strSplit CHR ''.'' (ipString ip)) = map Some ip"
    using len by (simp add: ipString_4 strSplit_octets parse_octets ip)
  then show ?thesis by (simp add: parseIPv4_def ip)
qed

lemma find_dot: "(\<forall>c \<in> set xs. isDigit c) \<Longrightarrow>
    find (\<lambda>c. c = CHR ''.'' \<or> c = CHR '':'') (xs @ CHR ''.'' # ys) = Some CHR ''.''"
  by (induction xs) auto

lemma ipString_4_split:
  assumes "length ip = 4"
  obtains b bs where "ipString ip = decString (unat (b :: byte)) @ CHR ''.'' # strJoin CHR ''.'' bs"
proof -
  from assms obtain a b c d where ip: "ip = [a, b, c, d]"
    by (auto simp: length_Suc_conv eval_nat_numeral)
  have "ipString ip = decString (unat a) @ CHR ''.'' # strJoin CHR ''.'' (octets [b, c, d])"
    using assms by (simp add: ipString_4 ip octets_def)
  then show ?thesis by (rule that)
qed

lemma ParseIP_ipString: "length ip = 4 \<Longrightarrow> ParseIP (ipString ip) = Some (v4InV6Prefix @ ip)"
proof -
  assume len: "length ip = 4"
  then obtain b bs where "ipString ip = decString (unat (b :: byte)) @ CHR ''.'' # strJoin CHR ''.'' bs"
    by (rule ipString_4_split)
  then have "find (\<lambda>c. c = CHR ''.'' \<or> c = CHR '':'') (ipString ip) = Some CHR ''.''"
    using find_dot decString_digits by metis
  with len show ?thesis by (simp add: ParseIP_def parseIPv4_ipString)
qed

lemma set_strJoin: "set (strJoin c xs) \<subseteq> insert c (\<Union> (set ` set xs))"
  by (induction c xs rule: strJoin.induct) auto

lemma ipString_no_slash: "length ip = 4 \<Longrightarrow> CHR ''/'' \<notin> set (ipString ip)"
  using set_strJoin [of "CHR ''.''" "octets ip"]
  by (auto simp: ipString_4 octets_def decString_no_sep)

interpretation ipv4: separated_printer ipString "\<lambda>s. map_option (drop 12) (ParseIP s)" "\<lambda>ip. length ip = 4" "CHR ''/''"
  by unfold_locales (simp_all add: ParseIP_ipString v4InV6Prefix_def ipString_no_slash)

text \<open>A CIDR made from an IPv4 address and a prefix length.\<close>

definition cidrText :: "string \<Rightarrow> nat \<Rightarrow> string" where
  "cidrText address pre = address @ CHR ''/'' # decString pre"

lemma ParseCIDR_cidrText:
  assumes len: "length ip = 4" and n: "n \<le> 32"
  shows "ParseCIDR (cidrText (ipString ip) n)
    = Some (v4InV6Prefix @ ip, \<lparr>IP = map2 (AND) ip (maskBytes n 4), Mask = maskBytes n 4\<rparr>)"
proof -
  have split: "strSplitN2 CHR ''/'' (cidrText (ipString ip) n) = [ipString ip, decString n]"
    unfolding cidrText_def by (rule ipv4.split_write [OF len])
  have digits: "list_all isDigit (decString n)"
    using decString_digits by (simp add: list_all_iff)
  have "ip_Mask (v4InV6Prefix @ ip) (maskBytes n 4) = Some (map2 (AND) ip (maskBytes n 4))"
    using len by (simp add: ip_Mask_def v4InV6Prefix_def)
  with split digits n show ?thesis
    by (simp add: ParseCIDR_def parseIPv4_ipString [OF len] CIDRMask_def Let_def)
qed

end
