(* ===== verification/Network_API.thy ===== *)
theory Network_API
  imports Net_Text Xslt
begin

text \<open>
  The network calls of the libvirt client and the structures of the network XML with the fields
  that the provider reads or writes; the calls and the XML coding are arguments of the
  definitions.
\<close>

section \<open>Structures\<close>

record Network =
  nw_Name :: string
  nw_UUID :: string

record NetworkDomain =
  dom_Name :: string
  dom_LocalOnly :: string

record NetworkBridge =
  br_Name :: string
  br_STP :: string

text \<open>Of \<open>NetworkForward\<close> the NAT block is only set to nil, so it is a flag.\<close>

record NetworkForward =
  fwd_Mode :: string
  fwd_NAT :: bool

record NetworkDNSHost =
  dh_IP :: string
  dh_Hostnames :: "string list"

record NetworkDNSForwarder =
  fw_Domain :: string
  fw_Addr :: string

record NetworkDNSSRV =
  srv_Service :: string
  srv_Protocol :: string
  srv_Domain :: string
  srv_Target :: string
  srv_Port :: uint64
  srv_Weight :: uint64
  srv_Priority :: uint64

record NetworkDNS =
  dns_Enable :: string
  dns_Forwarders :: "NetworkDNSForwarder list"
  dns_Host :: "NetworkDNSHost list"
  dns_SRVs :: "NetworkDNSSRV list"

record NetworkRoute =
  rt_Family :: string
  rt_Address :: string
  rt_Prefix :: nat
  rt_Gateway :: string

record NetworkXML =
  net_Name :: string
  net_Domain :: "NetworkDomain option"
  net_Bridge :: "NetworkBridge option"
  net_MTU :: "uint64 option"
  net_Forward :: "NetworkForward option"
  net_IPs :: "NetworkIP list"
  net_DNS :: "NetworkDNS option"
  net_DnsmasqOptions :: "string list option"
  net_Routes :: "NetworkRoute list"

section \<open>Calls\<close>

datatype net_command = NetworkUpdateCommandModify | NetworkUpdateCommandDelete | NetworkUpdateCommandAddLast
datatype net_section = NetworkSectionIPDhcpHost | NetworkSectionDNSHost

definition NetworkUpdateAffectLive :: nat where "NetworkUpdateAffectLive = 1"
definition NetworkUpdateAffectConfig :: nat where "NetworkUpdateAffectConfig = 2"

definition ErrOperationInvalid :: uint32 where "ErrOperationInvalid = 55"

record 'w netapi =
  NetworkLookupByUUID :: "string \<Rightarrow> ('w, Network) rpc"
  NetworkIsActive :: "Network \<Rightarrow> ('w, int) rpc"
  NetworkCreate :: "Network \<Rightarrow> ('w, unit) rpc"
  NetworkDestroy :: "Network \<Rightarrow> ('w, unit) rpc"
  NetworkUndefine :: "Network \<Rightarrow> ('w, unit) rpc"
  NetworkDefineXML :: "string \<Rightarrow> ('w, Network) rpc"
  NetworkSetAutostart :: "Network \<Rightarrow> 32 word \<Rightarrow> ('w, unit) rpc"
  NetworkGetAutostart :: "Network \<Rightarrow> ('w, int) rpc"
  NetworkGetXMLDesc :: "Network \<Rightarrow> nat \<Rightarrow> ('w, string) rpc"
  NetworkUpdateCompat ::
    "Network \<Rightarrow> net_command \<Rightarrow> net_section \<Rightarrow> int \<Rightarrow> string \<Rightarrow> nat \<Rightarrow> ('w, unit) rpc"
  netEncode :: "NetworkXML \<Rightarrow> goerror + string"
  netDecode :: "string \<Rightarrow> goerror + NetworkXML"
  dnsHostEncode :: "NetworkDNSHost \<Rightarrow> goerror + string"
  dhcpHostEncode :: "NetworkDHCPHost \<Rightarrow> goerror + string"

definition netCall :: "string \<Rightarrow> Network \<Rightarrow> ('w, 'a) rpc \<Rightarrow> (('w, 'd) prov, 'a) prog" where
  "netCall name n f = call name [nw_UUID n] f"

definition lookupNetworkByUUID :: "'w netapi \<Rightarrow> string \<Rightarrow> (('w, 'd) prov, Network) prog" where
  "lookupNetworkByUUID A uuid = call ''NetworkLookupByUUID'' [uuid] (NetworkLookupByUUID A uuid)"

definition updateNetwork ::
  "'w netapi \<Rightarrow> Network \<Rightarrow> net_command \<Rightarrow> net_section \<Rightarrow> int \<Rightarrow> string \<Rightarrow> (('w, 'd) prov, unit) prog" where
  "updateNetwork A n cmd sec idx xml = netCall ''NetworkUpdate'' n
     (NetworkUpdateCompat A n cmd sec idx xml (NetworkUpdateAffectConfig + NetworkUpdateAffectLive))"

lemma safe_netCall [safe_intros]:
  "admits P \<Longrightarrow> name \<notin> changesPool \<Longrightarrow> (name \<in> changesNetwork \<Longrightarrow> admits_call name P) \<Longrightarrow>
   safe P (netCall name n f)"
  unfolding netCall_def by (rule safe_named) simp_all

lemma safe_lookupNetwork [safe_intros]: "admits P \<Longrightarrow> safe P (lookupNetworkByUUID A u)"
  unfolding lookupNetworkByUUID_def by (intro safe_intros) (simp_all add: event_names)

lemma safe_updateNetwork [safe_intros]:
  "admits P \<Longrightarrow> admits_call ''NetworkUpdate'' P \<Longrightarrow> safe P (updateNetwork A n c s i x)"
  unfolding updateNetwork_def by (intro safe_intros) (simp_all add: event_names)

end
