(* ===== verification/Network_Def.thy ===== *)
theory Network_Def
  imports Network_API
begin

text \<open>
  \<open>network_def.go\<close>, \<open>network_routes.go\<close> and the rest of \<open>network.go\<close>: network definitions read
  from the daemon, static DHCP hosts, waiting for a network, and the parts of a definition that
  are read off the resource data.
\<close>

section \<open>network_def.go\<close>

definition HasDHCP :: "NetworkXML \<Rightarrow> bool" where
  "HasDHCP net = (case net_Forward net of
      Some f \<Rightarrow> fwd_Mode f = ''nat'' \<or> fwd_Mode f = ''route'' \<or> fwd_Mode f = ''open'' \<or> fwd_Mode f = []
    | None \<Rightarrow> True)"

definition newDefNetworkFromXML :: "'w netapi \<Rightarrow> string \<Rightarrow> goerror + NetworkXML" where
  "newDefNetworkFromXML A s = netDecode A s"

definition getXMLNetworkDefFromLibvirt :: "'w netapi \<Rightarrow> Network \<Rightarrow> (('w, 'd) prov, NetworkXML) prog" where
  "getXMLNetworkDefFromLibvirt A network =
     bindP (orFail (netCall ''NetworkGetXMLDesc'' network (NetworkGetXMLDesc A network 0))
              (Wrapf ''error retrieving libvirt network XML description: %w'' [])) (\<lambda>networkXMLDesc.
     orFail (liftSum (netDecode A networkXMLDesc))
       (Wrapf ''error reading libvirt network XML description: %w'' []))"

definition defNetworkXML :: string where
  "defNetworkXML = concat (map (\<lambda>l. nl # CHR 0x09 # CHR 0x09 # l)
     [''<network>'', ''  <name>default</name>'', ''  <forward mode='nat'>'', ''    <nat>'',
      ''      <port start='1024' end='65535'/>'', ''    </nat>'', ''  </forward>'', ''</network>''])"

text \<open>\<open>None\<close>: the panic when the default definition does not decode.\<close>

definition newNetworkDef :: "'w netapi \<Rightarrow> NetworkXML option" where
  "newNetworkDef A = (case newDefNetworkFromXML A defNetworkXML of Inl err \<Rightarrow> None | Inr d \<Rightarrow> Some d)"

definition getHostXMLDesc :: "'w netapi \<Rightarrow> string \<Rightarrow> string \<Rightarrow> string \<Rightarrow> (('w, 'd) prov, string) prog" where
  "getHostXMLDesc A ip mac name =
     (case xmlMarshallIndented (dhcpHostEncode A) \<lparr>MAC = mac, HostIP = ip, HostName = name\<rparr> of
        Inl err \<Rightarrow> panic ''could not marshall host''
      | Inr xml \<Rightarrow> ret xml)"

definition addHost ::
  "'w netapi \<Rightarrow> Network \<Rightarrow> string \<Rightarrow> string \<Rightarrow> string \<Rightarrow> int \<Rightarrow> (('w, 'd) prov, unit) prog" where
  "addHost A n ip mac name xmlIdx =
     bindP (getHostXMLDesc A ip mac name) (\<lambda>xmlDesc.
     updateNetwork A n NetworkUpdateCommandAddLast NetworkSectionIPDhcpHost xmlIdx xmlDesc)"

definition updateHost ::
  "'w netapi \<Rightarrow> Network \<Rightarrow> string \<Rightarrow> string \<Rightarrow> string \<Rightarrow> int \<Rightarrow> (('w, 'd) prov, unit) prog" where
  "updateHost A n ip mac name xmlIdx =
     bindP (getHostXMLDesc A ip mac name) (\<lambda>xmlDesc.
     updateNetwork A n NetworkUpdateCommandModify NetworkSectionIPDhcpHost xmlIdx xmlDesc)"

text \<open>
  \<open>getNetworkIdx\<close>: the index of the first subnet that contains the address, -1 when there is
  none; the error of \<open>ParseCIDR\<close> ends the loop with -1.  \<open>net.ParseIP\<close> of a text that is no
  address is \<open>nil\<close>, the empty address.
\<close>

definition parsedIP :: "string \<Rightarrow> ip" where
  "parsedIP s = (case ParseIP s of Some x \<Rightarrow> x | None \<Rightarrow> [])"

fun networkIdxLoop :: "NetworkIP list \<Rightarrow> ip \<Rightarrow> int \<Rightarrow> int \<times> bool" where
  "networkIdxLoop [] ip idx = (-1, True)"
| "networkIdxLoop (netIps # rest) ip idx =
     (case ParseCIDR (cidrText (Address netIps) (Prefix netIps)) of
        None \<Rightarrow> (-1, False)
      | Some (_, netw) \<Rightarrow> if net_Contains netw ip then (idx, True) else networkIdxLoop rest ip (idx + 1))"

definition getNetworkIdx :: "NetworkXML \<Rightarrow> string \<Rightarrow> int \<times> bool" where
  "getNetworkIdx n ip = networkIdxLoop (net_IPs n) (parsedIP ip) 0"

text \<open>The empty structure that stands for a network that could not be read.\<close>

definition zeroNetwork :: NetworkXML where
  "zeroNetwork = \<lparr>net_Name = [], net_Domain = None, net_Bridge = None, net_MTU = None,
     net_Forward = None, net_IPs = [], net_DNS = None, net_DnsmasqOptions = None, net_Routes = []\<rparr>"

definition updateOrAddHost ::
  "'w netapi \<Rightarrow> Network \<Rightarrow> string \<Rightarrow> string \<Rightarrow> string \<Rightarrow> (('w, 'd) prov, unit) prog" where
  "updateOrAddHost A n ip mac name =
     bindP (attempt (getXMLNetworkDefFromLibvirt A n)) (\<lambda>r.
     let xmlNet = (case r of Inl _ \<Rightarrow> zeroNetwork | Inr x \<Rightarrow> x);
         xmlIdx = fst (getNetworkIdx xmlNet ip)
     in bindP (attempt (updateHost A n ip mac name xmlIdx)) (\<lambda>u. case u of
          Inr _ \<Rightarrow> ret ()
        | Inl err \<Rightarrow>
            if isError err ErrOperationInvalid then addHost A n ip mac name xmlIdx else throw err))"

section \<open>Waiting\<close>

definition waitForNetworkActive :: "'w netapi \<Rightarrow> Network \<Rightarrow> (('w, 'd) prov, string) prog" where
  "waitForNetworkActive A network =
     bindP (netCall ''NetworkIsActive'' network (NetworkIsActive A network)) (\<lambda>active.
     ret (if active = 1 then ''ACTIVE'' else ''BUILD''))"

definition waitForNetworkDestroyed :: "'w runtime \<Rightarrow> 'w netapi \<Rightarrow> string \<Rightarrow> (('w, 'd) prov, string) prog" where
  "waitForNetworkDestroyed R A uuidStr =
     bindP (parseUUID R uuidStr) (\<lambda>uuid.
     bindP (attempt (lookupNetworkByUUID A uuid)) (\<lambda>r. case r of
       Inl err \<Rightarrow> if isError err ErrNoNetwork then ret ''NOT-EXISTS'' else throw err
     | Inr _ \<Rightarrow> ret ''ACTIVE''))"

section \<open>Parts of a definition from the resource data\<close>

definition netModeIsolated :: string where "netModeIsolated = ''none''"
definition netModeNat :: string where "netModeNat = ''nat''"
definition netModeRoute :: string where "netModeRoute = ''route''"
definition netModeOpen :: string where "netModeOpen = ''open''"
definition netModeBridge :: string where "netModeBridge = ''bridge''"
definition dnsPrefix :: string where "dnsPrefix = ''dns.0''"

definition getNetModeFromResource :: "('w, 'd, 'v) sdk \<Rightarrow> (('w, 'd) prov, string) prog" where
  "getNetModeFromResource S = bindP (dStr S ''mode'') (\<lambda>m. ret (strToLower m))"

definition liftOutcome :: "'a outcome \<Rightarrow> ('s, 'a) prog" where
  "liftOutcome r = (\<lambda>s. (r, s))"

definition providesDHCP :: "string \<Rightarrow> bool" where
  "providesDHCP mode \<longleftrightarrow> mode = netModeIsolated \<or> mode = netModeNat \<or> mode = netModeRoute \<or> mode = netModeOpen"

definition getIPsFromResource :: "('w, 'd, 'v) sdk \<Rightarrow> (('w, 'd) prov, NetworkIP list) prog" where
  "getIPsFromResource S =
     bindP (dGetOk S ''addresses'') (\<lambda>addresses. case addresses of
       None \<Rightarrow> ret []
     | Some v \<Rightarrow>
         bindP (getNetModeFromResource S) (\<lambda>netMode.
         bindP (assertList v) (\<lambda>addressList.
         mapP (\<lambda>addressI.
           bindP (assertStr addressI) (\<lambda>address.
           bindP (liftOutcome (getNetworkIPConfig address)) (\<lambda>(dni, dhcp).
           bindP (getS (\<lambda>s. sdGetOkExists S (rdata s) ''dhcp.0.enabled'')) (\<lambda>byUser.
           bindP (case byUser of Some b \<Rightarrow> assertBool b | None \<Rightarrow> ret (providesDHCP netMode)) (\<lambda>dhcpEnabled.
           ret (dni\<lparr>DHCP := (if dhcpEnabled then Some dhcp else None)\<rparr>))))))
           addressList)))"

definition getBridgeFromResource :: "('w, 'd, 'v) sdk \<Rightarrow> (('w, 'd) prov, NetworkBridge) prog" where
  "getBridgeFromResource S =
     bindP (dGetOk S ''bridge'') (\<lambda>b. bindP (case b of Some v \<Rightarrow> assertStr v | None \<Rightarrow> ret []) (\<lambda>bridgeName.
     ret \<lparr>br_Name = bridgeName, br_STP = ''on''\<rparr>))"

definition getDomainFromResource :: "('w, 'd, 'v) sdk \<Rightarrow> (('w, 'd) prov, NetworkDomain option) prog" where
  "getDomainFromResource S =
     bindP (dGetOk S ''domain'') (\<lambda>domainName. case domainName of
       None \<Rightarrow> ret None
     | Some v \<Rightarrow>
         bindP (assertStr v) (\<lambda>name.
         bindP (dGetOk S (dnsPrefix @ ''.local_only'')) (\<lambda>o1.
         bindP (case o1 of Some b \<Rightarrow> assertBool b | None \<Rightarrow> ret False) (\<lambda>dnsLocalOnly.
         ret (Some \<lparr>dom_Name = name, dom_LocalOnly = (if dnsLocalOnly then ''yes'' else [])\<rparr>)))))"

definition getMTUFromResource :: "('w, 'd, 'v) sdk \<Rightarrow> (('w, 'd) prov, uint64 option) prog" where
  "getMTUFromResource S =
     bindP (dGetOk S ''mtu'') (\<lambda>mtu. case mtu of
       None \<Rightarrow> ret None
     | Some v \<Rightarrow> bindP (assertInt v) (\<lambda>n. ret (Some (uint64_of_int n))))"

definition getDNSMasqOptionFromResource :: "('w, 'd, 'v) sdk \<Rightarrow> (('w, 'd) prov, string list) prog" where
  "getDNSMasqOptionFromResource S =
     bindP (dGetOk S ''dnsmasq_options.0.options.#'') (\<lambda>count. case count of
       None \<Rightarrow> ret []
     | Some v \<Rightarrow>
         bindP (assertInt v) (\<lambda>n.
         mapP (\<lambda>i.
           let pre = ''dnsmasq_options.0.options.'' @ decString i in
           bindP (dStr S (pre @ ''.option_name'')) (\<lambda>optionName.
           bindP (dGetOk S (pre @ ''.option_value'')) (\<lambda>optionValue. case optionValue of
             Some ov \<Rightarrow> bindP (assertStr ov) (\<lambda>val. ret (optionName @ ''='' @ val))
           | None \<Rightarrow> ret optionName)))
           [0..<nat n]))"

definition getRoutesFromResource :: "('w, 'd, 'v) sdk \<Rightarrow> (('w, 'd) prov, NetworkRoute list) prog" where
  "getRoutesFromResource S =
     bindP (dGetOk S ''routes.#'') (\<lambda>routesCount. case routesCount of
       None \<Rightarrow> ret []
     | Some v \<Rightarrow>
         bindP (assertInt v) (\<lambda>n.
         mapP (\<lambda>i.
           let pre = ''routes.'' @ decString i in
           bindP (dGetOk S (pre @ ''.cidr'')) (\<lambda>cidr. case cidr of
             None \<Rightarrow> throw (Errorf ''no address defined for static route'' [])
           | Some c \<Rightarrow>
               bindP (assertStr c) (\<lambda>cidrS. case ParseCIDR cidrS of
                 None \<Rightarrow> throw (Wrapf ''error parsing static route in network: %w'' []
                           (SysError ''invalid CIDR address''))
               | Some (addr, net) \<Rightarrow>
                   bindP (dGetOk S (pre @ ''.gateway'')) (\<lambda>gw. case gw of
                     None \<Rightarrow> throw (Errorf ''no gateway defined for static route'' [])
                   | Some g \<Rightarrow>
                       bindP (assertStr g) (\<lambda>gwS. case ParseIP gwS of
                         None \<Rightarrow> throw (Errorf ''error parsing IP '%s' in static route in network'' [SArg gwS])
                       | Some ip \<Rightarrow>
                           ret \<lparr>rt_Family = (if To4 addr = None then ''ipv6'' else []),
                                rt_Address = ipString addr, rt_Prefix = fst (mask_Size (Mask net)),
                                rt_Gateway = ipString ip\<rparr>)))))
           [0..<nat n]))"

section \<open>The discipline\<close>

lemma safe_liftOutcome [safe_intros]: "r \<noteq> Blocked \<Longrightarrow> safe P (liftOutcome r)"
  by (simp add: ends_def liftOutcome_def)

lemma safe_getXMLNetworkDef [safe_intros]: "admits P \<Longrightarrow> safe P (getXMLNetworkDefFromLibvirt A n)"
  unfolding getXMLNetworkDefFromLibvirt_def by (intro safe_intros) (simp_all add: event_names)

lemma safe_hosts [safe_intros]:
  "safe P (getHostXMLDesc A ip mac name)"
  "admits P \<Longrightarrow> admits_call ''NetworkUpdate'' P \<Longrightarrow> safe P (addHost A n ip mac name i)"
  "admits P \<Longrightarrow> admits_call ''NetworkUpdate'' P \<Longrightarrow> safe P (updateHost A n ip mac name i)"
  "admits P \<Longrightarrow> admits_call ''NetworkUpdate'' P \<Longrightarrow> safe P (updateOrAddHost A n ip mac name)"
  unfolding getHostXMLDesc_def addHost_def updateHost_def updateOrAddHost_def
  by (intro safe_intros; auto intro!: safe_intros)+

lemma safe_network_refresh [safe_intros]:
  "admits P \<Longrightarrow> safe P (waitForNetworkActive A n)"
  "admits P \<Longrightarrow> safe P (waitForNetworkDestroyed R A u)"
  unfolding waitForNetworkActive_def waitForNetworkDestroyed_def
  by (intro safe_intros; simp add: event_names)+

lemma getNetworkIPConfig_not_blocked: "getNetworkIPConfig address \<noteq> Blocked"
  by (auto simp: getNetworkIPConfig_def Let_def split: option.splits prod.splits)

lemma safe_from_resource [safe_intros]:
  "safe P (getNetModeFromResource S)" "safe P (getIPsFromResource S)" "safe P (getBridgeFromResource S)"
  "safe P (getDomainFromResource S)" "safe P (getMTUFromResource S)"
  "safe P (getDNSMasqOptionFromResource S)" "safe P (getRoutesFromResource S)"
proof -
  show mode: "safe P (getNetModeFromResource S)"
    unfolding getNetModeFromResource_def by (intro safe_intros)
  show "safe P (getIPsFromResource S)"
    unfolding getIPsFromResource_def by (intro safe_intros mode getNetworkIPConfig_not_blocked)
  show "safe P (getBridgeFromResource S)" "safe P (getDomainFromResource S)" "safe P (getMTUFromResource S)"
    "safe P (getDNSMasqOptionFromResource S)"
    unfolding getBridgeFromResource_def getDomainFromResource_def getMTUFromResource_def
      getDNSMasqOptionFromResource_def
    by (intro safe_intros)+
  show "safe P (getRoutesFromResource S)"
    unfolding getRoutesFromResource_def by (intro safe_intros)
qed

end
