(* ===== verification/Network_DNS.thy ===== *)
theory Network_DNS
  imports Network_Def
begin

text \<open>
  \<open>network_dns.go\<close>: the DNS part of a network definition, and the live update of the DNS hosts
  from the old and the new entries.  Go ranges over a map in an order that is not specified;
  the order is an argument, a function that permutes the keys.
\<close>

section \<open>Entries by address\<close>

text \<open>
  The maps from addresses to host names that the code builds: an association list, in which an
  address is added at the end when it is new.
\<close>

fun addHostname :: "string \<Rightarrow> string \<Rightarrow> (string \<times> string list) list \<Rightarrow> (string \<times> string list) list" where
  "addHostname ip name [] = [(ip, [name])]"
| "addHostname ip name ((k, names) # rest) =
     (if k = ip then (k, names @ [name]) # rest else (k, names) # addHostname ip name rest)"

definition hostMap :: "(string \<times> string) list \<Rightarrow> (string \<times> string list) list" where
  "hostMap entries = foldl (\<lambda>m (ip, name). addHostname ip name m) [] entries"

definition map_order :: "(string list \<Rightarrow> string list) \<Rightarrow> bool" where
  "map_order order \<longleftrightarrow> (\<forall>ks. mset (order ks) = mset ks)"

definition orderedHosts ::
  "(string list \<Rightarrow> string list) \<Rightarrow> (string list \<Rightarrow> string list) \<Rightarrow> (string \<times> string list) list
   \<Rightarrow> NetworkDNSHost list" where
  "orderedHosts order arrange m =
     map (\<lambda>ip. \<lparr>dh_IP = ip, dh_Hostnames = arrange (the (map_of m ip))\<rparr>) (order (map fst m))"

section \<open>Parsing the entries\<close>

definition Errs :: "string \<Rightarrow> nat \<Rightarrow> goerror" where
  "Errs fmt i = Errorf fmt [IArg (int i)]"

fun parseHostEntries :: "nat \<Rightarrow> tfval list \<Rightarrow> goerror + (string \<times> string) list" where
  "parseHostEntries i [] = Inr []"
| "parseHostEntries i (e # es) = (case e of
      TMap m \<Rightarrow>
        (case map_of m ''ip'' of
           None \<Rightarrow> Inl (Errs ''entry %d.ip is missing'' i)
         | Some (TStr ip) \<Rightarrow>
             (case map_of m ''hostname'' of
                None \<Rightarrow> Inl (Errs ''entry %d.hostname is missing'' i)
              | Some (TStr hostname) \<Rightarrow>
                  (case parseHostEntries (Suc i) es of
                     Inl err \<Rightarrow> Inl err
                   | Inr rest \<Rightarrow> Inr ((ip, hostname) # rest))
              | Some _ \<Rightarrow> Inl (Errs ''entry %d.hostname is not a string'' i))
         | Some _ \<Rightarrow> Inl (Errs ''entry %d.ip is not a string'' i))
    | _ \<Rightarrow> Inl (Errs ''entry %d is not a map'' i))"

definition parseNetworkDNSHostsChange ::
  "(string list \<Rightarrow> string list) \<Rightarrow> tfval \<Rightarrow> goerror + NetworkDNSHost list" where
  "parseNetworkDNSHostsChange order change = (case change of
      TSet entrySet \<Rightarrow>
        (case parseHostEntries 0 entrySet of
           Inl err \<Rightarrow> Inl err
         | Inr entries \<Rightarrow> Inr (orderedHosts order sort (hostMap entries)))
    | _ \<Rightarrow> Inl (Errorf ''not set %v'' []))"

definition getDNSHostsFromResource ::
  "(string list \<Rightarrow> string list) \<Rightarrow> ('w, 'd, 'v) sdk \<Rightarrow> (('w, 'd) prov, NetworkDNSHost list) prog" where
  "getDNSHostsFromResource order S =
     bindP (dGetOk S (dnsPrefix @ ''.hosts'')) (\<lambda>dnsHosts. bindP (case dnsHosts of
       None \<Rightarrow> ret []
     | Some (TSet es) \<Rightarrow>
         mapP (\<lambda>hostEntry.
           bindP (assertMap hostEntry) (\<lambda>m.
           bindP (assertStr (case map_of m ''ip'' of Some v \<Rightarrow> v | None \<Rightarrow> TNil)) (\<lambda>address.
           if ParseIP address = None then
             throw (Errorf (''could not parse address '%s'' @ [CHR 0x27]) [SArg address])
           else bindP (assertStr (case map_of m ''hostname'' of Some v \<Rightarrow> v | None \<Rightarrow> TNil)) (\<lambda>hostname.
           ret (address, hostname))))) es
     | Some _ \<Rightarrow> panic ''interface conversion'') (\<lambda>entries.
     ret (orderedHosts order id (hostMap entries))))"

section \<open>Forwarders, SRV records, the switch\<close>

definition getDNSForwardersFromResource ::
  "('w, 'd, 'v) sdk \<Rightarrow> (('w, 'd) prov, NetworkDNSForwarder list) prog" where
  "getDNSForwardersFromResource S =
     bindP (dGetOk S (dnsPrefix @ ''.forwarders.#'')) (\<lambda>count. case count of
       None \<Rightarrow> ret []
     | Some v \<Rightarrow>
         bindP (assertInt v) (\<lambda>n.
         mapP (\<lambda>i.
           let pre = dnsPrefix @ ''.forwarders.'' @ decString i in
           bindP (dGetOk S (pre @ ''.address'')) (\<lambda>address.
           bindP (case address of
              None \<Rightarrow> ret []
            | Some a \<Rightarrow> bindP (assertStr a) (\<lambda>text. case ParseIP text of
                None \<Rightarrow> throw (Errorf (''could not parse address '%s'' @ [CHR 0x27]) [SArg text])
              | Some ip \<Rightarrow> ret (ipString ip))) (\<lambda>addr.
           bindP (dGetOk S (pre @ ''.domain'')) (\<lambda>o1.
           bindP (case o1 of None \<Rightarrow> ret [] | Some t \<Rightarrow> assertStr t) (\<lambda>domain.
           ret \<lparr>fw_Domain = domain, fw_Addr = addr\<rparr>)))))
           [0..<nat n]))"

definition getDNSEnableFromResource :: "('w, 'd, 'v) sdk \<Rightarrow> (('w, 'd) prov, string) prog" where
  "getDNSEnableFromResource S =
     bindP (dGetOk S (dnsPrefix @ ''.enabled'')) (\<lambda>dnsEnabled. case dnsEnabled of
       None \<Rightarrow> ret []
     | Some v \<Rightarrow> bindP (assertBool v) (\<lambda>b. ret (if b then ''yes'' else ''no'')))"

definition optStr :: "('w, 'd, 'v) sdk \<Rightarrow> string \<Rightarrow> (('w, 'd) prov, string) prog" where
  "optStr S key = bindP (dGetOk S key) (\<lambda>v. case v of None \<Rightarrow> ret [] | Some x \<Rightarrow> assertStr x)"

definition optNumber :: "('w, 'd, 'v) sdk \<Rightarrow> string \<Rightarrow> string \<Rightarrow> (('w, 'd) prov, uint64) prog" where
  "optNumber S key what =
     bindP (dGetOk S key) (\<lambda>v. case v of
       None \<Rightarrow> ret 0
     | Some x \<Rightarrow> bindP (assertStr x) (\<lambda>text. case atoi text of
         (n, None) \<Rightarrow> ret (uint64_of_int n)
       | (n, Some err) \<Rightarrow> throw (Errorf ''could not convert %s '%s' to int'' [SArg what, SArg text])))"

definition getDNSSRVFromResource :: "('w, 'd, 'v) sdk \<Rightarrow> (('w, 'd) prov, NetworkDNSSRV list) prog" where
  "getDNSSRVFromResource S =
     bindP (dGetOk S (dnsPrefix @ ''.srvs.#'')) (\<lambda>count. case count of
       None \<Rightarrow> ret []
     | Some v \<Rightarrow>
         bindP (assertInt v) (\<lambda>n.
         mapP (\<lambda>i.
           let pre = dnsPrefix @ ''.srvs.'' @ decString i in
           bindP (optStr S (pre @ ''.service'')) (\<lambda>service.
           bindP (optStr S (pre @ ''.protocol'')) (\<lambda>protocol.
           bindP (optStr S (pre @ ''.domain'')) (\<lambda>domain.
           bindP (optStr S (pre @ ''.target'')) (\<lambda>target.
           bindP (optNumber S (pre @ ''.port'') ''port'') (\<lambda>port.
           bindP (optNumber S (pre @ ''.weight'') ''weight'') (\<lambda>weight.
           bindP (optNumber S (pre @ ''.priority'') ''priority'') (\<lambda>priority.
           ret \<lparr>srv_Service = service, srv_Protocol = protocol, srv_Domain = domain,
                srv_Target = target, srv_Port = port, srv_Weight = weight, srv_Priority = priority\<rparr>))))))))
           [0..<nat n]))"

section \<open>The live update\<close>

definition deleteEntry :: "'w netapi \<Rightarrow> Network \<Rightarrow> NetworkDNSHost \<Rightarrow> (('w, 'd) prov, unit) prog" where
  "deleteEntry A network oldEntry =
     bindP (orFail (liftSum (xmlMarshallIndented (dnsHostEncode A) \<lparr>dh_IP = dh_IP oldEntry, dh_Hostnames = []\<rparr>))
              (Wrapf ''serialize update: %w'' [])) (\<lambda>data.
     orFail (updateNetwork A network NetworkUpdateCommandDelete NetworkSectionDNSHost (-1) data)
       (Wrapf ''delete %s: %w'' [SArg (dh_IP oldEntry)]))"

definition addEntry :: "'w netapi \<Rightarrow> Network \<Rightarrow> NetworkDNSHost \<Rightarrow> (('w, 'd) prov, unit) prog" where
  "addEntry A network newEntry =
     bindP (orFail (liftSum (xmlMarshallIndented (dnsHostEncode A) newEntry))
              (Wrapf ''serialize update: %w'' [])) (\<lambda>data.
     orFail (updateNetwork A network NetworkUpdateCommandAddLast NetworkSectionDNSHost (-1) data)
       (Wrapf ''add %v: %w'' [SArg (dh_IP newEntry)]))"

definition entriesToDelete :: "NetworkDNSHost list \<Rightarrow> NetworkDNSHost list \<Rightarrow> NetworkDNSHost list" where
  "entriesToDelete oldEntries newEntries = filter (\<lambda>e. e \<notin> set newEntries) oldEntries"

definition entriesToAdd :: "NetworkDNSHost list \<Rightarrow> NetworkDNSHost list \<Rightarrow> NetworkDNSHost list" where
  "entriesToAdd oldEntries newEntries = filter (\<lambda>e. e \<notin> set oldEntries) newEntries"

definition updateDNSHosts ::
  "(string list \<Rightarrow> string list) \<Rightarrow> (string list \<Rightarrow> string list) \<Rightarrow> ('w, 'd, 'v) sdk \<Rightarrow> 'w netapi \<Rightarrow> Network
   \<Rightarrow> (('w, 'd) prov, unit) prog" where
  "updateDNSHosts order1 order2 S A network =
     (let hostsKey = dnsPrefix @ ''.hosts'' in
      bindP (dHasChange S hostsKey) (\<lambda>changed.
      if \<not> changed then ret ()
      else
        bindP (getS (\<lambda>s. sdGetChange S (rdata s) hostsKey)) (\<lambda>(oldInterface, newInterface).
        bindP (orFail (liftSum (parseNetworkDNSHostsChange order1 oldInterface))
                 (Wrapf ''parse old %s: %w'' [SArg hostsKey])) (\<lambda>oldEntries.
        bindP (orFail (liftSum (parseNetworkDNSHostsChange order2 newInterface))
                 (Wrapf ''parse new %s: %w'' [SArg hostsKey])) (\<lambda>newEntries.
        bindP (forP (entriesToDelete oldEntries newEntries) (deleteEntry A network)) (\<lambda>_.
        forP (entriesToAdd oldEntries newEntries) (addEntry A network)))))))"

section \<open>The discipline\<close>

lemma safe_optStr [safe_intros]: "safe P (optStr S k)" "safe P (optNumber S k t)"
  unfolding optStr_def optNumber_def by (intro safe_intros)+

lemma safe_dns_parts [safe_intros]:
  "safe P (getDNSForwardersFromResource S)" "safe P (getDNSEnableFromResource S)"
  "safe P (getDNSSRVFromResource S)"
  unfolding getDNSForwardersFromResource_def getDNSEnableFromResource_def getDNSSRVFromResource_def
  by (intro safe_intros)+

lemma safe_getDNSHosts [safe_intros]: "safe P (getDNSHostsFromResource order S)"
  unfolding getDNSHostsFromResource_def
  by (intro safe_intros) (auto intro!: safe_intros split: tfval.split)

lemma safe_updateDNSHosts [safe_intros]:
  "admits P \<Longrightarrow> admits_call ''NetworkUpdate'' P \<Longrightarrow> safe P (updateDNSHosts o1 o2 S A n)"
  unfolding updateDNSHosts_def deleteEntry_def addEntry_def by (intro safe_intros)

end
