(* ===== verification/Network_Resource.thy ===== *)
theory Network_Resource
  imports Network_DNS
begin

text \<open>
  \<open>resource_libvirt_network.go\<close>: the handlers of \<open>libvirt_network\<close>.  \<open>Create\<close> first reads the
  whole definition off the configuration (\<open>networkDefinition\<close>, which calls nobody), then defines
  the network under the network mutex, starts it and waits; \<open>Read\<close> turns the definition of the
  daemon back into resource data; \<open>Update\<close> changes autostart and the DNS hosts; \<open>Delete\<close> stops
  and undefines the network and waits until it is gone.
\<close>

section \<open>Create\<close>

definition plainMode :: "string \<Rightarrow> bool" where
  "plainMode mode \<longleftrightarrow> mode = netModeIsolated \<or> mode = netModeNat \<or> mode = netModeRoute \<or> mode = netModeOpen"

text \<open>The DNS part of the definition.\<close>

definition networkDNS ::
  "(string list \<Rightarrow> string list) \<Rightarrow> ('w, 'd, 'v) sdk \<Rightarrow> (('w, 'd) prov, NetworkDNS) prog" where
  "networkDNS order S =
     bindP (getDNSEnableFromResource S) (\<lambda>dnsEnabled.
     bindP (getDNSForwardersFromResource S) (\<lambda>dnsForwarders.
     bindP (getDNSSRVFromResource S) (\<lambda>dnsSRVs.
     bindP (getDNSHostsFromResource order S) (\<lambda>dnsHosts.
     ret \<lparr>dns_Enable = dnsEnabled, dns_Forwarders = dnsForwarders, dns_Host = dnsHosts,
          dns_SRVs = dnsSRVs\<rparr>))))"

text \<open>The check of the mode, and what depends on it.\<close>

definition networkMode ::
  "(string list \<Rightarrow> string list) \<Rightarrow> ('w, 'd, 'v) sdk \<Rightarrow> string \<Rightarrow> NetworkXML \<Rightarrow> (('w, 'd) prov, NetworkXML) prog" where
  "networkMode order S mode def =
     (if plainMode mode then
        let def1 = def\<lparr>net_Forward :=
              (if mode = netModeIsolated then None else Some \<lparr>fwd_Mode = mode, fwd_NAT = False\<rparr>)\<rparr>
        in bindP (orFail (getIPsFromResource S)
                   (\<lambda>err. Errorf (''could not set DHCP from adresses '%s'' @ [CHR 0x27]) [EArg err])) (\<lambda>ips.
           bindP (networkDNS order S) (\<lambda>dns.
           ret (def1\<lparr>net_IPs := ips, net_DNS := Some dns\<rparr>)))
      else if mode = netModeBridge then
        (case net_Bridge def of
           None \<Rightarrow> panic ''nil pointer dereference''
         | Some b \<Rightarrow>
             if br_Name b = [] then
               throw (Errorf (CHR 0x27 # ''bridge' must be provided when using the bridged network mode'') [])
             else ret (def\<lparr>net_Forward := Some \<lparr>fwd_Mode = mode, fwd_NAT = False\<rparr>,
                           net_Bridge := Some (b\<lparr>br_STP := []\<rparr>)\<rparr>))
      else throw (Errorf (''unsupported network mode '%s'' @ [CHR 0x27]) [SArg mode]))"

definition networkDefinition ::
  "(string list \<Rightarrow> string list) \<Rightarrow> ('w, 'd, 'v) sdk \<Rightarrow> 'w netapi \<Rightarrow> (('w, 'd) prov, NetworkXML) prog" where
  "networkDefinition order S A =
     (case newNetworkDef A of
        None \<Rightarrow> panic ''Unexpected error while parsing default network definition''
      | Some def0 \<Rightarrow>
          bindP (dStr S ''name'') (\<lambda>name.
          bindP (getDomainFromResource S) (\<lambda>domain.
          bindP (getBridgeFromResource S) (\<lambda>bridge.
          bindP (getMTUFromResource S) (\<lambda>mtu.
          bindP (getNetModeFromResource S) (\<lambda>mode.
          bindP (networkMode order S mode
                   (def0\<lparr>net_Name := name, net_Domain := domain, net_Bridge := Some bridge, net_MTU := mtu\<rparr>))
            (\<lambda>def.
          bindP (getDNSMasqOptionFromResource S) (\<lambda>dnsmasqOption.
          bindP (getRoutesFromResource S) (\<lambda>routes.
          ret (def\<lparr>net_DnsmasqOptions := Some dnsmasqOption, net_Routes := routes\<rparr>))))))))))"

text \<open>
  A network that does not start is destroyed and undefined again; the errors of that are logged
  and dropped.
\<close>

definition startNetwork :: "'w netapi \<Rightarrow> Network \<Rightarrow> (('w, 'd) prov, unit) prog" where
  "startNetwork A network =
     bindP (attempt (netCall ''NetworkCreate'' network (NetworkCreate A network))) (\<lambda>r. case r of
       Inr _ \<Rightarrow> ret ()
     | Inl err \<Rightarrow>
         bindP (attempt (netCall ''NetworkDestroy'' network (NetworkDestroy A network))) (\<lambda>_.
         bindP (attempt (netCall ''NetworkUndefine'' network (NetworkUndefine A network))) (\<lambda>_.
         throw (Errorf ''error creating libvirt network: %s'' [EArg err]))))"

section \<open>Read\<close>

text \<open>The CIDR of the subnet of an address of the host.\<close>

definition networkAddress :: "NetworkIP \<Rightarrow> goerror + string" where
  "networkAddress address = (case ParseIP (Address address) of
      None \<Rightarrow> Inl (Errorf ''error parsing IP '%s': %s'' [SArg (Address address), SArg ''%!s(<nil>)''])
    | Some addr \<Rightarrow>
        (let bits = (if To4 addr \<noteq> None then 4 * 8 else 16 * 8);
             network = ip_Mask addr (CIDRMask (Prefix address) bits)
         in Inr (cidrText (ipString (case network of Some ip \<Rightarrow> ip | None \<Rightarrow> [])) (Prefix address))))"

definition setKey :: "string \<Rightarrow> tfval \<Rightarrow> (string \<times> tfval) list \<Rightarrow> (string \<times> tfval) list" where
  "setKey k v m = (k, v) # filter (\<lambda>(k', _). k' \<noteq> k) m"

definition forwarderBlock :: "NetworkDNSForwarder \<Rightarrow> (string \<times> tfval) list" where
  "forwarderBlock f =
     (if fw_Addr f \<noteq> [] then [(''address'', TStr (fw_Addr f))] else [])
     @ (if fw_Domain f \<noteq> [] then [(''domain'', TStr (fw_Domain f))] else [])"

definition hostsBlock :: "NetworkDNSHost list \<Rightarrow> tfval list" where
  "hostsBlock hosts = concat (map (\<lambda>h.
     map (\<lambda>name. TMap [(''hostname'', TStr name), (''ip'', TStr (dh_IP h))]) (dh_Hostnames h)) hosts)"

definition dnsBlockOf :: "NetworkDNS \<Rightarrow> (string \<times> tfval) list \<Rightarrow> (string \<times> tfval) list" where
  "dnsBlockOf dns block0 =
     (let block1 = (if dns_Enable dns \<noteq> [] then setKey ''enabled'' (TBool (dns_Enable dns = ''yes'')) block0 else block0);
          forwardersBlock = filter (\<lambda>b. b \<noteq> []) (map forwarderBlock (dns_Forwarders dns));
          block2 = (if forwardersBlock \<noteq> [] then setKey ''forwarders'' (TList (map TMap forwardersBlock)) block1 else block1);
          hosts = hostsBlock (dns_Host dns)
      in if hosts \<noteq> [] then setKey ''hosts'' (TList hosts) block2 else block2)"

definition routeBlock :: "NetworkRoute \<Rightarrow> tfval" where
  "routeBlock route = TMap [(''gateway'', TStr (rt_Gateway route)),
     (''cidr'', TStr (cidrText (rt_Address route) (rt_Prefix route)))]"

text \<open>The part of \<open>Read\<close> that stores the definition: first up to the autostart flag, then the rest.\<close>

definition readBasics :: "('w, 'd, 'v) sdk \<Rightarrow> NetworkXML \<Rightarrow> (('w, 'd) prov, unit) prog" where
  "readBasics S networkDef =
     bindP (dSet S ''name'' (TStr (net_Name networkDef))) (\<lambda>_.
     bindP (case net_Bridge networkDef of
        None \<Rightarrow> panic ''nil pointer dereference''
      | Some b \<Rightarrow> dSet S ''bridge'' (TStr (br_Name b))) (\<lambda>_.
     bindP (case net_MTU networkDef of
        None \<Rightarrow> ret () | Some mtu \<Rightarrow> dSet S ''mtu'' (TInt (uint mtu))) (\<lambda>_.
     bindP (case net_Forward networkDef of
        None \<Rightarrow> ret () | Some f \<Rightarrow> dSet S ''mode'' (TStr (fwd_Mode f))) (\<lambda>_.
     case net_Domain networkDef of
        None \<Rightarrow> ret ()
      | Some dm \<Rightarrow>
          bindP (dSet S ''domain'' (TStr (dom_Name dm))) (\<lambda>_.
          dSet S ''dns'' (TList [TMap [(''local_only'', TBool (strToLower (dom_LocalOnly dm) = ''yes''))]]))))))"

definition readAddresses :: "('w, 'd, 'v) sdk \<Rightarrow> NetworkXML \<Rightarrow> (('w, 'd) prov, unit) prog" where
  "readAddresses S networkDef =
     bindP (mapP (\<lambda>a. liftSum (networkAddress a)) (net_IPs networkDef)) (\<lambda>addresses.
     bindP (if addresses \<noteq> [] then dSet S ''addresses'' (TList (map TStr addresses)) else ret ()) (\<lambda>_.
     if list_ex (\<lambda>a. DHCP a \<noteq> None) (net_IPs networkDef)
     then dSet S ''dhcp'' (TList [TMap [(''enabled'', TBool True)]]) else ret ()))"

definition readDNS :: "('w, 'd, 'v) sdk \<Rightarrow> NetworkXML \<Rightarrow> (('w, 'd) prov, unit) prog" where
  "readDNS S networkDef = (case net_DNS networkDef of
      None \<Rightarrow> ret ()
    | Some dns \<Rightarrow>
        bindP (getS (\<lambda>s. sdGet S (rdata s) ''dns.0'')) (\<lambda>v.
        bindP (assertMap v) (\<lambda>block0.
        let dnsBlock = dnsBlockOf dns block0
        in if dnsBlock \<noteq> [] then dSet S ''dns'' (TList [TMap dnsBlock]) else ret ())))"

definition readRoutes :: "('w, 'd, 'v) sdk \<Rightarrow> NetworkXML \<Rightarrow> (('w, 'd) prov, unit) prog" where
  "readRoutes S networkDef =
     (if net_Routes networkDef \<noteq> []
      then dSet S ''routes'' (TList (map routeBlock (net_Routes networkDef))) else ret ())"

definition resourceLibvirtNetworkRead ::
  "('w, 'd, 'v) sdk \<Rightarrow> 'w runtime \<Rightarrow> 'w netapi \<Rightarrow> (('w, 'd) prov, unit) prog" where
  "resourceLibvirtNetworkRead S R A = requireConn (
     bindP (dId S) (\<lambda>i.
     bindP (parseUUID R i) (\<lambda>uuid.
     bindP (attempt (lookupNetworkByUUID A uuid)) (\<lambda>r. case r of
       Inl err \<Rightarrow>
         if isError err ErrNoNetwork then dSetId S []
         else throw (Errorf ''error retrieving libvirt network %s'' [EArg err])
     | Inr network \<Rightarrow>
         bindP (orFail (getXMLNetworkDefFromLibvirt A network)
                  (\<lambda>err. Errorf ''error reading libvirt network XML description: %s'' [EArg err])) (\<lambda>networkDef.
         bindP (readBasics S networkDef) (\<lambda>_.
         bindP (orFail (netCall ''NetworkGetAutostart'' network (NetworkGetAutostart A network))
                  (\<lambda>err. Errorf ''error reading network autostart setting: %s'' [EArg err])) (\<lambda>autostart.
         bindP (dSet S ''autostart'' (TBool (autostart > 0))) (\<lambda>_.
         bindP (readAddresses S networkDef) (\<lambda>_.
         bindP (readDNS S networkDef) (\<lambda>_.
         readRoutes S networkDef))))))))))"

section \<open>Create, Update, Delete\<close>

text \<open>From the definition to the started network.\<close>

definition defineNetwork :: "'w netapi \<Rightarrow> string \<Rightarrow> (('w, 'd) prov, Network) prog" where
  "defineNetwork A data =
     withNetLock (call ''NetworkDefineXML'' [data] (NetworkDefineXML A data))"

definition resourceLibvirtNetworkCreate ::
  "(string list \<Rightarrow> string list) \<Rightarrow> ('w, 'd, 'v) sdk \<Rightarrow> 'w runtime \<Rightarrow> 'w xslt_io \<Rightarrow> 'w netapi
   \<Rightarrow> (('w, 'd) prov, unit) prog" where
  "resourceLibvirtNetworkCreate order S R x A = requireConn (
     bindP (networkDefinition order S A) (\<lambda>networkDef.
     bindP (orFail (liftSum (xmlMarshallIndented (netEncode A) networkDef))
              (\<lambda>err. Errorf ''error serializing libvirt network: %s'' [EArg err])) (\<lambda>xml.
     bindP (orFail (transformResourceXML S x xml)
              (\<lambda>err. Errorf ''error applying XSLT stylesheet: %s'' [EArg err])) (\<lambda>data.
     bindP (orFail (defineNetwork A data)
              (\<lambda>err. Errorf ''error defining libvirt network: %s - %s'' [EArg err, SArg data])) (\<lambda>network.
     bindP (startNetwork A network) (\<lambda>_.
     bindP (dSetId S (uuidString R (nw_UUID network))) (\<lambda>_.
     bindP (orFail (sdWaitForState S \<lparr>Pending = [''BUILD''], Target = [''ACTIVE''],
                Timeout = resourceStateTimeout, Delay = resourceStateDelay,
                MinTimeout = resourceStateMinTimeout\<rparr> (waitForNetworkActive A network))
              (\<lambda>err. Errorf ''error waiting for network to reach ACTIVE state: %s'' [EArg err])) (\<lambda>_.
     bindP (dGetOk S ''autostart'') (\<lambda>autostart.
     bindP (case autostart of
        None \<Rightarrow> ret ()
      | Some v \<Rightarrow> bindP (assertBool v) (\<lambda>b.
          orFail (netCall ''NetworkSetAutostart'' network (NetworkSetAutostart A network (bool2int b)))
            (\<lambda>err. Errorf ''error setting autostart for network: %s'' [EArg err]))) (\<lambda>_.
     resourceLibvirtNetworkRead S R A))))))))))"

definition resourceLibvirtNetworkUpdate ::
  "(string list \<Rightarrow> string list) \<Rightarrow> (string list \<Rightarrow> string list) \<Rightarrow> ('w, 'd, 'v) sdk \<Rightarrow> 'w runtime
   \<Rightarrow> 'w netapi \<Rightarrow> (('w, 'd) prov, unit) prog" where
  "resourceLibvirtNetworkUpdate order1 order2 S R A = requireConn (
     bindP (dId S) (\<lambda>i.
     bindP (parseUUID R i) (\<lambda>uuid.
     bindP (attempt (lookupNetworkByUUID A uuid)) (\<lambda>r. case r of
       Inl err \<Rightarrow>
         if isError err ErrNoNetwork then dSetId S []
         else throw (Errorf ''can't retrieve network with ID '%s' during update: %s'' [SArg i, EArg err])
     | Inr network \<Rightarrow>
         bindP (orFail (netCall ''NetworkIsActive'' network (NetworkIsActive A network))
                  (\<lambda>err. Errorf ''error when getting network %s status during update: %s''
                     [SArg (nw_Name network), EArg err])) (\<lambda>activeInt.
         bindP (if activeInt \<noteq> 1 then
                  orFail (netCall ''NetworkCreate'' network (NetworkCreate A network))
                    (\<lambda>err. Errorf ''error when activating network %s during update: %s''
                       [SArg (nw_Name network), EArg err])
                else ret ()) (\<lambda>_.
         bindP (dHasChange S ''autostart'') (\<lambda>changed.
         bindP (if changed then
                  bindP (dBool S ''autostart'') (\<lambda>b.
                  orFail (netCall ''NetworkSetAutostart'' network (NetworkSetAutostart A network (bool2int b)))
                    (\<lambda>err. Errorf ''error updating autostart for network %s: %s''
                       [SArg (nw_Name network), EArg err]))
                else ret ()) (\<lambda>_.
         orFail (updateDNSHosts order1 order2 S A network)
           (\<lambda>err. Errorf ''error updating DNS hosts for network %s: %s''
              [SArg (nw_Name network), EArg err]))))))))) "

definition resourceLibvirtNetworkDelete ::
  "('w, 'd, 'v) sdk \<Rightarrow> 'w runtime \<Rightarrow> 'w netapi \<Rightarrow> (('w, 'd) prov, unit) prog" where
  "resourceLibvirtNetworkDelete S R A = requireConn (
     bindP (dId S) (\<lambda>i.
     bindP (parseUUID R i) (\<lambda>uuid.
     bindP (orFail (lookupNetworkByUUID A uuid)
              (\<lambda>err. Errorf ''when destroying libvirt network: error retrieving %s'' [EArg err])) (\<lambda>network.
     bindP (orFail (netCall ''NetworkIsActive'' network (NetworkIsActive A network))
              (\<lambda>err. Errorf ''couldn't determine if network is active: %s'' [EArg err])) (\<lambda>activeInt.
     bindP (if int2bool activeInt then
              bindP (orFail (netCall ''NetworkDestroy'' network (NetworkDestroy A network))
                       (\<lambda>err. Errorf ''when destroying libvirt network: %s'' [EArg err])) (\<lambda>_.
              orFail (netCall ''NetworkUndefine'' network (NetworkUndefine A network))
                (\<lambda>err. Errorf ''couldn't undefine libvirt network: %s'' [EArg err]))
            else
              orFail (netCall ''NetworkUndefine'' network (NetworkUndefine A network))
                (\<lambda>err. Errorf ''couldn't undefine libvirt network: %s'' [EArg err])) (\<lambda>_.
     orFail (sdWaitForState S \<lparr>Pending = [''ACTIVE''], Target = [''NOT-EXISTS''],
         Timeout = resourceStateTimeout, Delay = resourceStateDelay,
         MinTimeout = resourceStateMinTimeout\<rparr> (waitForNetworkDestroyed R A i))
       (\<lambda>err. Errorf ''error waiting for network to reach NOT-EXISTS state: %s'' [EArg err])))))))"

section \<open>The discipline\<close>

lemma safe_networkDefinition [safe_intros]:
  "safe P (networkDNS order S)" "safe P (networkMode order S m def)" "safe P (networkDefinition order S A)"
  unfolding networkDNS_def networkMode_def networkDefinition_def by (intro safe_intros)+

lemma safe_startNetwork [safe_intros]: "safe (disciplined H n) (startNetwork A network)"
  unfolding startNetwork_def by (intro safe_intros) (simp_all add: event_names)

lemma safe_networkRead [safe_intros]: "safe (disciplined H n) (resourceLibvirtNetworkRead S R A)"
  unfolding resourceLibvirtNetworkRead_def readBasics_def readAddresses_def readDNS_def readRoutes_def
  by (intro safe_intros) (simp_all add: event_names)

lemma safe_networkUpdate: "safe (disciplined H n) (resourceLibvirtNetworkUpdate o1 o2 S R A)"
  unfolding resourceLibvirtNetworkUpdate_def by (intro safe_intros) (simp_all add: event_names)

lemma safe_networkDelete:
  assumes "wait_ok S"
  shows "safe (disciplined H n) (resourceLibvirtNetworkDelete S R A)"
  unfolding resourceLibvirtNetworkDelete_def
  by (intro safe_intros safe_wait assms blind_inv) (simp_all add: event_names)

lemma safe_defineNetwork: "safe (disciplined H False) (defineNetwork A data)"
  unfolding defineNetwork_def
  by (intro ends_withNetLock safe_call event_ok_net) (simp add: event_names)

lemma safe_networkCreate:
  assumes "wait_ok S"
  shows "safe (disciplined H False) (resourceLibvirtNetworkCreate order S R x A)"
  unfolding resourceLibvirtNetworkCreate_def
  by (intro safe_intros safe_defineNetwork safe_wait assms blind_inv) (simp_all add: event_names)

end
