(* ===== verification/Demo_Network.thy ===== *)
theory Demo_Network
  imports Network_Resource
begin

text \<open>
  A small daemon with networks for the witnesses: each network is active or not, and there is one
  table of DNS hosts.  XML texts are lists of strings, each written with its length before it.
\<close>

section \<open>Texts\<close>

fun pack :: "string list \<Rightarrow> string" where
  "pack [] = []"
| "pack (x # xs) = replicate (length x) CHR ''x'' @ CHR '','' # x @ pack xs"

fun unpack :: "nat \<Rightarrow> string \<Rightarrow> string list" where
  "unpack 0 s = []"
| "unpack (Suc n) s = (if s = [] then []
     else let k = length (takeWhile (\<lambda>c. c = CHR ''x'') s); r = drop (Suc k) s
          in take k r # unpack n (drop k r))"

lemma takeWhile_replicate: "takeWhile (\<lambda>c. c = a) (replicate k a @ b # r) = replicate k a" if "b \<noteq> a"
  using that by (induction k) auto

lemma unpack_pack: "length xs \<le> n \<Longrightarrow> unpack n (pack xs) = xs"
proof (induction n arbitrary: xs)
  case (Suc n)
  then show ?case
    by (cases xs) (simp_all add: takeWhile_replicate)
qed simp

lemma length_pack: "length xs \<le> length (pack xs)"
  by (induction xs) auto

lemma unpack_pack_all [simp]: "unpack (length (pack xs)) (pack xs) = xs"
  by (rule unpack_pack) (rule length_pack)

section \<open>The daemon\<close>

record nworld =
  nwd_clock :: nat
  nwd_nets :: "(string \<times> bool) list"
  nwd_hosts :: "(string \<times> string list) list"

definition no_net :: goerror where "no_net = LibvirtError ErrNoNetwork ''Network not found''"

definition demo_network :: "string \<Rightarrow> Network" where
  "demo_network name = \<lparr>nw_Name = name, nw_UUID = name\<rparr>"

definition demo_setNet :: "string \<Rightarrow> bool \<Rightarrow> nworld \<Rightarrow> nworld" where
  "demo_setNet name b w = w\<lparr>nwd_nets := (name, b) # nwd_nets w\<rparr>"

definition demo_lookupNet :: "string \<Rightarrow> (nworld, Network) rpc" where
  "demo_lookupNet name w = (case map_of (nwd_nets w) name of
      Some _ \<Rightarrow> (Inr (demo_network name), w) | None \<Rightarrow> (Inl no_net, w))"

definition demo_netActive :: "Network \<Rightarrow> (nworld, int) rpc" where
  "demo_netActive n w = (Inr (if map_of (nwd_nets w) (nw_UUID n) = Some True then 1 else 0), w)"

definition demo_update ::
  "Network \<Rightarrow> net_command \<Rightarrow> net_section \<Rightarrow> int \<Rightarrow> string \<Rightarrow> nat \<Rightarrow> (nworld, unit) rpc" where
  "demo_update n cmd sec i xml flags w = (case unpack (length xml) xml of
      [] \<Rightarrow> (Inl (SysError ''XML''), w)
    | ip # names \<Rightarrow>
        if sec \<noteq> NetworkSectionDNSHost then (Inl (LibvirtError ErrOperationInvalid ''no such host''), w)
        else if cmd = NetworkUpdateCommandDelete then
          (if map_of (nwd_hosts w) ip = None then (Inl (LibvirtError ErrOperationInvalid ''no record''), w)
           else (Inr (), w\<lparr>nwd_hosts := filter (\<lambda>x. fst x \<noteq> ip) (nwd_hosts w)\<rparr>))
        else if map_of (nwd_hosts w) ip \<noteq> None
             \<or> (\<exists>x \<in> set (nwd_hosts w). map_of (nwd_hosts w) (fst x) = Some (snd x) \<and> set (snd x) \<inter> set names \<noteq> {})
          then (Inl (LibvirtError ErrOperationInvalid ''record exists''), w)
        else (Inr (), w\<lparr>nwd_hosts := (ip, names) # nwd_hosts w\<rparr>))"

definition demo_netapi :: "nworld netapi" where
  "demo_netapi = \<lparr>
     NetworkLookupByUUID = demo_lookupNet,
     NetworkIsActive = demo_netActive,
     NetworkCreate = (\<lambda>n w. (Inr (), demo_setNet (nw_UUID n) True w)),
     NetworkDestroy = (\<lambda>n w. (Inr (), demo_setNet (nw_UUID n) False w)),
     NetworkUndefine = (\<lambda>n w. (Inr (), w\<lparr>nwd_nets := filter (\<lambda>x. fst x \<noteq> nw_UUID n) (nwd_nets w)\<rparr>)),
     NetworkDefineXML = (\<lambda>xml w. (Inr (demo_network xml), demo_setNet xml False w)),
     NetworkSetAutostart = (\<lambda>n b w. (Inr (), w)),
     NetworkGetAutostart = (\<lambda>n w. (Inr 0, w)),
     NetworkGetXMLDesc = (\<lambda>n fl w. (Inr (nw_UUID n), w)),
     NetworkUpdateCompat = demo_update,
     netEncode = (\<lambda>d. Inr (net_Name d)),
     netDecode = (\<lambda>name. Inr (zeroNetwork\<lparr>net_Name := name,
        net_Bridge := Some \<lparr>br_Name = ''virbr1'', br_STP = ''on''\<rparr>,
        net_IPs := [\<lparr>Address = ''10.17.3.1'', Family = ''ipv4'', Prefix = 24, DHCP = None\<rparr>]\<rparr>)),
     dnsHostEncode = (\<lambda>h. Inr (pack (dh_IP h # dh_Hostnames h))),
     dhcpHostEncode = (\<lambda>h. Inr (pack [HostIP h, MAC h, HostName h]))\<rparr>"

definition demo_net_runtime :: "nworld runtime" where
  "demo_net_runtime = \<lparr>rtNow = nwd_clock, rtSleep = (\<lambda>t w. w\<lparr>nwd_clock := nwd_clock w + t\<rparr>),
     uuidParse = Some, uuidToString = id\<rparr>"

definition demo_net_xslt :: "nworld xslt_io" where
  "demo_net_xslt = \<lparr>CreateTemp = (\<lambda>p w. (Inr p, w)), WriteFile = (\<lambda>_ _ w. (Inr (), w)),
     CloseFile = (\<lambda>_ w. (Inr (), w)), RemoveFile = (\<lambda>_ w. (Inr (), w)),
     ExecOutput = (\<lambda>args w. (Inr (concat args), w))\<rparr>"

definition demo_net_world :: nworld where
  "demo_net_world = \<lparr>nwd_clock = 0, nwd_nets = [(''k8s'', True)],
     nwd_hosts = [(''10.17.3.3'', [''b'', ''a''])]\<rparr>"

definition demo_net_state :: "(string \<times> tfval) list \<Rightarrow> string \<Rightarrow> (nworld, rdemo) prov" where
  "demo_net_state vals i = \<lparr>connected = True, poolMutexKV = NewMutexKV, networkMutex = False,
     world = demo_net_world, rdata = \<lparr>rd_vals = vals, rd_id = i\<rparr>, trace = []\<rparr>"

text \<open>Resource data whose attribute \<open>key\<close> changes from \<open>old\<close> to \<open>new\<close>.\<close>

definition demo_change_sdk :: "string \<Rightarrow> tfval \<Rightarrow> tfval \<Rightarrow> ('w, rdemo, StorageVol) sdk" where
  "demo_change_sdk key old new = demo_sdk\<lparr>sdHasChange := (\<lambda>_ k. k = key),
     sdGetChange := (\<lambda>_ _. (old, new))\<rparr>"

end
