(* ===== verification/Network_Update.thy ===== *)
theory Network_Update
  imports Demo_Network
begin

text \<open>
  The live update of the DNS hosts of a network against its contract.  Abstractly the DNS hosts
  are a table from addresses to sets of names; a list of configured entries stands for
  \<open>entriesTable\<close>.  The refinement theorem says that, whatever order Go gives to its maps, the
  calls that \<open>updateDNSHosts\<close> makes all succeed and take the daemon from the old table to the new.
\<close>

section \<open>The abstract table\<close>

definition entriesTable :: "(string \<times> string) list \<Rightarrow> string \<Rightarrow> string set option" where
  "entriesTable E ip = (if ip \<in> fst ` set E then Some {name. (ip, name) \<in> set E} else None)"

definition hostTable :: "NetworkDNSHost list \<Rightarrow> string \<Rightarrow> string set option" where
  "hostTable hs = map_of (map (\<lambda>h. (dh_IP h, set (dh_Hostnames h))) hs)"

lemma map_of_addHostname:
  "map_of (addHostname ip name m) = (map_of m)(ip \<mapsto> (case map_of m ip of None \<Rightarrow> [name] | Some ns \<Rightarrow> ns @ [name]))"
  by (induction m) (auto simp: fun_eq_iff)

lemma keys_addHostname: "fst ` set (addHostname ip name m) = insert ip (fst ` set m)"
proof (induction m)
  case (Cons p m)
  then show ?case by (cases p; cases "fst p = ip") auto
qed simp

lemma distinct_addHostname:
  "distinct (map fst m) \<Longrightarrow> distinct (map fst (addHostname ip name m))"
proof (induction m)
  case (Cons p m)
  then show ?case by (cases p; cases "fst p = ip") (auto simp: keys_addHostname)
qed simp

lemma hostMap_snoc: "hostMap (E @ [(ip, name)]) = addHostname ip name (hostMap E)"
  by (simp add: hostMap_def)

lemma hostMap_keys: "fst ` set (hostMap E) = fst ` set E" "distinct (map fst (hostMap E))"
proof (induction E rule: rev_induct)
  case (snoc x E)
  obtain ip name where "x = (ip, name)" by fastforce
  with snoc show "fst ` set (hostMap (E @ [x])) = fst ` set (E @ [x])" "distinct (map fst (hostMap (E @ [x])))"
    by (simp_all add: hostMap_snoc keys_addHostname distinct_addHostname)
qed (simp_all add: hostMap_def)

lemma map_of_hostMap: "map_option set (map_of (hostMap E) ip) = entriesTable E ip"
proof (induction E arbitrary: ip rule: rev_induct)
  case (snoc x E)
  obtain ip' name where x: "x = (ip', name)" by fastforce
  show ?case
    using snoc [of ip] by (auto simp: x hostMap_snoc map_of_addHostname entriesTable_def
        intro: rev_image_eqI split: option.splits if_splits)
qed (simp add: hostMap_def entriesTable_def)

text \<open>The entries that the code makes from the configured ones, in any order of the map.\<close>

definition represents :: "NetworkDNSHost list \<Rightarrow> (string \<times> string) list \<Rightarrow> bool" where
  "represents hs E \<longleftrightarrow> distinct (map dh_IP hs) \<and> dh_IP ` set hs = fst ` set E
     \<and> (\<forall>h \<in> set hs. dh_Hostnames h \<noteq> [] \<and> entriesTable E (dh_IP h) = Some (set (dh_Hostnames h)))"

lemma representsD:
  assumes "represents hs E"
  shows "distinct (map dh_IP hs)" "dh_IP ` set hs = fst ` set E"
    and "h \<in> set hs \<Longrightarrow> dh_Hostnames h \<noteq> []"
    and "h \<in> set hs \<Longrightarrow> entriesTable E (dh_IP h) = Some (set (dh_Hostnames h))"
  using assms by (auto simp: represents_def)

lemma represents_orderedHosts:
  assumes "map_order order" "\<And>ns. set (arrange ns) = set ns"
  shows "represents (orderedHosts order arrange (hostMap E)) E"
proof -
  let ?m = "hostMap E"
  have perm: "set (order (map fst ?m)) = fst ` set E" "distinct (order (map fst ?m))"
    using assms(1) hostMap_keys [of E] unfolding map_order_def
    by (metis mset_eq_setD set_map, metis mset_eq_imp_distinct_iff)
  have val: "entriesTable E ip = Some (set (arrange (the (map_of ?m ip))))" if "ip \<in> fst ` set E" for ip
    using map_of_hostMap [of E ip] that assms(2) by (cases "map_of ?m ip") (auto simp: entriesTable_def)
  moreover have "arrange (the (map_of ?m ip)) \<noteq> []" if "ip \<in> fst ` set E" for ip
    using val [OF that] that by (auto simp: entriesTable_def)
  ultimately show ?thesis
    using perm by (simp add: represents_def orderedHosts_def comp_def image_image)
qed

lemma hostTable_Some:
  assumes "distinct (map dh_IP hs)" "h \<in> set hs"
  shows "hostTable hs (dh_IP h) = Some (set (dh_Hostnames h))"
  unfolding hostTable_def using assms by (intro map_of_is_SomeI) (auto simp: comp_def)

lemma hostTable_None: "ip \<notin> dh_IP ` set hs \<Longrightarrow> hostTable hs ip = None"
  unfolding hostTable_def by (force simp: map_of_eq_None_iff)

section \<open>The contract of the daemon\<close>

text \<open>
  \<open>tbl\<close> reads the DNS hosts of network \<open>n\<close> off the world; \<open>V\<close> is a set of addresses that the
  daemon accepts, one spelling for each.  A record that is there can be deleted by its address; a
  record can be added when neither its address nor one of its names occurs in another record.
\<close>

definition updateCall :: "'w netapi \<Rightarrow> Network \<Rightarrow> net_command \<Rightarrow> string \<Rightarrow> ('w, unit) rpc" where
  "updateCall A n cmd xml = NetworkUpdateCompat A n cmd NetworkSectionDNSHost (-1) xml
     (NetworkUpdateAffectConfig + NetworkUpdateAffectLive)"

definition dns_law :: "'w netapi \<Rightarrow> Network \<Rightarrow> string set \<Rightarrow> ('w \<Rightarrow> string \<Rightarrow> string set option) \<Rightarrow> bool" where
  "dns_law A n V tbl \<longleftrightarrow>
     (\<forall>h. \<exists>xml. dnsHostEncode A h = Inr xml)
   \<and> (\<forall>w h xml. dnsHostEncode A h = Inr xml \<longrightarrow> dh_IP h \<in> V \<longrightarrow> tbl w (dh_IP h) \<noteq> None \<longrightarrow>
        (\<exists>w'. updateCall A n NetworkUpdateCommandDelete xml w = (Inr (), w')
           \<and> tbl w' = (tbl w)(dh_IP h := None)))
   \<and> (\<forall>w h xml. dnsHostEncode A h = Inr xml \<longrightarrow> dh_IP h \<in> V \<longrightarrow> dh_Hostnames h \<noteq> [] \<longrightarrow>
        tbl w (dh_IP h) = None \<longrightarrow> (\<forall>ip N. tbl w ip = Some N \<longrightarrow> N \<inter> set (dh_Hostnames h) = {}) \<longrightarrow>
        (\<exists>w'. updateCall A n NetworkUpdateCommandAddLast xml w = (Inr (), w')
           \<and> tbl w' = (tbl w)(dh_IP h \<mapsto> set (dh_Hostnames h))))"

lemma deleteEntry_runs:
  assumes "dns_law A n V tbl" "dh_IP h \<in> V" "tbl (world s) (dh_IP h) \<noteq> None"
  shows "\<exists>s'. deleteEntry A n h s = (Ret (), s') \<and> tbl (world s') = (tbl (world s))(dh_IP h := None)
    \<and> rdata s' = rdata s"
proof -
  let ?h = "\<lparr>dh_IP = dh_IP h, dh_Hostnames = []\<rparr>"
  obtain xml where xml: "dnsHostEncode A ?h = Inr xml" using assms(1) unfolding dns_law_def by blast
  from assms(1) xml assms(2,3) obtain w' where w': "updateCall A n NetworkUpdateCommandDelete xml (world s) = (Inr (), w')"
      "tbl w' = (tbl (world s))(dh_IP h := None)"
    unfolding dns_law_def by (metis NetworkDNSHost.select_convs(1))
  then show ?thesis
    using xml unfolding updateCall_def
    by (auto simp: deleteEntry_def updateNetwork_def netCall_def call_def prog_defs Let_def xmlMarshallIndented_def)
qed

lemma addEntry_runs:
  assumes "dns_law A n V tbl" "dh_IP h \<in> V" "dh_Hostnames h \<noteq> []" "tbl (world s) (dh_IP h) = None"
    and "\<And>ip N. tbl (world s) ip = Some N \<Longrightarrow> N \<inter> set (dh_Hostnames h) = {}"
  shows "\<exists>s'. addEntry A n h s = (Ret (), s')
    \<and> tbl (world s') = (tbl (world s))(dh_IP h \<mapsto> set (dh_Hostnames h)) \<and> rdata s' = rdata s"
proof -
  obtain xml where xml: "dnsHostEncode A h = Inr xml" using assms(1) unfolding dns_law_def by blast
  with assms obtain w' where w': "updateCall A n NetworkUpdateCommandAddLast xml (world s) = (Inr (), w')"
      "tbl w' = (tbl (world s))(dh_IP h \<mapsto> set (dh_Hostnames h))"
    unfolding dns_law_def by meson
  then show ?thesis
    using xml unfolding updateCall_def
    by (auto simp: addEntry_def updateNetwork_def netCall_def call_def prog_defs Let_def xmlMarshallIndented_def)
qed

lemma forP_Cons_runs:
  "f x s = (Ret (), s1) \<Longrightarrow> forP (x # xs) f s = forP xs f s1"
  by (simp add: bindP_def)

lemma delete_all:
  assumes law: "dns_law A n V tbl" and "distinct (map dh_IP hs)" "dh_IP ` set hs \<subseteq> V"
    and "\<forall>h \<in> set hs. tbl (world s) (dh_IP h) \<noteq> None"
  shows "\<exists>s'. forP hs (deleteEntry A n) s = (Ret (), s')
    \<and> tbl (world s') = (\<lambda>ip. if ip \<in> dh_IP ` set hs then None else tbl (world s) ip)"
  using assms(2-)
proof (induction hs arbitrary: s)
  case (Cons h hs)
  then obtain s1 where s1: "deleteEntry A n h s = (Ret (), s1)" "tbl (world s1) = (tbl (world s))(dh_IP h := None)"
    using deleteEntry_runs [OF law, of h s] by auto
  have "\<forall>g \<in> set hs. dh_IP g \<noteq> dh_IP h" using Cons.prems(1) by (simp add: image_iff) metis
  with Cons.prems s1(2) have "\<forall>h \<in> set hs. tbl (world s1) (dh_IP h) \<noteq> None" by simp
  with Cons obtain s' where "forP hs (deleteEntry A n) s1 = (Ret (), s')"
    "tbl (world s') = (\<lambda>ip. if ip \<in> dh_IP ` set hs then None else tbl (world s1) ip)"
    by auto blast
  with s1 show ?case
    by (auto simp del: forP.simps simp: forP_Cons_runs fun_eq_iff)
qed (simp add: ret_def)

lemma add_all:
  assumes law: "dns_law A n V tbl" and "distinct (map dh_IP hs)" "dh_IP ` set hs \<subseteq> V"
    and "\<forall>h \<in> set hs. dh_Hostnames h \<noteq> [] \<and> tbl (world s) (dh_IP h) = None"
    and "\<forall>h \<in> set hs. \<forall>ip N. tbl (world s) ip = Some N \<longrightarrow> N \<inter> set (dh_Hostnames h) = {}"
    and "\<forall>h \<in> set hs. \<forall>h' \<in> set hs. h \<noteq> h' \<longrightarrow> set (dh_Hostnames h) \<inter> set (dh_Hostnames h') = {}"
  shows "\<exists>s'. forP hs (addEntry A n) s = (Ret (), s') \<and> tbl (world s') = tbl (world s) ++ hostTable hs"
  using assms(2-)
proof (induction hs arbitrary: s)
  case (Cons h hs)
  obtain s1 where s1: "addEntry A n h s = (Ret (), s1)"
      "tbl (world s1) = (tbl (world s))(dh_IP h \<mapsto> set (dh_Hostnames h))"
    using addEntry_runs [OF law, of h s] Cons.prems by auto
  have h: "h \<notin> set hs" "dh_IP h \<notin> dh_IP ` set hs" using Cons.prems(1) by auto
  have "\<forall>g \<in> set hs. dh_Hostnames g \<noteq> [] \<and> tbl (world s1) (dh_IP g) = None"
    using Cons.prems(3) s1(2) h(2) by (simp add: image_iff) metis
  moreover have "\<forall>g \<in> set hs. \<forall>ip N. tbl (world s1) ip = Some N \<longrightarrow> N \<inter> set (dh_Hostnames g) = {}"
    using Cons.prems(4,5) s1(2) h(1) by (auto split: if_splits)
  ultimately obtain s' where "forP hs (addEntry A n) s1 = (Ret (), s')" "tbl (world s') = tbl (world s1) ++ hostTable hs"
    using Cons.IH [of s1] Cons.prems by auto
  moreover have "(tbl (world s))(dh_IP h \<mapsto> set (dh_Hostnames h)) ++ hostTable hs = tbl (world s) ++ hostTable (h # hs)"
    using hostTable_None [OF h(2)] by (auto simp: hostTable_def fun_eq_iff map_add_def split: option.splits)
  ultimately show ?case
    using s1 by (simp del: forP.simps add: forP_Cons_runs)
qed (simp add: ret_def hostTable_def)

section \<open>The update\<close>

lemma same_host:
  assumes "represents hs E" "h \<in> set hs" "h' \<in> set hs" "dh_IP h = dh_IP h'"
  shows "h = h'"
  using representsD(1) [OF assms(1)] assms(2-) by (simp add: distinct_map inj_on_def)

lemma update_entries:
  assumes law: "dns_law A n V tbl" and old: "represents oldH oldE" and new: "represents newH newE"
    and V: "fst ` set oldE \<subseteq> V" "fst ` set newE \<subseteq> V" and t: "tbl (world s) = entriesTable oldE"
    and one: "\<And>ip ip' name. (ip, name) \<in> set newE \<Longrightarrow> (ip', name) \<in> set newE \<Longrightarrow> ip = ip'"
  shows "\<exists>s' s''. forP (entriesToDelete oldH newH) (deleteEntry A n) s = (Ret (), s')
    \<and> forP (entriesToAdd oldH newH) (addEntry A n) s' = (Ret (), s'') \<and> tbl (world s'') = entriesTable newE"
proof -
  let ?del = "entriesToDelete oldH newH" and ?add = "entriesToAdd oldH newH"
  have sub: "set ?del \<subseteq> set oldH" "set ?add \<subseteq> set newH" by (auto simp: entriesToDelete_def entriesToAdd_def)
  have dist: "distinct (map dh_IP ?del)" "distinct (map dh_IP ?add)"
    using representsD(1) [OF old] representsD(1) [OF new]
    by (simp_all add: entriesToDelete_def entriesToAdd_def distinct_map_filter)
  have present: "\<forall>h \<in> set ?del. tbl (world s) (dh_IP h) \<noteq> None"
    using representsD(4) [OF old] sub(1) t by auto
  have inV: "dh_IP ` set ?del \<subseteq> V" "dh_IP ` set ?add \<subseteq> V"
    using image_mono [OF sub(1), of dh_IP] image_mono [OF sub(2), of dh_IP]
      representsD(2) [OF old] representsD(2) [OF new] V by (metis subset_trans)+
  from delete_all [OF law dist(1) inV(1) present]
  obtain s1 where s1: "forP ?del (deleteEntry A n) s = (Ret (), s1)"
    and t1: "tbl (world s1) = (\<lambda>ip. if ip \<in> dh_IP ` set ?del then None else entriesTable oldE ip)"
    unfolding t by blast
  have names: "name \<in> set (dh_Hostnames h) \<longleftrightarrow> (dh_IP h, name) \<in> set newE" if "h \<in> set newH" for h name
    using representsD(4) [OF new that] by (auto simp: entriesTable_def split: if_splits)
  have kept: "\<exists>h \<in> set newH \<inter> set oldH. dh_IP h = ip \<and> N = set (dh_Hostnames h)"
    if "tbl (world s1) ip = Some N" for ip N
  proof -
    from that t1 have ip: "ip \<notin> dh_IP ` set ?del" and N: "entriesTable oldE ip = Some N" by (auto split: if_splits)
    then have "ip \<in> dh_IP ` set oldH" using representsD(2) [OF old] by (simp add: entriesTable_def split: if_splits)
    then obtain h where h: "h \<in> set oldH" "ip = dh_IP h" by auto
    with ip have "h \<in> set newH" by (auto simp: entriesToDelete_def)
    with h N representsD(4) [OF old h(1)] show ?thesis by auto
  qed
  have absent: "\<forall>h \<in> set ?add. dh_Hostnames h \<noteq> [] \<and> tbl (world s1) (dh_IP h) = None"
  proof
    fix h assume h: "h \<in> set ?add"
    then have hn: "h \<in> set newH" "h \<notin> set oldH" by (auto simp: entriesToAdd_def)
    then have "tbl (world s1) (dh_IP h) = None"
      using kept [of "dh_IP h"] same_host [OF new hn(1)] hn(2) by (cases "tbl (world s1) (dh_IP h)") (simp, metis IntE)
    with hn show "dh_Hostnames h \<noteq> [] \<and> tbl (world s1) (dh_IP h) = None"
      using representsD(3) [OF new] by blast
  qed
  have disj: "set (dh_Hostnames h) \<inter> set (dh_Hostnames h') = {}" if "h \<in> set newH" "h' \<in> set newH" "h \<noteq> h'" for h h'
  proof (rule ccontr)
    assume "set (dh_Hostnames h) \<inter> set (dh_Hostnames h') \<noteq> {}"
    then obtain name where "name \<in> set (dh_Hostnames h)" "name \<in> set (dh_Hostnames h')" by blast
    with that names one have "dh_IP h = dh_IP h'" by blast
    with that same_host [OF new] show False by blast
  qed
  have free: "\<forall>h \<in> set ?add. \<forall>ip N. tbl (world s1) ip = Some N \<longrightarrow> N \<inter> set (dh_Hostnames h) = {}"
  proof (intro ballI allI impI)
    fix h ip N assume h: "h \<in> set ?add" and t: "tbl (world s1) ip = Some N"
    then have hn: "h \<in> set newH" "h \<notin> set oldH" by (auto simp: entriesToAdd_def)
    from kept [OF t] obtain h' where "h' \<in> set newH" "h' \<in> set oldH" "N = set (dh_Hostnames h')" by blast
    with hn disj [of h' h] show "N \<inter> set (dh_Hostnames h) = {}" by blast
  qed
  from add_all [OF law dist(2) inV(2) absent free] obtain s2
    where s2: "forP ?add (addEntry A n) s1 = (Ret (), s2)" and t2: "tbl (world s2) = tbl (world s1) ++ hostTable ?add"
    using disj sub(2) by blast
  have "tbl (world s2) ip = entriesTable newE ip" for ip
  proof (cases "ip \<in> dh_IP ` set ?add")
    case True
    then obtain h where h: "h \<in> set ?add" "ip = dh_IP h" by auto
    with sub(2) show ?thesis
      using hostTable_Some [OF dist(2) h(1)] representsD(4) [OF new, of h] by (auto simp: t2)
  next
    case False
    then have ip: "tbl (world s2) ip = tbl (world s1) ip" by (simp add: t2 hostTable_None map_add_def)
    show ?thesis
    proof (cases "ip \<in> dh_IP ` set newH")
      case True
      then obtain h where h: "h \<in> set newH" "ip = dh_IP h" by auto
      with False have ho: "h \<in> set oldH" by (auto simp: entriesToAdd_def)
      with h have "ip \<notin> dh_IP ` set ?del"
        using same_host [OF old ho] by (auto simp: entriesToDelete_def)
      then show ?thesis
        using ip h representsD(4) [OF old ho] representsD(4) [OF new h(1)] by (simp add: t1)
    next
      case out: False
      then have "entriesTable newE ip = None" using representsD(2) [OF new] by (simp add: entriesTable_def)
      with out ip kept [of ip] show ?thesis by (cases "tbl (world s1) ip") auto
    qed
  qed
  then have "tbl (world s2) = entriesTable newE" by (rule ext)
  with s1 s2 show ?thesis by blast
qed

lemma parse_represents:
  assumes "map_order order" "parseHostEntries 0 es = Inr E"
  shows "\<exists>hs. parseNetworkDNSHostsChange order (TSet es) = Inr hs \<and> represents hs E"
  using represents_orderedHosts [OF assms(1), of sort E] assms(2) by (simp add: parseNetworkDNSHostsChange_def)

section \<open>Properties\<close>

text \<open>C2: Take a daemon that deletes the records that are there and adds those that clash with none.
  When its table holds the old entries, and no name of the new entries stands under two addresses,
  the live update succeeds and leaves exactly the new entries, for every order in which Go may
  range over its maps.\<close>

theorem updateDNSHosts_refines:
  assumes "dns_law A n V tbl" "map_order order1" "map_order order2"
    and "sdHasChange S (rdata s) ''dns.0.hosts''" "sdGetChange S (rdata s) ''dns.0.hosts'' = (TSet old, TSet new)"
    and "parseHostEntries 0 old = Inr oldE" "parseHostEntries 0 new = Inr newE"
    and "fst ` set oldE \<subseteq> V" "fst ` set newE \<subseteq> V" "tbl (world s) = entriesTable oldE"
    and "\<And>ip ip' name. (ip, name) \<in> set newE \<Longrightarrow> (ip', name) \<in> set newE \<Longrightarrow> ip = ip'"
  shows "\<exists>s'. updateDNSHosts order1 order2 S A n s = (Ret (), s') \<and> tbl (world s') = entriesTable newE"
proof -
  obtain oldH where o: "parseNetworkDNSHostsChange order1 (TSet old) = Inr oldH" "represents oldH oldE"
    using parse_represents [OF assms(2,6)] by blast
  obtain newH where n: "parseNetworkDNSHostsChange order2 (TSet new) = Inr newH" "represents newH newE"
    using parse_represents [OF assms(3,7)] by blast
  from update_entries [OF assms(1) o(2) n(2) assms(8-10)] assms(11) obtain s1 s2
    where "forP (entriesToDelete oldH newH) (deleteEntry A n) s = (Ret (), s1)"
      "forP (entriesToAdd oldH newH) (addEntry A n) s1 = (Ret (), s2)" "tbl (world s2) = entriesTable newE"
    by blast
  then have "updateDNSHosts order1 order2 S A n s = (Ret (), s2)"
    using o(1) n(1) assms(4,5)
    by (simp add: updateDNSHosts_def dnsPrefix_def dHasChange_def getS_def bindP_def orFail_def attempt_def
        liftSum_def ret_def Let_def)
  with \<open>tbl (world s2) = _\<close> show ?thesis by blast
qed

definition demo_tbl :: "nworld \<Rightarrow> string \<Rightarrow> string set option" where
  "demo_tbl w ip = map_option set (map_of (nwd_hosts w) ip)"

lemma demo_dns_law: "dns_law demo_netapi n V demo_tbl"
proof -
  have del: "map_of (filter (\<lambda>x. fst x \<noteq> ip) l) = (map_of l)(ip := None)" for ip and l :: "(string \<times> string list) list"
    by (induction l) (auto simp: fun_eq_iff)
  show ?thesis
    unfolding dns_law_def
    by (auto simp del: pack.simps unpack.simps simp: demo_netapi_def updateCall_def demo_update_def demo_tbl_def fun_eq_iff del)
qed

text \<open>One name moves to a second address, one entry goes, one stays.\<close>

definition demo_hosts :: "(string \<times> string) list \<Rightarrow> tfval" where
  "demo_hosts E = TSet (map (\<lambda>(ip, name). TMap [(''ip'', TStr ip), (''hostname'', TStr name)]) E)"

definition demo_oldE :: "(string \<times> string) list" where
  "demo_oldE = [(''10.17.3.3'', ''b''), (''10.17.3.3'', ''a'')]"

definition demo_newE :: "(string \<times> string) list" where
  "demo_newE = [(''10.17.3.4'', ''a''), (''10.17.3.3'', ''b''), (''10.17.3.4'', ''c'')]"

definition demo_hosts_sdk :: "(nworld, rdemo, StorageVol) sdk" where
  "demo_hosts_sdk = demo_change_sdk ''dns.0.hosts'' (demo_hosts demo_oldE) (demo_hosts demo_newE)"

theorem updateDNSHosts_refines_witness:
  "\<exists>s'. updateDNSHosts rev id demo_hosts_sdk demo_netapi (demo_network ''k8s'') (demo_net_state [] ''k8s'')
       = (Ret (), s') \<and> demo_tbl (world s') = entriesTable demo_newE"
proof (rule updateDNSHosts_refines [OF demo_dns_law [of _ UNIV]])
  show "map_order rev" "map_order id" by (simp_all add: map_order_def)
  show "sdHasChange demo_hosts_sdk (rdata (demo_net_state [] ''k8s'')) ''dns.0.hosts''"
    by (simp add: demo_hosts_sdk_def demo_change_sdk_def)
  show "sdGetChange demo_hosts_sdk (rdata (demo_net_state [] ''k8s'')) ''dns.0.hosts'' =
      (TSet (map (\<lambda>(ip, name). TMap [(''ip'', TStr ip), (''hostname'', TStr name)]) demo_oldE),
       TSet (map (\<lambda>(ip, name). TMap [(''ip'', TStr ip), (''hostname'', TStr name)]) demo_newE))"
    by (simp add: demo_hosts_sdk_def demo_change_sdk_def demo_hosts_def)
  show "parseHostEntries 0 (map (\<lambda>(ip, name). TMap [(''ip'', TStr ip), (''hostname'', TStr name)]) demo_oldE) = Inr demo_oldE"
    "parseHostEntries 0 (map (\<lambda>(ip, name). TMap [(''ip'', TStr ip), (''hostname'', TStr name)]) demo_newE) = Inr demo_newE"
    by (simp_all add: demo_oldE_def demo_newE_def)
  show "demo_tbl (world (demo_net_state [] ''k8s'')) = entriesTable demo_oldE"
    by (auto simp: fun_eq_iff demo_tbl_def demo_net_state_def demo_net_world_def entriesTable_def demo_oldE_def)
  show "ip = ip'" if "(ip, name) \<in> set demo_newE" "(ip', name) \<in> set demo_newE" for ip ip' name
    using that by (auto simp: demo_newE_def)
qed simp_all

end
