(* ===== verification/Network_Life.thy ===== *)
theory Network_Life
  imports Network_Update
begin

text \<open>
  Properties of the network handlers as wholes: the discipline, what a refused configuration and
  a network that does not start leave behind, what a successful deletion means, and that the
  subnets of a configuration are read back as they were written.
\<close>

section \<open>Calls made\<close>

definition ev_of :: "('w, 'd) prov \<Rightarrow> string \<Rightarrow> string list \<Rightarrow> event" where
  "ev_of s name args = \<lparr>ev_call = name, ev_args = args, ev_pools = holds (poolMutexKV s), ev_net = networkMutex s\<rparr>"

lemma call_runs:
  "f (world s) = (Inl err, w) \<Longrightarrow> call name args f s = (Err err, s\<lparr>trace := trace s @ [ev_of s name args], world := w\<rparr>)"
  "f (world s) = (Inr x, w) \<Longrightarrow> call name args f s = (Ret x, s\<lparr>trace := trace s @ [ev_of s name args], world := w\<rparr>)"
  by (simp_all add: call_def ev_of_def Let_def)

lemma attempt_call:
  "attempt (call name args f) s = (Ret (fst (f (world s))),
     s\<lparr>trace := trace s @ [ev_of s name args], world := snd (f (world s))\<rparr>)"
  by (cases "f (world s)"; cases "fst (f (world s))") (simp_all add: attempt_def call_runs)

text \<open>C33: A network that does not start is destroyed and undefined again, in this order and
  whatever the daemon answers to that, and the resource is reported as failed.\<close>

theorem startNetwork_cleanup:
  assumes "NetworkCreate A n (world s) = (Inl err, w)"
  shows "\<exists>s'. startNetwork A n s = (Err (Errorf ''error creating libvirt network: %s'' [EArg err]), s')
    \<and> trace s' = trace s @ map (\<lambda>name. ev_of s name [nw_UUID n])
         [''NetworkCreate'', ''NetworkDestroy'', ''NetworkUndefine'']
    \<and> world s' = snd (NetworkUndefine A n (snd (NetworkDestroy A n w))) \<and> rdata s' = rdata s"
  using assms by (simp add: startNetwork_def netCall_def bindP_def attempt_call throw_def ev_of_def)

theorem startNetwork_cleanup_witness:
  "\<exists>s'. startNetwork (demo_netapi\<lparr>NetworkCreate := (\<lambda>n w. (Inl no_net, w))\<rparr>) (demo_network ''k8s'')
       (demo_net_state [] []) = (Err (Errorf ''error creating libvirt network: %s'' [EArg no_net]), s')
    \<and> nwd_nets (world s') = []"
proof -
  let ?A = "demo_netapi\<lparr>NetworkCreate := (\<lambda>n w. (Inl no_net, w))\<rparr>"
  have "NetworkCreate ?A (demo_network ''k8s'') (world (demo_net_state [] [])) = (Inl no_net, demo_net_world)"
    by (simp add: demo_net_state_def)
  from startNetwork_cleanup [OF this] show ?thesis
    by (auto simp: demo_netapi_def demo_setNet_def demo_network_def demo_net_world_def)
qed

section \<open>The handlers\<close>

text \<open>C6: Creating, updating, reading and deleting a network always return, give back the network
  mutex on every path, and define a network only with it held.\<close>

theorem networkHandlers_disciplined:
  assumes "wait_ok S"
  shows "handler_ok (resourceLibvirtNetworkCreate order S R x A)
    \<and> handler_ok (resourceLibvirtNetworkUpdate o1 o2 S R A)
    \<and> handler_ok (resourceLibvirtNetworkRead S R A) \<and> handler_ok (resourceLibvirtNetworkDelete S R A)"
  by (intro conjI handler_okI safe_networkCreate safe_networkUpdate safe_networkRead safe_networkDelete assms)

theorem networkHandlers_disciplined_witness:
  "handler_ok (resourceLibvirtNetworkCreate id demo_sdk demo_net_runtime demo_net_xslt demo_netapi)
   \<and> handler_ok (resourceLibvirtNetworkDelete demo_sdk demo_net_runtime demo_netapi)"
  using networkHandlers_disciplined [OF demo_sdk_ok(1)] by blast

section \<open>A refused configuration\<close>

text \<open>Reading the definition changes nothing: it is safe for the invariant "the state is \<open>s\<close>".\<close>

lemma networkDefinition_pure: "snd (networkDefinition order S A s) = s"
  using safe_networkDefinition(3) [of "\<lambda>s'. s' = s" order S A] by (simp add: ends_def)

lemma pure_runs: "safe (\<lambda>s'. s' = s) m \<Longrightarrow> m s = (r, s') \<Longrightarrow> s' = s"
  by (drule endsD) auto

lemma mode_from_data:
  "sdGet S (rdata s) ''mode'' = TStr m \<Longrightarrow> getNetModeFromResource S s = (Ret (strToLower m), s)"
  by (simp add: getNetModeFromResource_def dStr_def assertStr_def getS_def bindP_def ret_def)

lemma bridge_from_data:
  "sdGetOk S (rdata s) ''bridge'' = None \<Longrightarrow> getBridgeFromResource S s = (Ret \<lparr>br_Name = [], br_STP = ''on''\<rparr>, s)"
  by (simp add: getBridgeFromResource_def dGetOk_def getS_def bindP_def ret_def)

definition mode_refused :: "('w, 'd, 'v) sdk \<Rightarrow> 'd \<Rightarrow> string \<Rightarrow> bool" where
  "mode_refused S d mode \<longleftrightarrow>
     mode \<notin> {''none'', ''nat'', ''route'', ''open'', ''bridge''}
     \<or> mode = ''bridge'' \<and> sdGetOk S d ''bridge'' = None"

lemmas netMode_defs = plainMode_def netModeIsolated_def netModeNat_def netModeRoute_def netModeOpen_def netModeBridge_def

lemma networkMode_refused:
  assumes "mode \<notin> {''none'', ''nat'', ''route'', ''open'', ''bridge''}
    \<or> mode = ''bridge'' \<and> net_Bridge def = Some \<lparr>br_Name = [], br_STP = ''on''\<rparr>"
  shows "\<exists>e. networkMode order S mode def = throw e"
  using assms by (auto simp: networkMode_def netMode_defs)

lemma networkDefinition_refused:
  assumes "sdGet S (rdata s) ''mode'' = TStr m" "mode_refused S (rdata s) (strToLower m)"
  shows "\<nexists>def s'. networkDefinition order S A s = (Ret def, s')"
proof
  assume "\<exists>def s'. networkDefinition order S A s = (Ret def, s')"
  then obtain def s' where run: "runs_to (networkDefinition order S A) s def s'" by (auto simp: runs_to_def)
  then obtain def0 where "newNetworkDef A = Some def0"
    unfolding networkDefinition_def by (auto split: option.splits)
  with run obtain name domain bridge mtu mode def' s1 s2 s3 s4 s5 s6
    where r: "runs_to (dStr S ''name'') s name s1" "runs_to (getDomainFromResource S) s1 domain s2"
      "runs_to (getBridgeFromResource S) s2 bridge s3" "runs_to (getMTUFromResource S) s3 mtu s4"
      "runs_to (getNetModeFromResource S) s4 mode s5"
      "runs_to (networkMode order S mode
         (def0\<lparr>net_Name := name, net_Domain := domain, net_Bridge := Some bridge, net_MTU := mtu\<rparr>)) s5 def' s6"
    unfolding networkDefinition_def by (auto elim!: runs_to_bindE)
  have "s1 = s" using r(1) by (intro pure_runs [OF safe_dStr(1)]) (simp add: runs_to_def)
  moreover from this have "s2 = s" using r(2) by (intro pure_runs [OF safe_from_resource(4)]) (simp add: runs_to_def)
  moreover from this have "s3 = s" using r(3) by (intro pure_runs [OF safe_from_resource(3)]) (simp add: runs_to_def)
  moreover from this have "s4 = s" using r(4) by (intro pure_runs [OF safe_from_resource(5)]) (simp add: runs_to_def)
  ultimately have mode: "mode = strToLower m" and bridge: "runs_to (getBridgeFromResource S) s bridge s"
    using r(3,5) assms(1) by (simp_all add: runs_to_def mode_from_data)
  have "\<exists>e. networkMode order S mode
      (def0\<lparr>net_Name := name, net_Domain := domain, net_Bridge := Some bridge, net_MTU := mtu\<rparr>) = throw e"
    by (rule networkMode_refused)
      (use assms(2) bridge in \<open>auto simp: mode mode_refused_def bridge_from_data runs_to_def\<close>)
  with r(6) show False by auto
qed

text \<open>C34: A mode that is not one of the five, and a bridged network without a bridge, are refused
  before anything is asked of the daemon: nothing is returned, and no call is made.\<close>

theorem networkCreate_refused:
  assumes "sdGet S (rdata s) ''mode'' = TStr m" "mode_refused S (rdata s) (strToLower m)"
  shows "fst (resourceLibvirtNetworkCreate order S R x A s) \<noteq> Ret ()
    \<and> snd (resourceLibvirtNetworkCreate order S R x A s) = s"
proof (cases "connected s")
  case True
  obtain r where run: "networkDefinition order S A s = (r, s)"
    using networkDefinition_pure [of order S A s] by (metis prod.collapse)
  with networkDefinition_refused [OF assms] have "\<nexists>def. r = Ret def" by metis
  with run True show ?thesis
    by (cases r) (auto simp: resourceLibvirtNetworkCreate_def requireConn_def bindP_def)
qed (simp add: resourceLibvirtNetworkCreate_def requireConn_def)

theorem networkCreate_refused_witness:
  "let s = demo_net_state [(''name'', TStr ''n''), (''mode'', TStr ''Bridge'')] []
   in fst (resourceLibvirtNetworkCreate id demo_sdk demo_net_runtime demo_net_xslt demo_netapi s) \<noteq> Ret ()
      \<and> snd (resourceLibvirtNetworkCreate id demo_sdk demo_net_runtime demo_net_xslt demo_netapi s) = s"
proof -
  let ?s = "demo_net_state [(''name'', TStr ''n''), (''mode'', TStr ''Bridge'')] []"
  have "sdGet demo_sdk (rdata ?s) ''mode'' = TStr ''Bridge''"
    by (simp add: demo_sdk_def demo_net_state_def demo_get_def demo_lookup_def)
  moreover have "strToLower ''Bridge'' = ''bridge''" by code_simp
  then have "mode_refused demo_sdk (rdata ?s) (strToLower ''Bridge'')"
    by (simp add: mode_refused_def demo_sdk_def demo_net_state_def demo_getok_def demo_lookup_def demo_zero_def)
  ultimately show ?thesis
    unfolding Let_def by (rule networkCreate_refused)
qed

section \<open>Deletion\<close>

lemma runs_to_requireConn: "runs_to (requireConn m) s x s' \<longleftrightarrow> connected s \<and> runs_to m s x s'"
  by (simp add: runs_to_def requireConn_def throw_def)

definition net_gone :: "'w runtime \<Rightarrow> 'w netapi \<Rightarrow> string \<Rightarrow> 'w \<Rightarrow> bool" where
  "net_gone R A i w' \<longleftrightarrow> (\<exists>w uuid err. uuidParse R i = Some uuid \<and> isError err ErrNoNetwork
     \<and> NetworkLookupByUUID A uuid w = (Inl err, w'))"

lemma networkDestroyed_gone:
  "waitForNetworkDestroyed R A i s0 = (Ret ''NOT-EXISTS'', s') \<Longrightarrow> net_gone R A i (world s')"
  unfolding waitForNetworkDestroyed_def net_gone_def lookupNetworkByUUID_def parseUUID_def
  by (auto simp: call_def prog_defs Let_def split: prod.splits sum.splits option.splits if_splits) blast

text \<open>C11: When deleting a network reports success, the last answer of the daemon was that no
  network with the resource's id exists.\<close>

theorem networkDelete_gone:
  assumes wait: "wait_ok S" and run: "resourceLibvirtNetworkDelete S R A s = (Ret (), s')"
  shows "net_gone R A (sdId S (rdata s)) (world s')"
proof -
  from run have "runs_to (resourceLibvirtNetworkDelete S R A) s () s'" by (simp add: runs_to_def)
  then obtain i s0 s1 where "runs_to (dId S) s i s0"
    "runs_to (sdWaitForState S \<lparr>Pending = [''ACTIVE''], Target = [''NOT-EXISTS''],
         Timeout = resourceStateTimeout, Delay = resourceStateDelay,
         MinTimeout = resourceStateMinTimeout\<rparr> (waitForNetworkDestroyed R A i)) s1 () s'"
    unfolding resourceLibvirtNetworkDelete_def by (auto simp: runs_to_requireConn elim!: runs_to_bindE)
  then have "sdWaitForState S \<lparr>Pending = [''ACTIVE''], Target = [''NOT-EXISTS''],
         Timeout = resourceStateTimeout, Delay = resourceStateDelay,
         MinTimeout = resourceStateMinTimeout\<rparr> (waitForNetworkDestroyed R A (sdId S (rdata s))) s1 = (Ret (), s')"
    by (auto simp: runs_to_def dId_def getS_def)
  then show ?thesis
    using wait networkDestroyed_gone unfolding wait_ok_def by fastforce
qed

theorem networkDelete_gone_witness:
  "let s' = snd (resourceLibvirtNetworkDelete demo_sdk demo_net_runtime demo_netapi (demo_net_state [] ''k8s''))
   in nwd_nets (world s') = [] \<and> net_gone demo_net_runtime demo_netapi ''k8s'' (world s')"
proof -
  let ?s = "demo_net_state [] ''k8s''"
  let ?run = "resourceLibvirtNetworkDelete demo_sdk demo_net_runtime demo_netapi ?s"
  have "fst ?run = Ret () \<and> nwd_nets (world (snd ?run)) = []" by code_simp
  moreover from this have "?run = (Ret (), snd ?run)" by (metis prod.collapse)
  moreover have "sdId demo_sdk (rdata ?s) = ''k8s''" by (simp add: demo_sdk_def demo_net_state_def)
  ultimately show ?thesis
    using networkDelete_gone [OF demo_sdk_ok(1), of demo_net_runtime demo_netapi ?s] by (metis (full_types))
qed

section \<open>Subnets are read back\<close>

lemma div_host:
  assumes "1 \<le> h" "(N :: nat) mod 2 ^ h = 0"
  shows "(N + 1) div 2 ^ h * 2 ^ h = N"
proof -
  from assms(2) obtain q where q: "N = 2 ^ h * q" by (auto simp: mod_eq_0_iff_dvd)
  have "(1::nat) < 2 ^ h" using assms(1) by (intro one_less_power) simp_all
  then have "(1 + 2 ^ h * q) div 2 ^ h = q" by (simp only: div_mult_self2 div_less)
  with q show ?thesis by (simp add: mult.commute)
qed

text \<open>C16: The IPv4 subnet that \<open>Read\<close> stores for an address made by \<open>Create\<close> is the subnet that was
  configured, in its normal form (network address and prefix length).\<close>

theorem networkAddress_roundtrip:
  assumes parse: "ParseCIDR address = Some (ip, net)" and four: "length (IP net) = 4"
    and conf: "getNetworkIPConfig address = Ret (dni, dhcp)"
  shows "networkAddress dni = Inr (cidrText (ipString (IP net)) (fst (mask_Size (Mask net))))"
proof -
  from parse obtain l n x where l: "l = 4 \<or> l = 16" and n: "n \<le> 8 * l"
    and net: "Mask net = maskBytes n l" "IP net = map2 (AND) x (maskBytes n l)" and x: "length x = l"
    by (rule ParseCIDR_shape)
  from four x net(2) have l4: "l = 4" by simp
  have size: "mask_Size (Mask net) = (n, 32)" using net(1) n l4 by (simp add: mask_Size_maskBytes)
  have h: "3 \<le> 32 - n" using conf parse size by (auto simp: getNetworkIPConfig_def Let_def split: if_splits)
  obtain host where host: "Address dni = ipString host" "Prefix dni = n" "length host = 4"
      "ipNum host = ipNum (IP net) + 1"
    using getNetworkIPConfig_numbers [OF parse size h] conf four by auto
  have N: "ipNum (IP net) mod 2 ^ (32 - n) = 0"
    using ipNum_and_mask [of x 4 n] x n l4 net(2) by simp
  have "ipNum (map2 (AND) host (maskBytes n 4)) = ipNum (IP net)"
    using ipNum_and_mask [of host 4 n] host(3,4) n l4 div_host [OF _ N] h by simp
  then have same: "map2 (AND) host (maskBytes n 4) = IP net"
    using host(3) four by (intro ipNum_inj) simp_all
  have "To4 (v4InV6Prefix @ host) = Some host" "ip_Mask (v4InV6Prefix @ host) (maskBytes n 4) = Some (IP net)"
    using host(3) same by (simp_all add: To4_def ip_Mask_def v4InV6Prefix_def)
  then show ?thesis
    using host n l4 size by (simp add: networkAddress_def ParseIP_ipString CIDRMask_def Let_def)
qed

theorem networkAddress_roundtrip_witness:
  "\<exists>dni dhcp. getNetworkIPConfig ''10.17.3.5/24'' = Ret (dni, dhcp)
     \<and> networkAddress dni = Inr ''10.17.3.0/24''"
proof -
  have size: "mask_Size (Mask demo_net) = (24, 32)" by code_simp
  obtain dni dhcp where conf: "getNetworkIPConfig ''10.17.3.5/24'' = Ret (dni, dhcp)"
    using getNetworkIPConfig_numbers [OF demo_parse size] by (auto simp: demo_net_def)
  have "cidrText (ipString (IP demo_net)) (fst (mask_Size (Mask demo_net))) = ''10.17.3.0/24''" by code_simp
  with networkAddress_roundtrip [OF demo_parse _ conf] conf show ?thesis by (simp add: demo_net_def)
qed

section \<open>The subnet of a host\<close>

lemma and_all:
  "length xs = length ys \<Longrightarrow> length ys = length ms \<Longrightarrow>
   list_all (\<lambda>((a, b), k). a AND k = b AND k) (zip (zip (map2 (AND) xs ms) ys) ms)
   \<longleftrightarrow> map2 (AND) xs ms = map2 (AND) ys (ms :: byte list)"
proof (induction xs ys ms rule: list_induct3)
  case (Cons x xs y ys m ms)
  have "x AND m AND m = x AND m" by (simp add: and.assoc)
  with Cons show ?case by simp
qed simp

lemma net_Contains_num:
  assumes "length a = 4" "length q = 4" "k \<le> 32"
  shows "net_Contains \<lparr>IP = map2 (AND) a (maskBytes k 4), Mask = maskBytes k 4\<rparr> (v4InV6Prefix @ q)
    \<longleftrightarrow> ipNum q div 2 ^ (32 - k) = ipNum a div 2 ^ (32 - k)"
proof -
  let ?m = "maskBytes k 4"
  have num: "ipNum (map2 (AND) x ?m) = ipNum x div 2 ^ (32 - k) * 2 ^ (32 - k)" if "length x = 4" for x
    using ipNum_and_mask [of x 4 k] that assms(3) by simp
  have "To4 (map2 (AND) a ?m) = Some (map2 (AND) a ?m)" "To4 (v4InV6Prefix @ q) = Some q"
    using assms by (simp_all add: To4_def v4InV6Prefix_def)
  then have "net_Contains \<lparr>IP = map2 (AND) a ?m, Mask = ?m\<rparr> (v4InV6Prefix @ q)
      \<longleftrightarrow> map2 (AND) a ?m = map2 (AND) q ?m"
    using assms and_all [of a q ?m] by (auto simp: net_Contains_def simp flip: length_greater_0_conv)
  also have "\<dots> \<longleftrightarrow> ipNum (map2 (AND) a ?m) = ipNum (map2 (AND) q ?m)"
    using assms by (auto intro: ipNum_inj)
  finally show ?thesis using num assms by auto
qed

definition ipv4_subnets :: "NetworkIP list \<Rightarrow> (ip \<times> nat) list \<Rightarrow> bool" where
  "ipv4_subnets = list_all2 (\<lambda>x (a, k). Address x = ipString a \<and> Prefix x = k \<and> length a = 4 \<and> k \<le> 32)"

lemma networkIdxLoop_first:
  assumes "ipv4_subnets ips subnets" "length q = 4"
  shows "networkIdxLoop ips (v4InV6Prefix @ q) (int i) =
    (case findIndex (\<lambda>(a, k). ipNum q div 2 ^ (32 - k) = ipNum a div 2 ^ (32 - k)) subnets i of
       Some j \<Rightarrow> int j | None \<Rightarrow> -1, True)"
  using assms(1) unfolding ipv4_subnets_def
proof (induction arbitrary: i rule: list_all2_induct)
  case (Cons x xs y ys)
  obtain a k where y: "y = (a, k)" by fastforce
  with Cons(1) have x: "Address x = ipString a" "Prefix x = k" "length a = 4" "k \<le> 32" by auto
  have "int i + 1 = int (Suc i)" by simp
  with Cons(3) [of "Suc i"] show ?case
    using net_Contains_num [OF x(3) assms(2) x(4)] by (simp only: networkIdxLoop.simps x(1,2) ParseCIDR_cidrText [OF x(3,4)]
        findIndex.simps y split: option.split if_split) simp
qed simp

text \<open>C17: The subnet index given to the daemon for a static IPv4 host is that of the first subnet of
  the network whose address range, as numbers, contains the host, and -1 when there is none.\<close>

theorem getNetworkIdx_first:
  assumes "ipv4_subnets (net_IPs n) subnets" "length q = 4"
  shows "getNetworkIdx n (ipString q) =
    (case findIndex (\<lambda>(a, k). ipNum q div 2 ^ (32 - k) = ipNum a div 2 ^ (32 - k)) subnets 0 of
       Some j \<Rightarrow> int j | None \<Rightarrow> -1, True)"
  using networkIdxLoop_first [OF assms, of 0]
  by (simp add: getNetworkIdx_def parsedIP_def ParseIP_ipString [OF assms(2)])

theorem getNetworkIdx_first_witness:
  "getNetworkIdx (zeroNetwork\<lparr>net_IPs := [
       \<lparr>Address = ''10.1.0.1'', Family = ''ipv4'', Prefix = 16, DHCP = None\<rparr>,
       \<lparr>Address = ''10.17.3.1'', Family = ''ipv4'', Prefix = 24, DHCP = None\<rparr>]\<rparr>) ''10.17.3.77'' = (1, True)"
proof -
  let ?n = "zeroNetwork\<lparr>net_IPs := [
       \<lparr>Address = ''10.1.0.1'', Family = ''ipv4'', Prefix = 16, DHCP = None\<rparr>,
       \<lparr>Address = ''10.17.3.1'', Family = ''ipv4'', Prefix = 24, DHCP = None\<rparr>]\<rparr>"
  let ?sub = "[([10, 1, 0, 1], 16), ([10, 17, 3, 1], 24)]"
  have texts: "ipString [10, 1, 0, 1] = ''10.1.0.1''" "ipString [10, 17, 3, 1] = ''10.17.3.1''"
    "ipString [10, 17, 3, 77] = ''10.17.3.77''"
    by code_simp+
  then have "ipv4_subnets (net_IPs ?n) ?sub" by (simp add: ipv4_subnets_def)
  from getNetworkIdx_first [OF this, of "[10, 17, 3, 77]"] show ?thesis
    by (simp add: texts ipNum_def)
qed

end
