(* ===== verification/Disk_Images.thy ===== *)
theory Disk_Images
  imports Volume_Resource
begin

text \<open>
  \<open>cloudinit_def.go\<close>, \<open>coreos_ignition_def.go\<close> and their resources: a cloud-init ISO or an
  ignition file is made from the configuration, uploaded as a volume under the mutex of its
  pool, and known to Terraform by the volume key joined with a fresh UUID.  Files, \<open>mkisofs\<close>,
  the JSON test and the ISO reader are arguments.
\<close>

section \<open>Files\<close>

text \<open>
  \<open>isoOpen\<close> is \<open>iso9660.NewReader\<close> with what its method \<open>Next\<close> delivers: the entries with the
  result of reading each, and the error that ends them, \<open>None\<close> for the end of the image.
  \<open>StorageVolDownload\<close> writes to a buffered file and returns the number of bytes buffered.
\<close>

record iso_entry =
  ie_Name :: string
  ie_Data :: "goerror + string"

record 'w files =
  MkdirTemp :: "string \<Rightarrow> ('w, string) rpc"
  osWriteFile :: "string \<Rightarrow> string \<Rightarrow> ('w, unit) rpc"
  filepathJoin :: "string \<Rightarrow> string \<Rightarrow> string"
  filepathDir :: "string \<Rightarrow> string"
  cmdRun :: "string list \<Rightarrow> ('w, unit) rpc"
  osRemoveAll :: "string \<Rightarrow> ('w, unit) rpc"
  osCreateTemp :: "string \<Rightarrow> ('w, string) rpc"
  osRemove :: "string \<Rightarrow> ('w, unit) rpc"
  osStat :: "string \<Rightarrow> ('w, unit) rpc"
  jsonObject :: "string \<Rightarrow> bool"
  WriteString :: "string \<Rightarrow> string \<Rightarrow> ('w, unit) rpc"
  openRead :: "string \<Rightarrow> ('w, nat) rpc"
  ioCopy :: "string \<Rightarrow> nat \<Rightarrow> ('w, unit) rpc"
  StorageVolDownload :: "StorageVol \<Rightarrow> string \<Rightarrow> uint64 \<Rightarrow> ('w, uint64) rpc"
  fileFlush :: "string \<Rightarrow> ('w, unit) rpc"
  fileSeek :: "string \<Rightarrow> ('w, unit) rpc"
  isoOpen :: "string \<Rightarrow> ('w, iso_entry list \<times> goerror option) rpc"
  uuidNew :: "'w \<Rightarrow> string \<times> 'w"

section \<open>Keys\<close>

definition newUUID :: "'w files \<Rightarrow> (('w, 'd) prov, string) prog" where
  "newUUID F = (\<lambda>s. case uuidNew F (world s) of (u, w) \<Rightarrow> (Ret u, s\<lparr>world := w\<rparr>))"

definition terraformKey :: "string \<Rightarrow> string \<Rightarrow> string" where
  "terraformKey volumeKey u = volumeKey @ CHR '';'' # u"

definition buildTerraformKey :: "'w files \<Rightarrow> string \<Rightarrow> (('w, 'd) prov, string) prog" where
  "buildTerraformKey F volumeKey = bindP (newUUID F) (\<lambda>u. ret (terraformKey volumeKey u))"

definition getCloudInitVolumeKeyFromTerraformID :: "string \<Rightarrow> goerror + string" where
  "getCloudInitVolumeKeyFromTerraformID i = (case strSplitN2 CHR '';'' i of
      [key, u] \<Rightarrow> Inr key
    | _ \<Rightarrow> Inl (Errorf ''%s is not a valid key'' [SArg i]))"

definition getIgnitionVolumeKeyFromTerraformID :: "string \<Rightarrow> goerror + string" where
  "getIgnitionVolumeKeyFromTerraformID i = (case strSplitN2 CHR '';'' i of
      [key, u] \<Rightarrow> Inr key
    | _ \<Rightarrow> Inl (Errorf ''%s is not a valid key'' [SArg i]))"

section \<open>The upload that both share\<close>

text \<open>From the size of the file to the volume; the texts of the errors differ.\<close>

definition uploadFile ::
  "'w runtime \<Rightarrow> 'w io \<Rightarrow> 'w storage \<Rightarrow> string \<Rightarrow> string \<Rightarrow> string \<Rightarrow> StoragePool \<Rightarrow> image
   \<Rightarrow> (('w, 'd) prov, string) prog" where
  "uploadFile R io st createMsg uploadMsg name pool img =
     bindP (image_Size io img) (\<lambda>sz.
     let volumeDef = setFormat ''raw'' (setValue sz (setUnit ''B'' (newDefVolume\<lparr>vol_Name := name\<rparr>)))
     in bindP (orFail (liftSum (volEncode st volumeDef)) (Wrapf ''error serializing libvirt volume: %w'' []))
          (\<lambda>volumeDefXML.
        bindP (orFail (call ''StorageVolCreateXML'' [sp_Name pool, name] (StorageVolCreateXML st pool volumeDefXML 0))
                 (Wrapf createMsg [SArg name])) (\<lambda>volume.
        bindP (orFail (image_Import R io img (newCopier st volume sz) volumeDef)
                 (Wrapf uploadMsg [SArg (image_String img)])) (\<lambda>_.
        if sv_Key volume = [] then throw (Errorf ''error retrieving volume key'' [])
        else ret (sv_Key volume)))))"

definition refreshForUpload ::
  "'w runtime \<Rightarrow> 'w storage \<Rightarrow> string \<Rightarrow> StoragePool \<Rightarrow> (('w, 'd) prov, unit) prog" where
  "refreshForUpload R st msg pool =
     waitSuccess R msg (poolCall ''StoragePoolRefresh'' pool (StoragePoolRefresh st pool 0))"

section \<open>Cloud-init\<close>

record defCloudInit =
  ci_Name :: string
  ci_PoolName :: string
  ci_MetaData :: string
  ci_UserData :: string
  ci_NetworkConfig :: string

definition newCloudInitDef :: defCloudInit where
  "newCloudInitDef = \<lparr>ci_Name = [], ci_PoolName = [], ci_MetaData = [], ci_UserData = [], ci_NetworkConfig = []\<rparr>"

definition userDataFileName :: string where "userDataFileName = ''user-data''"
definition metaDataFileName :: string where "metaDataFileName = ''meta-data''"
definition networkConfigFileName :: string where "networkConfigFileName = ''network-config''"

definition writeFile :: "'w files \<Rightarrow> string \<Rightarrow> string \<Rightarrow> string \<Rightarrow> (('w, 'd) prov, unit) prog" where
  "writeFile F dir name content = call ''os.WriteFile'' [filepathJoin F dir name]
     (osWriteFile F (filepathJoin F dir name) content)"

definition createFiles :: "'w files \<Rightarrow> defCloudInit \<Rightarrow> (('w, 'd) prov, string) prog" where
  "createFiles F ci =
     bindP (orFail (call ''os.MkdirTemp'' [''cloudinit''] (MkdirTemp F ''cloudinit''))
              (Wrapf ''cannot create tmp directory for cloudinit ISO generation: %w'' [])) (\<lambda>tmpDir.
     bindP (orFail (writeFile F tmpDir userDataFileName (ci_UserData ci))
              (Wrapf ''error while writing user-data to file: %w'' [])) (\<lambda>_.
     bindP (orFail (writeFile F tmpDir metaDataFileName (ci_MetaData ci))
              (Wrapf ''error while writing meta-data to file: %w'' [])) (\<lambda>_.
     bindP (orFail (writeFile F tmpDir networkConfigFileName (ci_NetworkConfig ci))
              (Wrapf ''error while writing network-config to file: %w'' [])) (\<lambda>_.
     ret tmpDir))))"

definition createISO :: "'w files \<Rightarrow> defCloudInit \<Rightarrow> (('w, 'd) prov, string) prog" where
  "createISO F ci =
     bindP (createFiles F ci) (\<lambda>tmpDir.
     let isoDestination = filepathJoin F tmpDir (ci_Name ci);
         args = [''mkisofs'', ''-output'', isoDestination, ''-volid'', ''cidata'', ''-joliet'', ''-rock'',
           filepathJoin F tmpDir userDataFileName, filepathJoin F tmpDir metaDataFileName,
           filepathJoin F tmpDir networkConfigFileName]
     in bindP (orFail (call ''exec'' args (cmdRun F args))
                 (Wrapf (''error while starting the creation of CloudInit's ISO image: %w'') [])) (\<lambda>_.
        ret isoDestination))"

definition removeTmpIsoDirectory :: "'w files \<Rightarrow> string \<Rightarrow> (('w, 'd) prov, unit) prog" where
  "removeTmpIsoDirectory F isoPath =
     bindP (attempt (call ''os.RemoveAll'' [filepathDir F isoPath] (osRemoveAll F (filepathDir F isoPath)))) (\<lambda>_. ret ())"

definition UploadIso ::
  "'w runtime \<Rightarrow> 'w io \<Rightarrow> 'w files \<Rightarrow> 'w storage \<Rightarrow> defCloudInit \<Rightarrow> string \<Rightarrow> (('w, 'd) prov, string) prog" where
  "UploadIso R io F st ci isoPath = requireConn (
     bindP (orFail (call ''StoragePoolLookupByName'' [ci_PoolName ci] (StoragePoolLookupByName st (ci_PoolName ci)))
              (\<lambda>_. Errorf (''can't find storage pool '%s'' @ [CHR 0x27]) [SArg (ci_PoolName ci)])) (\<lambda>pool.
     withPoolLock (ci_PoolName ci) (
       bindP (refreshForUpload R st ''error refreshing pool for volume'' pool) (\<lambda>_.
       bindP (newImage io isoPath) (\<lambda>img.
       deferP (removeTmpIsoDirectory F isoPath) (
         bindP (uploadFile R io st ''error creating libvirt volume for cloudinit device %s: %w''
                  ''error while uploading cloudinit %s: %w'' (ci_Name ci) pool img) (\<lambda>key.
         buildTerraformKey F key)))))))"

definition setCloudInitPoolNameFromExistingVol ::
  "'w storage \<Rightarrow> StorageVol \<Rightarrow> defCloudInit \<Rightarrow> (('w, 'd) prov, defCloudInit) prog" where
  "setCloudInitPoolNameFromExistingVol st volume ci =
     bindP (orFail (volCall ''StoragePoolLookupByVolume'' volume (StoragePoolLookupByVolume st volume))
              (Wrapf ''error retrieving pool for cloudinit volume: %w'' [])) (\<lambda>volPool.
     if sp_Name volPool = [] then
       throw (Errorf ''error retrieving pool name for cloudinit volume: %s'' [SArg (sv_Name volume)])
     else ret (ci\<lparr>ci_PoolName := sp_Name volPool\<rparr>))"

definition readIso9660File :: "iso_entry \<Rightarrow> goerror + string" where
  "readIso9660File file = (case ie_Data file of
      Inl err \<Rightarrow> Inl (Wrapf ''error while reading %s: %w'' [SArg (ie_Name file)] err)
    | Inr bytes \<Rightarrow> Inr bytes)"

definition storeEntry :: "string \<Rightarrow> string \<Rightarrow> defCloudInit \<Rightarrow> defCloudInit" where
  "storeEntry name bytes ci =
     (let ci1 = (if name = ''/user_dat.'' then ci\<lparr>ci_UserData := bytes\<rparr> else ci);
          ci2 = (if name = ''/meta_dat.'' then ci1\<lparr>ci_MetaData := bytes\<rparr> else ci1)
      in if name = ''/network_.'' then ci2\<lparr>ci_NetworkConfig := bytes\<rparr> else ci2)"

fun readEntries :: "iso_entry list \<Rightarrow> goerror option \<Rightarrow> defCloudInit \<Rightarrow> goerror + defCloudInit" where
  "readEntries [] None ci = Inr ci"
| "readEntries [] (Some err) ci = Inl err"
| "readEntries (file # rest) e ci = (case readIso9660File file of
      Inl err \<Rightarrow> Inl err
    | Inr dataBytes \<Rightarrow> readEntries rest e (storeEntry (ie_Name file) dataBytes ci))"

definition setCloudInitDataFromExistingCloudInitDisk ::
  "'w files \<Rightarrow> string \<Rightarrow> defCloudInit \<Rightarrow> (('w, 'd) prov, defCloudInit) prog" where
  "setCloudInitDataFromExistingCloudInitDisk F isoFile ci =
     bindP (orFail (call ''iso9660.NewReader'' [isoFile] (isoOpen F isoFile))
              (Wrapf ''error initializing ISO reader: %w'' [])) (\<lambda>(entries, end).
     liftSum (readEntries entries end ci))"

text \<open>The file, when one is returned, and the error, when there is one.\<close>

definition downloadISO ::
  "'w files \<Rightarrow> 'w storage \<Rightarrow> StorageVol \<Rightarrow> (('w, 'd) prov, string option \<times> goerror option) prog" where
  "downloadISO F st volume =
     bindP (attempt (volCall ''StorageVolGetInfo'' volume (StorageVolGetInfo st volume))) (\<lambda>r. case r of
       Inl err \<Rightarrow> ret (None, Some (Wrapf ''error retrieving info for volume: %w'' [] err))
     | Inr (_, sz, _) \<Rightarrow>
     bindP (attempt (call ''os.CreateTemp'' [''cloudinit''] (osCreateTemp F ''cloudinit''))) (\<lambda>r. case r of
       Inl err \<Rightarrow> ret (None, Some (Wrapf ''cannot create tmp file: %w'' [] err))
     | Inr tmpFile \<Rightarrow>
     bindP (attempt (volCall ''StorageVolDownload'' volume (StorageVolDownload F volume tmpFile sz))) (\<lambda>r. case r of
       Inl err \<Rightarrow> ret (Some tmpFile, Some (Wrapf ''error while downloading volume: %w'' [] err))
     | Inr bytesCopied \<Rightarrow>
     bindP (attempt (call ''Flush'' [tmpFile] (fileFlush F tmpFile))) (\<lambda>r. case r of
       Inl err \<Rightarrow> ret (Some tmpFile, Some (Wrapf ''error while copying remote volume to local disk: %w'' [] err))
     | Inr _ \<Rightarrow>
     if bytesCopied \<noteq> sz then
       ret (Some tmpFile, Some (Errorf
         ''error while copying remote volume to local disk, bytesCopied %d !=  %d volume.size''
         [IArg (uint bytesCopied), IArg (uint sz)]))
     else
       bindP (attempt (call ''Seek'' [tmpFile] (fileSeek F tmpFile))) (\<lambda>r. case r of
         Inl err \<Rightarrow> ret (None, Some err)
       | Inr _ \<Rightarrow> ret (Some tmpFile, None))))))"

definition newCloudInitDefFromRemoteISO ::
  "'w files \<Rightarrow> 'w storage \<Rightarrow> string \<Rightarrow> (('w, 'd) prov, defCloudInit) prog" where
  "newCloudInitDefFromRemoteISO F st i =
     bindP (liftSum (getCloudInitVolumeKeyFromTerraformID i)) (\<lambda>key.
     bindP (orFail (lookupVolByKey st key) (Wrapf ''can't retrieve volume %s: %w'' [SArg key])) (\<lambda>volume.
     if sv_Name volume = [] then
       throw (Errorf ''error retrieving cloudinit volume name for volume key: %s'' [SArg (sv_Key volume)])
     else
       bindP (setCloudInitPoolNameFromExistingVol st volume (newCloudInitDef\<lparr>ci_Name := sv_Name volume\<rparr>)) (\<lambda>ci.
       bindP (downloadISO F st volume) (\<lambda>(isoFile, err). case isoFile of
         None \<Rightarrow> (case err of Some e \<Rightarrow> throw e | None \<Rightarrow> panic ''nil pointer dereference'')
       | Some f \<Rightarrow>
           deferP (bindP (attempt (call ''os.Remove'' [f] (osRemove F f))) (\<lambda>_. ret ()))
             (case err of
                Some e \<Rightarrow> throw e
              | None \<Rightarrow> setCloudInitDataFromExistingCloudInitDisk F f ci)))))"

definition resourceCloudInitDiskRead ::
  "('w, 'd, 'v) sdk \<Rightarrow> 'w files \<Rightarrow> 'w storage \<Rightarrow> (('w, 'd) prov, unit) prog" where
  "resourceCloudInitDiskRead S F st = requireConn (
     bindP (dId S) (\<lambda>i.
     bindP (attempt (newCloudInitDefFromRemoteISO F st i)) (\<lambda>r. case r of
       Inl err \<Rightarrow>
         if isError err ErrNoStorageVol then dSetId S []
         else throw (Errorf ''error while retrieving remote ISO: %s'' [EArg err])
     | Inr ci \<Rightarrow>
         bindP (dSet S ''pool'' (TStr (ci_PoolName ci))) (\<lambda>_.
         bindP (dSet S ''name'' (TStr (ci_Name ci))) (\<lambda>_.
         bindP (dSet S ''user_data'' (TStr (ci_UserData ci))) (\<lambda>_.
         bindP (dSet S ''meta_data'' (TStr (ci_MetaData ci))) (\<lambda>_.
         dSet S ''network_config'' (TStr (ci_NetworkConfig ci)))))))))"

definition resourceCloudInitDiskCreate ::
  "('w, 'd, 'v) sdk \<Rightarrow> 'w runtime \<Rightarrow> 'w io \<Rightarrow> 'w files \<Rightarrow> 'w storage \<Rightarrow> (('w, 'd) prov, unit) prog" where
  "resourceCloudInitDiskCreate S R io F st = requireConn (
     bindP (dStr S ''user_data'') (\<lambda>userData.
     bindP (dStr S ''meta_data'') (\<lambda>metaData.
     bindP (dStr S ''network_config'') (\<lambda>networkConfig.
     bindP (dStr S ''name'') (\<lambda>name.
     bindP (dStr S ''pool'') (\<lambda>pool.
     let cloudInit = newCloudInitDef\<lparr>ci_UserData := userData, ci_MetaData := metaData,
           ci_NetworkConfig := networkConfig, ci_Name := name, ci_PoolName := pool\<rparr>
     in bindP (createISO F cloudInit) (\<lambda>isoPath.
        bindP (UploadIso R io F st cloudInit isoPath) (\<lambda>key.
        bindP (dSetId S key) (\<lambda>_.
        resourceCloudInitDiskRead S F st)))))))))"

definition resourceCloudInitDiskDelete ::
  "('w, 'd, 'v) sdk \<Rightarrow> 'w runtime \<Rightarrow> 'w storage \<Rightarrow> (('w, 'd) prov, unit) prog" where
  "resourceCloudInitDiskDelete S R st = requireConn (
     bindP (dId S) (\<lambda>i.
     bindP (liftSum (getCloudInitVolumeKeyFromTerraformID i)) (\<lambda>key.
     volumeDelete S R st key)))"

section \<open>Ignition\<close>

record defIgnition =
  ign_Name :: string
  ign_PoolName :: string
  ign_Content :: string

definition newIgnitionDef :: defIgnition where
  "newIgnitionDef = \<lparr>ign_Name = [], ign_PoolName = [], ign_Content = []\<rparr>"

definition createFile :: "'w files \<Rightarrow> defIgnition \<Rightarrow> (('w, 'd) prov, string) prog" where
  "createFile F ign =
     bindP (orFail (call ''os.CreateTemp'' [ign_Name ign] (osCreateTemp F (ign_Name ign)))
              (Wrapf ''error creating tmp file: %w'' [])) (\<lambda>tempFile.
     bindP (attempt (call ''os.Stat'' [ign_Content ign] (osStat F (ign_Content ign)))) (\<lambda>r. case r of
       Inl err \<Rightarrow>
         if \<not> jsonObject F (ign_Content ign) then
           throw (Errorf ''coreos_ignition 'content' is neither a file nor a valid json object %s''
                    [SArg (ign_Content ign)])
         else
           bindP (orFail (call ''WriteString'' [tempFile] (WriteString F tempFile (ign_Content ign)))
                    (\<lambda>_. Errorf ''cannot write Ignition object to temporary ignition file'' [])) (\<lambda>_.
           ret tempFile)
     | Inr _ \<Rightarrow>
         bindP (orFail (call ''os.Open'' [ign_Content ign] (openRead F (ign_Content ign)))
                  (\<lambda>_. Errorf ''error opening supplied Ignition file %s'' [SArg (ign_Content ign)])) (\<lambda>ignFile.
         bindP (orFail (call ''io.Copy'' [tempFile] (ioCopy F tempFile ignFile))
                  (\<lambda>_. Errorf ''error copying supplied Igition file to temporary file: %s''
                     [SArg (ign_Content ign)])) (\<lambda>_.
         ret tempFile))))"

definition CreateAndUpload ::
  "'w runtime \<Rightarrow> 'w io \<Rightarrow> 'w files \<Rightarrow> 'w storage \<Rightarrow> defIgnition \<Rightarrow> (('w, 'd) prov, string) prog" where
  "CreateAndUpload R io F st ign = requireConn (
     bindP (orFail (call ''StoragePoolLookupByName'' [ign_PoolName ign] (StoragePoolLookupByName st (ign_PoolName ign)))
              (\<lambda>_. Errorf (''can't find storage pool '%s'' @ [CHR 0x27]) [SArg (ign_PoolName ign)])) (\<lambda>pool.
     withPoolLock (ign_PoolName ign) (
       bindP (refreshForUpload R st ''Error refreshing pool for volume'' pool) (\<lambda>_.
       bindP (createFile F ign) (\<lambda>ignFile.
       deferP (bindP (attempt (call ''os.Remove'' [ignFile] (osRemove F ignFile))) (\<lambda>_. ret ())) (
         bindP (newImage io ignFile) (\<lambda>img.
         bindP (uploadFile R io st ''error creating libvirt volume for Ignition %s: %w''
                  ''error while uploading ignition file %s: %w'' (ign_Name ign) pool img) (\<lambda>key.
         buildTerraformKey F key))))))))"

text \<open>The definition as far as it was read, and the error.\<close>

definition newIgnitionDefFromRemoteVol ::
  "'w storage \<Rightarrow> string \<Rightarrow> (('w, 'd) prov, defIgnition \<times> goerror option) prog" where
  "newIgnitionDefFromRemoteVol st i =
     (let ign = newIgnitionDef in case getIgnitionVolumeKeyFromTerraformID i of
        Inl err \<Rightarrow> ret (ign, Some err)
      | Inr key \<Rightarrow>
          bindP (attempt (lookupVolByKey st key)) (\<lambda>r. case r of
            Inl err \<Rightarrow> ret (ign, Some (Wrapf ''can't retrieve volume %s: %w'' [SArg key] err))
          | Inr volume \<Rightarrow>
              let ign1 = ign\<lparr>ign_Name := sv_Name volume\<rparr>
              in if ign_Name ign1 = [] then
                   ret (ign1, Some (Errorf ''error retrieving volume name from key: %s'' [SArg key]))
                 else
                   bindP (attempt (volCall ''StoragePoolLookupByVolume'' volume (StoragePoolLookupByVolume st volume)))
                     (\<lambda>r. case r of
                       Inl err \<Rightarrow> ret (ign1, Some (Errorf ''error retrieving pool for volume: %s'' [SArg (sv_Name volume)]))
                     | Inr volPool \<Rightarrow>
                         let ign2 = ign1\<lparr>ign_PoolName := sp_Name volPool\<rparr>
                         in if ign_PoolName ign2 = [] then
                              ret (ign2, Some (Errorf ''error retrieving pool name for volume: %s'' [SArg (sv_Name volume)]))
                            else ret (ign2, None))))"

definition resourceIgnitionRead :: "('w, 'd, 'v) sdk \<Rightarrow> 'w storage \<Rightarrow> (('w, 'd) prov, unit) prog" where
  "resourceIgnitionRead S st = requireConn (
     bindP (dId S) (\<lambda>i.
     bindP (newIgnitionDefFromRemoteVol st i) (\<lambda>(ign, err).
     bindP (dSet S ''pool'' (TStr (ign_PoolName ign))) (\<lambda>_.
     bindP (dSet S ''name'' (TStr (ign_Name ign))) (\<lambda>_. case err of
       Some e \<Rightarrow> throw (Errorf ''error while retrieving remote volume: %s'' [EArg e])
     | None \<Rightarrow> ret ())))))"

definition resourceIgnitionCreate ::
  "('w, 'd, 'v) sdk \<Rightarrow> 'w runtime \<Rightarrow> 'w io \<Rightarrow> 'w files \<Rightarrow> 'w storage \<Rightarrow> (('w, 'd) prov, unit) prog" where
  "resourceIgnitionCreate S R io F st = requireConn (
     bindP (dStr S ''name'') (\<lambda>name.
     bindP (dStr S ''pool'') (\<lambda>pool.
     bindP (dStr S ''content'') (\<lambda>content.
     let ignition = newIgnitionDef\<lparr>ign_Name := name, ign_PoolName := pool, ign_Content := content\<rparr>
     in bindP (CreateAndUpload R io F st ignition) (\<lambda>key.
        bindP (dSetId S key) (\<lambda>_.
        resourceIgnitionRead S st))))))"

definition resourceIgnitionDelete ::
  "('w, 'd, 'v) sdk \<Rightarrow> 'w runtime \<Rightarrow> 'w storage \<Rightarrow> (('w, 'd) prov, unit) prog" where
  "resourceIgnitionDelete S R st = requireConn (
     bindP (dId S) (\<lambda>i.
     bindP (liftSum (getIgnitionVolumeKeyFromTerraformID i)) (\<lambda>key.
     volumeDelete S R st key)))"

section \<open>The discipline\<close>

lemma safe_newUUID [safe_intros]: "admits P \<Longrightarrow> safe P (newUUID F)"
  by (auto simp: ends_def newUUID_def blind_def dest!: admits_blind split: prod.splits)

lemma safe_buildTerraformKey [safe_intros]: "admits P \<Longrightarrow> safe P (buildTerraformKey F k)"
  unfolding buildTerraformKey_def by (intro safe_intros)

lemma safe_createISO [safe_intros]: "admits P \<Longrightarrow> safe P (createISO F ci)"
  unfolding createISO_def createFiles_def writeFile_def by (intro safe_intros) (simp_all add: event_names)

lemma safe_removeTmp [safe_intros]: "admits P \<Longrightarrow> safe P (removeTmpIsoDirectory F isoPath)"
  unfolding removeTmpIsoDirectory_def by (intro safe_intros) (simp_all add: event_names)

lemma ends_createVol:
  assumes "storage_laws st" "H (sp_Name p)"
  shows "ends (disciplined H n) (call ''StorageVolCreateXML'' [sp_Name p, name] (StorageVolCreateXML st p xml 0))
    (\<lambda>v. sv_Pool v = sp_Name p)"
  by (rule ends_call)
    (use assms storage_lawsD(3) [OF assms(1)] in \<open>auto simp: event_ok_def event_names\<close>)

lemma safe_uploadFile:
  assumes "storage_laws st" "H (sp_Name p)"
  shows "safe (disciplined H n) (uploadFile R io st m1 m2 name p img)"
  unfolding uploadFile_def
  by (intro safe_bind [OF safe_image_Size] ends_Let safe_bind [OF safe_orFail [OF safe_liftSum]]
      ends_bind [OF ends_orFail [OF ends_createVol [OF assms(1), where H = H, OF assms(2)]]] safe_bind [OF safe_orFail [OF safe_image_Import]]
      safe_newCopier ends_if ends_throw safe_ret admits_disciplined)
    (use assms in simp_all)

lemma safe_refreshForUpload:
  assumes "runtime_ok R" "refresh_forward R st" "H (sp_Name p)"
  shows "safe (disciplined H n) (refreshForUpload R st msg p)"
  unfolding refreshForUpload_def by (rule safe_refresh) (use assms in simp_all)

lemma ends_poolByName:
  assumes "storage_laws st"
  shows "ends (disciplined H n) (orFail (call ''StoragePoolLookupByName'' [name] (StoragePoolLookupByName st name)) f)
    (\<lambda>p. sp_Name p = name)"
  by (intro ends_orFail ends_read)
    (use assms storage_lawsD(1) [OF assms] in \<open>auto simp: event_names\<close>)

lemma safe_UploadIso:
  assumes "runtime_ok R" "storage_laws st" "refresh_forward R st"
  shows "safe (disciplined (\<lambda>_. False) n) (UploadIso R io F st ci isoPath)"
proof -
  let ?H = "(\<lambda>_. False)(ci_PoolName ci := True)"
  have body: "safe (disciplined ?H n) (
       bindP (refreshForUpload R st msg pool) (\<lambda>_.
       bindP (newImage io isoPath) (\<lambda>img.
       deferP (removeTmpIsoDirectory F isoPath) (
         bindP (uploadFile R io st m1 m2 (ci_Name ci) pool img) (\<lambda>key. buildTerraformKey F key)))))"
    if "sp_Name pool = ci_PoolName ci" for pool msg m1 m2
    by (intro safe_bind [OF safe_refreshForUpload] safe_bind [OF safe_newImage] ends_defer safe_removeTmp
        safe_bind [OF safe_uploadFile] safe_buildTerraformKey admits_disciplined)
      (use assms that in auto)
  show ?thesis
    unfolding UploadIso_def
    by (intro safe_requireConn ends_bind [OF ends_poolByName [OF assms(2)]] ends_withPoolLock body) simp_all
qed

lemma safe_createFile [safe_intros]: "admits P \<Longrightarrow> safe P (createFile F ign)"
  unfolding createFile_def by (intro safe_intros) (simp_all add: event_names)

lemma safe_CreateAndUpload:
  assumes "runtime_ok R" "storage_laws st" "refresh_forward R st"
  shows "safe (disciplined (\<lambda>_. False) n) (CreateAndUpload R io F st ign)"
proof -
  let ?H = "(\<lambda>_. False)(ign_PoolName ign := True)"
  have remove: "safe (disciplined ?H n) (bindP (attempt (call ''os.Remove'' [f] (osRemove F f))) (\<lambda>_. ret ()))" for f
    by (intro safe_intros) (simp_all add: event_names)
  have body: "safe (disciplined ?H n) (
       bindP (refreshForUpload R st msg pool) (\<lambda>_.
       bindP (createFile F ign) (\<lambda>ignFile.
       deferP (bindP (attempt (call ''os.Remove'' [ignFile] (osRemove F ignFile))) (\<lambda>_. ret ())) (
         bindP (newImage io ignFile) (\<lambda>img.
         bindP (uploadFile R io st m1 m2 (ign_Name ign) pool img) (\<lambda>key. buildTerraformKey F key))))))"
    if "sp_Name pool = ign_PoolName ign" for pool msg m1 m2
    by (intro safe_bind [OF safe_refreshForUpload] safe_bind [OF safe_createFile] safe_bind [OF safe_newImage] ends_defer remove
        safe_bind [OF safe_uploadFile] safe_buildTerraformKey admits_disciplined)
      (use assms that in auto)
  show ?thesis
    unfolding CreateAndUpload_def
    by (intro safe_requireConn ends_bind [OF ends_poolByName [OF assms(2)]] ends_withPoolLock body) simp_all
qed

lemma safe_downloadISO [safe_intros]: "admits P \<Longrightarrow> safe P (downloadISO F st v)"
  unfolding downloadISO_def by (intro safe_intros) (simp_all add: event_names)

lemma safe_remoteISO [safe_intros]: "admits P \<Longrightarrow> safe P (newCloudInitDefFromRemoteISO F st i)"
  unfolding newCloudInitDefFromRemoteISO_def setCloudInitPoolNameFromExistingVol_def
    setCloudInitDataFromExistingCloudInitDisk_def
  by (intro safe_intros) (simp_all add: event_names)

lemma safe_remoteVol [safe_intros]: "admits P \<Longrightarrow> safe P (newIgnitionDefFromRemoteVol st i)"
  unfolding newIgnitionDefFromRemoteVol_def by (intro safe_intros) (simp_all add: event_names)

lemma safe_diskReads [safe_intros]:
  "safe (disciplined H n) (resourceCloudInitDiskRead S F st)" "safe (disciplined H n) (resourceIgnitionRead S st)"
  unfolding resourceCloudInitDiskRead_def resourceIgnitionRead_def by (intro safe_intros)+

lemma safe_diskCreates:
  assumes "runtime_ok R" "storage_laws st" "refresh_forward R st"
  shows "safe (disciplined (\<lambda>_. False) n) (resourceCloudInitDiskCreate S R io F st)"
    and "safe (disciplined (\<lambda>_. False) n) (resourceIgnitionCreate S R io F st)"
  unfolding resourceCloudInitDiskCreate_def resourceIgnitionCreate_def
  by (intro safe_intros safe_UploadIso safe_CreateAndUpload assms)+

lemma safe_diskDeletes:
  assumes "wait_ok S" "runtime_ok R" "storage_laws st" "refresh_forward R st"
  shows "safe (disciplined (\<lambda>_. False) n) (resourceCloudInitDiskDelete S R st)"
    and "safe (disciplined (\<lambda>_. False) n) (resourceIgnitionDelete S R st)"
  unfolding resourceCloudInitDiskDelete_def resourceIgnitionDelete_def
  by (intro safe_intros safe_volumeDelete assms)+

end
