(* ===== verification/Disk_Life.thy ===== *)
theory Disk_Life
  imports Disk_Images
begin

text \<open>
  Properties of the cloud-init and ignition disks: the discipline of their handlers, the keys
  kept in the Terraform state, what is read back from an ISO, and the temporary files that a
  failed creation leaves.
\<close>

definition demo_files :: "dworld files" where
  "demo_files = \<lparr>MkdirTemp = (\<lambda>p w. (Inr (''/tmp/'' @ p), w)), osWriteFile = (\<lambda>_ _ w. (Inr (), w)),
     filepathJoin = (\<lambda>d n. d @ ''/'' @ n), filepathDir = (\<lambda>p. ''/tmp/cloudinit''),
     cmdRun = (\<lambda>_ w. (Inr (), w)), osRemoveAll = (\<lambda>_ w. (Inr (), w)),
     osCreateTemp = (\<lambda>p w. (Inr p, w)), osRemove = (\<lambda>_ w. (Inr (), w)),
     osStat = (\<lambda>_ w. (Inl (SysError ''no such file''), w)), jsonObject = (\<lambda>_. True),
     WriteString = (\<lambda>_ _ w. (Inr (), w)), openRead = (\<lambda>_ w. (Inr 3, w)), ioCopy = (\<lambda>_ _ w. (Inr (), w)),
     StorageVolDownload = (\<lambda>_ _ sz w. (Inr sz, w)), fileFlush = (\<lambda>_ w. (Inr (), w)),
     fileSeek = (\<lambda>_ w. (Inr (), w)), isoOpen = (\<lambda>_ w. (Inr ([], None), w)),
     uuidNew = (\<lambda>w. (''1234'', w))\<rparr>"

section \<open>The handlers\<close>

text \<open>C10: Creating, reading and deleting cloud-init and ignition disks always return, give back the
  mutex of the pool on every path, and refresh, create, upload and delete only with it held.\<close>

theorem diskImages_disciplined:
  assumes "wait_ok S" "runtime_ok R" "storage_laws st" "refresh_forward R st"
  shows "handler_ok (resourceCloudInitDiskCreate S R io F st) \<and> handler_ok (resourceCloudInitDiskRead S F st)
    \<and> handler_ok (resourceCloudInitDiskDelete S R st)
    \<and> handler_ok (resourceIgnitionCreate S R io F st) \<and> handler_ok (resourceIgnitionRead S st)
    \<and> handler_ok (resourceIgnitionDelete S R st)"
  by (intro conjI handler_okI safe_diskCreates safe_diskReads safe_diskDeletes assms)

theorem diskImages_disciplined_witness:
  "handler_ok (resourceCloudInitDiskCreate demo_sdk demo_runtime demo_io demo_files demo_storage)
   \<and> handler_ok (resourceIgnitionCreate demo_sdk demo_runtime demo_io demo_files demo_storage)"
  using diskImages_disciplined [OF demo_sdk_ok(1) demo_runtime_ok demo_storage_laws demo_refresh_forward] by blast

section \<open>Keys\<close>

lemma key_back:
  "strSplitN2 CHR '';'' (k @ CHR '';'' # u) = [takeWhile (\<lambda>c. c \<noteq> CHR '';'') k,
     tl (dropWhile (\<lambda>c. c \<noteq> CHR '';'') (k @ CHR '';'' # u))]"
proof -
  let ?P = "\<lambda>c. c \<noteq> CHR '';''"
  have "takeWhile ?P (k @ CHR '';'' # u) = takeWhile ?P k"
  proof (cases "CHR '';'' \<in> set k")
    case True
    then show ?thesis by (intro takeWhile_append1) simp_all
  next
    case False
    then have all: "\<forall>c \<in> set k. ?P c" by blast
    then have "takeWhile ?P (k @ CHR '';'' # u) = k @ takeWhile ?P (CHR '';'' # u)"
      by (intro takeWhile_append2) simp
    with all show ?thesis by (simp add: takeWhile_eq_all_conv [THEN iffD2])
  qed
  then show ?thesis by (simp add: strSplitN2_def)
qed

text \<open>C35: The volume key is recovered from the id that Terraform keeps exactly when it has no
  semicolon: the id is cut at its first one.\<close>

theorem terraformKey_roundtrip:
  "(getCloudInitVolumeKeyFromTerraformID (terraformKey key u) = Inr key) = (CHR '';'' \<notin> set key)
   \<and> (getIgnitionVolumeKeyFromTerraformID (terraformKey key u) = Inr key) = (CHR '';'' \<notin> set key)"
proof -
  have "takeWhile (\<lambda>c. c \<noteq> CHR '';'') key = key \<longleftrightarrow> CHR '';'' \<notin> set key"
    by (auto simp: takeWhile_eq_all_conv)
  then show ?thesis
    by (simp add: getCloudInitVolumeKeyFromTerraformID_def getIgnitionVolumeKeyFromTerraformID_def
        terraformKey_def key_back)
qed

section \<open>Reading an ISO\<close>

definition isoFiles :: "defCloudInit \<Rightarrow> (string \<times> string) list" where
  "isoFiles ci = [(''/user_dat.'', ci_UserData ci), (''/meta_dat.'', ci_MetaData ci), (''/network_.'', ci_NetworkConfig ci)]"

definition overwrite :: "(string \<times> string) list \<Rightarrow> defCloudInit \<Rightarrow> defCloudInit" where
  "overwrite m ci = ci\<lparr>
     ci_UserData := (case map_of m ''/user_dat.'' of Some x \<Rightarrow> x | None \<Rightarrow> ci_UserData ci),
     ci_MetaData := (case map_of m ''/meta_dat.'' of Some x \<Rightarrow> x | None \<Rightarrow> ci_MetaData ci),
     ci_NetworkConfig := (case map_of m ''/network_.'' of Some x \<Rightarrow> x | None \<Rightarrow> ci_NetworkConfig ci)\<rparr>"

lemma overwrite_storeEntry:
  "name \<notin> fst ` set m \<Longrightarrow> overwrite m (storeEntry name bytes ci) = overwrite ((name, bytes) # m) ci"
proof -
  assume "name \<notin> fst ` set m"
  then have none: "map_of m name = None" by (simp add: map_of_eq_None_iff)
  consider "name = ''/user_dat.''" | "name = ''/meta_dat.''" | "name = ''/network_.''"
    | "name \<notin> {''/user_dat.'', ''/meta_dat.'', ''/network_.''}" by blast
  then show ?thesis
    by cases (use none in \<open>cases ci; auto simp: overwrite_def storeEntry_def Let_def split: option.split\<close>)+
qed

lemma readEntries_overwrite:
  "distinct (map fst m) \<Longrightarrow>
   readEntries (map (\<lambda>(n, x). \<lparr>ie_Name = n, ie_Data = Inr x\<rparr>) m) None ci = Inr (overwrite m ci)"
proof (induction m arbitrary: ci)
  case Nil
  then show ?case by (simp add: overwrite_def)
next
  case (Cons p m)
  then show ?case
    by (cases p) (simp add: readIso9660File_def overwrite_storeEntry)
qed

text \<open>C36: From an image that holds the three files, in any order and among any others with
  different names, the user data, metadata and network configuration are read back.\<close>

theorem readEntries_roundtrip:
  assumes "distinct (map fst m)" "set (isoFiles ci) \<subseteq> set m"
  shows "readEntries (map (\<lambda>(n, x). \<lparr>ie_Name = n, ie_Data = Inr x\<rparr>) m) None
      (newCloudInitDef\<lparr>ci_Name := ci_Name ci, ci_PoolName := ci_PoolName ci\<rparr>) = Inr ci"
proof -
  have "map_of m ''/user_dat.'' = Some (ci_UserData ci)" "map_of m ''/meta_dat.'' = Some (ci_MetaData ci)"
    "map_of m ''/network_.'' = Some (ci_NetworkConfig ci)"
    using assms by (auto simp: isoFiles_def intro!: map_of_is_SomeI)
  with assms(1) show ?thesis
    by (simp add: readEntries_overwrite overwrite_def newCloudInitDef_def)
qed

theorem readEntries_roundtrip_witness:
  "readEntries [\<lparr>ie_Name = ''/network_.'', ie_Data = Inr ''n''\<rparr>, \<lparr>ie_Name = ''/'', ie_Data = Inr ''d''\<rparr>,
      \<lparr>ie_Name = ''/meta_dat.'', ie_Data = Inr ''m''\<rparr>, \<lparr>ie_Name = ''/user_dat.'', ie_Data = Inr ''u''\<rparr>] None
      (newCloudInitDef\<lparr>ci_Name := ''i'', ci_PoolName := ''p''\<rparr>)
    = Inr \<lparr>ci_Name = ''i'', ci_PoolName = ''p'', ci_MetaData = ''m'', ci_UserData = ''u'', ci_NetworkConfig = ''n''\<rparr>"
  using readEntries_roundtrip [of "[(''/network_.'', ''n''), (''/'', ''d''), (''/meta_dat.'', ''m''), (''/user_dat.'', ''u'')]"
      "\<lparr>ci_Name = ''i'', ci_PoolName = ''p'', ci_MetaData = ''m'', ci_UserData = ''u'', ci_NetworkConfig = ''n''\<rparr>"]
  by (simp add: isoFiles_def)

section \<open>Files left behind\<close>

definition call_names :: "('w, 'd) prov \<Rightarrow> string list" where
  "call_names s = map ev_call (trace s)"

text \<open>C37: When the pool of a cloud-init disk does not exist, the upload fails after that one lookup:
  the directory with the image and the user data it was made from is not removed.\<close>

theorem UploadIso_leaves_files:
  assumes "connected s" "StoragePoolLookupByName st (ci_PoolName ci) (world s) = (Inl err, w)"
  shows "UploadIso R io F st ci isoPath s
    = (Err (Errorf (''can't find storage pool '%s'' @ [CHR 0x27]) [SArg (ci_PoolName ci)]),
       s\<lparr>world := w, trace := trace s @ [\<lparr>ev_call = ''StoragePoolLookupByName'', ev_args = [ci_PoolName ci],
         ev_pools = holds (poolMutexKV s), ev_net = networkMutex s\<rparr>]\<rparr>)"
  using assms by (simp add: UploadIso_def requireConn_def call_def prog_defs Let_def)

theorem UploadIso_leaves_files_witness:
  "call_names (snd (UploadIso demo_runtime demo_io demo_files demo_storage
       (newCloudInitDef\<lparr>ci_PoolName := ''nope''\<rparr>) ''/tmp/cloudinit/i'' (demo_state demo_world [] [])))
   = [''StoragePoolLookupByName'']"
proof -
  have "StoragePoolLookupByName demo_storage ''nope'' demo_world = (Inl no_pool, demo_world)"
    by (simp add: demo_storage_def demo_findPool_def demo_world_def)
  then show ?thesis
    by (subst UploadIso_leaves_files [where err = no_pool and w = demo_world])
      (simp_all add: demo_state_def call_names_def)
qed

end
