(* ===== verification/Domain_API.thy ===== *)
theory Domain_API
  imports Disk_Images Network_Resource
begin

text \<open>
  The domain calls of the libvirt client and the structures of the domain and capabilities XML
  with the fields that the provider reads or writes; the calls, the XML coding, the environment
  and the random numbers are arguments of the definitions.
\<close>

section \<open>Structures\<close>

record Domain =
  dm_Name :: string
  dm_UUID :: string

record IfaceAddrs =
  ia_Hwaddr :: "string list"
  ia_Addrs :: "string list"

record CapsMachine =
  cm_Name :: string
  cm_Canonical :: string

record CapsGuest =
  cg_OSType :: string
  cg_Arch :: string
  cg_Emulator :: string
  cg_Machines :: "CapsMachine list"
  cg_Domains :: "CapsMachine list list"

record DiskTarget =
  tg_Dev :: string
  tg_Bus :: string

record DiskDriver =
  dr_Name :: string
  dr_Type :: string

record DiskHost =
  hs_Name :: string
  hs_Port :: string

record DiskNetwork =
  dn_Protocol :: string
  dn_Name :: string
  dn_Hosts :: "DiskHost list"

record DiskSource =
  src_Network :: "DiskNetwork option"
  src_Block :: "string option"
  src_File :: "string option"
  src_Volume :: "(string \<times> string) option"

record DomainDisk =
  dk_Device :: string
  dk_Serial :: string
  dk_WWN :: string
  dk_Source :: "DiskSource option"
  dk_Target :: "DiskTarget option"
  dk_Driver :: "DiskDriver option"
  dk_ReadOnly :: bool

record IfaceSource =
  is_Network :: "string option"
  is_Bridge :: "string option"
  is_Direct :: "(string \<times> string) option"

record DomainIface =
  if_Model :: string
  if_MAC :: "string option"
  if_Source :: "IfaceSource option"

text \<open>The directories of the mount source and of the target; a missing source and one without a
  mount are the same for the code.\<close>

record DomainFilesystem =
  fs_AccessMode :: string
  fs_Source :: "string option"
  fs_Target :: "string option"
  fs_ReadOnly :: bool

datatype console_source = TCPSource string string string | PtySource string | DevSource string

record ConsoleTarget =
  ct_Port :: "uint64 option"
  ct_Type :: string

record DomainConsole =
  cn_Target :: "ConsoleTarget option"
  cn_Source :: "console_source option"
  cn_Protocol :: "string option"

record GraphicListener =
  gl_Address :: "string option"
  gl_Network :: bool
  gl_Socket :: bool

text \<open>The automatic port, the listeners and the websocket.\<close>

datatype graphic = NoGraphic | Spice string "GraphicListener list" | VNC string "GraphicListener list" int

record TPMEmulator =
  te_Encryption :: "string option"
  te_Version :: string
  te_PersistentState :: string

text \<open>A passthrough backend with the path of its device, when it has one.\<close>

record TPMBackend =
  tb_Passthrough :: "string option option"
  tb_Emulator :: "TPMEmulator option"

record DomainTPM =
  tp_Model :: string
  tp_Backend :: "TPMBackend option"

record DomainLoader =
  ld_Path :: string
  ld_Readonly :: string
  ld_Type :: string
  ld_Secure :: string

record DomainNVRam =
  nv_File :: string
  nv_Template :: string

record DomainOS =
  os_Type :: string
  os_Arch :: string
  os_Machine :: string
  os_Firmware :: string
  os_Kernel :: string
  os_Initrd :: string
  os_Cmdline :: string
  os_Loader :: "DomainLoader option"
  os_NVRam :: "DomainNVRam option"
  os_BootDevices :: "string list"

record DomainMemory =
  mem_Value :: uint64
  mem_Unit :: string

record DomainVCPU =
  vc_Value :: uint64
  vc_Placement :: string

text \<open>
  \<open>dx_Channels\<close> are the names of virtio channels with a UNIX source, \<open>dx_RNGs\<close> the devices of
  virtio random number generators, \<open>dx_Videos\<close> the types of the models, \<open>dx_Controllers\<close> type
  and model, \<open>dx_CPU\<close> the mode.
\<close>

record DomainXML =
  dx_Type :: string
  dx_Name :: string
  dx_Description :: string
  dx_OS :: DomainOS
  dx_Memory :: "DomainMemory option"
  dx_VCPU :: "DomainVCPU option"
  dx_CPU :: "string option"
  dx_Features :: "string list"
  dx_Emulator :: string
  dx_Graphics :: "graphic list"
  dx_Channels :: "string list"
  dx_RNGs :: "string list"
  dx_Disks :: "DomainDisk list"
  dx_Controllers :: "(string \<times> string) list"
  dx_Filesystems :: "DomainFilesystem list"
  dx_Interfaces :: "DomainIface list"
  dx_Consoles :: "DomainConsole list"
  dx_Videos :: "string list"
  dx_TPMs :: "DomainTPM list"
  dx_QEMUArgs :: "string list option"

section \<open>Calls\<close>

definition DomainNostate :: int where "DomainNostate = 0"
definition DomainRunning :: int where "DomainRunning = 1"
definition DomainBlocked :: int where "DomainBlocked = 2"
definition DomainPaused :: int where "DomainPaused = 3"
definition DomainShutdown :: int where "DomainShutdown = 4"
definition DomainShutoff :: int where "DomainShutoff = 5"
definition DomainCrashed :: int where "DomainCrashed = 6"
definition DomainPmsuspended :: int where "DomainPmsuspended = 7"

lemmas domain_states = DomainNostate_def DomainRunning_def DomainBlocked_def DomainPaused_def
  DomainShutdown_def DomainShutoff_def DomainCrashed_def DomainPmsuspended_def

definition DomainInterfaceAddressesSrcLease :: uint32 where "DomainInterfaceAddressesSrcLease = 0"
definition DomainInterfaceAddressesSrcAgent :: uint32 where "DomainInterfaceAddressesSrcAgent = 1"

definition ErrNoSupport :: uint32 where "ErrNoSupport = 3"
definition ErrInvalidArg :: uint32 where "ErrInvalidArg = 8"

text \<open>The flags of \<open>DomainUndefineFlags\<close> (managed save, snapshots, NVRAM, checkpoints) and of
  \<open>DomainUpdateDeviceFlags\<close> (live, config; current is 0) that the code passes.\<close>

definition undefineFlags :: nat where "undefineFlags = 4 + 2 + 1 + 16"
definition updateDeviceFlags :: nat where "updateDeviceFlags = 2 + 0 + 1"

text \<open>
  \<open>archDecode\<close> decodes the capabilities into the small structure of \<open>getHostArchitecture\<close>,
  \<open>domDecode\<close> decodes a domain over a definition that is there already, as \<open>xml.Unmarshal\<close> does.
\<close>

record url_host =
  uh_Scheme :: string
  uh_Path :: string
  uh_Hostname :: string
  uh_Port :: string

record 'w domapi =
  Capabilities :: "('w, string) rpc"
  DomainLookupByUUID :: "string \<Rightarrow> ('w, Domain) rpc"
  DomainGetXMLDesc :: "Domain \<Rightarrow> nat \<Rightarrow> ('w, string) rpc"
  DomainGetState :: "Domain \<Rightarrow> nat \<Rightarrow> ('w, int \<times> int) rpc"
  DomainInterfaceAddresses :: "Domain \<Rightarrow> uint32 \<Rightarrow> ('w, IfaceAddrs list) rpc"
  ConnectGetUri :: "('w, string) rpc"
  DomainDefineXML :: "string \<Rightarrow> ('w, Domain) rpc"
  DomainSetAutostart :: "Domain \<Rightarrow> int \<Rightarrow> ('w, unit) rpc"
  DomainGetAutostart :: "Domain \<Rightarrow> ('w, int) rpc"
  DomainCreate :: "Domain \<Rightarrow> ('w, unit) rpc"
  DomainDestroy :: "Domain \<Rightarrow> ('w, unit) rpc"
  DomainUndefineFlags :: "Domain \<Rightarrow> nat \<Rightarrow> ('w, unit) rpc"
  DomainUndefine :: "Domain \<Rightarrow> ('w, unit) rpc"
  DomainUpdateDeviceFlags :: "Domain \<Rightarrow> string \<Rightarrow> nat \<Rightarrow> ('w, unit) rpc"
  StorageVolLookupByPath :: "string \<Rightarrow> ('w, StorageVol) rpc"
  NetworkLookupByName :: "string \<Rightarrow> ('w, Network) rpc"
  capsDecode :: "string \<Rightarrow> goerror + CapsGuest list"
  archDecode :: "string \<Rightarrow> goerror + string"
  domEncode :: "DomainXML \<Rightarrow> goerror + string"
  domDecode :: "DomainXML \<Rightarrow> string \<Rightarrow> goerror + DomainXML"
  diskEncode :: "DomainDisk \<Rightarrow> goerror + string"
  urlParseHost :: "string \<Rightarrow> goerror + url_host"
  urlNormal :: "string \<Rightarrow> goerror + string"
  osGetenv :: "string \<Rightarrow> string"
  randRead :: "('w, byte \<times> byte \<times> byte) rpc"
  randIntn :: "nat \<Rightarrow> 'w \<Rightarrow> nat \<times> 'w"

definition domCall :: "string \<Rightarrow> Domain \<Rightarrow> ('w, 'a) rpc \<Rightarrow> (('w, 'd) prov, 'a) prog" where
  "domCall name m f = call name [dm_UUID m] f"

definition deref :: "'a option \<Rightarrow> ('s, 'a) prog" where
  "deref p = (case p of None \<Rightarrow> panic ''nil pointer dereference'' | Some x \<Rightarrow> ret x)"

lemma safe_domCall [safe_intros]:
  "admits P \<Longrightarrow> name \<notin> changesPool \<Longrightarrow> name \<notin> changesNetwork \<Longrightarrow> safe P (domCall name m f)"
  unfolding domCall_def by (rule safe_read)

lemma safe_deref [safe_intros]: "safe P (deref p)"
  unfolding deref_def by (intro safe_intros)

end
