(* ===== verification/Domain_Def.thy ===== *)
theory Domain_Def
  imports Domain_API
begin

text \<open>
  \<open>utils_domain_def.go\<close>, \<open>domain_def.go\<close> and \<open>disk_def.go\<close>: machine names in the capabilities of the
  host, the kernel command line as a list of maps, the architecture and capabilities of the host,
  and the definitions of domains, disks and file systems that the provider starts from.
\<close>

section \<open>Machines\<close>

fun getGuestForArchType :: "CapsGuest list \<Rightarrow> string \<Rightarrow> string \<Rightarrow> goerror + CapsGuest" where
  "getGuestForArchType [] arch virttype =
     Inl (Errorf ''[DEBUG] Could not find any guests for architecture type %s/%s'' [SArg virttype, SArg arch])"
| "getGuestForArchType (guest # guests) arch virttype =
     (if cg_Arch guest = arch \<and> cg_OSType guest = virttype then Inr guest
      else getGuestForArchType guests arch virttype)"

fun lookupMachine :: "CapsMachine list \<Rightarrow> string \<Rightarrow> string" where
  "lookupMachine [] targetmachine = []"
| "lookupMachine (m # ms) targetmachine =
     (if cm_Name m = targetmachine then (if cm_Canonical m \<noteq> [] then cm_Canonical m else cm_Name m)
      else lookupMachine ms targetmachine)"

fun lookupDomains :: "CapsMachine list list \<Rightarrow> string \<Rightarrow> string" where
  "lookupDomains [] targetmachine = []"
| "lookupDomains (ms # rest) targetmachine =
     (let name = lookupMachine ms targetmachine
      in if name \<noteq> [] then name else lookupDomains rest targetmachine)"

definition getCanonicalMachineName :: "CapsGuest list \<Rightarrow> string \<Rightarrow> string \<Rightarrow> string \<Rightarrow> goerror + string" where
  "getCanonicalMachineName caps arch virttype targetmachine =
     (case getGuestForArchType caps arch virttype of
        Inl err \<Rightarrow> Inl err
      | Inr guest \<Rightarrow>
          let name = lookupMachine (cg_Machines guest) targetmachine;
              name' = lookupDomains (cg_Domains guest) targetmachine
          in if name \<noteq> [] then Inr name
             else if name' \<noteq> [] then Inr name'
             else Inl (Errorf ''[WARN] Cannot find machine type %s for %s/%s in %v''
                         [SArg targetmachine, SArg virttype, SArg arch]))"

fun originalName :: "CapsMachine list \<Rightarrow> string \<Rightarrow> string" where
  "originalName [] targetmachine = targetmachine"
| "originalName (m # ms) targetmachine =
     (if cm_Canonical m \<noteq> [] \<and> cm_Canonical m = targetmachine then cm_Name m
      else originalName ms targetmachine)"

definition getOriginalMachineName :: "CapsGuest list \<Rightarrow> string \<Rightarrow> string \<Rightarrow> string \<Rightarrow> goerror + string" where
  "getOriginalMachineName caps arch virttype targetmachine =
     (case getGuestForArchType caps arch virttype of
        Inl err \<Rightarrow> Inl err
      | Inr guest \<Rightarrow> Inr (originalName (cg_Machines guest) targetmachine))"

section \<open>The kernel command line\<close>

text \<open>A Go map as an association list with distinct keys; \<open>lines\<close> are the maps that are finished.\<close>

type_synonym cmdmap = "(string \<times> string) list"

fun splitArgs ::
  "string list \<Rightarrow> cmdmap list \<Rightarrow> cmdmap \<Rightarrow> string list \<Rightarrow> cmdmap list \<times> cmdmap \<times> string list" where
  "splitArgs [] cmdLines currCmd keyless = (cmdLines, currCmd, keyless)"
| "splitArgs (argVal # argVals) cmdLines currCmd keyless =
     (if CHR ''='' \<notin> set argVal then splitArgs argVals cmdLines currCmd (keyless @ [argVal])
      else (case strSplitN2 CHR ''='' argVal of
          [k, v] \<Rightarrow>
            if k \<in> fst ` set currCmd then splitArgs argVals (cmdLines @ [currCmd]) [(k, v)] keyless
            else splitArgs argVals cmdLines (currCmd @ [(k, v)]) keyless
        | _ \<Rightarrow> (cmdLines, currCmd, keyless)))"

definition splitKernelCmdLine :: "string \<Rightarrow> cmdmap list" where
  "splitKernelCmdLine cmdLine =
     (if cmdLine = [] then []
      else (case splitArgs (strSplit CHR '' '' cmdLine) [] [] [] of (cmdLines, currCmd, keyless) \<Rightarrow>
        cmdLines @ (if currCmd \<noteq> [] then [currCmd] else [])
        @ (if keyless \<noteq> [] then [[(''_'', strJoin CHR '' '' keyless)]] else [])))"

section \<open>The host\<close>

definition getHostArchitecture :: "'w domapi \<Rightarrow> (('w, 'd) prov, string) prog" where
  "getHostArchitecture D =
     bindP (call ''Capabilities'' [] (Capabilities D)) (\<lambda>info. liftSum (archDecode D info))"

definition getHostCapabilities :: "'w domapi \<Rightarrow> (('w, 'd) prov, CapsGuest list) prog" where
  "getHostCapabilities D =
     bindP (call ''Capabilities'' [] (Capabilities D)) (\<lambda>capsXML. liftSum (capsDecode D capsXML))"

section \<open>Definitions\<close>

definition newFilesystemDef :: DomainFilesystem where
  "newFilesystemDef = \<lparr>fs_AccessMode = ''mapped'', fs_Source = None, fs_Target = None, fs_ReadOnly = True\<rparr>"

definition defaultDomainMemoryMiB :: uint64 where "defaultDomainMemoryMiB = 512"

definition newDomainDef :: "'w domapi \<Rightarrow> DomainXML" where
  "newDomainDef D =
     (let v = osGetenv D ''TERRAFORM_LIBVIRT_TEST_DOMAIN_TYPE''; rngDev = osGetenv D ''TF_LIBVIRT_RNG_DEV''
      in \<lparr>dx_Type = (if v \<noteq> [] then v else ''kvm''), dx_Name = [], dx_Description = [],
          dx_OS = \<lparr>os_Type = ''hvm'', os_Arch = [], os_Machine = [], os_Firmware = [], os_Kernel = [],
            os_Initrd = [], os_Cmdline = [], os_Loader = None, os_NVRam = None, os_BootDevices = []\<rparr>,
          dx_Memory = Some \<lparr>mem_Value = defaultDomainMemoryMiB, mem_Unit = ''MiB''\<rparr>,
          dx_VCPU = Some \<lparr>vc_Value = 1, vc_Placement = ''static''\<rparr>,
          dx_CPU = Some [], dx_Features = [''pae'', ''acpi'', ''apic''], dx_Emulator = [],
          dx_Graphics = [Spice ''yes'' []], dx_Channels = [''org.qemu.guest_agent.0''],
          dx_RNGs = [if rngDev = [] then ''/dev/urandom'' else rngDev],
          dx_Disks = [], dx_Controllers = [], dx_Filesystems = [], dx_Interfaces = [], dx_Consoles = [],
          dx_Videos = [], dx_TPMs = [], dx_QEMUArgs = None\<rparr>)"

definition getXMLDomainDefFromLibvirt :: "'w domapi \<Rightarrow> Domain \<Rightarrow> (('w, 'd) prov, DomainXML) prog" where
  "getXMLDomainDefFromLibvirt D domain =
     bindP (orFail (domCall ''DomainGetXMLDesc'' domain (DomainGetXMLDesc D domain 0))
              (Wrapf ''error retrieving libvirt domain XML description: %w'' [])) (\<lambda>domainXMLDesc.
     orFail (liftSum (domDecode D (newDomainDef D) domainXMLDesc))
       (Wrapf ''error reading libvirt domain XML description: %w'' []))"

text \<open>What \<open>newDomainDefForConnection\<close> puts into the definition.\<close>

definition forConnection :: "DomainXML \<Rightarrow> string \<Rightarrow> string \<Rightarrow> string \<Rightarrow> DomainXML" where
  "forConnection d arch emulator machine = d\<lparr>
     dx_OS := (dx_OS d)\<lparr>os_Arch := arch, os_Machine := machine,
                os_Firmware := (if arch = ''aarch64'' then ''efi'' else os_Firmware (dx_OS d))\<rparr>,
     dx_Emulator := emulator\<rparr>"

definition newDomainDefForConnection ::
  "('w, 'd, 'v) sdk \<Rightarrow> 'w domapi \<Rightarrow> (('w, 'd) prov, DomainXML) prog" where
  "newDomainDefForConnection S D =
     (let d = newDomainDef D in
      bindP (dGetOk S ''arch'') (\<lambda>a.
      bindP (case a of Some v \<Rightarrow> assertStr v | None \<Rightarrow> getHostArchitecture D) (\<lambda>arch.
      bindP (getHostCapabilities D) (\<lambda>caps.
      bindP (liftSum (getGuestForArchType caps arch (os_Type (dx_OS d)))) (\<lambda>guest.
      bindP (dGetOk S ''emulator'') (\<lambda>e.
      bindP (case e of Some v \<Rightarrow> assertStr v | None \<Rightarrow> ret (cg_Emulator guest)) (\<lambda>emulator.
      bindP (dGetOk S ''machine'') (\<lambda>m.
      bindP (case m of Some v \<Rightarrow> assertStr v
             | None \<Rightarrow> ret (case cg_Machines guest of x # _ \<Rightarrow> cm_Name x | [] \<Rightarrow> os_Machine (dx_OS d))) (\<lambda>machine.
      bindP (liftSum (getCanonicalMachineName caps arch (os_Type (dx_OS d)) machine)) (\<lambda>canonicalmachine.
      ret (forConnection d arch emulator canonicalmachine)))))))))))"

definition oui :: string where "oui = ''05abcd''"

definition newDefDisk :: "nat \<Rightarrow> DomainDisk" where
  "newDefDisk i = \<lparr>dk_Device = ''disk'', dk_Serial = [], dk_WWN = [], dk_Source = None,
     dk_Target = Some \<lparr>tg_Dev = ''vd'' @ diskLetterForIndex i, tg_Bus = ''virtio''\<rparr>,
     dk_Driver = Some \<lparr>dr_Name = ''qemu'', dr_Type = ''raw''\<rparr>, dk_ReadOnly = False\<rparr>"

definition wwnChars :: string where "wwnChars = ''abcdef0123456789''"

text \<open>An index that \<open>rand.Intn\<close> would have to keep below the length is out of range: a panic.\<close>

fun randomChars :: "'w domapi \<Rightarrow> nat \<Rightarrow> (('w, 'd) prov, string) prog" where
  "randomChars D 0 = ret []"
| "randomChars D (Suc n) = (\<lambda>s. case randIntn D (length wwnChars) (world s) of (i, w) \<Rightarrow>
     (if i \<ge> length wwnChars then panic ''index out of range''
      else bindP (randomChars D n) (\<lambda>rest. ret (wwnChars ! i # rest))) (s\<lparr>world := w\<rparr>))"

definition randomWWN :: "'w domapi \<Rightarrow> nat \<Rightarrow> (('w, 'd) prov, string) prog" where
  "randomWWN D strlen = bindP (randomChars D strlen) (\<lambda>result. ret (oui @ result))"

section \<open>The discipline\<close>

lemma safe_host [safe_intros]:
  "admits P \<Longrightarrow> safe P (getHostArchitecture D)" "admits P \<Longrightarrow> safe P (getHostCapabilities D)"
  unfolding getHostArchitecture_def getHostCapabilities_def
  by (intro safe_intros; simp add: event_names)+

lemma safe_newDomainDefForConnection [safe_intros]: "admits P \<Longrightarrow> safe P (newDomainDefForConnection S D)"
  unfolding newDomainDefForConnection_def by (intro safe_intros)

lemma safe_randomChars [safe_intros]: "admits P \<Longrightarrow> safe P (randomChars D n)"
proof (induction n)
  case (Suc n)
  have step: "safe P (if i \<ge> length wwnChars then panic m
      else bindP (randomChars D n) (\<lambda>rest. ret (wwnChars ! i # rest)))" for i m
    by (intro safe_intros Suc)
  have "P (s\<lparr>world := w\<rparr>)" if "P s" for s w using Suc.prems that using admits_blind by (auto simp: blind_def)
  with step show ?case
    by (auto simp: ends_def split: prod.splits)
qed (auto intro: safe_intros)

lemma safe_randomWWN [safe_intros]: "admits P \<Longrightarrow> safe P (randomWWN D n)"
  unfolding randomWWN_def by (intro safe_intros)

end
