(* ===== verification/Domain_Devices.thy ===== *)
theory Domain_Devices
  imports Domain_Def
begin

text \<open>
  \<open>domain.go\<close>: the state of a domain and the wait for its leases, and the functions that fill the
  devices of a domain definition from the resource data.  Each \<open>set...\<close> takes the definition and
  returns it changed.  A value printed with \<open>%s\<close> is a string by the schema.
\<close>

section \<open>Reading blocks\<close>

definition dMap :: "('w, 'd, 'v) sdk \<Rightarrow> string \<Rightarrow> (('w, 'd) prov, (string \<times> tfval) list) prog" where
  "dMap S k = bindP (getS (\<lambda>s. sdGet S (rdata s) k)) assertMap"

definition dList :: "('w, 'd, 'v) sdk \<Rightarrow> string \<Rightarrow> (('w, 'd) prov, tfval list) prog" where
  "dList S k = bindP (getS (\<lambda>s. sdGet S (rdata s) k)) assertList"

definition block :: "string \<Rightarrow> nat \<Rightarrow> string" where
  "block name i = name @ CHR ''.'' # decString i"

definition dOptStr :: "('w, 'd, 'v) sdk \<Rightarrow> string \<Rightarrow> (('w, 'd) prov, string option) prog" where
  "dOptStr S k = bindP (dGetOk S k) (\<lambda>v. case v of None \<Rightarrow> ret None | Some x \<Rightarrow> bindP (assertStr x) (\<lambda>t. ret (Some t)))"

lemma safe_dMap [safe_intros]: "safe P (dMap S k)" "safe P (dList S k)" "safe P (dOptStr S k)"
  unfolding dMap_def dList_def dOptStr_def by (intro safe_intros)+

section \<open>State and leases\<close>

definition domainGetState :: "'w domapi \<Rightarrow> Domain \<Rightarrow> (('w, 'd) prov, string) prog" where
  "domainGetState D domain =
     bindP (domCall ''DomainGetState'' domain (DomainGetState D domain 0)) (\<lambda>(state, _). ret
     (if state = DomainNostate then ''nostate''
      else if state = DomainRunning then ''running''
      else if state = DomainBlocked then ''blocked''
      else if state = DomainPaused then ''paused''
      else if state = DomainShutdown then ''shutdown''
      else if state = DomainCrashed then ''crashed''
      else if state = DomainPmsuspended then ''pmsuspended''
      else if state = DomainShutoff then ''shutoff''
      else ''unknown: '' @ (if state < 0 then CHR ''-'' # decString (nat (- state)) else decString (nat state))))"

definition domainIsRunning :: "'w domapi \<Rightarrow> Domain \<Rightarrow> (('w, 'd) prov, bool) prog" where
  "domainIsRunning D domain =
     bindP (orFail (domCall ''DomainGetState'' domain (DomainGetState D domain 0))
              (Wrapf ''couldn't get state of domain: %w'' [])) (\<lambda>(state, _).
     ret (state = DomainRunning))"

definition domainGetIfacesInfo ::
  "('w, 'd, 'v) sdk \<Rightarrow> 'w domapi \<Rightarrow> Domain \<Rightarrow> (('w, 'd) prov, IfaceAddrs list) prog" where
  "domainGetIfacesInfo S D domain =
     bindP (domainIsRunning D domain) (\<lambda>domainRunningNow.
     if \<not> domainRunningNow then ret []
     else
       bindP (dBool S ''qemu_agent'') (\<lambda>qemuAgentEnabled.
       let addrsrc = (if qemuAgentEnabled then DomainInterfaceAddressesSrcAgent else DomainInterfaceAddressesSrcLease)
       in orFail (domCall ''DomainInterfaceAddresses'' domain (DomainInterfaceAddresses D domain addrsrc))
            (Wrapf ''error retrieving interface addresses: %w'' [])))"

text \<open>The results \<open>found\<close> and \<open>ignore\<close>.\<close>

definition domainIfaceHasAddress ::
  "('w, 'd, 'v) sdk \<Rightarrow> 'w domapi \<Rightarrow> Domain \<Rightarrow> DomainIface \<Rightarrow> (('w, 'd) prov, bool \<times> bool) prog" where
  "domainIfaceHasAddress S D domain iface =
     bindP (deref (if_MAC iface)) (\<lambda>address.
     let mac = strToUpper address
     in if mac = [] then ret (False, True)
        else
          bindP (orFail (domainGetIfacesInfo S D domain)
                   (Wrapf ''error retrieving interface addresses: %w'' [])) (\<lambda>ifacesWithAddr.
          ret (list_ex (\<lambda>a. case ia_Hwaddr a of h # _ \<Rightarrow> mac = strToUpper h | [] \<Rightarrow> False) ifacesWithAddr, False)))"

definition domWaitLeaseStillWaiting :: string where "domWaitLeaseStillWaiting = ''waiting-addresses''"
definition domWaitLeaseDone :: string where "domWaitLeaseDone = ''all-addresses-obtained''"

definition errDomainInvalidState :: goerror where
  "errDomainInvalidState = SysError ''invalid state for domain''"

fun leasesLoop ::
  "('w, 'd, 'v) sdk \<Rightarrow> 'w domapi \<Rightarrow> Domain \<Rightarrow> DomainIface list \<Rightarrow> (('w, 'd) prov, string) prog" where
  "leasesLoop S D domain [] = ret domWaitLeaseDone"
| "leasesLoop S D domain (iface # rest) =
     bindP (domainIfaceHasAddress S D domain iface) (\<lambda>(found, ignore).
     if ignore then leasesLoop S D domain rest
     else if \<not> found then ret domWaitLeaseStillWaiting
     else leasesLoop S D domain rest)"

definition waitForLeasesFunc ::
  "('w, 'd, 'v) sdk \<Rightarrow> 'w domapi \<Rightarrow> Domain \<Rightarrow> DomainIface list \<Rightarrow> (('w, 'd) prov, string) prog" where
  "waitForLeasesFunc S D domain waitForLeases =
     bindP (domainGetState D domain) (\<lambda>state.
     if state \<in> {''crashed'', ''shutoff'', ''shutdown'', ''pmsuspended''} then throw errDomainInvalidState
     else if state \<noteq> ''running'' then ret domWaitLeaseStillWaiting
     else leasesLoop S D domain waitForLeases)"

definition domainWaitForLeases ::
  "('w, 'd, 'v) sdk \<Rightarrow> 'w domapi \<Rightarrow> Domain \<Rightarrow> DomainIface list \<Rightarrow> nat \<Rightarrow> (('w, 'd) prov, unit) prog" where
  "domainWaitForLeases S D domain waitForLeases timeout =
     sdWaitForState S \<lparr>Pending = [domWaitLeaseStillWaiting], Target = [domWaitLeaseDone],
       Timeout = timeout, Delay = resourceStateDelay, MinTimeout = resourceStateMinTimeout\<rparr>
       (waitForLeasesFunc S D domain waitForLeases)"

definition destroyDomainByUserRequest ::
  "('w, 'd, 'v) sdk \<Rightarrow> 'w domapi \<Rightarrow> Domain \<Rightarrow> (('w, 'd) prov, unit) prog" where
  "destroyDomainByUserRequest S D domain =
     bindP (dBool S ''running'') (\<lambda>running.
     if running then ret ()
     else
       bindP (orFail (domCall ''DomainGetState'' domain (DomainGetState D domain 0))
                (Wrapf ''couldn't get info about domain: %w'' [])) (\<lambda>(state, _).
       if state = DomainRunning \<or> state = DomainPaused then
         orFail (domCall ''DomainDestroy'' domain (DomainDestroy D domain))
           (Wrapf ''couldn't destroy libvirt domain: %w'' [])
       else ret ()))"

section \<open>Cloud-init and ignition\<close>

definition plainFile :: "string \<Rightarrow> DiskSource" where
  "plainFile f = \<lparr>src_Network = None, src_Block = None, src_File = Some f, src_Volume = None\<rparr>"

definition rawDriver :: DiskDriver where
  "rawDriver = \<lparr>dr_Name = ''qemu'', dr_Type = ''raw''\<rparr>"

definition newDiskForCloudInit :: "'w storage \<Rightarrow> string \<Rightarrow> (('w, 'd) prov, DomainDisk) prog" where
  "newDiskForCloudInit st volumeKey =
     bindP (orFail (lookupVolByKey st volumeKey) (Wrapf ''can't retrieve volume %s: %w'' [SArg volumeKey])) (\<lambda>diskVolume.
     bindP (orFail (volCall ''StorageVolGetPath'' diskVolume (StorageVolGetPath st diskVolume))
              (Wrapf ''error retrieving volume file: %w'' [])) (\<lambda>diskVolumeFile.
     ret \<lparr>dk_Device = ''cdrom'', dk_Serial = ''cloudinit'', dk_WWN = [],
          dk_Source = Some (plainFile diskVolumeFile),
          dk_Target = Some \<lparr>tg_Dev = ''hdd'', tg_Bus = ''ide''\<rparr>,
          dk_Driver = Some rawDriver, dk_ReadOnly = False\<rparr>))"

definition ignitionDisk :: "string \<Rightarrow> DomainDisk" where
  "ignitionDisk ignitionKey =
     \<lparr>dk_Device = ''disk'', dk_Serial = ''ignition'', dk_WWN = [],
      dk_Source = Some (plainFile ignitionKey),
      dk_Target = Some \<lparr>tg_Dev = ''vdb'', tg_Bus = ''virtio''\<rparr>,
      dk_Driver = Some rawDriver, dk_ReadOnly = True\<rparr>"

definition setCoreOSIgnition ::
  "('w, 'd, 'v) sdk \<Rightarrow> string \<Rightarrow> DomainXML \<Rightarrow> (('w, 'd) prov, DomainXML) prog" where
  "setCoreOSIgnition S arch def =
     bindP (dOptStr S ''coreos_ignition'') (\<lambda>ignition. case ignition of
       None \<Rightarrow> ret def
     | Some i \<Rightarrow>
         bindP (liftSum (getIgnitionVolumeKeyFromTerraformID i)) (\<lambda>ignitionKey.
         if arch \<in> {''i686'', ''x86_64'', ''aarch64''} then
           bindP (dOptStr S ''fw_cfg_name'') (\<lambda>fwCfg. case fwCfg of
             None \<Rightarrow> ret def
           | Some name \<Rightarrow> ret (def\<lparr>dx_QEMUArgs := Some [''-fw_cfg'',
               ''name='' @ name @ '',file='' @ ignitionKey]\<rparr>))
         else if arch \<in> {''s390'', ''s390x'', ''ppc64'', ''ppc64le''} then
           ret (def\<lparr>dx_Disks := dx_Disks def @ [ignitionDisk ignitionKey]\<rparr>)
         else throw (Errorf ''ignition not supported on %q'' [SArg arch])))"

definition setCloudinit ::
  "('w, 'd, 'v) sdk \<Rightarrow> 'w storage \<Rightarrow> DomainXML \<Rightarrow> (('w, 'd) prov, DomainXML) prog" where
  "setCloudinit S st def =
     bindP (dOptStr S ''cloudinit'') (\<lambda>cloudinit. case cloudinit of
       None \<Rightarrow> ret def
     | Some i \<Rightarrow>
         bindP (liftSum (getCloudInitVolumeKeyFromTerraformID i)) (\<lambda>cloudinitID.
         bindP (newDiskForCloudInit st cloudinitID) (\<lambda>disk.
         ret (def\<lparr>dx_Disks := dx_Disks def @ [disk]\<rparr>))))"

section \<open>Video, graphics, command line, firmware, boot devices, consoles, TPMs\<close>

definition setVideo :: "('w, 'd, 'v) sdk \<Rightarrow> DomainXML \<Rightarrow> (('w, 'd) prov, DomainXML) prog" where
  "setVideo S def =
     bindP (dSetTo S ''video.0'') (\<lambda>ok.
     if ok then bindP (dStr S ''video.0.type'') (\<lambda>t. ret (def\<lparr>dx_Videos := dx_Videos def @ [t]\<rparr>))
     else ret def)"

definition graphicsListener :: "('w, 'd, 'v) sdk \<Rightarrow> (('w, 'd) prov, GraphicListener) prog" where
  "graphicsListener S =
     (let l = \<lparr>gl_Address = None, gl_Network = False, gl_Socket = False\<rparr> in
      bindP (dGetOk S ''graphics.0.listen_type'') (\<lambda>listenType.
      if listenType = Some (TStr ''address'') then
        bindP (dStr S ''graphics.0.listen_address'') (\<lambda>a. ret (l\<lparr>gl_Address := Some a\<rparr>))
      else if listenType = Some (TStr ''network'') then ret (l\<lparr>gl_Network := True\<rparr>)
      else if listenType = Some (TStr ''socket'') then ret (l\<lparr>gl_Socket := True\<rparr>)
      else ret l))"

definition setGraphics ::
  "('w, 'd, 'v) sdk \<Rightarrow> string \<Rightarrow> DomainXML \<Rightarrow> (('w, 'd) prov, DomainXML) prog" where
  "setGraphics S arch def =
     (if arch = ''aarch64'' \<or> arch = ''s390x'' \<or> hasPrefix arch ''ppc64'' then ret (def\<lparr>dx_Graphics := []\<rparr>)
      else
        bindP (dSetTo S ''graphics.0'') (\<lambda>ok.
        if \<not> ok then ret def
        else
          bindP (dGetOk S ''graphics.0.type'') (\<lambda>graphicsType. case graphicsType of
            None \<Rightarrow> throw (Errorf ''missing graphics type for domain'' [])
          | Some gt \<Rightarrow>
              bindP (dBool S ''graphics.0.autoport'') (\<lambda>autoport.
              bindP (graphicsListener S) (\<lambda>listener.
              if gt = TStr ''spice'' then
                ret (def\<lparr>dx_Graphics := [Spice (formatBoolYesNo autoport) [listener]]\<rparr>)
              else if gt = TStr ''vnc'' then
                bindP (dGetOk S ''graphics.0.websocket'') (\<lambda>websocket.
                bindP (case websocket of None \<Rightarrow> ret 0 | Some v \<Rightarrow> assertInt v) (\<lambda>ws.
                ret (def\<lparr>dx_Graphics := [VNC (formatBoolYesNo autoport) [listener] ws]\<rparr>)))
              else bindP (assertStr gt) (\<lambda>t. throw (Errorf
                (''this provider only supports vnc/spice as graphics type. Provided: '%s'' @ [CHR 0x27]) [SArg t])))))))"

text \<open>\<open>fmt.Sprintf("%v", v)\<close> of a value of a map of strings.\<close>

definition fmtV :: "tfval \<Rightarrow> string" where
  "fmtV v = (case v of TStr x \<Rightarrow> x | TBool b \<Rightarrow> (if b then ''true'' else ''false'')
     | TInt i \<Rightarrow> (if i < 0 then CHR ''-'' # decString (nat (- i)) else decString (nat i)) | _ \<Rightarrow> ''<nil>'')"

definition cmdlineArg :: "string \<times> tfval \<Rightarrow> string" where
  "cmdlineArg kv = (case kv of (k, v) \<Rightarrow> if k = ''_'' then fmtV v else k @ CHR ''='' # fmtV v)"

definition renderCmdline :: "(string \<times> tfval) list list \<Rightarrow> string" where
  "renderCmdline maps = strJoin CHR '' '' (sort (concat (map (map cmdlineArg) maps)))"

definition setCmdlineArgs :: "('w, 'd, 'v) sdk \<Rightarrow> DomainXML \<Rightarrow> (('w, 'd) prov, DomainXML) prog" where
  "setCmdlineArgs S def =
     bindP (dInt S ''cmdline.#'') (\<lambda>n.
     bindP (mapP (\<lambda>i. dMap S (block ''cmdline'' i)) [0..<nat n]) (\<lambda>maps.
     ret (def\<lparr>dx_OS := (dx_OS def)\<lparr>os_Cmdline := renderCmdline maps\<rparr>\<rparr>)))"

definition setFirmware :: "('w, 'd, 'v) sdk \<Rightarrow> DomainXML \<Rightarrow> (('w, 'd) prov, DomainXML) prog" where
  "setFirmware S def =
     bindP (dOptStr S ''firmware'') (\<lambda>firmware. case firmware of
       None \<Rightarrow> ret def
     | Some firmwareFile \<Rightarrow>
         let loader = \<lparr>ld_Path = firmwareFile, ld_Readonly = ''yes'', ld_Type = ''pflash'', ld_Secure = ''no''\<rparr>;
             def1 = def\<lparr>dx_OS := (dx_OS def)\<lparr>os_Loader := Some loader\<rparr>\<rparr>
         in bindP (dSetTo S ''nvram.0'') (\<lambda>nvram.
            if \<not> nvram then ret def1
            else
              bindP (dStr S ''nvram.0.file'') (\<lambda>nvramFile.
              bindP (dOptStr S ''nvram.0.template'') (\<lambda>nvramTemplate.
              ret (def1\<lparr>dx_OS := (dx_OS def1)\<lparr>os_NVRam := Some \<lparr>nv_File = nvramFile,
                nv_Template = (case nvramTemplate of Some t \<Rightarrow> t | None \<Rightarrow> [])\<rparr>\<rparr>\<rparr>)))))"

definition setBootDevices :: "('w, 'd, 'v) sdk \<Rightarrow> DomainXML \<Rightarrow> (('w, 'd) prov, DomainXML) prog" where
  "setBootDevices S def =
     bindP (dInt S ''boot_device.#'') (\<lambda>n.
     bindP (mapP (\<lambda>i.
        bindP (dGetOk S (block ''boot_device'' i @ ''.dev'')) (\<lambda>bootMap. case bootMap of
          None \<Rightarrow> ret []
        | Some v \<Rightarrow> bindP (assertList v) (\<lambda>devs. mapP assertStr devs))) [0..<nat n]) (\<lambda>devs.
     ret (def\<lparr>dx_OS := (dx_OS def)\<lparr>os_BootDevices := os_BootDevices (dx_OS def) @ concat devs\<rparr>\<rparr>)))"

definition consoleSource ::
  "('w, 'd, 'v) sdk \<Rightarrow> string \<Rightarrow> DomainConsole \<Rightarrow> (('w, 'd) prov, DomainConsole) prog" where
  "consoleSource S prf console =
     bindP (dStr S (prf @ ''.type'')) (\<lambda>t.
     if t = ''tcp'' then
       bindP (dStr S (prf @ ''.source_host'')) (\<lambda>sourceHost.
       bindP (dStr S (prf @ ''.source_service'')) (\<lambda>sourceService.
       ret (console\<lparr>cn_Source := Some (TCPSource ''bind'' sourceHost sourceService),
                    cn_Protocol := Some ''telnet''\<rparr>)))
     else
       bindP (dOptStr S (prf @ ''.source_path'')) (\<lambda>sourcePath. case sourcePath of
         None \<Rightarrow> ret console
       | Some path \<Rightarrow> ret (console\<lparr>cn_Source :=
           Some (if t = ''pty'' then PtySource path else DevSource path)\<rparr>)))"

definition consoleAt :: "('w, 'd, 'v) sdk \<Rightarrow> nat \<Rightarrow> (('w, 'd) prov, DomainConsole) prog" where
  "consoleAt S i =
     (let prf = block ''console'' i in
      bindP (dStr S (prf @ ''.target_port'')) (\<lambda>port.
      let target = (case atoi port of
            (n, None) \<Rightarrow> Some \<lparr>ct_Port = Some (uint64_of_int n), ct_Type = []\<rparr>
          | (_, Some _) \<Rightarrow> None)
      in bindP (dOptStr S (prf @ ''.target_type'')) (\<lambda>targetType.
         let target1 = (case targetType of
               None \<Rightarrow> target
             | Some t \<Rightarrow> Some (case target of
                   None \<Rightarrow> \<lparr>ct_Port = None, ct_Type = t\<rparr>
                 | Some c \<Rightarrow> c\<lparr>ct_Type := t\<rparr>))
         in consoleSource S prf \<lparr>cn_Target = target1, cn_Source = None, cn_Protocol = None\<rparr>)))"

definition setConsoles :: "('w, 'd, 'v) sdk \<Rightarrow> DomainXML \<Rightarrow> (('w, 'd) prov, DomainXML) prog" where
  "setConsoles S def =
     bindP (dInt S ''console.#'') (\<lambda>n.
     bindP (mapP (consoleAt S) [0..<nat n]) (\<lambda>consoles.
     ret (def\<lparr>dx_Consoles := dx_Consoles def @ consoles\<rparr>)))"

text \<open>The key of the model lacks the prefix of the block in the code.\<close>

definition tpmBackend :: "('w, 'd, 'v) sdk \<Rightarrow> TPMBackend \<Rightarrow> (('w, 'd) prov, TPMBackend) prog" where
  "tpmBackend S backend =
     bindP (if tb_Passthrough backend \<noteq> None then
              bindP (dOptStr S ''tpm.0.backend_device_path'') (\<lambda>path. case path of
                None \<Rightarrow> ret backend
              | Some p \<Rightarrow> ret (backend\<lparr>tb_Passthrough := Some (Some p)\<rparr>))
            else ret backend) (\<lambda>b1. case tb_Emulator b1 of
       None \<Rightarrow> ret b1
     | Some emu \<Rightarrow>
         bindP (dOptStr S ''tpm.0.backend_encryption_secret'') (\<lambda>secret.
         bindP (dOptStr S ''tpm.0.backend_version'') (\<lambda>version.
         bindP (dGetOk S ''tpm.0.backend_persistent_state'') (\<lambda>persistent.
         bindP (case persistent of
                  None \<Rightarrow> ret (te_PersistentState emu)
                | Some v \<Rightarrow> bindP (assertBool v) (\<lambda>b. ret (formatBoolYesNo b))) (\<lambda>state.
         ret (b1\<lparr>tb_Emulator := Some \<lparr>
           te_Encryption = (case secret of None \<Rightarrow> te_Encryption emu | Some x \<Rightarrow> Some x),
           te_Version = (case version of None \<Rightarrow> te_Version emu | Some x \<Rightarrow> x),
           te_PersistentState = state\<rparr>\<rparr>))))))"

definition setTPMs :: "('w, 'd, 'v) sdk \<Rightarrow> DomainXML \<Rightarrow> (('w, 'd) prov, DomainXML) prog" where
  "setTPMs S def =
     bindP (dSetTo S ''tpm.0'') (\<lambda>ok.
     if \<not> ok then ret def
     else
       bindP (dOptStr S ''.model'') (\<lambda>model.
       bindP (dGetOk S ''tpm.0.backend_type'') (\<lambda>backendType.
       bindP (deref (case backendType of
                None \<Rightarrow> None
              | Some v \<Rightarrow> Some \<lparr>
                  tb_Passthrough = (if v = TStr ''passthrough'' then Some None else None),
                  tb_Emulator = (if v = TStr ''emulator''
                    then Some \<lparr>te_Encryption = None, te_Version = [], te_PersistentState = []\<rparr> else None)\<rparr>)) (\<lambda>backend0.
       bindP (tpmBackend S backend0) (\<lambda>backend.
       ret (def\<lparr>dx_TPMs := dx_TPMs def @ [\<lparr>tp_Model = (case model of Some m \<Rightarrow> m | None \<Rightarrow> []),
         tp_Backend = Some backend\<rparr>]\<rparr>))))))"

definition filesystemAt :: "('w, 'd, 'v) sdk \<Rightarrow> nat \<Rightarrow> (('w, 'd) prov, DomainFilesystem) prog" where
  "filesystemAt S i =
     (let prf = block ''filesystem'' i in
      bindP (dOptStr S (prf @ ''.accessmode'')) (\<lambda>accessMode.
      bindP (dOptStr S (prf @ ''.source'')) (\<lambda>sourceDir. case sourceDir of
        None \<Rightarrow> throw (Errorf ''filesystem entry %d must have a 'source' set'' [IArg (int i)])
      | Some source \<Rightarrow>
          bindP (dOptStr S (prf @ ''.target'')) (\<lambda>targetDir. case targetDir of
            None \<Rightarrow> throw (Errorf ''filesystem entry must have a 'target' set'' [])
          | Some target \<Rightarrow>
              bindP (dBool S (prf @ ''.readonly'')) (\<lambda>readonly.
              ret \<lparr>fs_AccessMode = (case accessMode of Some m \<Rightarrow> m | None \<Rightarrow> fs_AccessMode newFilesystemDef),
                   fs_Source = Some source, fs_Target = Some target, fs_ReadOnly = readonly\<rparr>)))))"

definition setFilesystems :: "('w, 'd, 'v) sdk \<Rightarrow> DomainXML \<Rightarrow> (('w, 'd) prov, DomainXML) prog" where
  "setFilesystems S def =
     bindP (dInt S ''filesystem.#'') (\<lambda>n.
     bindP (mapP (filesystemAt S) [0..<nat n]) (\<lambda>filesystems.
     ret (def\<lparr>dx_Filesystems := dx_Filesystems def @ filesystems\<rparr>)))"

section \<open>The discipline\<close>

lemma safe_domain_state [safe_intros]:
  "admits P \<Longrightarrow> safe P (domainGetState D m)" "admits P \<Longrightarrow> safe P (domainIsRunning D m)"
  "admits P \<Longrightarrow> safe P (domainGetIfacesInfo S D m)" "admits P \<Longrightarrow> safe P (domainIfaceHasAddress S D m f)"
  "admits P \<Longrightarrow> safe P (destroyDomainByUserRequest S D m)"
proof -
  assume adm: "admits P"
  show state: "safe P (domainGetState D m)" and running: "safe P (domainIsRunning D m)"
    unfolding domainGetState_def domainIsRunning_def by (intro safe_intros adm; simp add: event_names)+
  show info: "safe P (domainGetIfacesInfo S D m)"
    unfolding domainGetIfacesInfo_def by (intro safe_intros adm running) (simp_all add: event_names)
  show "safe P (domainIfaceHasAddress S D m f)"
    unfolding domainIfaceHasAddress_def by (intro safe_intros adm info)
  show "safe P (destroyDomainByUserRequest S D m)"
    unfolding destroyDomainByUserRequest_def by (intro safe_intros adm) (simp_all add: event_names)
qed

lemma safe_leasesLoop [safe_intros]: "admits P \<Longrightarrow> safe P (leasesLoop S D m fs)"
  by (induction fs) (auto intro!: safe_intros)

lemma safe_waitForLeasesFunc [safe_intros]: "admits P \<Longrightarrow> safe P (waitForLeasesFunc S D m fs)"
  unfolding waitForLeasesFunc_def by (intro safe_intros)

lemma safe_domainWaitForLeases:
  "wait_ok S \<Longrightarrow> admits P \<Longrightarrow> safe P (domainWaitForLeases S D m fs t)"
  unfolding domainWaitForLeases_def by (intro safe_wait safe_intros admits_blind)

lemma safe_plain_devices [safe_intros]:
  "safe P (setVideo S def)" "safe P (graphicsListener S)" "safe P (setCmdlineArgs S def)" "safe P (setFirmware S def)"
  "safe P (setBootDevices S def)" "safe P (setConsoles S def)" "safe P (setTPMs S def)"
  "safe P (setFilesystems S def)" "safe P (setCoreOSIgnition S arch def)"
  unfolding setVideo_def graphicsListener_def setCmdlineArgs_def setFirmware_def setBootDevices_def
    setConsoles_def consoleAt_def consoleSource_def setTPMs_def tpmBackend_def setFilesystems_def
    filesystemAt_def setCoreOSIgnition_def
  by (intro safe_intros)+

lemma safe_setGraphics [safe_intros]: "safe P (setGraphics S arch def)"
  unfolding setGraphics_def by (intro safe_intros)

lemma safe_setCloudinit [safe_intros]:
  "admits P \<Longrightarrow> safe P (newDiskForCloudInit st k)" "admits P \<Longrightarrow> safe P (setCloudinit S st def)"
  unfolding setCloudinit_def newDiskForCloudInit_def by (intro safe_intros; simp add: event_names)+

end
