(* ===== verification/Domain_Disks.thy ===== *)
theory Domain_Disks
  imports Domain_Devices
begin

text \<open>
  \<open>setDisks\<close> and \<open>setNetworkInterfaces\<close> of \<open>domain.go\<close>.  The loop over the disks carries the
  numbers of ISO images and of SCSI disks met so far, from which the names of the targets are
  made.
\<close>

section \<open>Disks\<close>

definition driverType :: "string \<Rightarrow> DomainDisk \<Rightarrow> DomainDisk" where
  "driverType t disk = disk\<lparr>dk_Driver := map_option (\<lambda>d. d\<lparr>dr_Type := t\<rparr>) (dk_Driver disk)\<rparr>"

definition scsiDisk ::
  "('w, 'd, 'v) sdk \<Rightarrow> 'w domapi \<Rightarrow> string \<Rightarrow> nat \<Rightarrow> DomainDisk \<Rightarrow> (('w, 'd) prov, DomainDisk) prog" where
  "scsiDisk S D prf numOfSCSIs disk =
     bindP (dOptStr S (prf @ ''.wwn'')) (\<lambda>wwn.
     bindP (case wwn of Some x \<Rightarrow> ret x | None \<Rightarrow> randomWWN D 10) (\<lambda>w.
     ret (disk\<lparr>dk_Target := Some \<lparr>tg_Dev = ''sd'' @ diskLetterForIndex numOfSCSIs, tg_Bus = ''scsi''\<rparr>,
               dk_WWN := w\<rparr>)))"

definition volumeDisk ::
  "'w storage \<Rightarrow> string \<Rightarrow> DomainDisk \<Rightarrow> (('w, 'd) prov, DomainDisk) prog" where
  "volumeDisk st volumeKey disk =
     bindP (orFail (lookupVolByKey st volumeKey) (Wrapf ''can't retrieve volume %s: %w'' [SArg volumeKey])) (\<lambda>diskVolume.
     bindP (orFail (volCall ''StoragePoolLookupByVolume'' diskVolume (StoragePoolLookupByVolume st diskVolume))
              (\<lambda>_. Errorf ''can't retrieve pool for volume %s'' [SArg volumeKey])) (\<lambda>diskPool.
     bindP (newDefVolumeFromLibvirt st diskVolume) (\<lambda>volumeDef.
     let format = (case vol_Target volumeDef of None \<Rightarrow> None | Some t \<Rightarrow> Format t);
         disk1 = (if format = Some ''qcow2'' then disk\<lparr>dk_Driver := Some \<lparr>dr_Name = ''qemu'', dr_Type = ''qcow2''\<rparr>\<rparr>
                  else if format = Some ''raw'' then disk\<lparr>dk_Driver := Some rawDriver\<rparr>
                  else disk)
     in ret (disk1\<lparr>dk_Source := Some \<lparr>src_Network = None, src_Block = None, src_File = None,
               src_Volume = Some (sp_Name diskPool, sv_Name diskVolume)\<rparr>\<rparr>))))"

text \<open>An ISO image becomes an IDE CD-ROM.\<close>

definition isoDisk :: "nat \<Rightarrow> DomainDisk \<Rightarrow> DomainDisk" where
  "isoDisk numOfISOs disk = disk\<lparr>dk_Device := ''cdrom'',
     dk_Target := Some \<lparr>tg_Dev = ''hd'' @ diskLetterForIndex numOfISOs, tg_Bus = ''ide''\<rparr>\<rparr>"

definition urlDisk ::
  "'w domapi \<Rightarrow> string \<Rightarrow> nat \<Rightarrow> DomainDisk \<Rightarrow> (('w, 'd) prov, DomainDisk \<times> nat) prog" where
  "urlDisk D rawURL numOfISOs disk =
     bindP (liftSum (urlParseHost D rawURL)) (\<lambda>u.
     let disk1 = disk\<lparr>dk_Source := Some \<lparr>src_Network = Some \<lparr>dn_Protocol = uh_Scheme u, dn_Name = uh_Path u,
                   dn_Hosts = [\<lparr>hs_Name = uh_Hostname u, hs_Port = uh_Port u\<rparr>]\<rparr>,
                 src_Block = None, src_File = None, src_Volume = None\<rparr>\<rparr>;
         (disk2, n) = (if hasSuffix (uh_Path u) ''.iso''
           then ((isoDisk numOfISOs disk1)\<lparr>dk_Driver := Some \<lparr>dr_Name = ''qemu'', dr_Type = []\<rparr>\<rparr>, Suc numOfISOs)
           else (disk1, numOfISOs))
     in ret (if \<not> hasSuffix (uh_Path u) ''.qcow2'' then driverType ''raw'' disk2 else disk2, n))"

definition fileDisk :: "string \<Rightarrow> nat \<Rightarrow> DomainDisk \<Rightarrow> DomainDisk \<times> nat" where
  "fileDisk file numOfISOs disk =
     (let disk1 = disk\<lparr>dk_Source := Some (plainFile file)\<rparr>;
          (disk2, n) = (if hasSuffix file ''.iso''
            then ((isoDisk numOfISOs disk1)\<lparr>dk_Driver := Some rawDriver\<rparr>, Suc numOfISOs)
            else (disk1, numOfISOs))
      in (if \<not> hasSuffix file ''.qcow2'' then driverType ''raw'' disk2 else disk2, n))"

definition blockDisk :: "string \<Rightarrow> DomainDisk \<Rightarrow> DomainDisk" where
  "blockDisk dev disk = driverType ''raw'' (disk\<lparr>dk_Source := Some \<lparr>src_Network = None,
     src_Block = Some dev, src_File = None, src_Volume = None\<rparr>\<rparr>)"

text \<open>The source of disk \<open>i\<close>, with the number of ISO images after it.\<close>

definition diskSource ::
  "('w, 'd, 'v) sdk \<Rightarrow> 'w domapi \<Rightarrow> 'w storage \<Rightarrow> string \<Rightarrow> nat \<Rightarrow> DomainDisk
   \<Rightarrow> (('w, 'd) prov, DomainDisk \<times> nat) prog" where
  "diskSource S D st prf numOfISOs disk =
     bindP (dOptStr S (prf @ ''.volume_id'')) (\<lambda>volumeKey. case volumeKey of
       Some key \<Rightarrow> bindP (volumeDisk st key disk) (\<lambda>disk1. ret (disk1, numOfISOs))
     | None \<Rightarrow>
     bindP (dOptStr S (prf @ ''.url'')) (\<lambda>rawURL. case rawURL of
       Some u \<Rightarrow> urlDisk D u numOfISOs disk
     | None \<Rightarrow>
     bindP (dOptStr S (prf @ ''.file'')) (\<lambda>file. case file of
       Some f \<Rightarrow> ret (fileDisk f numOfISOs disk)
     | None \<Rightarrow>
     bindP (dOptStr S (prf @ ''.block_device'')) (\<lambda>blockDev. case blockDev of
       Some dev \<Rightarrow> ret (blockDisk dev disk, numOfISOs)
     | None \<Rightarrow> ret (disk, numOfISOs)))))"

definition diskAt ::
  "('w, 'd, 'v) sdk \<Rightarrow> 'w domapi \<Rightarrow> 'w storage \<Rightarrow> nat \<Rightarrow> nat \<Rightarrow> nat
   \<Rightarrow> (('w, 'd) prov, DomainDisk \<times> nat \<times> nat) prog" where
  "diskAt S D st numOfISOs numOfSCSIs i =
     (let prf = block ''disk'' i in
      bindP (dBool S (prf @ ''.scsi'')) (\<lambda>scsi.
      bindP (if scsi then scsiDisk S D prf numOfSCSIs (newDefDisk i) else ret (newDefDisk i)) (\<lambda>disk.
      bindP (diskSource S D st prf numOfISOs disk) (\<lambda>(disk1, isos).
      ret (disk1, isos, if scsi then Suc numOfSCSIs else numOfSCSIs)))))"

fun disksLoop ::
  "('w, 'd, 'v) sdk \<Rightarrow> 'w domapi \<Rightarrow> 'w storage \<Rightarrow> nat \<Rightarrow> nat \<Rightarrow> nat list
   \<Rightarrow> (('w, 'd) prov, DomainDisk list \<times> nat) prog" where
  "disksLoop S D st isos scsis [] = ret ([], scsis)"
| "disksLoop S D st isos scsis (i # is) =
     bindP (diskAt S D st isos scsis i) (\<lambda>(disk, isos1, scsis1).
     bindP (disksLoop S D st isos1 scsis1 is) (\<lambda>(disks, n).
     ret (disk # disks, n)))"

definition setDisks ::
  "('w, 'd, 'v) sdk \<Rightarrow> 'w domapi \<Rightarrow> 'w storage \<Rightarrow> DomainXML \<Rightarrow> (('w, 'd) prov, DomainXML) prog" where
  "setDisks S D st def =
     bindP (dInt S ''disk.#'') (\<lambda>n.
     bindP (disksLoop S D st 0 0 [0..<nat n]) (\<lambda>(disks, scsis).
     ret (def\<lparr>dx_Disks := dx_Disks def @ disks,
              dx_Controllers := dx_Controllers def @ (if 0 < scsis then [(''scsi'', ''virtio-scsi'')] else [])\<rparr>)))"

section \<open>Network interfaces\<close>

record pendingMapping =
  pm_mac :: string
  pm_hostname :: string
  pm_networkName :: string

definition ifaceMAC ::
  "('w, 'd, 'v) sdk \<Rightarrow> 'w domapi \<Rightarrow> string \<Rightarrow> (('w, 'd) prov, string) prog" where
  "ifaceMAC S D prf =
     bindP (dOptStr S (prf @ ''.mac'')) (\<lambda>mac. case mac of
       Some m \<Rightarrow> ret (strToUpper m)
     | None \<Rightarrow>
         bindP (attempt (call ''rand.Read'' [] (randRead D))) (\<lambda>r.
         orFail (liftSum (randomMACAddress r)) (Wrapf ''error generating mac address: %w'' [])))"

text \<open>The network, when the interface has one, and the source of the other kinds of interface.\<close>

definition directSource :: "string \<Rightarrow> string \<Rightarrow> IfaceSource" where
  "directSource dev mode = \<lparr>is_Network = None, is_Bridge = None, is_Direct = Some (dev, mode)\<rparr>"

definition ifaceConnection ::
  "('w, 'd, 'v) sdk \<Rightarrow> 'w runtime \<Rightarrow> 'w domapi \<Rightarrow> 'w netapi \<Rightarrow> string
   \<Rightarrow> (('w, 'd) prov, Network option \<times> IfaceSource option) prog" where
  "ifaceConnection S R D A prf =
     bindP (dOptStr S (prf @ ''.network_name'')) (\<lambda>networkName. case networkName of
       Some name \<Rightarrow>
         bindP (orFail (call ''NetworkLookupByName'' [name] (NetworkLookupByName D name))
                  (\<lambda>_. Errorf (''can't retrieve network '%s'' @ [CHR 0x27]) [SArg name])) (\<lambda>network.
         ret (Some network, None))
     | None \<Rightarrow>
     bindP (dOptStr S (prf @ ''.network_id'')) (\<lambda>networkUUID. case networkUUID of
       Some i \<Rightarrow>
         bindP (parseUUID R i) (\<lambda>uuid.
         bindP (orFail (lookupNetworkByUUID A uuid)
                  (\<lambda>_. Errorf ''can't retrieve network ID %s'' [SArg i])) (\<lambda>network.
         ret (Some network, None)))
     | None \<Rightarrow>
     bindP (dOptStr S (prf @ ''.bridge'')) (\<lambda>bridge. case bridge of
       Some b \<Rightarrow> ret (None, Some \<lparr>is_Network = None, is_Bridge = Some b, is_Direct = None\<rparr>)
     | None \<Rightarrow>
     bindP (dOptStr S (prf @ ''.vepa'')) (\<lambda>vepa. case vepa of
       Some dev \<Rightarrow> ret (None, Some (directSource dev ''vepa''))
     | None \<Rightarrow>
     bindP (dOptStr S (prf @ ''.macvtap'')) (\<lambda>macvtap. case macvtap of
       Some dev \<Rightarrow> ret (None, Some (directSource dev ''bridge''))
     | None \<Rightarrow>
     bindP (dOptStr S (prf @ ''.passthrough'')) (\<lambda>passthrough. case passthrough of
       Some dev \<Rightarrow> ret (None, Some (directSource dev ''passthrough''))
     | None \<Rightarrow> ret (None, None)))))))"

text \<open>
  The host entries of a network with DHCP, and the mapping that has to wait for a lease.  A network
  whose XML cannot be read is taken for an empty definition, which counts as one with DHCP; the
  error is reported only where the code looks at it.
\<close>

definition ifaceHosts ::
  "('w, 'd, 'v) sdk \<Rightarrow> 'w netapi \<Rightarrow> string \<Rightarrow> string \<Rightarrow> string \<Rightarrow> bool \<Rightarrow> Network
   \<Rightarrow> (('w, 'd) prov, pendingMapping option) prog" where
  "ifaceHosts S A domainName prf mac wait network =
     bindP (attempt (getXMLNetworkDefFromLibvirt A network)) (\<lambda>r.
     if \<not> HasDHCP (case r of Inl _ \<Rightarrow> zeroNetwork | Inr def \<Rightarrow> def) then ret None
     else
       bindP (dOptStr S (prf @ ''.hostname'')) (\<lambda>hostnameI.
       let hostname = (case hostnameI of Some h \<Rightarrow> h | None \<Rightarrow> domainName)
       in bindP (dGetOk S (prf @ ''.addresses'')) (\<lambda>addresses. case addresses of
            Some v \<Rightarrow>
              bindP (assertList v) (\<lambda>as.
              bindP (forP as (\<lambda>addressI.
                bindP (assertStr addressI) (\<lambda>address. case ParseIP address of
                  None \<Rightarrow> throw (Errorf (''could not parse addresses '%s'' @ [CHR 0x27]) [SArg address])
                | Some ip \<Rightarrow> updateOrAddHost A network (ipString ip) mac hostname))) (\<lambda>_.
              ret None))
          | None \<Rightarrow>
              if \<not> wait then ret None
              else (case r of
                 Inl err \<Rightarrow> throw err
               | Inr _ \<Rightarrow> ret (Some \<lparr>pm_mac = strToUpper mac, pm_hostname = hostname,
                            pm_networkName = nw_Name network\<rparr>)))))"

definition ifaceAt ::
  "('w, 'd, 'v) sdk \<Rightarrow> 'w runtime \<Rightarrow> 'w domapi \<Rightarrow> 'w netapi \<Rightarrow> string \<Rightarrow> nat
   \<Rightarrow> (('w, 'd) prov, DomainIface \<times> bool \<times> pendingMapping option) prog" where
  "ifaceAt S R D A domainName i =
     (let prf = block ''network_interface'' i in
      bindP (ifaceMAC S D prf) (\<lambda>mac.
      bindP (dGetOk S (prf @ ''.wait_for_lease'')) (\<lambda>w.
      bindP (case w of None \<Rightarrow> ret False | Some v \<Rightarrow> assertBool v) (\<lambda>wait.
      bindP (ifaceConnection S R D A prf) (\<lambda>(network, source).
      let iface = \<lparr>if_Model = ''virtio'', if_MAC = Some mac, if_Source = source\<rparr> in
      case network of
        None \<Rightarrow> ret (iface, wait, None)
      | Some nw \<Rightarrow>
          if nw_Name nw = [] then ret (iface, wait, None)
          else
            bindP (ifaceHosts S A domainName prf mac wait nw) (\<lambda>pending.
            ret (iface\<lparr>if_Source := Some \<lparr>is_Network = Some (nw_Name nw), is_Bridge = None, is_Direct = None\<rparr>\<rparr>,
                 wait, pending)))))))"

text \<open>
  The definition, the interfaces to wait for, and the map of pending mappings by MAC address (the
  latest entry first).
\<close>

definition setNetworkInterfaces ::
  "('w, 'd, 'v) sdk \<Rightarrow> 'w runtime \<Rightarrow> 'w domapi \<Rightarrow> 'w netapi \<Rightarrow> DomainXML
   \<Rightarrow> (('w, 'd) prov, DomainXML \<times> DomainIface list \<times> (string \<times> pendingMapping) list) prog" where
  "setNetworkInterfaces S R D A def =
     bindP (dInt S ''network_interface.#'') (\<lambda>n.
     bindP (mapP (ifaceAt S R D A (dx_Name def)) [0..<nat n]) (\<lambda>rs.
     ret (def\<lparr>dx_Interfaces := dx_Interfaces def @ map fst rs\<rparr>,
          map fst (filter (\<lambda>(_, wait, _). wait) rs),
          rev (map (\<lambda>p. (pm_mac p, p)) (concat (map (\<lambda>(_, _, p). case p of None \<Rightarrow> [] | Some x \<Rightarrow> [x]) rs))))))"

section \<open>The discipline\<close>

lemma safe_diskAt [safe_intros]: "admits P \<Longrightarrow> safe P (diskAt S D st n k i)"
  unfolding diskAt_def diskSource_def scsiDisk_def volumeDisk_def urlDisk_def
  by (intro safe_intros) (simp_all add: event_names)

lemma safe_disksLoop [safe_intros]: "admits P \<Longrightarrow> safe P (disksLoop S D st n k is)"
  by (induction "is" arbitrary: n k) (auto intro!: safe_intros)

lemma safe_setDisks [safe_intros]: "admits P \<Longrightarrow> safe P (setDisks S D st def)"
  unfolding setDisks_def by (intro safe_intros)

lemma safe_ifaceAt [safe_intros]:
  "admits P \<Longrightarrow> admits_call ''NetworkUpdate'' P \<Longrightarrow> safe P (ifaceAt S R D A name i)"
  unfolding ifaceAt_def ifaceMAC_def ifaceConnection_def ifaceHosts_def
  by (intro safe_intros) (simp_all add: event_names)

lemma safe_setNetworkInterfaces [safe_intros]:
  "admits P \<Longrightarrow> admits_call ''NetworkUpdate'' P \<Longrightarrow> safe P (setNetworkInterfaces S R D A def)"
  unfolding setNetworkInterfaces_def by (intro safe_intros)

end
