(* ===== verification/Domain_Resource.thy ===== *)
theory Domain_Resource
  imports Domain_Disks
begin

text \<open>
  \<open>resource_libvirt_domain.go\<close>: the handlers of \<open>libvirt_domain\<close>.  \<open>Create\<close> makes up the whole
  definition, defines and starts the domain, waits for leases, reads the domain back and adds the
  host entries that had to wait; \<open>Read\<close> turns the definition of the daemon into resource data.
\<close>

section \<open>Read\<close>

definition optField :: "string \<Rightarrow> string \<Rightarrow> (string \<times> tfval) list" where
  "optField k v = (if v \<noteq> [] then [(k, TStr v)] else [])"

definition cmdmapTF :: "cmdmap \<Rightarrow> tfval" where
  "cmdmapTF m = TMap (map (\<lambda>(k, v). (k, TStr v)) m)"

definition memoryMiB :: "DomainMemory \<Rightarrow> goerror + uint64" where
  "memoryMiB m =
     (if mem_Unit m = ''KiB'' then Inr (mem_Value m div 1024)
      else if mem_Unit m = ''MiB'' then Inr (mem_Value m)
      else Inl (Errorf ''invalid memory unit : %s'' [SArg (mem_Unit m)]))"

text \<open>The attributes up to the firmware, the NVRAM and the CPU.\<close>

definition readSizes :: "('w, 'd, 'v) sdk \<Rightarrow> DomainXML \<Rightarrow> (('w, 'd) prov, unit) prog" where
  "readSizes S domainDef =
     bindP (dSet S ''name'' (TStr (dx_Name domainDef))) (\<lambda>_.
     bindP (dSet S ''description'' (TStr (dx_Description domainDef))) (\<lambda>_.
     bindP (deref (dx_VCPU domainDef)) (\<lambda>vcpu.
     bindP (dSet S ''vcpu'' (TInt (uint (vc_Value vcpu)))) (\<lambda>_.
     bindP (deref (dx_Memory domainDef)) (\<lambda>memory.
     bindP (liftSum (memoryMiB memory)) (\<lambda>mib.
     dSet S ''memory'' (TInt (uint mib))))))))"

definition readFirmware :: "('w, 'd, 'v) sdk \<Rightarrow> DomainXML \<Rightarrow> (('w, 'd) prov, unit) prog" where
  "readFirmware S domainDef =
     bindP (case os_Loader (dx_OS domainDef) of
        None \<Rightarrow> ret () | Some l \<Rightarrow> dSet S ''firmware'' (TStr (ld_Path l))) (\<lambda>_.
     bindP (case os_NVRam (dx_OS domainDef) of
        None \<Rightarrow> ret ()
      | Some nv \<Rightarrow> dSet S ''nvram'' (TList [TMap (optField ''file'' (nv_File nv) @ optField ''template'' (nv_Template nv))])) (\<lambda>_.
     case dx_CPU domainDef of
        None \<Rightarrow> ret ()
      | Some mode \<Rightarrow> if mode \<noteq> [] then dSet S ''cpu'' (TList [TMap [(''mode'', TStr mode)]]) else ret ()))"

definition readBoot :: "('w, 'd, 'v) sdk \<Rightarrow> DomainXML \<Rightarrow> bool \<Rightarrow> (('w, 'd) prov, unit) prog" where
  "readBoot S domainDef domainRunningNow =
     bindP (dSet S ''arch'' (TStr (os_Arch (dx_OS domainDef)))) (\<lambda>_.
     bindP (dSet S ''running'' (TBool domainRunningNow)) (\<lambda>_.
     bindP (dSet S ''cmdline'' (TList (map cmdmapTF (splitKernelCmdLine (os_Cmdline (dx_OS domainDef)))))) (\<lambda>_.
     bindP (dSet S ''kernel'' (TStr (os_Kernel (dx_OS domainDef)))) (\<lambda>_.
     dSet S ''initrd'' (TStr (os_Initrd (dx_OS domainDef)))))))"

definition readMachine :: "('w, 'd, 'v) sdk \<Rightarrow> 'w domapi \<Rightarrow> DomainXML \<Rightarrow> (('w, 'd) prov, unit) prog" where
  "readMachine S D domainDef =
     bindP (getHostCapabilities D) (\<lambda>caps.
     bindP (liftSum (getOriginalMachineName caps (os_Arch (dx_OS domainDef)) (os_Type (dx_OS domainDef))
              (os_Machine (dx_OS domainDef)))) (\<lambda>machine.
     bindP (dSet S ''machine'' (TStr machine)) (\<lambda>_.
     dSet S ''emulator'' (TStr (dx_Emulator domainDef)))))"

definition volumeBlock :: "StorageVol \<Rightarrow> (string \<times> tfval) list" where
  "volumeBlock v = [(''volume_id'', TStr (sv_Key v))]"

text \<open>The block of a disk from its source, \<open>None\<close> for the disk of the cloud-init resource.\<close>

definition diskSourceBlock ::
  "'w domapi \<Rightarrow> 'w storage \<Rightarrow> DomainDisk \<Rightarrow> (('w, 'd) prov, (string \<times> tfval) list option) prog" where
  "diskSourceBlock D st diskDef =
     bindP (deref (dk_Source diskDef)) (\<lambda>source. case src_Network source of
       Some network \<Rightarrow> (case dn_Hosts network of
           [] \<Rightarrow> throw (Errorf ''network disk does not contain any hosts'' [])
         | host # _ \<Rightarrow>
             bindP (liftSum (urlNormal D (dn_Protocol network @ ''://'' @ hs_Name host @ '':'' @ hs_Port host
                      @ dn_Name network))) (\<lambda>u.
             ret (Some [(''url'', TStr u)])))
     | None \<Rightarrow>
         if dk_Device diskDef = ''cdrom'' then
           (if dk_Serial diskDef = ''cloudinit'' then ret None
            else bindP (deref (src_File source)) (\<lambda>f. ret (Some [(''file'', TStr f)])))
         else (case src_Block source of
             Some dev \<Rightarrow> ret (Some [(''block_device'', TStr dev)])
           | None \<Rightarrow> (case src_File source of
               Some f \<Rightarrow>
                 bindP (orFail (call ''StorageVolLookupByPath'' [f] (StorageVolLookupByPath D f))
                          (\<lambda>err. Errorf ''error retrieving volume for disk: %s'' [EArg err])) (\<lambda>virVol.
                 ret (Some (volumeBlock virVol)))
             | None \<Rightarrow>
                 bindP (deref (src_Volume source)) (\<lambda>(poolName, volName).
                 bindP (orFail (call ''StoragePoolLookupByName'' [poolName] (StoragePoolLookupByName st poolName))
                          (\<lambda>err. Errorf ''error retrieving pool for disk: %s'' [EArg err])) (\<lambda>pool.
                 bindP (orFail (call ''StorageVolLookupByName'' [sp_Name pool, volName]
                                  (StorageVolLookupByName st pool volName))
                          (\<lambda>err. Errorf ''error retrieving volume for disk: %s'' [EArg err])) (\<lambda>virVol.
                 ret (Some (volumeBlock virVol))))))))"

definition diskBlock ::
  "'w domapi \<Rightarrow> 'w storage \<Rightarrow> DomainDisk \<Rightarrow> (('w, 'd) prov, tfval list) prog" where
  "diskBlock D st diskDef =
     bindP (diskSourceBlock D st diskDef) (\<lambda>b. case b of
       None \<Rightarrow> ret []
     | Some disk \<Rightarrow> ret [TMap (disk @
         (if (case dk_Target diskDef of Some t \<Rightarrow> tg_Bus t = ''scsi'' | None \<Rightarrow> False)
          then [(''scsi'', TBool True), (''wwn'', TStr (dk_WWN diskDef))]
          else [(''scsi'', TBool False)]))])"

text \<open>The read-only flag is stored as the pointer it is in the definition: nil, or an empty structure.\<close>

definition filesystemBlock :: "DomainFilesystem \<Rightarrow> (('w, 'd) prov, tfval) prog" where
  "filesystemBlock fsDef =
     bindP (deref (fs_Source fsDef)) (\<lambda>source.
     bindP (deref (fs_Target fsDef)) (\<lambda>target.
     ret (TMap [(''accessmode'', TStr (fs_AccessMode fsDef)), (''source'', TStr source),
       (''target'', TStr target), (''readonly'', if fs_ReadOnly fsDef then TMap [] else TNil)])))"

definition addressesForMac :: "IfaceAddrs list \<Rightarrow> string \<Rightarrow> string list" where
  "addressesForMac ifacesWithAddr mac = concat (map (\<lambda>a. case ia_Hwaddr a of
      h # _ \<Rightarrow> if strToUpper h = mac then ia_Addrs a else []
    | [] \<Rightarrow> []) ifacesWithAddr)"

definition hostForMac :: "NetworkXML \<Rightarrow> string \<Rightarrow> NetworkDHCPHost option" where
  "hostForMac networkDef mac = find (\<lambda>h. strToUpper (MAC h) = mac)
     (concat (map (\<lambda>ip. case DHCP ip of Some dhcp \<Rightarrow> DHCPHosts dhcp | None \<Rightarrow> []) (net_IPs networkDef)))"

text \<open>The fields of the block that its source sets.\<close>

definition ifaceSourceBlock ::
  "'w runtime \<Rightarrow> 'w domapi \<Rightarrow> 'w netapi \<Rightarrow> string \<Rightarrow> string \<Rightarrow> IfaceSource
   \<Rightarrow> (('w, 'd) prov, (string \<times> tfval) list) prog" where
  "ifaceSourceBlock R D A mac hostname source = (case is_Network source of
      Some name \<Rightarrow>
        bindP (orFail (call ''NetworkLookupByName'' [name] (NetworkLookupByName D name))
                 (\<lambda>_. Errorf (''can't retrieve network ID for '%s'' @ [CHR 0x27]) [SArg name])) (\<lambda>network.
        bindP (getXMLNetworkDefFromLibvirt A network) (\<lambda>networkDef.
        let host = (if HasDHCP networkDef then hostForMac networkDef mac else None)
        in ret [(''network_id'', TStr (uuidString R (nw_UUID network))), (''network_name'', TStr name),
             (''hostname'', TStr (case host of Some h \<Rightarrow> HostName h | None \<Rightarrow> hostname))]))
    | None \<Rightarrow> (case is_Bridge source of
        Some b \<Rightarrow> ret [(''bridge'', TStr b)]
      | None \<Rightarrow> (case is_Direct source of
          None \<Rightarrow> ret []
        | Some (dev, mode) \<Rightarrow> ret
            (if mode = ''vepa'' then [(''vepa'', TStr dev)]
             else if mode = ''bridge'' then [(''macvtap'', TStr dev)]
             else if mode = ''passthrough'' then [(''passthrough'', TStr dev)] else []))))"

definition ifaceBlock ::
  "('w, 'd, 'v) sdk \<Rightarrow> 'w runtime \<Rightarrow> 'w domapi \<Rightarrow> 'w netapi \<Rightarrow> IfaceAddrs list \<Rightarrow> nat \<times> DomainIface
   \<Rightarrow> (('w, 'd) prov, tfval) prog" where
  "ifaceBlock S R D A ifacesWithAddr x = (case x of (i, ifaceDef) \<Rightarrow>
     let prf = block ''network_interface'' i in
     bindP (deref (if_MAC ifaceDef)) (\<lambda>address.
     let mac = strToUpper address in
     bindP (dBool S (prf @ ''.wait_for_lease'')) (\<lambda>wait.
     bindP (dStr S (prf @ ''.hostname'')) (\<lambda>hostname.
     bindP (deref (if_Source ifaceDef)) (\<lambda>source.
     bindP (ifaceSourceBlock R D A mac hostname source) (\<lambda>fields.
     ret (TMap (foldl (\<lambda>m (k, v). setKey k v m)
       [(''network_id'', TStr []), (''network_name'', TStr []), (''bridge'', TStr []), (''vepa'', TStr []),
        (''macvtap'', TStr []), (''passthrough'', TStr []), (''mac'', TStr mac), (''hostname'', TStr hostname),
        (''wait_for_lease'', TBool wait),
        (''addresses'', TList (map TStr (addressesForMac ifacesWithAddr mac)))] fields)))))))) "

definition setUnlessEmpty :: "('w, 'd, 'v) sdk \<Rightarrow> string \<Rightarrow> tfval list \<Rightarrow> (('w, 'd) prov, unit) prog" where
  "setUnlessEmpty S k xs = (if xs \<noteq> [] then dSet S k (TList xs) else ret ())"

text \<open>The connection information is the first address of the first interface; without one the
  index panics.\<close>

definition connInfo :: "('w, 'd, 'v) sdk \<Rightarrow> IfaceAddrs list \<Rightarrow> (('w, 'd) prov, unit) prog" where
  "connInfo S ifacesWithAddr = (case ifacesWithAddr of
      [] \<Rightarrow> ret ()
    | a # _ \<Rightarrow> (case ia_Addrs a of
        [] \<Rightarrow> panic ''index out of range''
      | addr # _ \<Rightarrow> updS (\<lambda>s. s\<lparr>rdata := sdSetConnInfo S [(''type'', ''ssh''), (''host'', addr)] (rdata s)\<rparr>)))"

definition readDevices ::
  "('w, 'd, 'v) sdk \<Rightarrow> 'w runtime \<Rightarrow> 'w domapi \<Rightarrow> 'w netapi \<Rightarrow> 'w storage \<Rightarrow> Domain \<Rightarrow> DomainXML
   \<Rightarrow> (('w, 'd) prov, unit) prog" where
  "readDevices S R D A st domain domainDef =
     bindP (mapP (diskBlock D st) (dx_Disks domainDef)) (\<lambda>disks.
     bindP (setUnlessEmpty S ''disk'' (concat disks)) (\<lambda>_.
     bindP (mapP filesystemBlock (dx_Filesystems domainDef)) (\<lambda>filesystems.
     bindP (setUnlessEmpty S ''filesystem'' filesystems) (\<lambda>_.
     bindP (orFail (domainGetIfacesInfo S D domain)
              (\<lambda>err. Errorf ''error retrieving interface addresses: %s'' [EArg err])) (\<lambda>ifacesWithAddr.
     bindP (mapP (ifaceBlock S R D A ifacesWithAddr) (zip [0..<length (dx_Interfaces domainDef)] (dx_Interfaces domainDef)))
       (\<lambda>netIfaces.
     bindP (setUnlessEmpty S ''network_interface'' netIfaces) (\<lambda>_.
     connInfo S ifacesWithAddr)))))))"

definition resourceLibvirtDomainRead ::
  "('w, 'd, 'v) sdk \<Rightarrow> 'w runtime \<Rightarrow> 'w domapi \<Rightarrow> 'w netapi \<Rightarrow> 'w storage \<Rightarrow> (('w, 'd) prov, unit) prog" where
  "resourceLibvirtDomainRead S R D A st = requireConn (
     bindP (dId S) (\<lambda>i.
     bindP (parseUUID R i) (\<lambda>uuid.
     bindP (attempt (call ''DomainLookupByUUID'' [uuid] (DomainLookupByUUID D uuid))) (\<lambda>r. case r of
       Inl err \<Rightarrow>
         if isError err ErrNoDomain then dSetId S []
         else throw (Errorf ''error retrieving libvirt domain: %s'' [EArg err])
     | Inr domain \<Rightarrow>
         bindP (orFail (domCall ''DomainGetXMLDesc'' domain (DomainGetXMLDesc D domain 0))
                  (\<lambda>err. Errorf ''error retrieving libvirt domain XML description: %s'' [EArg err])) (\<lambda>xmlDesc.
         bindP (newDomainDefForConnection S D) (\<lambda>def0.
         bindP (orFail (liftSum (domDecode D def0 xmlDesc))
                  (\<lambda>err. Errorf ''error reading libvirt domain XML description: %s'' [EArg err])) (\<lambda>domainDef.
         bindP (orFail (domCall ''DomainGetAutostart'' domain (DomainGetAutostart D domain))
                  (\<lambda>err. Errorf ''error reading domain autostart setting: %s'' [EArg err])) (\<lambda>autostart.
         bindP (dSet S ''autostart'' (TBool (autostart > 0))) (\<lambda>_.
         bindP (orFail (domainIsRunning D domain)
                  (\<lambda>err. Errorf ''error reading domain running state : %s'' [EArg err])) (\<lambda>domainRunningNow.
         bindP (readSizes S domainDef) (\<lambda>_.
         bindP (readFirmware S domainDef) (\<lambda>_.
         bindP (readBoot S domainDef domainRunningNow) (\<lambda>_.
         bindP (readMachine S D domainDef) (\<lambda>_.
         readDevices S R D A st domain domainDef))))))))))))))"

end
