(* ===== verification/Domain_Handlers.thy ===== *)
theory Domain_Handlers
  imports Domain_Resource
begin

text \<open>
  \<open>Create\<close>, \<open>Update\<close> and \<open>Delete\<close> of \<open>resource_libvirt_domain.go\<close>, and the locking discipline of
  the domain handlers.
\<close>

section \<open>Create\<close>

text \<open>The attributes that are copied into the definition.\<close>

definition domainBasics ::
  "('w, 'd, 'v) sdk \<Rightarrow> DomainXML \<Rightarrow> (('w, 'd) prov, DomainXML) prog" where
  "domainBasics S def =
     bindP (dOptStr S ''name'') (\<lambda>name.
     bindP (dOptStr S ''cpu.0.mode'') (\<lambda>cpuMode.
     bindP (dInt S ''memory'') (\<lambda>memory.
     bindP (dInt S ''vcpu'') (\<lambda>vcpu.
     bindP (dStr S ''description'') (\<lambda>description.
     bindP (dStr S ''kernel'') (\<lambda>kernel.
     bindP (dStr S ''initrd'') (\<lambda>initrd.
     bindP (dStr S ''arch'') (\<lambda>arch.
     bindP (dStr S ''machine'') (\<lambda>machine.
     bindP (dStr S ''emulator'') (\<lambda>emulator.
     ret (def\<lparr>
       dx_Name := (case name of Some n \<Rightarrow> n | None \<Rightarrow> dx_Name def),
       dx_CPU := (case cpuMode of Some m \<Rightarrow> Some m | None \<Rightarrow> dx_CPU def),
       dx_Memory := Some \<lparr>mem_Value = uint64_of_int memory, mem_Unit = ''MiB''\<rparr>,
       dx_VCPU := Some \<lparr>vc_Value = uint64_of_int vcpu, vc_Placement = []\<rparr>,
       dx_Description := description,
       dx_OS := (dx_OS def)\<lparr>os_Kernel := kernel, os_Initrd := initrd, os_Arch := arch, os_Machine := machine\<rparr>,
       dx_Emulator := emulator\<rparr>)))))))))))"

text \<open>The devices, in the order of the code; \<open>arch\<close> is the architecture of the host.\<close>

definition domainDevices ::
  "('w, 'd, 'v) sdk \<Rightarrow> 'w domapi \<Rightarrow> 'w storage \<Rightarrow> string \<Rightarrow> DomainXML \<Rightarrow> (('w, 'd) prov, DomainXML) prog" where
  "domainDevices S D st arch def =
     bindP (setGraphics S arch def) (\<lambda>d1.
     bindP (setVideo S d1) (\<lambda>d2.
     bindP (setConsoles S d2) (\<lambda>d3.
     bindP (setCmdlineArgs S d3) (\<lambda>d4.
     bindP (setFirmware S d4) (\<lambda>d5.
     bindP (setBootDevices S d5) (\<lambda>d6.
     bindP (setTPMs S d6) (\<lambda>d7.
     bindP (setCoreOSIgnition S arch d7) (\<lambda>d8.
     bindP (setDisks S D st d8) (\<lambda>d9.
     bindP (setFilesystems S d9) (\<lambda>d10.
     setCloudinit S st d10))))))))))"

definition domainDefinition ::
  "('w, 'd, 'v) sdk \<Rightarrow> 'w runtime \<Rightarrow> 'w domapi \<Rightarrow> 'w netapi \<Rightarrow> 'w storage
   \<Rightarrow> (('w, 'd) prov, DomainXML \<times> DomainIface list \<times> (string \<times> pendingMapping) list) prog" where
  "domainDefinition S R D A st =
     bindP (newDomainDefForConnection S D) (\<lambda>def0.
     bindP (domainBasics S def0) (\<lambda>def1.
     bindP (orFail (getHostArchitecture D)
              (\<lambda>err. Errorf ''error retrieving host architecture: %s'' [EArg err])) (\<lambda>arch.
     bindP (domainDevices S D st arch def1) (\<lambda>def2.
     setNetworkInterfaces S R D A def2))))"

text \<open>The host entries that had to wait for a lease; nothing that fails here is reported.\<close>

definition addPendingHosts ::
  "('w, 'd, 'v) sdk \<Rightarrow> 'w domapi \<Rightarrow> 'w netapi \<Rightarrow> (string \<times> pendingMapping) list \<Rightarrow> nat
   \<Rightarrow> (('w, 'd) prov, unit) prog" where
  "addPendingHosts S D A pending i =
     (let prf = block ''network_interface'' i in
      bindP (dStr S (prf @ ''.mac'')) (\<lambda>m.
      let mac = strToUpper m in case map_of pending mac of
        None \<Rightarrow> ret ()
      | Some p \<Rightarrow>
          bindP (dGetOk S (prf @ ''.addresses'')) (\<lambda>addresses. case addresses of
            None \<Rightarrow> ret ()
          | Some v \<Rightarrow>
              bindP (attempt (call ''NetworkLookupByName'' [pm_networkName p] (NetworkLookupByName D (pm_networkName p))))
                (\<lambda>r. case r of
                  Inl _ \<Rightarrow> ret ()
                | Inr network \<Rightarrow>
                    bindP (assertList v) (\<lambda>as.
                    forP as (\<lambda>addressI.
                      bindP (assertStr addressI) (\<lambda>address.
                      bindP (attempt (updateOrAddHost A network address mac (pm_hostname p))) (\<lambda>_. ret ()))))))))"

definition autostartInt :: "bool \<Rightarrow> int" where
  "autostartInt b = (if b then 1 else 0)"

text \<open>From the XML to the running domain with its id.\<close>

definition startDomain ::
  "('w, 'd, 'v) sdk \<Rightarrow> 'w runtime \<Rightarrow> 'w domapi \<Rightarrow> string \<Rightarrow> (('w, 'd) prov, Domain) prog" where
  "startDomain S R D data =
     bindP (orFail (call ''DomainDefineXML'' [data] (DomainDefineXML D data))
              (\<lambda>err. Errorf ''error defining libvirt domain: %s'' [EArg err])) (\<lambda>domain.
     bindP (dGetOk S ''autostart'') (\<lambda>autostart.
     bindP (case autostart of
        None \<Rightarrow> ret ()
      | Some v \<Rightarrow> bindP (assertBool v) (\<lambda>b.
          orFail (domCall ''DomainSetAutostart'' domain (DomainSetAutostart D domain (autostartInt b)))
            (\<lambda>err. Errorf ''error setting autostart for domain: %s'' [EArg err]))) (\<lambda>_.
     bindP (orFail (domCall ''DomainCreate'' domain (DomainCreate D domain))
              (\<lambda>err. Errorf ''error creating libvirt domain: %s'' [EArg err])) (\<lambda>_.
     bindP (dSetId S (uuidString R (dm_UUID domain))) (\<lambda>_.
     ret domain)))))"

definition ipNotFoundMsg :: string where
  "ipNotFoundMsg = ''Please check following: '' @ [nl] @
     ''1) is the domain running proplerly? '' @ [nl] @
     ''2) has the network interface an IP address? '' @ [nl] @
     ''3) Networking issues on your libvirt setup? '' @ [nl] @
     '' 4) is DHCP enabled on this Domain's network? '' @ [nl] @
     ''5) if you use bridge network, the domain should have the pkg qemu-agent installed '' @ [nl] @
     ''IMPORTANT: This error is not a terraform libvirt-provider error, but an error caused by '' @
     ''your KVM/libvirt infrastructure configuration/setup''"

definition resourceLibvirtDomainCreate ::
  "('w, 'd, 'v) sdk \<Rightarrow> 'w runtime \<Rightarrow> 'w xslt_io \<Rightarrow> 'w domapi \<Rightarrow> 'w netapi \<Rightarrow> 'w storage
   \<Rightarrow> (('w, 'd) prov, unit) prog" where
  "resourceLibvirtDomainCreate S R x D A st = requireConn (
     bindP (domainDefinition S R D A st) (\<lambda>(domainDef, waitForLeases, partialNetIfaces).
     bindP (orFail (call ''ConnectGetUri'' [] (ConnectGetUri D))
              (\<lambda>err. Errorf ''error retrieving libvirt connection URI: %s'' [EArg err])) (\<lambda>_.
     bindP (orFail (liftSum (xmlMarshallIndented (domEncode D) domainDef))
              (\<lambda>err. Errorf ''error serializing libvirt domain: %s'' [EArg err])) (\<lambda>xml.
     bindP (orFail (transformResourceXML S x xml)
              (\<lambda>err. Errorf ''error applying XSLT stylesheet: %s'' [EArg err])) (\<lambda>data.
     bindP (startDomain S R D data) (\<lambda>domain.
     bindP (if waitForLeases \<noteq> [] then
              bindP (getS (\<lambda>s. (sdTimeoutCreate S (rdata s), sdId S (rdata s)))) (\<lambda>(timeout, i).
              orFail (domainWaitForLeases S D domain waitForLeases timeout)
                (\<lambda>err. Errorf (''couldn't retrieve IP address of domain id: %s. %s '' @ [nl] @ '' %s'')
                   [SArg i, SArg ipNotFoundMsg, EArg err]))
            else ret ()) (\<lambda>_.
     bindP (getS (\<lambda>s. sdGet S (rdata s) ''running'')) (\<lambda>requiredStatus.
     bindP (resourceLibvirtDomainRead S R D A st) (\<lambda>_.
     bindP (dSet S ''running'' requiredStatus) (\<lambda>_.
     bindP (dInt S ''network_interface.#'') (\<lambda>n.
     bindP (forP [0..<nat n] (addPendingHosts S D A partialNetIfaces)) (\<lambda>_.
     destroyDomainByUserRequest S D domain))))))))))))"

section \<open>Update\<close>

definition updateCloudinit ::
  "('w, 'd, 'v) sdk \<Rightarrow> 'w domapi \<Rightarrow> 'w storage \<Rightarrow> Domain \<Rightarrow> (('w, 'd) prov, unit) prog" where
  "updateCloudinit S D st domain =
     bindP (dStr S ''cloudinit'') (\<lambda>cloudinit.
     bindP (liftSum (getCloudInitVolumeKeyFromTerraformID cloudinit)) (\<lambda>cloudinitID.
     bindP (newDiskForCloudInit st cloudinitID) (\<lambda>disk.
     bindP (orFail (liftSum (diskEncode D disk))
              (\<lambda>err. Errorf ''error serializing cloudinit disk: %s'' [EArg err])) (\<lambda>data.
     orFail (domCall ''DomainUpdateDeviceFlags'' domain (DomainUpdateDeviceFlags D domain data updateDeviceFlags))
       (\<lambda>err. Errorf ''error while changing the cloudinit volume: %s'' [EArg err])))))"

definition updateIface ::
  "('w, 'd, 'v) sdk \<Rightarrow> 'w runtime \<Rightarrow> 'w netapi \<Rightarrow> nat \<Rightarrow> (('w, 'd) prov, unit) prog" where
  "updateIface S R A i =
     (let prf = block ''network_interface'' i in
      bindP (dHasChange S (prf @ ''.hostname'')) (\<lambda>c1.
      bindP (dHasChange S (prf @ ''.addresses'')) (\<lambda>c2.
      bindP (dHasChange S (prf @ ''.mac'')) (\<lambda>c3.
      if \<not> (c1 \<or> c2 \<or> c3) then ret ()
      else
        bindP (dOptStr S (prf @ ''.network_id'')) (\<lambda>networkUUID. case networkUUID of
          None \<Rightarrow> ret ()
        | Some u \<Rightarrow>
            bindP (parseUUID R u) (\<lambda>uuid.
            bindP (orFail (lookupNetworkByUUID A uuid)
                     (\<lambda>_. Errorf ''can't retrieve network ID %s'' [SArg u])) (\<lambda>network.
            bindP (dStr S (prf @ ''.hostname'')) (\<lambda>hostname.
            bindP (dStr S (prf @ ''.mac'')) (\<lambda>mac.
            bindP (dList S (prf @ ''.addresses'')) (\<lambda>addresses.
            forP addresses (\<lambda>addressI.
              bindP (assertStr addressI) (\<lambda>address. case ParseIP address of
                None \<Rightarrow> throw (Errorf (''could not parse addresses '%s'' @ [CHR 0x27]) [SArg address])
              | Some ip \<Rightarrow> updateOrAddHost A network (ipString ip) mac hostname))))))))))))"

definition resourceLibvirtDomainUpdate ::
  "('w, 'd, 'v) sdk \<Rightarrow> 'w runtime \<Rightarrow> 'w domapi \<Rightarrow> 'w netapi \<Rightarrow> 'w storage \<Rightarrow> (('w, 'd) prov, unit) prog" where
  "resourceLibvirtDomainUpdate S R D A st = requireConn (
     bindP (dId S) (\<lambda>i.
     bindP (parseUUID R i) (\<lambda>uuid.
     bindP (orFail (call ''DomainLookupByUUID'' [uuid] (DomainLookupByUUID D uuid))
              (\<lambda>err. Errorf ''error retrieving libvirt domain by update: %s'' [EArg err])) (\<lambda>domain.
     bindP (domainIsRunning D domain) (\<lambda>domainRunningNow.
     bindP (if \<not> domainRunningNow then
              orFail (domCall ''DomainCreate'' domain (DomainCreate D domain))
                (\<lambda>err. Errorf ''error creating libvirt domain: %s'' [EArg err])
            else ret ()) (\<lambda>_.
     bindP (dHasChange S ''cloudinit'') (\<lambda>c.
     bindP (if c then updateCloudinit S D st domain else ret ()) (\<lambda>_.
     bindP (dHasChange S ''autostart'') (\<lambda>a.
     bindP (if a then
              bindP (dBool S ''autostart'') (\<lambda>b.
              orFail (domCall ''DomainSetAutostart'' domain (DomainSetAutostart D domain (autostartInt b)))
                (\<lambda>err. Errorf ''error setting autostart for domain: %s'' [EArg err]))
            else ret ()) (\<lambda>_.
     bindP (dInt S ''network_interface.#'') (\<lambda>netIfacesCount.
     forP [0..<nat netIfacesCount] (updateIface S R A))))))))))))"

section \<open>Delete\<close>

definition undefineDomain :: "'w domapi \<Rightarrow> Domain \<Rightarrow> (('w, 'd) prov, unit) prog" where
  "undefineDomain D domain =
     bindP (attempt (domCall ''DomainUndefineFlags'' domain (DomainUndefineFlags D domain undefineFlags))) (\<lambda>r. case r of
       Inr _ \<Rightarrow> ret ()
     | Inl err \<Rightarrow>
         if isError err ErrNoSupport \<or> isError err ErrInvalidArg then
           orFail (domCall ''DomainUndefine'' domain (DomainUndefine D domain))
             (\<lambda>err. Errorf ''couldn't undefine libvirt domain: %s'' [EArg err])
         else throw (Errorf ''couldn't undefine libvirt domain with flags: %s'' [EArg err]))"

definition resourceLibvirtDomainDelete ::
  "('w, 'd, 'v) sdk \<Rightarrow> 'w runtime \<Rightarrow> 'w domapi \<Rightarrow> (('w, 'd) prov, unit) prog" where
  "resourceLibvirtDomainDelete S R D = requireConn (
     bindP (dId S) (\<lambda>i.
     bindP (parseUUID R i) (\<lambda>uuid.
     bindP (orFail (call ''DomainLookupByUUID'' [uuid] (DomainLookupByUUID D uuid))
              (\<lambda>err. Errorf ''error retrieving libvirt domain by delete: %s'' [EArg err])) (\<lambda>domain.
     bindP (orFail (domCall ''DomainGetXMLDesc'' domain (DomainGetXMLDesc D domain 0))
              (\<lambda>err. Errorf ''error retrieving libvirt domain XML description: %s'' [EArg err])) (\<lambda>xmlDesc.
     bindP (newDomainDefForConnection S D) (\<lambda>def0.
     bindP (orFail (liftSum (domDecode D def0 xmlDesc))
              (\<lambda>err. Errorf ''error reading libvirt domain XML description: %s'' [EArg err])) (\<lambda>_.
     bindP (orFail (domCall ''DomainGetState'' domain (DomainGetState D domain 0))
              (\<lambda>err. Errorf ''couldn't get info about domain: %s'' [EArg err])) (\<lambda>(state, _).
     bindP (if state = DomainRunning \<or> state = DomainPaused then
              orFail (domCall ''DomainDestroy'' domain (DomainDestroy D domain))
                (\<lambda>err. Errorf ''couldn't destroy libvirt domain: %s'' [EArg err])
            else ret ()) (\<lambda>_.
     undefineDomain D domain)))))))))"

section \<open>The discipline\<close>

lemma safe_readDisk [safe_intros]: "admits P \<Longrightarrow> safe P (diskBlock D st x)"
  unfolding diskBlock_def diskSourceBlock_def by (intro safe_intros) (simp_all add: event_names)

lemma safe_readFs [safe_intros]: "safe P (filesystemBlock x)"
  unfolding filesystemBlock_def by (intro safe_intros)

lemma safe_readIface [safe_intros]: "admits P \<Longrightarrow> safe P (ifaceBlock S R D A as x)"
  unfolding ifaceBlock_def ifaceSourceBlock_def by (intro safe_intros) (simp_all add: event_names)

lemma safe_connInfo [safe_intros]: "safe (inv H n E) (connInfo S as)"
  unfolding connInfo_def by (intro safe_intros safe_updS) simp_all

lemma safe_read_parts [safe_intros]:
  "safe (inv H n E) (readSizes S def)" "safe (inv H n E) (readFirmware S def)"
  "safe (inv H n E) (readBoot S def b)" "safe (inv H n E) (setUnlessEmpty S k xs)"
  unfolding readSizes_def readFirmware_def readBoot_def setUnlessEmpty_def by (intro safe_intros)+

text \<open>Stated for whatever mutexes are held, by any set of calls that admits the reads.\<close>

lemma safe_domainRead:
  fixes S :: "('w, 'd, 'v) sdk"
  assumes "admits (inv H n E :: ('w, 'd) prov \<Rightarrow> bool)"
  shows "safe (inv H n E) (resourceLibvirtDomainRead S R D A st)"
  unfolding resourceLibvirtDomainRead_def readDevices_def readMachine_def
  by (intro safe_intros assms) (simp_all add: event_names)

lemma safe_domainDefinition [safe_intros]:
  "admits P \<Longrightarrow> safe P (domainBasics S def)" "admits P \<Longrightarrow> safe P (domainDevices S D st arch def)"
  "admits P \<Longrightarrow> admits_call ''NetworkUpdate'' P \<Longrightarrow> safe P (domainDefinition S R D A st)"
  unfolding domainDefinition_def domainDevices_def domainBasics_def by (intro safe_intros; assumption?)+

lemma safe_addPendingHosts [safe_intros]:
  "admits P \<Longrightarrow> admits_call ''NetworkUpdate'' P \<Longrightarrow> safe P (addPendingHosts S D A p i)"
  unfolding addPendingHosts_def by (intro safe_intros) (simp_all add: event_names)

lemma safe_updateIface [safe_intros]:
  "admits P \<Longrightarrow> admits_call ''NetworkUpdate'' P \<Longrightarrow> safe P (updateIface S R A i)"
  unfolding updateIface_def by (intro safe_intros)

lemma safe_domainCreate:
  fixes S :: "('w, 'd, 'v) sdk"
  assumes "wait_ok S" and adm: "admits (inv H n E :: ('w, 'd) prov \<Rightarrow> bool)"
    "admits_call ''NetworkUpdate'' (inv H n E :: ('w, 'd) prov \<Rightarrow> bool)"
  shows "safe (inv H n E) (resourceLibvirtDomainCreate S R x D A st)"
  unfolding resourceLibvirtDomainCreate_def startDomain_def
  by (intro safe_intros safe_domainRead safe_domainWaitForLeases assms) (simp_all add: event_names)

lemma safe_domainUpdate:
  fixes S :: "('w, 'd, 'v) sdk"
  assumes adm: "admits (inv H n E :: ('w, 'd) prov \<Rightarrow> bool)"
    "admits_call ''NetworkUpdate'' (inv H n E :: ('w, 'd) prov \<Rightarrow> bool)"
  shows "safe (inv H n E) (resourceLibvirtDomainUpdate S R D A st)"
  unfolding resourceLibvirtDomainUpdate_def updateCloudinit_def
  by (intro safe_intros assms) (simp_all add: event_names)

lemma safe_domainDelete:
  fixes S :: "('w, 'd, 'v) sdk"
  assumes adm: "admits (inv H n E :: ('w, 'd) prov \<Rightarrow> bool)"
  shows "safe (inv H n E) (resourceLibvirtDomainDelete S R D)"
  unfolding resourceLibvirtDomainDelete_def undefineDomain_def
  by (intro safe_intros assms) (simp_all add: event_names)

end
