(* ===== verification/Demo_Domain.thy ===== *)
theory Demo_Domain
  imports Domain_Handlers Demo_World Demo_Network
begin

text \<open>
  A small daemon with one domain in a given state and one interface with an address, for the
  witnesses.  It never changes its world.
\<close>

definition demo_guest :: CapsGuest where
  "demo_guest = \<lparr>cg_OSType = ''hvm'', cg_Arch = ''x86_64'', cg_Emulator = ''/usr/bin/qemu'',
     cg_Machines = [\<lparr>cm_Name = ''pc'', cm_Canonical = ''pc-6.2''\<rparr>, \<lparr>cm_Name = ''pc-6.2'', cm_Canonical = []\<rparr>],
     cg_Domains = [[\<lparr>cm_Name = ''microvm'', cm_Canonical = []\<rparr>]]\<rparr>"

definition demo_domain :: Domain where
  "demo_domain = \<lparr>dm_Name = ''vm'', dm_UUID = ''vm''\<rparr>"

definition answer :: "'a \<Rightarrow> ('w, 'a) rpc" where
  "answer x w = (Inr x, w)"

definition demo_domapi :: "int \<Rightarrow> 'w domapi" where
  "demo_domapi state = \<lparr>Capabilities = answer ''caps'', DomainLookupByUUID = (\<lambda>_. answer demo_domain),
     DomainGetXMLDesc = (\<lambda>_ _. answer ''xml''), DomainGetState = (\<lambda>_ _. answer (state, 0)),
     DomainInterfaceAddresses = (\<lambda>_ _. answer [\<lparr>ia_Hwaddr = [''52:54:00:01:02:03''], ia_Addrs = [''10.17.3.5'']\<rparr>]),
     ConnectGetUri = answer ''qemu:///system'', DomainDefineXML = (\<lambda>_. answer demo_domain),
     DomainSetAutostart = (\<lambda>_ _. answer ()), DomainGetAutostart = (\<lambda>_. answer 0),
     DomainCreate = (\<lambda>_. answer ()), DomainDestroy = (\<lambda>_. answer ()), DomainUndefineFlags = (\<lambda>_ _. answer ()),
     DomainUndefine = (\<lambda>_. answer ()), DomainUpdateDeviceFlags = (\<lambda>_ _ _. answer ()),
     StorageVolLookupByPath = (\<lambda>p. answer \<lparr>sv_Pool = ''default'', sv_Name = p, sv_Key = p\<rparr>),
     NetworkLookupByName = (\<lambda>n. answer (demo_network n)), capsDecode = (\<lambda>_. Inr [demo_guest]),
     archDecode = (\<lambda>_. Inr ''x86_64''), domEncode = (\<lambda>d. Inr (dx_Name d)), domDecode = (\<lambda>d _. Inr d),
     diskEncode = (\<lambda>_. Inr ''disk''),
     urlParseHost = (\<lambda>u. Inr \<lparr>uh_Scheme = ''http'', uh_Path = u, uh_Hostname = ''example.com'', uh_Port = ''80''\<rparr>),
     urlNormal = Inr, osGetenv = (\<lambda>_. []), randRead = answer (1, 2, 3), randIntn = (\<lambda>n w. (0, w))\<rparr>"

end
