(* ===== verification/Domain_Text.thy ===== *)
theory Domain_Text
  imports Demo_Domain
begin

text \<open>
  What survives when a domain is created, read back and created again: the kernel arguments, and
  the machine type under the canonical and the original name.
\<close>

section \<open>Kernel arguments\<close>

lemma strSplit_append: "strSplit c (x @ c # y) = strSplit c x @ strSplit c y"
  by (induction x) (auto split: list.splits)

lemma strSplit_strJoin_concat: "xs \<noteq> [] \<Longrightarrow> strSplit c (strJoin c xs) = concat (map (strSplit c) xs)"
  by (induction xs rule: induct_list012) (simp_all add: strSplit_append)

definition toTF :: "cmdmap \<Rightarrow> (string \<times> tfval) list" where
  "toTF m = map (\<lambda>(k, v). (k, TStr v)) m"

definition cmdArgs :: "cmdmap \<Rightarrow> string list" where
  "cmdArgs m = map cmdlineArg (toTF m)"

lemma cmdArgs_simps [simp]:
  "cmdArgs [] = []" "cmdArgs (a @ b) = cmdArgs a @ cmdArgs b"
  by (simp_all add: cmdArgs_def toTF_def)

lemma cmdArgs_single: "k \<noteq> ''_'' \<Longrightarrow> cmdArgs [(k, v)] = [k @ CHR ''='' # v]" "cmdArgs [(''_'', v)] = [v]"
  by (simp_all add: cmdArgs_def toTF_def cmdlineArg_def fmtV_def)

definition keyed :: "string \<Rightarrow> bool" where
  "keyed w \<longleftrightarrow> \<not> prefix ''_='' w"

lemma splitArgs_args:
  assumes "splitArgs ws L C K = (L', C', K')" "\<forall>w \<in> set ws. keyed w"
  shows "mset (concat (map cmdArgs L')) + mset (cmdArgs C') + mset K'
    = mset (concat (map cmdArgs L)) + mset (cmdArgs C) + mset K + mset ws"
    and "set K' \<subseteq> set K \<union> set ws"
  using assms
proof (induction ws arbitrary: L C K)
  case (Cons w ws)
  case 1
  show ?case
  proof (cases "CHR ''='' \<in> set w")
    case True
    then obtain k v where w: "w = k @ CHR ''='' # v" "strSplitN2 CHR ''='' w = [k, v]"
      by (rule strSplitN2_cases)
    with 1 have "cmdArgs [(k, v)] = [w]" by (intro trans [OF cmdArgs_single(1)]) (auto simp: keyed_def)
    with 1 True w(2) Cons.IH(1) [of "L @ [C]" "[(k, v)]" K] Cons.IH(1) [of L "C @ [(k, v)]" K]
    show ?thesis by (simp split: if_splits)
  qed (use 1 Cons.IH(1) [of L C "K @ [w]"] in simp)
next
  case (Cons w ws)
  case 2
  show ?case
  proof (cases "CHR ''='' \<in> set w")
    case True
    then obtain k v where "strSplitN2 CHR ''='' w = [k, v]" by (rule strSplitN2_cases)
    with 2 True Cons.IH(2) [of "L @ [C]" "[(k, v)]" K] Cons.IH(2) [of L "C @ [(k, v)]" K]
    show ?thesis by (auto split: if_splits)
  qed (use 2 Cons.IH(2) [of L C "K @ [w]"] in auto)
qed simp_all

lemma concat_words:
  "\<forall>w \<in> set ws. CHR '' '' \<notin> set w \<Longrightarrow> concat (map (strSplit CHR '' '') ws) = ws"
  by (induction ws) (auto simp: strSplit_no_sep)

lemma mset_concat_map: "mset (concat (map f xs)) = (\<Sum>x \<in># mset xs. mset (f x))"
  by (induction xs) auto

lemma mset_concat_cong: "mset xs = mset ys \<Longrightarrow> mset (concat (map f xs)) = mset (concat (map f ys))"
  by (simp add: mset_concat_map)

lemma split_words:
  assumes "\<forall>w \<in> set (strSplit CHR '' '' line). keyed w" "line \<noteq> []"
  shows "mset (concat (map (strSplit CHR '' '') (concat (map cmdArgs (splitKernelCmdLine line)))))
    = mset (strSplit CHR '' '' line)"
    and "concat (map cmdArgs (splitKernelCmdLine line)) \<noteq> []"
proof -
  let ?ws = "strSplit CHR '' '' line" and ?words = "strSplit CHR '' ''"
  obtain L C K where run: "splitArgs ?ws [] [] [] = (L, C, K)" by (cases "splitArgs ?ws [] [] []") auto
  let ?A = "concat (map cmdArgs L) @ cmdArgs C"
  have all: "mset (?A @ K) = mset ?ws" and K: "set K \<subseteq> set ?ws"
    using splitArgs_args [OF run assms(1)] by (simp_all add: add.assoc)
  have res: "concat (map cmdArgs (splitKernelCmdLine line)) = ?A @ (if K = [] then [] else [strJoin CHR '' '' K])"
    using assms(2) run by (simp add: splitKernelCmdLine_def cmdArgs_single(2))
  have nospace: "\<forall>w \<in> set (?A @ K). CHR '' '' \<notin> set w"
    using mset_eq_setD [OF all] strSplit_parts_no_sep by blast
  have A: "concat (map ?words ?A) = ?A" by (rule concat_words) (use nospace in auto)
  have k: "concat (map ?words (if K = [] then [] else [strJoin CHR '' '' K])) = K"
    using nospace by (simp add: strSplit_strJoin)
  have "concat (map ?words (?A @ B)) = ?A @ concat (map ?words B)" for B
    using A by simp
  then have "concat (map ?words (concat (map cmdArgs (splitKernelCmdLine line)))) = ?A @ K"
    unfolding res using k by presburger
  with all show "mset (concat (map ?words (concat (map cmdArgs (splitKernelCmdLine line))))) = mset ?ws" by argo
  from all have "length (?A @ K) = length ?ws" by (rule mset_eq_length)
  then have "?A @ K \<noteq> []" by (metis length_0_conv strSplit_ne)
  then show "concat (map cmdArgs (splitKernelCmdLine line)) \<noteq> []"
    unfolding res by auto
qed

text \<open>C8: The kernel arguments that \<open>Read\<close> stores give the same arguments when the domain is created
  again, in whatever order Go goes through the maps: none is lost, doubled or changed (the order
  may differ).  An argument with the reserved key \<open>_\<close> is the exception.\<close>

theorem cmdline_roundtrip:
  assumes "\<forall>w \<in> set (strSplit CHR '' '' line). keyed w"
    and "list_all2 (\<lambda>m maps. mset maps = mset (toTF m)) (splitKernelCmdLine line) maps"
  shows "mset (strSplit CHR '' '' (renderCmdline maps)) = mset (strSplit CHR '' '' line)"
proof (cases "line = []")
  case True
  with assms(2) show ?thesis by (simp add: splitKernelCmdLine_def renderCmdline_def)
next
  case False
  have "mset (concat (map (map cmdlineArg) maps)) = mset (concat (map cmdArgs (splitKernelCmdLine line)))"
    using assms(2) by (induction rule: list_all2_induct) (auto simp: cmdArgs_def)
  then have same: "mset (sort (concat (map (map cmdlineArg) maps)))
      = mset (concat (map cmdArgs (splitKernelCmdLine line)))" by simp
  let ?args = "sort (concat (map (map cmdlineArg) maps))"
  from mset_eq_length [OF same] split_words(2) [OF assms(1) False] have "?args \<noteq> []"
    by (metis length_0_conv)
  then have "mset (strSplit CHR '' '' (renderCmdline maps)) = mset (concat (map (strSplit CHR '' '') ?args))"
    by (simp add: renderCmdline_def strSplit_strJoin_concat)
  with mset_concat_cong [OF same] split_words(1) [OF assms(1) False] show ?thesis by metis
qed

definition demo_cmdline :: string where
  "demo_cmdline = ''quiet root=/dev/vda console=tty0 splash console=ttyS0''"

theorem cmdline_roundtrip_witness:
  "mset (strSplit CHR '' '' (renderCmdline [[(''console'', TStr ''tty0''), (''root'', TStr ''/dev/vda'')],
      [(''console'', TStr ''ttyS0'')], [(''_'', TStr ''quiet splash'')]]))
   = {#''quiet'', ''root=/dev/vda'', ''console=tty0'', ''splash'', ''console=ttyS0''#}"
proof -
  have words: "strSplit CHR '' '' demo_cmdline = [''quiet'', ''root=/dev/vda'', ''console=tty0'', ''splash'', ''console=ttyS0'']"
    by code_simp
  have maps: "splitKernelCmdLine demo_cmdline = [[(''root'', ''/dev/vda''), (''console'', ''tty0'')],
      [(''console'', ''ttyS0'')], [(''_'', ''quiet splash'')]]"
    by code_simp
  show ?thesis
    using cmdline_roundtrip [of demo_cmdline, unfolded words maps] by (simp add: keyed_def toTF_def)
qed

section \<open>Machine types\<close>

definition allMachines :: "CapsGuest \<Rightarrow> CapsMachine list" where
  "allMachines g = cg_Machines g @ concat (cg_Domains g)"

text \<open>
  What libvirt says of the machines of a guest: each has a name of its own, and a canonical name
  is the name of a machine that is not itself an alias.
\<close>

definition machines_ok :: "CapsGuest \<Rightarrow> bool" where
  "machines_ok g \<longleftrightarrow> distinct (map cm_Name (cg_Machines g))
     \<and> (\<forall>m \<in> set (allMachines g). cm_Name m \<noteq> []
        \<and> (cm_Canonical m \<noteq> [] \<longrightarrow> cm_Canonical m \<in> cm_Name ` set (allMachines g)
           \<and> (\<forall>m' \<in> set (allMachines g). cm_Name m' = cm_Canonical m \<longrightarrow> cm_Canonical m' = [])))"

definition canonicalOf :: "CapsGuest \<Rightarrow> string \<Rightarrow> string" where
  "canonicalOf g t = (let n = lookupMachine (cg_Machines g) t
     in if n \<noteq> [] then n else lookupDomains (cg_Domains g) t)"

lemma getCanonicalMachineName_guest:
  "getGuestForArchType caps arch v = Inr g \<Longrightarrow>
   getCanonicalMachineName caps arch v t = Inr c \<longleftrightarrow> canonicalOf g t = c \<and> c \<noteq> []"
  by (auto simp: getCanonicalMachineName_def canonicalOf_def Let_def)

definition resolves :: "string \<Rightarrow> string \<Rightarrow> CapsMachine \<Rightarrow> bool" where
  "resolves t c m \<longleftrightarrow> cm_Name m = t \<and> (cm_Canonical m = c \<or> cm_Canonical m = [] \<and> c = t)"

lemma lookupMachine_Some: "lookupMachine ms t = c \<Longrightarrow> c \<noteq> [] \<Longrightarrow> \<exists>m \<in> set ms. resolves t c m"
  by (induction ms) (auto simp: resolves_def split: if_splits)

lemma lookupDomains_Some: "lookupDomains mss t = c \<Longrightarrow> c \<noteq> [] \<Longrightarrow> \<exists>m \<in> set (concat mss). resolves t c m"
proof (induction mss)
  case (Cons ms mss)
  then show ?case
    using lookupMachine_Some [of ms t c] by (cases "lookupMachine ms t = []") auto
qed simp

lemma canonicalOf_Some: "canonicalOf g t = c \<Longrightarrow> c \<noteq> [] \<Longrightarrow> \<exists>m \<in> set (allMachines g). resolves t c m"
  using lookupMachine_Some [of "cg_Machines g" t c] lookupDomains_Some [of "cg_Domains g" t c]
  by (auto simp: canonicalOf_def allMachines_def Let_def split: if_splits)

lemma lookupMachine_found: "m \<in> set ms \<Longrightarrow> cm_Name m = t \<Longrightarrow> t \<noteq> [] \<Longrightarrow> lookupMachine ms t \<noteq> []"
  by (induction ms) auto

lemma lookupDomains_found: "m \<in> set (concat mss) \<Longrightarrow> cm_Name m = t \<Longrightarrow> t \<noteq> [] \<Longrightarrow> lookupDomains mss t \<noteq> []"
  by (induction mss) (auto simp: Let_def dest: lookupMachine_found)

text \<open>The canonical name of a name that is no alias is the name itself.\<close>

lemma canonicalOf_self:
  assumes "m \<in> set (allMachines g)" "cm_Name m = c" "c \<noteq> []"
    "\<forall>m \<in> set (allMachines g). cm_Name m = c \<longrightarrow> cm_Canonical m = []"
  shows "canonicalOf g c = c"
proof -
  have ne: "canonicalOf g c \<noteq> []"
    using assms(1-3) lookupMachine_found [of m "cg_Machines g"] lookupDomains_found [of m "cg_Domains g"]
    by (auto simp: canonicalOf_def allMachines_def Let_def)
  from canonicalOf_Some [OF refl ne] assms(4) ne show ?thesis
    by (auto simp: resolves_def)
qed

lemma originalName_cases:
  "originalName ms c = c \<or> (\<exists>m \<in> set ms. cm_Canonical m = c \<and> c \<noteq> [] \<and> originalName ms c = cm_Name m)"
  by (induction ms) auto

lemma lookupMachine_member:
  "distinct (map cm_Name ms) \<Longrightarrow> m \<in> set ms \<Longrightarrow> cm_Canonical m \<noteq> [] \<Longrightarrow> lookupMachine ms (cm_Name m) = cm_Canonical m"
  by (induction ms) (auto simp: image_iff)

lemma canonicalOf_originalName:
  assumes ok: "machines_ok g" and c: "canonicalOf g t = c" "c \<noteq> []"
  shows "canonicalOf g (originalName (cg_Machines g) c) = c"
proof -
  from originalName_cases [of "cg_Machines g" c] consider "originalName (cg_Machines g) c = c"
    | m where "m \<in> set (cg_Machines g)" "cm_Canonical m = c" "originalName (cg_Machines g) c = cm_Name m"
    by auto
  then show ?thesis
  proof cases
    case 1
    from canonicalOf_Some [OF c] obtain m where m: "m \<in> set (allMachines g)" "resolves t c m" by blast
    show ?thesis
    proof (cases "cm_Canonical m = []")
      case True
      with m c 1 show ?thesis by (simp add: resolves_def)
    next
      case False
      with m(2) have "cm_Canonical m = c" by (simp add: resolves_def)
      with m(1) ok c(2) obtain m' where "m' \<in> set (allMachines g)" "cm_Name m' = c"
          "\<forall>m \<in> set (allMachines g). cm_Name m = c \<longrightarrow> cm_Canonical m = []"
        unfolding machines_ok_def by (metis imageE)
      with canonicalOf_self c(2) 1 show ?thesis by metis
    qed
  next
    case 2
    with ok c(2) show ?thesis
      by (simp add: canonicalOf_def machines_ok_def lookupMachine_member Let_def)
  qed
qed

text \<open>C19: The machine type that \<open>Read\<close> stores is one that \<open>Create\<close> maps to the machine the domain has:
  going from a canonical name to the original one and back gives the canonical name again.\<close>

theorem machineName_roundtrip:
  assumes "getGuestForArchType caps arch virttype = Inr g" "machines_ok g"
    and "getCanonicalMachineName caps arch virttype m = Inr c"
  shows "\<exists>m'. getOriginalMachineName caps arch virttype c = Inr m'
    \<and> getCanonicalMachineName caps arch virttype m' = Inr c"
proof -
  from assms(1,3) have c: "canonicalOf g m = c" "c \<noteq> []"
    by (simp_all add: getCanonicalMachineName_guest)
  with canonicalOf_originalName [OF assms(2) c] assms(1) show ?thesis
    by (simp add: getOriginalMachineName_def getCanonicalMachineName_guest)
qed

theorem machineName_roundtrip_witness:
  "getCanonicalMachineName [demo_guest] ''x86_64'' ''hvm'' ''pc'' = Inr ''pc-6.2''
   \<and> getOriginalMachineName [demo_guest] ''x86_64'' ''hvm'' ''pc-6.2'' = Inr ''pc''
   \<and> (\<exists>m'. getOriginalMachineName [demo_guest] ''x86_64'' ''hvm'' ''pc-6.2'' = Inr m'
        \<and> getCanonicalMachineName [demo_guest] ''x86_64'' ''hvm'' m' = Inr ''pc-6.2'')"
proof (intro conjI)
  show canonical: "getCanonicalMachineName [demo_guest] ''x86_64'' ''hvm'' ''pc'' = Inr ''pc-6.2''" by code_simp
  show "getOriginalMachineName [demo_guest] ''x86_64'' ''hvm'' ''pc-6.2'' = Inr ''pc''" by code_simp
  show "\<exists>m'. getOriginalMachineName [demo_guest] ''x86_64'' ''hvm'' ''pc-6.2'' = Inr m'
        \<and> getCanonicalMachineName [demo_guest] ''x86_64'' ''hvm'' m' = Inr ''pc-6.2''"
    by (rule machineName_roundtrip [where g = demo_guest, OF _ _ canonical])
      (simp_all add: demo_guest_def machines_ok_def allMachines_def)
qed

end
