(* ===== verification/Domain_Targets.thy ===== *)
theory Domain_Targets
  imports Demo_Domain
begin

text \<open>
  The disks of a domain definition: the names of their targets are distinct, except where the
  fixed name of the cloud-init disk meets the fourth ISO image or the fixed name of the ignition
  disk (on s390 and ppc64) the second disk of the configuration, and the driver types that they get.
\<close>

section \<open>Steps that leave the disks alone\<close>

named_theorems yields_intros \<open>one rule per combinator, without an intermediate property\<close>

lemmas [yields_intros] = yields_any_bind yields_throw yields_panic

lemma yields_branches [yields_intros]:
  "(b \<Longrightarrow> yields m \<phi>) \<Longrightarrow> (\<not> b \<Longrightarrow> yields n \<phi>) \<Longrightarrow> yields (if b then m else n) \<phi>"
  "(x = None \<Longrightarrow> yields m \<phi>) \<Longrightarrow> (\<And>y. x = Some y \<Longrightarrow> yields (f y) \<phi>) \<Longrightarrow>
    yields (case x of None \<Rightarrow> m | Some y \<Rightarrow> f y) \<phi>"
  "(\<And>a b. p = (a, b) \<Longrightarrow> yields (g a b) \<phi>) \<Longrightarrow> yields (case p of (a, b) \<Rightarrow> g a b) \<phi>"
  "(\<And>z. z = v \<Longrightarrow> yields (h z) \<phi>) \<Longrightarrow> yields (Let v h) \<phi>"
  by (auto split: option.splits prod.splits)

abbreviation keepsDisks :: "DomainXML \<Rightarrow> ('s, DomainXML) prog \<Rightarrow> bool" where
  "keepsDisks def m \<equiv> yields m (\<lambda>d. dx_Disks d = dx_Disks def)"

lemma keepsDisks_devices:
  "keepsDisks def (setGraphics S arch def)" "keepsDisks def (setVideo S def)"
  "keepsDisks def (setConsoles S def)" "keepsDisks def (setCmdlineArgs S def)"
  "keepsDisks def (setFirmware S def)" "keepsDisks def (setBootDevices S def)"
  "keepsDisks def (setTPMs S def)" "keepsDisks def (setFilesystems S def)"
  unfolding setGraphics_def setVideo_def setConsoles_def setCmdlineArgs_def setFirmware_def
    setBootDevices_def setTPMs_def setFilesystems_def
  by (intro yields_intros; simp)+

text \<open>Ignition adds a disk, of a fixed name, only on s390 and ppc64.\<close>

lemma setCoreOSIgnition_disks:
  "yields (setCoreOSIgnition S arch def)
     (\<lambda>d. dx_Disks d = dx_Disks def \<or> (\<exists>k. dx_Disks d = dx_Disks def @ [ignitionDisk k]))"
  unfolding setCoreOSIgnition_def by (intro yields_intros; simp (no_asm); blast?)

section \<open>Names of targets\<close>

definition target :: "DomainDisk \<Rightarrow> string" where
  "target d = (case dk_Target d of None \<Rightarrow> [] | Some t \<Rightarrow> tg_Dev t)"

definition bus :: "DomainDisk \<Rightarrow> string" where
  "bus d = (case dk_Target d of None \<Rightarrow> [] | Some t \<Rightarrow> tg_Bus t)"

definition isCdrom :: "DomainDisk \<Rightarrow> bool" where
  "isCdrom d \<longleftrightarrow> dk_Device d = ''cdrom''"

text \<open>
  \<open>stepOK i isos scsis d isos' scsis'\<close>: what the disk with index \<open>i\<close> is named, and on which bus, when \<open>isos\<close> ISO
  images and \<open>scsis\<close> SCSI disks came before it, and the counts after it.
\<close>

definition stepOK :: "nat \<Rightarrow> nat \<Rightarrow> nat \<Rightarrow> DomainDisk \<Rightarrow> nat \<Rightarrow> nat \<Rightarrow> bool" where
  "stepOK i isos scsis d isos' scsis' \<longleftrightarrow> dk_Serial d = [] \<and> isos' = (if isCdrom d then Suc isos else isos)
     \<and> (isCdrom d \<and> target d = ''hd'' @ diskLetterForIndex isos \<and> bus d = ''ide'' \<and> scsis' \<in> {scsis, Suc scsis}
       \<or> \<not> isCdrom d \<and> target d = ''sd'' @ diskLetterForIndex scsis \<and> bus d = ''scsi'' \<and> scsis' = Suc scsis
       \<or> \<not> isCdrom d \<and> target d = ''vd'' @ diskLetterForIndex i \<and> bus d = ''virtio'' \<and> scsis' = scsis)"

text \<open>The disk that the source is put into, and the one that comes out of it.\<close>

definition plainDisk :: "DomainDisk \<Rightarrow> bool" where
  "plainDisk d \<longleftrightarrow> \<not> isCdrom d \<and> dk_Serial d = []"

definition sourceOK :: "nat \<Rightarrow> DomainDisk \<Rightarrow> DomainDisk \<times> nat \<Rightarrow> bool" where
  "sourceOK isos d = (\<lambda>(d', isos'). dk_Serial d' = [] \<and>
     (if isCdrom d' then target d' = ''hd'' @ diskLetterForIndex isos \<and> bus d' = ''ide'' \<and> isos' = Suc isos
      else target d' = target d \<and> bus d' = bus d \<and> isos' = isos))"

lemma sourceOK_kept: "plainDisk d \<Longrightarrow> dk_Serial d' = [] \<Longrightarrow> dk_Device d' = dk_Device d \<Longrightarrow>
    dk_Target d' = dk_Target d \<Longrightarrow> sourceOK isos d (d', isos)"
  by (simp add: sourceOK_def plainDisk_def isCdrom_def target_def bus_def)

lemma driverType_fields [simp]:
  "dk_Serial (driverType t d) = dk_Serial d" "dk_Device (driverType t d) = dk_Device d"
  "dk_Target (driverType t d) = dk_Target d"
  by (simp_all add: driverType_def)

lemma fileDisk_OK: "plainDisk d \<Longrightarrow> sourceOK isos d (fileDisk f isos d)"
  by (auto simp: fileDisk_def isoDisk_def sourceOK_def plainDisk_def isCdrom_def target_def bus_def Let_def)

lemma urlDisk_OK: "plainDisk d \<Longrightarrow> yields (urlDisk D u isos d) (sourceOK isos d)"
  unfolding urlDisk_def
  by (intro yields_intros)
    (auto simp: isoDisk_def sourceOK_def plainDisk_def isCdrom_def target_def bus_def Let_def split: if_splits)

lemma volumeDisk_OK:
  "plainDisk d \<Longrightarrow> yields (volumeDisk st k d) (\<lambda>d'. sourceOK isos d (d', isos))"
  unfolding volumeDisk_def Let_def
  by (intro yields_any_bind) (simp add: sourceOK_def plainDisk_def isCdrom_def target_def bus_def)

lemma diskSource_OK: "plainDisk d \<Longrightarrow> yields (diskSource S D st prf isos d) (sourceOK isos d)"
  unfolding diskSource_def
  by (intro yields_any_bind [where m = "dOptStr S k" for k] yields_branches yields_bind [OF volumeDisk_OK] urlDisk_OK)
    (auto intro!: fileDisk_OK sourceOK_kept simp: blockDisk_def plainDisk_def)

lemma newDefDisk_plain: "plainDisk (newDefDisk i)" "target (newDefDisk i) = ''vd'' @ diskLetterForIndex i"
  "bus (newDefDisk i) = ''virtio''"
  by (simp_all add: plainDisk_def isCdrom_def newDefDisk_def target_def bus_def)

lemma scsiDisk_plain:
  "plainDisk d \<Longrightarrow> yields (scsiDisk S D prf n d)
     (\<lambda>d'. plainDisk d' \<and> target d' = ''sd'' @ diskLetterForIndex n \<and> bus d' = ''scsi'')"
  unfolding scsiDisk_def by (intro yields_intros) (simp add: plainDisk_def isCdrom_def target_def bus_def)

lemma diskAt_OK:
  "yields (diskAt S D st isos scsis i) (\<lambda>(d, isos', scsis'). stepOK i isos scsis d isos' scsis')"
proof -
  let ?first = "\<lambda>scsi. if scsi then scsiDisk S D (block ''disk'' i) scsis (newDefDisk i) else ret (newDefDisk i)"
  let ?name = "\<lambda>scsi. if scsi then ''sd'' @ diskLetterForIndex scsis else ''vd'' @ diskLetterForIndex i"
  let ?bus = "\<lambda>scsi. if scsi then ''scsi'' else ''virtio''"
  have first: "yields (?first scsi) (\<lambda>d. plainDisk d \<and> target d = ?name scsi \<and> bus d = ?bus scsi)" for scsi
    by (simp add: newDefDisk_plain scsiDisk_plain [OF newDefDisk_plain(1), simplified])
  show ?thesis
    unfolding diskAt_def Let_def
    by (rule yields_any_bind, rule yields_bind [OF first], rule yields_bind [OF diskSource_OK])
      (auto simp: sourceOK_def stepOK_def split: if_splits)
qed

section \<open>The loop\<close>

definition fresh :: "nat \<Rightarrow> nat \<Rightarrow> nat \<Rightarrow> string set" where
  "fresh i isos scsis = (\<lambda>k. ''vd'' @ diskLetterForIndex k) ` {i..} \<union> (\<lambda>k. ''hd'' @ diskLetterForIndex k) ` {isos..}
     \<union> (\<lambda>k. ''sd'' @ diskLetterForIndex k) ` {scsis..}"

lemma letter_image [simp]:
  "diskLetterForIndex k \<in> diskLetterForIndex ` A \<longleftrightarrow> k \<in> A"
  by (rule disk_letters.write_image) simp_all

lemma stepOK_fresh:
  assumes "stepOK i isos scsis d isos' scsis'"
  shows "target d \<in> fresh i isos scsis" "target d \<notin> fresh (Suc i) isos' scsis'"
    "fresh (Suc i) isos' scsis' \<subseteq> fresh i isos scsis"
  using assms by (auto simp: stepOK_def fresh_def image_iff diskLetterForIndex_inj split: if_splits)

definition loopOK :: "nat \<Rightarrow> nat \<Rightarrow> nat \<Rightarrow> DomainDisk list \<Rightarrow> bool" where
  "loopOK i isos scsis ds \<longleftrightarrow> distinct (map target ds) \<and> target ` set ds \<subseteq> fresh i isos scsis
     \<and> (\<forall>d \<in> set ds. dk_Serial d = [])
     \<and> {k. ''hd'' @ diskLetterForIndex k \<in> target ` set ds} = {isos ..< isos + length (filter isCdrom ds)}
     \<and> {k. ''vd'' @ diskLetterForIndex k \<in> target ` set ds} = {i + j |j. j < length ds \<and> bus (ds ! j) = ''virtio''}"

lemma virtio_Cons:
  "{i + j |j. j < length (d # ds) \<and> bus ((d # ds) ! j) = b}
     = (if bus d = b then {i} else {}) \<union> {Suc i + j |j. j < length ds \<and> bus (ds ! j) = b}"
  by (auto simp: less_Suc_eq_0_disj)

lemma loopOK_Cons:
  assumes "stepOK i isos scsis d isos' scsis'" "loopOK (Suc i) isos' scsis' ds"
  shows "loopOK i isos scsis (d # ds)"
proof -
  have "{k. ''hd'' @ diskLetterForIndex k \<in> target ` set (d # ds)}
      = (if isCdrom d then {isos} else {}) \<union> {isos' ..< isos' + length (filter isCdrom ds)}"
    using assms by (auto simp: stepOK_def loopOK_def diskLetterForIndex_inj)
  also have "\<dots> = {isos ..< isos + length (filter isCdrom (d # ds))}"
    using assms(1) by (auto simp: stepOK_def split: if_splits)
  finally have hd: "{k. ''hd'' @ diskLetterForIndex k \<in> target ` set (d # ds)}
      = {isos ..< isos + length (filter isCdrom (d # ds))}" .
  have vd: "{k. ''vd'' @ diskLetterForIndex k \<in> target ` set (d # ds)}
      = {i + j |j. j < length (d # ds) \<and> bus ((d # ds) ! j) = ''virtio''}"
    using assms unfolding virtio_Cons by (auto simp: stepOK_def loopOK_def diskLetterForIndex_inj)
  have "distinct (map target (d # ds))" "target ` set (d # ds) \<subseteq> fresh i isos scsis" "\<forall>d \<in> set (d # ds). dk_Serial d = []"
    using assms stepOK_fresh [OF assms(1)] by (auto simp: loopOK_def stepOK_def)
  with hd vd show ?thesis unfolding loopOK_def by blast
qed

lemma disksLoop_OK:
  "yields (disksLoop S D st isos scsis [i ..< i + n]) (\<lambda>(ds, k). loopOK i isos scsis ds)"
proof (induction n arbitrary: i isos scsis)
  case 0
  then show ?case by (simp add: loopOK_def)
next
  case (Suc n)
  have "[i ..< i + Suc n] = i # [Suc i ..< Suc i + n]" by (simp add: upt_conv_Cons)
  then show ?case
    by (simp only: disksLoop.simps, intro yields_bind [OF diskAt_OK], clarsimp simp del: upt_Suc add_Suc)
      (rule yields_bind [OF Suc], auto intro: loopOK_Cons)
qed

section \<open>The whole definition\<close>

definition cloudinitOK :: "DomainDisk \<Rightarrow> bool" where
  "cloudinitOK d \<longleftrightarrow> dk_Serial d = ''cloudinit'' \<and> isCdrom d \<and> target d = ''hdd'' \<and> bus d = ''ide''"

lemma ignitionDisk_simps [simp]:
  "dk_Serial (ignitionDisk k) = ''ignition''" "\<not> isCdrom (ignitionDisk k)" "target (ignitionDisk k) = ''vdb''"
  by (simp_all add: ignitionDisk_def isCdrom_def target_def)

lemma setDisks_OK:
  "yields (setDisks S D st def) (\<lambda>d. \<exists>ds. loopOK 0 0 0 ds \<and> dx_Disks d = dx_Disks def @ ds)"
  unfolding setDisks_def
  by (rule yields_any_bind, rule yields_bind [OF disksLoop_OK [where i = 0, simplified]]) auto

lemma setCloudinit_OK:
  "yields (setCloudinit S st def) (\<lambda>d. dx_Disks d = dx_Disks def \<or> (\<exists>c. cloudinitOK c \<and> dx_Disks d = dx_Disks def @ [c]))"
proof -
  have disk: "yields (newDiskForCloudInit st k) cloudinitOK" for k
    unfolding newDiskForCloudInit_def
    by (intro yields_any_bind) (simp add: cloudinitOK_def isCdrom_def target_def bus_def)
  show ?thesis
    unfolding setCloudinit_def
    by (intro yields_any_bind [where m = "dOptStr S k" for k] yields_any_bind [where m = "liftSum r" for r]
        yields_branches yields_bind [OF disk]) auto
qed

text \<open>The disks of the configuration, with the ignition disk before and the cloud-init disk after them.\<close>

definition disksOK :: "DomainDisk list \<Rightarrow> bool" where
  "disksOK disks \<longleftrightarrow> (\<exists>ign ds ci. disks = ign @ ds @ ci \<and> loopOK 0 0 0 ds
     \<and> (ign = [] \<or> (\<exists>k. ign = [ignitionDisk k])) \<and> (ci = [] \<or> (\<exists>c. ci = [c] \<and> cloudinitOK c)))"

lemma setCloudinit_disksOK:
  assumes "loopOK 0 0 0 ds" "dx_Disks def = ign @ ds" "ign = [] \<or> (\<exists>k. ign = [ignitionDisk k])"
  shows "yields (setCloudinit S st def) (\<lambda>d. disksOK (dx_Disks d))"
proof (rule yieldsI)
  fix s d s' assume "setCloudinit S st def s = (Ret d, s')"
  from yieldsD [OF setCloudinit_OK this] consider "dx_Disks d = ign @ ds @ []"
    | c where "cloudinitOK c" "dx_Disks d = ign @ ds @ [c]"
    using assms(2) by auto
  then show "disksOK (dx_Disks d)"
    unfolding disksOK_def using assms(1,3) by cases blast+
qed

lemma domainDevices_OK:
  assumes "dx_Disks def = []"
  shows "yields (domainDevices S D st arch def) (\<lambda>d. disksOK (dx_Disks d))"
  unfolding domainDevices_def
  apply (rule yields_bind [OF keepsDisks_devices(1)] yields_bind [OF keepsDisks_devices(2)]
      yields_bind [OF keepsDisks_devices(3)] yields_bind [OF keepsDisks_devices(4)]
      yields_bind [OF keepsDisks_devices(5)] yields_bind [OF keepsDisks_devices(6)]
      yields_bind [OF keepsDisks_devices(7)] yields_bind [OF setCoreOSIgnition_disks]
      yields_bind [OF setDisks_OK] yields_bind [OF keepsDisks_devices(8)])+
  apply (elim exE conjE, erule setCloudinit_disksOK)
   apply (rule trans, assumption, assumption)
  subgoal premises p using p(8)
    apply (simp only: p(1-7) assms append_Nil)
    done
  done

lemma targets_of_parts:
  assumes ds: "loopOK 0 0 0 ds" and ign: "ign = [] \<or> (\<exists>k. ign = [ignitionDisk k])"
    and ci: "ci = [] \<or> (\<exists>c. ci = [c] \<and> cloudinitOK c)"
  shows "distinct (map target (ign @ ds @ ci)) \<longleftrightarrow>
    \<not> (ci \<noteq> [] \<and> 4 \<le> length (filter isCdrom ds)) \<and> \<not> (ign \<noteq> [] \<and> 2 \<le> length ds \<and> bus (ds ! 1) = ''virtio'')"
proof -
  have names: "''hdd'' = ''hd'' @ diskLetterForIndex 3" "''vdb'' = ''vd'' @ diskLetterForIndex 1" by code_simp+
  have "''hdd'' \<in> target ` set ds \<longleftrightarrow> 3 \<in> {k. ''hd'' @ diskLetterForIndex k \<in> target ` set ds}"
    by (simp only: names mem_Collect_eq)
  also have "\<dots> \<longleftrightarrow> 4 \<le> length (filter isCdrom ds)" using ds by (auto simp: loopOK_def)
  finally have hdd: "''hdd'' \<in> target ` set ds \<longleftrightarrow> 4 \<le> length (filter isCdrom ds)" .
  have "''vdb'' \<in> target ` set ds \<longleftrightarrow> 1 \<in> {k. ''vd'' @ diskLetterForIndex k \<in> target ` set ds}"
    by (simp only: names mem_Collect_eq)
  also have "\<dots> \<longleftrightarrow> 2 \<le> length ds \<and> bus (ds ! 1) = ''virtio''" using ds by (auto simp: loopOK_def)
  finally have vdb: "''vdb'' \<in> target ` set ds \<longleftrightarrow> 2 \<le> length ds \<and> bus (ds ! 1) = ''virtio''" .
  from ds have "distinct (map target ds)" by (simp add: loopOK_def)
  with ign ci show ?thesis
    by (elim disjE exE conjE) (simp_all add: hdd vdb cloudinitOK_def conj_commute)
qed

text \<open>C3: The disks of a new domain have distinct target names, whatever the architecture and the
  mixture of virtio, SCSI and ISO disks, with exactly two exceptions.  The cloud-init disk has the
  fixed name \<open>hdd\<close>, which is also that of the fourth ISO image.  The ignition disk, which is put
  before the disks of the configuration on s390 and ppc64, has the fixed name \<open>vdb\<close>, which is also
  that of the second disk of the configuration when that is a virtio disk.\<close>

theorem domainDisks_targets:
  assumes "dx_Disks def = []" and run: "domainDevices S D st arch def s = (Ret def', s')"
  shows "distinct (map target (dx_Disks def')) \<longleftrightarrow>
    \<not> ((\<exists>d \<in> set (dx_Disks def'). dk_Serial d = ''cloudinit'') \<and> 5 \<le> length (filter isCdrom (dx_Disks def')))
    \<and> \<not> ((\<exists>d \<in> set (dx_Disks def'). dk_Serial d = ''ignition'') \<and> 3 \<le> length (dx_Disks def')
         \<and> bus (dx_Disks def' ! 2) = ''virtio'')"
proof -
  from yieldsD [OF domainDevices_OK [OF assms(1)] run] obtain ign ds ci
    where disks: "dx_Disks def' = ign @ ds @ ci" and ds: "loopOK 0 0 0 ds"
      and parts: "ign = [] \<or> (\<exists>k. ign = [ignitionDisk k])" "ci = [] \<or> (\<exists>c. ci = [c] \<and> cloudinitOK c)"
    unfolding disksOK_def by blast
  from ds have "\<forall>d \<in> set ds. dk_Serial d = []" by (simp add: loopOK_def)
  then have serials: "(\<exists>d \<in> set (ign @ ds @ ci). dk_Serial d = ''cloudinit'') \<longleftrightarrow> ci \<noteq> []"
      "(\<exists>d \<in> set (ign @ ds @ ci). dk_Serial d = ''ignition'') \<longleftrightarrow> ign \<noteq> []"
    using parts by (elim disjE exE conjE; simp add: cloudinitOK_def)+
  have isos: "ci \<noteq> [] \<Longrightarrow> 5 \<le> length (filter isCdrom (ign @ ds @ ci)) \<longleftrightarrow> 4 \<le> length (filter isCdrom ds)"
    using parts by (elim disjE exE conjE; simp add: cloudinitOK_def)
  have second: "ign \<noteq> [] \<Longrightarrow> 3 \<le> length (ign @ ds @ ci) \<and> bus ((ign @ ds @ ci) ! 2) = ''virtio''
      \<longleftrightarrow> 2 \<le> length ds \<and> bus (ds ! 1) = ''virtio''"
    using parts by (cases ds; cases "tl ds"; elim disjE exE conjE; simp add: cloudinitOK_def)
  show ?thesis
    unfolding disks targets_of_parts [OF ds parts] serials using isos second by blast
qed

text \<open>On the demonstration daemon: four ISO images and a cloud-init disk, and two virtio disks beside
  an ignition disk.\<close>

definition demo_disks :: "(string \<times> tfval) list \<Rightarrow> string list \<Rightarrow> (dworld, rdemo) prov" where
  "demo_disks vals files = demo_state demo_world
     ([(''cmdline.#'', TInt 0), (''console.#'', TInt 0), (''boot_device.#'', TInt 0), (''filesystem.#'', TInt 0),
       (''disk.#'', TInt (int (length files)))] @ vals
      @ concat (map (\<lambda>i. [(block ''disk'' i @ ''.scsi'', TBool False),
          (block ''disk'' i @ ''.file'', TStr (files ! i))]) [0..<length files])) []"

definition demo_def :: DomainXML where
  "demo_def = newDomainDef (demo_domapi 1 :: unit domapi)"

definition demo_isos :: "(dworld, rdemo) prov" where
  "demo_isos = demo_disks [(''cloudinit'', TStr ''default/base;1234'')] [''/a.iso'', ''/b.iso'', ''/c.iso'', ''/d.iso'']"

definition demo_mainframe :: "(dworld, rdemo) prov" where
  "demo_mainframe = demo_disks [(''coreos_ignition'', TStr ''default/base;1234'')] [''/a.img'', ''/b.img'']"

theorem domainDisks_targets_witness:
  "\<exists>def1 s1 def2 s2.
     domainDevices demo_sdk (demo_domapi 1) demo_storage ''x86_64'' demo_def demo_isos = (Ret def1, s1)
     \<and> map target (dx_Disks def1) = [''hda'', ''hdb'', ''hdc'', ''hdd'', ''hdd'']
     \<and> 5 \<le> length (filter isCdrom (dx_Disks def1))
     \<and> domainDevices demo_sdk (demo_domapi 1) demo_storage ''s390x'' demo_def demo_mainframe = (Ret def2, s2)
     \<and> map target (dx_Disks def2) = [''vdb'', ''vda'', ''vdb'']
     \<and> (\<exists>d \<in> set (dx_Disks def2). dk_Serial d = ''ignition'') \<and> bus (dx_Disks def2 ! 2) = ''virtio''"
proof -
  let ?run1 = "domainDevices demo_sdk (demo_domapi 1) demo_storage ''x86_64'' demo_def demo_isos"
  let ?run2 = "domainDevices demo_sdk (demo_domapi 1) demo_storage ''s390x'' demo_def demo_mainframe"
  have names: "(case fst ?run1 of Ret d \<Rightarrow> map target (dx_Disks d) | _ \<Rightarrow> []) = [''hda'', ''hdb'', ''hdc'', ''hdd'', ''hdd'']"
    "(case fst ?run2 of Ret d \<Rightarrow> map target (dx_Disks d) | _ \<Rightarrow> []) = [''vdb'', ''vda'', ''vdb'']"
    by code_simp+
  have serials: "(case fst ?run1 of Ret d \<Rightarrow> \<forall>x \<in> set (dx_Disks d). dk_Serial x \<noteq> ''ignition'' | _ \<Rightarrow> False)"
    "(case fst ?run2 of Ret d \<Rightarrow> \<forall>x \<in> set (dx_Disks d). dk_Serial x \<noteq> ''cloudinit'' | _ \<Rightarrow> False)"
    by code_simp+
  obtain def1 s1 where run1: "?run1 = (Ret def1, s1)" and 1: "map target (dx_Disks def1) = [''hda'', ''hdb'', ''hdc'', ''hdd'', ''hdd'']"
      "\<forall>x \<in> set (dx_Disks def1). dk_Serial x \<noteq> ''ignition''"
    using names(1) serials(1) by (cases ?run1; cases "fst ?run1") auto
  obtain def2 s2 where run2: "?run2 = (Ret def2, s2)" and 2: "map target (dx_Disks def2) = [''vdb'', ''vda'', ''vdb'']"
      "\<forall>x \<in> set (dx_Disks def2). dk_Serial x \<noteq> ''cloudinit''"
    using names(2) serials(2) by (cases ?run2; cases "fst ?run2") auto
  have none: "dx_Disks demo_def = []" by (simp add: demo_def_def newDomainDef_def Let_def)
  have "5 \<le> length (filter isCdrom (dx_Disks def1))"
    using domainDisks_targets [OF none run1] 1 by simp
  moreover have "\<exists>d \<in> set (dx_Disks def2). dk_Serial d = ''ignition''" "bus (dx_Disks def2 ! 2) = ''virtio''"
    using domainDisks_targets [OF none run2] 2 by simp_all
  ultimately show ?thesis
    using run1 run2 1 2
    by (intro exI [of _ def1] exI [of _ s1] exI [of _ def2] exI [of _ s2] conjI)
qed

section \<open>Driver types\<close>

definition rawDisk :: "DomainDisk \<Rightarrow> bool" where
  "rawDisk d \<longleftrightarrow> (\<exists>t. dk_Driver d = Some t \<and> dr_Type t = ''raw'')"

lemma rawDisk_simps [simp]: "rawDisk (newDefDisk i)"
  "rawDisk (d\<lparr>dk_Source := s\<rparr>) = rawDisk d" "rawDisk (d\<lparr>dk_Target := x, dk_WWN := w\<rparr>) = rawDisk d"
  by (simp_all add: rawDisk_def newDefDisk_def)

lemma rawDisk_blockDisk: "rawDisk d \<Longrightarrow> rawDisk (blockDisk dev d)"
  by (auto simp: rawDisk_def blockDisk_def driverType_def)

lemma fileDisk_raw: "rawDisk d \<Longrightarrow> rawDisk (fst (fileDisk f n d))"
  by (auto simp: fileDisk_def isoDisk_def rawDriver_def rawDisk_def driverType_def Let_def)

lemma iso_not_qcow2: "hasSuffix p ''.iso'' \<Longrightarrow> \<not> hasSuffix p ''.qcow2''"
  by (cases "rev p") (auto simp: hasSuffix_def suffix_to_prefix)

lemma ends_urlDisk: "rawDisk d \<Longrightarrow> ends P (urlDisk D u n d) (\<lambda>r. rawDisk (fst r))"
  unfolding urlDisk_def
  by (rule safe_bind [OF safe_liftSum])
    (auto simp: isoDisk_def rawDisk_def driverType_def Let_def iso_not_qcow2 intro!: ends_ret)

lemma ends_dOptStr_None:
  assumes "\<And>s. P s \<Longrightarrow> sdGetOk S (rdata s) k = None"
  shows "ends P (dOptStr S k) (\<lambda>x. x = None)"
  unfolding dOptStr_def dGetOk_def
  by (rule ends_bind [OF ends_getS [where \<phi> = "\<lambda>v. v = None"]]) (auto simp: assms intro: ends_ret)

text \<open>C39: A disk without a volume is always attached with the raw driver: also one from a file or a
  URL that ends in \<open>.qcow2\<close>, which the code skips because the driver is raw already.\<close>

theorem diskAt_driver:
  assumes "sdGetOk S (rdata s) (block ''disk'' i @ ''.volume_id'') = None"
    and run: "diskAt S D st isos scsis i s = (Ret (disk, counts), s')"
  shows "\<exists>t. dk_Driver disk = Some t \<and> dr_Type t = ''raw''"
proof -
  let ?P = "\<lambda>s'. rdata s' = rdata s" and ?key = "block ''disk'' i"
  have adm: "admits ?P" by (simp add: admits_def admits_call_def blind_def)
  have first: "ends ?P (if scsi then scsiDisk S D ?key scsis (newDefDisk i) else ret (newDefDisk i)) rawDisk" for scsi
    unfolding scsiDisk_def by (auto intro!: ends_ret safe_bind safe_intros adm)
  have source: "ends ?P (diskSource S D st ?key isos d) (\<lambda>r. rawDisk (fst r))" if "rawDisk d" for d
    unfolding diskSource_def
    by (rule ends_bind [OF ends_dOptStr_None])
      (auto simp: assms(1) that fileDisk_raw rawDisk_blockDisk
        intro!: ends_ret safe_bind [OF safe_dMap(3)] ends_urlDisk split: option.split)
  have "ends ?P (diskAt S D st isos scsis i) (\<lambda>r. rawDisk (fst r))"
    unfolding diskAt_def Let_def
    by (rule safe_bind [OF safe_dStr(3)], rule ends_bind [OF first], rule ends_bind [OF source])
      (auto intro: ends_ret)
  from endsD [OF this _ run] show ?thesis by (simp add: rawDisk_def)
qed

text \<open>The disk \<open>/images/a.qcow2\<close> of the demonstration data.\<close>

theorem diskAt_driver_witness:
  "\<exists>disk counts s'. diskAt demo_sdk (demo_domapi 1) demo_storage 0 0 0 (demo_state demo_world
        [(block ''disk'' 0 @ ''.scsi'', TBool False), (block ''disk'' 0 @ ''.file'', TStr ''/images/a.qcow2'')] [])
      = (Ret (disk, counts), s')
    \<and> (\<exists>t. dk_Driver disk = Some t \<and> dr_Type t = ''raw'')"
proof -
  let ?s = "demo_state demo_world
        [(block ''disk'' 0 @ ''.scsi'', TBool False), (block ''disk'' 0 @ ''.file'', TStr ''/images/a.qcow2'')] []"
  have "(case fst (diskAt demo_sdk (demo_domapi 1) demo_storage 0 0 0 ?s) of Ret _ \<Rightarrow> True | _ \<Rightarrow> False)"
    by code_simp
  then obtain disk counts s' where run: "diskAt demo_sdk (demo_domapi 1) demo_storage 0 0 0 ?s = (Ret (disk, counts), s')"
    by (cases "diskAt demo_sdk (demo_domapi 1) demo_storage 0 0 0 ?s"; cases "fst (diskAt demo_sdk (demo_domapi 1) demo_storage 0 0 0 ?s)") auto
  have "sdGetOk demo_sdk (rdata ?s) (block ''disk'' 0 @ ''.volume_id'') = None"
    by (simp add: demo_sdk_def demo_getok_def demo_lookup_def demo_state_def demo_zero_def)
  from diskAt_driver [OF this run] run show ?thesis by blast
qed

end
