(* ===== verification/Domain_Life.thy ===== *)
theory Domain_Life
  imports Domain_Text Domain_Targets Disk_Life Network_Life
begin

text \<open>
  Properties of the domain handlers as wholes: the discipline, what a successful wait for leases
  means, the order of the calls of \<open>Delete\<close>, and that the volume of a disk is read back.
\<close>

section \<open>The handlers\<close>

text \<open>C38: Creating, updating, reading and deleting a domain take no mutex: whichever mutexes other
  handlers hold, each of them ends, whatever the daemon answers.  They make no call that changes a
  storage pool or a network, with one exception, which they too make without a mutex: \<open>Create\<close> and
  \<open>Update\<close> put DHCP host entries into a network with \<open>NetworkUpdate\<close>.\<close>

theorem domainHandlers_disciplined:
  assumes "wait_ok S"
  shows "takes_no_mutex {''NetworkUpdate''} (resourceLibvirtDomainCreate S R x D A st)
    \<and> takes_no_mutex {''NetworkUpdate''} (resourceLibvirtDomainUpdate S R D A st)
    \<and> takes_no_mutex {} (resourceLibvirtDomainRead S R D A st) \<and> takes_no_mutex {} (resourceLibvirtDomainDelete S R D)"
  by (intro conjI takes_no_mutexI safe_domainCreate safe_domainUpdate safe_domainRead safe_domainDelete
      admits_quiet admits_call_quiet assms) simp_all

theorem domainHandlers_disciplined_witness:
  "\<forall>st. takes_no_mutex {''NetworkUpdate''}
       (resourceLibvirtDomainCreate demo_sdk demo_net_runtime demo_net_xslt (demo_domapi 1) demo_netapi st)
     \<and> takes_no_mutex {} (resourceLibvirtDomainDelete demo_sdk demo_net_runtime (demo_domapi 1))"
  using domainHandlers_disciplined [OF demo_sdk_ok(1)] by blast

section \<open>Leases\<close>

text \<open>The calls of a poll only ask: for the state of the domain, and for its interfaces.\<close>

definition asks :: "'w domapi \<Rightarrow> Domain \<Rightarrow> 'w \<Rightarrow> 'w \<Rightarrow> bool" where
  "asks D domain w w' \<longleftrightarrow> (\<exists>r. DomainGetState D domain 0 w = (r, w'))
     \<or> (\<exists>src r. DomainInterfaceAddresses D domain src w = (r, w'))"

abbreviation asking :: "'w domapi \<Rightarrow> Domain \<Rightarrow> 'w \<Rightarrow> 'w \<Rightarrow> bool" where
  "asking D domain \<equiv> (asks D domain)\<^sup>*\<^sup>*"

text \<open>Between the worlds \<open>w0\<close> and \<open>w'\<close>, in which nothing but such questions happens, the daemon has
  listed an interface with this hardware address, according to \<open>src\<close>.\<close>

definition lists_iface :: "'w domapi \<Rightarrow> Domain \<Rightarrow> uint32 \<Rightarrow> 'w \<Rightarrow> 'w \<Rightarrow> string \<Rightarrow> bool" where
  "lists_iface D domain src w0 w' mac \<longleftrightarrow> (\<exists>w1 l w2. asking D domain w0 w1
     \<and> DomainInterfaceAddresses D domain src w1 = (Inr l, w2) \<and> asking D domain w2 w'
     \<and> (\<exists>a \<in> set l. \<exists>h hs. ia_Hwaddr a = h # hs \<and> strToUpper h = mac))"

definition listed_or_ignored :: "'w domapi \<Rightarrow> Domain \<Rightarrow> uint32 \<Rightarrow> 'w \<Rightarrow> 'w \<Rightarrow> DomainIface \<Rightarrow> bool" where
  "listed_or_ignored D domain src w0 w' iface \<longleftrightarrow>
     (\<exists>address. if_MAC iface = Some address \<and> (address = [] \<or> lists_iface D domain src w0 w' (strToUpper address)))"

text \<open>Where the code asks: the guest agent, or the leases.\<close>

definition addressSource :: "('w, 'd, 'v) sdk \<Rightarrow> 'd \<Rightarrow> uint32" where
  "addressSource S d = (if sdGet S d ''qemu_agent'' = TBool True then DomainInterfaceAddressesSrcAgent
     else DomainInterfaceAddressesSrcLease)"

lemma lists_iface_extend:
  "lists_iface D domain src w0 w1 mac \<Longrightarrow> asking D domain w w0 \<Longrightarrow> asking D domain w1 w' \<Longrightarrow>
   lists_iface D domain src w w' mac"
  unfolding lists_iface_def by (meson rtranclp_trans)

lemma listed_or_ignored_extend:
  "listed_or_ignored D domain src w0 w1 iface \<Longrightarrow> asking D domain w w0 \<Longrightarrow> asking D domain w1 w' \<Longrightarrow>
   listed_or_ignored D domain src w w' iface"
  unfolding listed_or_ignored_def using lists_iface_extend by metis

lemma strToUpper_empty [simp]: "strToUpper x = [] \<longleftrightarrow> x = []"
  by (simp add: strToUpper_def)

lemma runs_to_domCall_world:
  "runs_to (domCall name domain f) s x s' \<Longrightarrow> f (world s) = (Inr x, world s') \<and> rdata s' = rdata s"
  by (auto simp: runs_to_def domCall_def call_def Let_def split: prod.splits sum.splits)

lemma runs_to_dBool: "runs_to (dBool S k) s b s' \<Longrightarrow> sdGet S (rdata s) k = TBool b \<and> s' = s"
  by (cases "sdGet S (rdata s) k") (auto simp: dBool_def assertBool_def runs_to_def bindP_def getS_def ret_def panic_def)

lemma ifacesInfo_runs:
  assumes "runs_to (domainGetIfacesInfo S D domain) s l s'"
  shows "rdata s' = rdata s \<and> asking D domain (world s) (world s')
    \<and> (l \<noteq> [] \<longrightarrow> (\<exists>w. asking D domain (world s) w
         \<and> DomainInterfaceAddresses D domain (addressSource S (rdata s)) w = (Inr l, world s')))"
proof -
  from assms obtain st reason s1 where 1: "runs_to (domCall ''DomainGetState'' domain (DomainGetState D domain 0)) s (st, reason) s1"
    and rest: "runs_to (if st \<noteq> DomainRunning then ret [] else
       bindP (dBool S ''qemu_agent'') (\<lambda>qemuAgentEnabled.
       let addrsrc = (if qemuAgentEnabled then DomainInterfaceAddressesSrcAgent else DomainInterfaceAddressesSrcLease)
       in orFail (domCall ''DomainInterfaceAddresses'' domain (DomainInterfaceAddresses D domain addrsrc))
            (Wrapf ''error retrieving interface addresses: %w'' []))) s1 l s'"
    unfolding domainGetIfacesInfo_def domainIsRunning_def by (auto elim!: runs_to_bindE)
  from runs_to_domCall_world [OF 1] have ask: "asking D domain (world s) (world s1)" and data: "rdata s1 = rdata s"
    by (auto simp: asks_def)
  show ?thesis
  proof (cases "st = DomainRunning")
    case True
    with rest obtain b where "sdGet S (rdata s1) ''qemu_agent'' = TBool b"
      "runs_to (domCall ''DomainInterfaceAddresses'' domain (DomainInterfaceAddresses D domain
         (if b then DomainInterfaceAddressesSrcAgent else DomainInterfaceAddressesSrcLease))) s1 l s'"
      by (auto simp: Let_def elim!: runs_to_bindE dest!: runs_to_dBool)
    then have 2: "DomainInterfaceAddresses D domain (addressSource S (rdata s)) (world s1) = (Inr l, world s')"
      "rdata s' = rdata s1"
      by (auto simp: addressSource_def data dest!: runs_to_domCall_world)
    then have "asks D domain (world s1) (world s')" unfolding asks_def by blast
    with ask 2 data show ?thesis by (metis rtranclp.rtrancl_into_rtrancl)
  qed (use rest ask data in simp)
qed

lemma ifaceHasAddress_runs:
  assumes "runs_to (domainIfaceHasAddress S D domain iface) s (found, ignore) s'"
  shows "rdata s' = rdata s \<and> asking D domain (world s) (world s')
    \<and> (found \<or> ignore \<longrightarrow> listed_or_ignored D domain (addressSource S (rdata s)) (world s) (world s') iface)"
proof (cases "if_MAC iface")
  case (Some address)
  show ?thesis
  proof (cases "address = []")
    case False
    with assms Some obtain l where run: "runs_to (domainGetIfacesInfo S D domain) s l s'" and "\<not> ignore"
      and found: "found = list_ex (\<lambda>a. case ia_Hwaddr a of h # _ \<Rightarrow> strToUpper address = strToUpper h | [] \<Rightarrow> False) l"
      by (auto simp: domainIfaceHasAddress_def deref_def Let_def elim!: runs_to_bindE)
    moreover have "lists_iface D domain (addressSource S (rdata s)) (world s) (world s') (strToUpper address)" if found
    proof -
      from that found obtain a where a: "a \<in> set l"
        "case ia_Hwaddr a of h # _ \<Rightarrow> strToUpper address = strToUpper h | [] \<Rightarrow> False" by (auto simp: list_ex_iff)
      then have "l \<noteq> []" "\<exists>h hs. ia_Hwaddr a = h # hs \<and> strToUpper h = strToUpper address"
        by (auto split: list.splits)
      with a ifacesInfo_runs [OF run] show ?thesis unfolding lists_iface_def by blast
    qed
    ultimately show ?thesis
      using ifacesInfo_runs [OF run] Some by (auto simp: listed_or_ignored_def)
  qed (use assms Some in \<open>auto simp: domainIfaceHasAddress_def deref_def listed_or_ignored_def Let_def elim!: runs_to_bindE\<close>)
qed (use assms in \<open>auto simp: domainIfaceHasAddress_def deref_def elim!: runs_to_bindE\<close>)

lemma lease_states [simp]:
  "domWaitLeaseStillWaiting \<noteq> domWaitLeaseDone" "domWaitLeaseDone \<noteq> domWaitLeaseStillWaiting"
  by (simp_all add: domWaitLeaseDone_def domWaitLeaseStillWaiting_def)

lemma leasesLoop_runs:
  "runs_to (leasesLoop S D domain ifaces) s st s' \<Longrightarrow> rdata s' = rdata s \<and> asking D domain (world s) (world s')
     \<and> (st = domWaitLeaseDone \<longrightarrow>
         (\<forall>iface \<in> set ifaces. listed_or_ignored D domain (addressSource S (rdata s)) (world s) (world s') iface))"
proof (induction ifaces arbitrary: s)
  case (Cons iface ifaces)
  then obtain found ignore s1 where 1: "runs_to (domainIfaceHasAddress S D domain iface) s (found, ignore) s1"
    and 2: "\<not> ignore \<and> \<not> found \<and> st = domWaitLeaseStillWaiting \<and> s' = s1
        \<or> (found \<or> ignore) \<and> runs_to (leasesLoop S D domain ifaces) s1 st s'"
    by (auto elim!: runs_to_bindE split: if_splits)
  note here = ifaceHasAddress_runs [OF 1]
  from 2 show ?case
  proof (rule disjE)
    assume run: "(found \<or> ignore) \<and> runs_to (leasesLoop S D domain ifaces) s1 st s'"
    from Cons.IH [OF conjunct2 [OF run]] here conjunct1 [OF run] show ?thesis
      by (auto intro: listed_or_ignored_extend rtranclp_trans)
  qed (use here in auto)
qed simp

lemma waitForLeases_runs:
  assumes "runs_to (waitForLeasesFunc S D domain ifaces) s domWaitLeaseDone s'"
  shows "\<exists>reason w1. DomainGetState D domain 0 (world s) = (Inr (DomainRunning, reason), w1)
    \<and> (\<forall>iface \<in> set ifaces. listed_or_ignored D domain (addressSource S (rdata s)) w1 (world s') iface)"
proof -
  from assms obtain st reason s1 where 1: "runs_to (domCall ''DomainGetState'' domain (DomainGetState D domain 0)) s (st, reason) s1"
    and "st = DomainRunning" "runs_to (leasesLoop S D domain ifaces) s1 domWaitLeaseDone s'"
    unfolding waitForLeasesFunc_def domainGetState_def bind_assoc
    by (auto elim!: runs_to_bindE split: if_splits)
  with runs_to_domCall_world [OF 1] leasesLoop_runs [of S D domain ifaces s1 domWaitLeaseDone s'] show ?thesis by auto
qed

text \<open>C14: When the wait for leases reports success, the daemon has called the domain running at the
  start of the last poll and listed in that poll, for the source that \<open>qemu_agent\<close> selects, an
  interface with the MAC address of each interface that was waited for; after that nothing but
  questions has happened to the world.  An interface with an empty MAC address is not waited for.
  The code does not look at the addresses that are listed with the interface.\<close>

theorem domainWaitForLeases_done:
  assumes wait: "wait_ok S" and run: "domainWaitForLeases S D domain ifaces timeout s = (Ret (), s')"
  shows "\<exists>w0 reason w1. DomainGetState D domain 0 w0 = (Inr (DomainRunning, reason), w1)
    \<and> (\<forall>iface \<in> set ifaces. listed_or_ignored D domain (addressSource S (rdata s)) w1 (world s') iface)"
proof -
  obtain s0 where last: "waitForLeasesFunc S D domain ifaces s0 = (Ret domWaitLeaseDone, s')"
    using assms unfolding wait_ok_def domainWaitForLeases_def by fastforce
  have keeps: "admits (\<lambda>s. rdata s = d)" for d :: 'b
    by (simp add: admits_def admits_call_def blind_def)
  have "rdata s' = rdata s"
    using endsD [OF safe_domainWaitForLeases [OF wait keeps] _ run] by blast
  moreover have "rdata s' = rdata s0"
    using endsD [OF safe_waitForLeasesFunc [OF keeps] _ last] by blast
  ultimately show ?thesis
    using waitForLeases_runs [of S D domain ifaces s0 s'] last by (auto simp: runs_to_def)
qed

definition demo_iface :: DomainIface where
  "demo_iface = \<lparr>if_Model = ''virtio'', if_MAC = Some ''52:54:00:01:02:03'', if_Source = None\<rparr>"

theorem domainWaitForLeases_done_witness:
  "let s = demo_net_state [(''qemu_agent'', TBool False)] [];
       r = domainWaitForLeases demo_sdk (demo_domapi 1) demo_domain [demo_iface] 300 s
   in fst r = Ret () \<and> (\<exists>w1. listed_or_ignored (demo_domapi 1) demo_domain DomainInterfaceAddressesSrcLease
        w1 (world (snd r)) demo_iface)"
proof -
  let ?s = "demo_net_state [(''qemu_agent'', TBool False)] []"
  let ?r = "domainWaitForLeases demo_sdk (demo_domapi 1) demo_domain [demo_iface] 300 ?s"
  have src: "addressSource demo_sdk (rdata ?s) = DomainInterfaceAddressesSrcLease" by code_simp
  have ok: "fst ?r = Ret ()" by code_simp
  then have "?r = (Ret (), snd ?r)" by (metis prod.collapse)
  from domainWaitForLeases_done [OF demo_sdk_ok(1) this] ok show ?thesis
    unfolding Let_def src by auto
qed

section \<open>Deletion\<close>

lemma runs_to_call:
  "runs_to (call name args f) s x s' \<Longrightarrow> call_names s' = call_names s @ [name] \<and> f (world s) = (Inr x, world s')
     \<and> rdata s' = rdata s"
  by (auto simp: runs_to_def call_def call_names_def Let_def split: prod.splits sum.splits)

lemma runs_to_domCall:
  "runs_to (domCall name domain f) s x s' \<Longrightarrow> call_names s' = call_names s @ [name] \<and> f (world s) = (Inr x, world s')
     \<and> rdata s' = rdata s"
  unfolding domCall_def by (rule runs_to_call)

text \<open>Making up the empty definition only asks for the capabilities of the host.\<close>

definition only_asks :: "string \<Rightarrow> string list \<Rightarrow> ('w, 'd) prov \<Rightarrow> bool" where
  "only_asks name ns s \<longleftrightarrow> (\<exists>k. call_names s = ns @ replicate k name)"

lemma safe_only_asks: "safe (only_asks name ns) (call name args f)"
  by (auto simp: ends_def call_def Let_def only_asks_def call_names_def simp flip: replicate_append_same
      intro: exI [where x = "Suc k" for k] split: prod.splits sum.splits)

lemma newDomainDefForConnection_asks:
  "runs_to (newDomainDefForConnection S D) s def s' \<Longrightarrow>
   \<exists>k. call_names s' = call_names s @ replicate k ''Capabilities''"
proof -
  have "safe (only_asks ''Capabilities'' ns) (newDomainDefForConnection S D)" for ns
    unfolding newDomainDefForConnection_def getHostArchitecture_def getHostCapabilities_def
    by (intro safe_intros safe_only_asks)
  moreover have "only_asks name (call_names s) s" for name
    by (auto simp: only_asks_def intro: exI [where x = 0])
  moreover assume "runs_to (newDomainDefForConnection S D) s def s'"
  ultimately show ?thesis
    unfolding runs_to_def only_asks_def by (fastforce dest: endsD)
qed

lemma undefineDomain_calls:
  "runs_to (undefineDomain D domain) s () s' \<Longrightarrow>
   \<exists>again. call_names s' = call_names s @ ''DomainUndefineFlags'' # again \<and> again \<in> {[], [''DomainUndefine'']}"
  by (cases "DomainUndefineFlags D domain undefineFlags (world s)")
    (auto simp: undefineDomain_def domCall_def bindP_def attempt_call runs_to_def orFail_def call_names_def
      ev_of_def ret_def throw_def split: sum.splits if_splits prod.splits outcome.splits)

text \<open>C9: A successful \<open>Delete\<close> has asked the daemon for the state of the domain, destroyed the domain
  if it was running or paused, and only then undefined it.\<close>

theorem domainDelete_order:
  assumes "resourceLibvirtDomainDelete S R D s = (Ret (), s')"
  shows "\<exists>k domain state reason w w' again.
     DomainGetState D domain 0 w = (Inr (state, reason), w')
   \<and> call_names s' = call_names s @ [''DomainLookupByUUID'', ''DomainGetXMLDesc''] @ replicate k ''Capabilities''
       @ [''DomainGetState''] @ (if state = DomainRunning \<or> state = DomainPaused then [''DomainDestroy''] else [])
       @ ''DomainUndefineFlags'' # again
   \<and> again \<in> {[], [''DomainUndefine'']}"
proof -
  from assms have "runs_to (resourceLibvirtDomainDelete S R D) s () s'" by (simp add: runs_to_def)
  then obtain i uuid domain xml def0 def1 state reason s1 s2 s3 s4 s5 s6 s7 s8
    where r: "runs_to (dId S) s i s1" "runs_to (parseUUID R i) s1 uuid s2"
      "runs_to (call ''DomainLookupByUUID'' [uuid] (DomainLookupByUUID D uuid)) s2 domain s3"
      "runs_to (domCall ''DomainGetXMLDesc'' domain (DomainGetXMLDesc D domain 0)) s3 xml s4"
      "runs_to (newDomainDefForConnection S D) s4 def0 s5"
      "runs_to (domCall ''DomainGetState'' domain (DomainGetState D domain 0)) s5 (state, reason) s6"
      "runs_to (if state = DomainRunning \<or> state = DomainPaused then
              orFail (domCall ''DomainDestroy'' domain (DomainDestroy D domain))
                (\<lambda>err. Errorf ''couldn't destroy libvirt domain: %s'' [EArg err])
            else ret ()) s6 () s7" "runs_to (undefineDomain D domain) s7 () s'"
    unfolding resourceLibvirtDomainDelete_def
    by (auto simp: runs_to_requireConn elim!: runs_to_bindE)
  have "call_names s2 = call_names s"
    using r(1,2) by (auto simp: dId_def getS_def parseUUID_def runs_to_def panic_def ret_def split: option.splits)
  moreover obtain k where "call_names s5 = call_names s4 @ replicate k ''Capabilities''"
    using newDomainDefForConnection_asks [OF r(5)] by blast
  moreover have "call_names s7 = call_names s6
      @ (if state = DomainRunning \<or> state = DomainPaused then [''DomainDestroy''] else [])"
    using r(7) by (auto dest: runs_to_domCall split: if_splits)
  moreover obtain again where "call_names s' = call_names s7 @ ''DomainUndefineFlags'' # again"
      and again: "again \<in> {[], [''DomainUndefine'']}"
    using undefineDomain_calls [OF r(8)] by blast
  moreover have "DomainGetState D domain 0 (world s5) = (Inr (state, reason), world s6)"
    using runs_to_domCall [OF r(6)] by simp
  ultimately have "call_names s' = call_names s @ [''DomainLookupByUUID'', ''DomainGetXMLDesc''] @ replicate k ''Capabilities''
       @ [''DomainGetState''] @ (if state = DomainRunning \<or> state = DomainPaused then [''DomainDestroy''] else [])
       @ ''DomainUndefineFlags'' # again"
    using runs_to_call [OF r(3)] runs_to_domCall [OF r(4)] runs_to_domCall [OF r(6)] by simp
  with again runs_to_domCall [OF r(6)] show ?thesis by blast
qed

theorem domainDelete_order_witness:
  "let s' = snd (resourceLibvirtDomainDelete demo_sdk demo_net_runtime (demo_domapi DomainPaused) (demo_net_state [] ''vm''))
   in call_names s' = [''DomainLookupByUUID'', ''DomainGetXMLDesc'', ''Capabilities'', ''Capabilities'',
        ''DomainGetState'', ''DomainDestroy'', ''DomainUndefineFlags'']
    \<and> (\<exists>k domain state reason w w' again.
         DomainGetState (demo_domapi DomainPaused :: nworld domapi) domain 0 w = (Inr (state, reason), w')
       \<and> call_names s' = call_names (demo_net_state [] ''vm'') @ [''DomainLookupByUUID'', ''DomainGetXMLDesc'']
           @ replicate k ''Capabilities'' @ [''DomainGetState'']
           @ (if state = DomainRunning \<or> state = DomainPaused then [''DomainDestroy''] else [])
           @ ''DomainUndefineFlags'' # again
       \<and> again \<in> {[], [''DomainUndefine'']})"
proof -
  let ?r = "resourceLibvirtDomainDelete demo_sdk demo_net_runtime (demo_domapi DomainPaused) (demo_net_state [] ''vm'')"
  have "fst ?r = Ret () \<and> call_names (snd ?r) = [''DomainLookupByUUID'', ''DomainGetXMLDesc'', ''Capabilities'',
      ''Capabilities'', ''DomainGetState'', ''DomainDestroy'', ''DomainUndefineFlags'']"
    by code_simp
  moreover from this have "?r = (Ret (), snd ?r)" by (metis prod.collapse)
  ultimately show ?thesis
    using domainDelete_order [of demo_sdk demo_net_runtime "demo_domapi DomainPaused" "demo_net_state [] ''vm''"]
    unfolding Let_def by blast
qed

section \<open>The volume of a disk\<close>

text \<open>
  What the daemon promises of names and keys: a volume that is found by its key has that key, and
  looking up its name in its pool gives it again.
\<close>

definition names_coherent :: "'w storage \<Rightarrow> bool" where
  "names_coherent st \<longleftrightarrow>
     (\<forall>key w v w'. StorageVolLookupByKey st key w = (Inr v, w') \<longrightarrow> sv_Key v = key
       \<and> (\<forall>w0 p w0' w1 p1 w1' w2 v2 w2'. StoragePoolLookupByVolume st v w0 = (Inr p, w0')
          \<longrightarrow> StoragePoolLookupByName st (sp_Name p) w1 = (Inr p1, w1')
          \<longrightarrow> StorageVolLookupByName st p1 (sv_Name v) w2 = (Inr v2, w2') \<longrightarrow> sv_Key v2 = key))"

lemma volumeDisk_source:
  "yields (volumeDisk st key disk) (\<lambda>d. \<exists>v p w w1 w2 w3. StorageVolLookupByKey st key w = (Inr v, w1)
     \<and> StoragePoolLookupByVolume st v w2 = (Inr p, w3) \<and> dk_Target d = dk_Target disk \<and> dk_Device d = dk_Device disk
     \<and> dk_Source d = Some \<lparr>src_Network = None, src_Block = None, src_File = None,
         src_Volume = Some (sp_Name p, sv_Name v)\<rparr>)"
  unfolding volumeDisk_def Let_def lookupVolByKey_def
  by (rule yields_bind [OF yields_orFail [OF yields_call]], rule yields_bind [OF yields_orFail [OF yields_volCall]],
      rule yields_any_bind) auto

text \<open>C40: The volume of a disk is read back: what \<open>Read\<close> stores for a disk that \<open>Create\<close> made from a
  volume, if it succeeds, is that volume's key, and no SCSI flag for a disk that is not SCSI.\<close>

theorem volumeDisk_roundtrip:
  assumes "names_coherent st" "volumeDisk st key (newDefDisk i) s = (Ret disk, s')"
    and "diskBlock D st disk t = (Ret b, t')"
  shows "b = [TMap [(''volume_id'', TStr key), (''scsi'', TBool False)]]"
proof -
  obtain v p w w1 w2 w3 where d: "StorageVolLookupByKey st key w = (Inr v, w1)"
      "StoragePoolLookupByVolume st v w2 = (Inr p, w3)"
      "dk_Target disk = Some \<lparr>tg_Dev = ''vd'' @ diskLetterForIndex i, tg_Bus = ''virtio''\<rparr>" "dk_Device disk = ''disk''"
      "dk_Source disk = Some \<lparr>src_Network = None, src_Block = None, src_File = None,
         src_Volume = Some (sp_Name p, sv_Name v)\<rparr>"
    using yieldsD [OF volumeDisk_source assms(2)] by (auto simp: newDefDisk_def)
  have "yields (diskBlock D st disk) (\<lambda>b. \<exists>v2 p1 w1 w1' w2 w2'.
      StoragePoolLookupByName st (sp_Name p) w1 = (Inr p1, w1') \<and> StorageVolLookupByName st p1 (sv_Name v) w2 = (Inr v2, w2')
      \<and> b = [TMap [(''volume_id'', TStr (sv_Key v2)), (''scsi'', TBool False)]])"
    unfolding diskBlock_def diskSourceBlock_def deref_def
    by (simp add: d bind_assoc, rule yields_bind [OF yields_orFail [OF yields_call]],
        rule yields_bind [OF yields_orFail [OF yields_call]]) (auto simp: volumeBlock_def)
  from yieldsD [OF this assms(3)] assms(1) d(1,2) show ?thesis
    unfolding names_coherent_def by blast
qed

definition coherent_storage :: "dworld storage" where
  "coherent_storage = demo_storage\<lparr>
     StorageVolLookupByKey := (\<lambda>key. answer \<lparr>sv_Pool = ''default'', sv_Name = key, sv_Key = key\<rparr>),
     StorageVolGetXMLDesc := (\<lambda>_ _. answer ''xml''),
     StorageVolLookupByName := (\<lambda>p name. answer \<lparr>sv_Pool = sp_Name p, sv_Name = name, sv_Key = name\<rparr>)\<rparr>"

lemma names_coherent_demo: "names_coherent coherent_storage"
  by (simp add: names_coherent_def coherent_storage_def answer_def)

theorem volumeDisk_roundtrip_witness:
  "\<exists>disk s' b t'. volumeDisk coherent_storage ''k'' (newDefDisk 0) (demo_state demo_world [] []) = (Ret disk, s')
     \<and> diskBlock (demo_domapi 1) coherent_storage disk (demo_state demo_world [] []) = (Ret b, t')
     \<and> b = [TMap [(''volume_id'', TStr ''k''), (''scsi'', TBool False)]]"
proof -
  let ?s = "demo_state demo_world [] []"
  let ?run = "volumeDisk coherent_storage ''k'' (newDefDisk 0) ?s"
  let ?blk = "\<lambda>disk. diskBlock (demo_domapi 1) coherent_storage disk ?s"
  have "case fst ?run of Ret disk \<Rightarrow> (case fst (?blk disk) of Ret _ \<Rightarrow> True | _ \<Rightarrow> False) | _ \<Rightarrow> False"
    by code_simp
  then obtain disk b where "fst ?run = Ret disk" "fst (?blk disk) = Ret b"
    by (auto split: outcome.splits)
  then have "?run = (Ret disk, snd ?run)" "?blk disk = (Ret b, snd (?blk disk))"
    by (metis prod.collapse)+
  with volumeDisk_roundtrip [OF names_coherent_demo this] show ?thesis by blast
qed

end
