(* ===== verification/Schema.thy ===== *)
theory Schema
  imports Terraform_SDK
begin

text \<open>
  Schemas of the Terraform SDK as data: the fields of \<open>schema.Schema\<close> that the provider sets, the
  rules that the SDK checks when the provider starts (\<open>InternalValidate\<close>), and what it promises of
  resource data with a given schema.
\<close>

section \<open>Schemas\<close>

datatype vtype = TypeBool | TypeInt | TypeString | TypeList | TypeMap | TypeSet

text \<open>\<open>DefaultEnv\<close> stands for \<open>schema.EnvDefaultFunc\<close>, \<open>IgnoreCase\<close> for \<open>suppress.CaseDifference\<close> as
  \<open>DiffSuppressFunc\<close>; a \<open>MaxItems\<close> of 0 is no limit.\<close>

record attrs =
  Type :: vtype
  Required :: bool
  Optional :: bool
  Computed :: bool
  ForceNew :: bool
  Default :: "tfval option"
  DefaultEnv :: "string option"
  MaxItems :: nat
  IgnoreCase :: bool

datatype schema = Schema attrs elem
  and elem = NoElem | ElemSchema schema | ElemResource "field list"
  and field = Field string schema

definition attr :: "vtype \<Rightarrow> attrs" where
  "attr t = \<lparr>Type = t, Required = False, Optional = False, Computed = False, ForceNew = False,
     Default = None, DefaultEnv = None, MaxItems = 0, IgnoreCase = False\<rparr>"

abbreviation required :: "vtype \<Rightarrow> attrs" where "required t \<equiv> (attr t)\<lparr>Required := True\<rparr>"
abbreviation optional :: "vtype \<Rightarrow> attrs" where "optional t \<equiv> (attr t)\<lparr>Optional := True\<rparr>"
abbreviation computed :: "vtype \<Rightarrow> attrs" where "computed t \<equiv> (attr t)\<lparr>Computed := True\<rparr>"

text \<open>A plain attribute, a list of plain values, and a nested block.\<close>

abbreviation leaf :: "string \<Rightarrow> attrs \<Rightarrow> field" where
  "leaf name a \<equiv> Field name (Schema a NoElem)"

abbreviation listOf :: "string \<Rightarrow> attrs \<Rightarrow> vtype \<Rightarrow> field" where
  "listOf name a t \<equiv> Field name (Schema a (ElemSchema (Schema (attr t) NoElem)))"

abbreviation nested :: "string \<Rightarrow> attrs \<Rightarrow> field list \<Rightarrow> field" where
  "nested name a fs \<equiv> Field name (Schema a (ElemResource fs))"

text \<open>\<open>res_Update\<close>: the resource has an update function; the timeout of \<open>Create\<close> is in minutes.\<close>

record resource =
  res_Schema :: "field list"
  res_Update :: bool
  res_Import :: bool
  res_CreateTimeout :: "nat option"

fun fieldName :: "field \<Rightarrow> string" where
  "fieldName (Field name _) = name"

fun fieldAttrs :: "field \<Rightarrow> attrs" where
  "fieldAttrs (Field _ (Schema a _)) = a"

section \<open>The rules of the SDK\<close>

definition attrs_ok :: "attrs \<Rightarrow> elem \<Rightarrow> bool" where
  "attrs_ok a e \<longleftrightarrow> (Required a \<or> Optional a \<or> Computed a)
     \<and> \<not> (Required a \<and> (Optional a \<or> Computed a))
     \<and> (Default a \<noteq> None \<longrightarrow> \<not> Required a \<and> \<not> Computed a)
     \<and> (if Type a = TypeList \<or> Type a = TypeSet then e \<noteq> NoElem \<and> Default a = None else MaxItems a = 0)
     \<and> (Type a = TypeMap \<longrightarrow> (case e of ElemResource _ \<Rightarrow> False | _ \<Rightarrow> True))"

text \<open>The element of a list of plain values is a schema for which the rules are not applied.\<close>

fun field_ok :: "field \<Rightarrow> bool" where
  "field_ok (Field name (Schema a e)) \<longleftrightarrow> attrs_ok a e
     \<and> (case e of ElemResource fs \<Rightarrow> distinct (map fieldName fs) \<and> list_all field_ok fs | _ \<Rightarrow> True)"

definition resource_ok :: "resource \<Rightarrow> bool" where
  "resource_ok r \<longleftrightarrow> distinct (map fieldName (res_Schema r)) \<and> list_all field_ok (res_Schema r)
     \<and> (if res_Update r then list_ex (\<lambda>f. \<not> (ForceNew (fieldAttrs f)
            \<or> Computed (fieldAttrs f) \<and> \<not> Optional (fieldAttrs f))) (res_Schema r)
        else list_all (\<lambda>f. ForceNew (fieldAttrs f) \<or> Computed (fieldAttrs f)) (res_Schema r))"

section \<open>Data of a schema\<close>

text \<open>A value has the type that its schema says; the fields of a block are not looked at.\<close>

fun typed :: "schema \<Rightarrow> tfval \<Rightarrow> bool" where
  "typed (Schema a e) v = (case (Type a, v) of
      (TypeBool, TBool _) \<Rightarrow> True
    | (TypeInt, TInt _) \<Rightarrow> True
    | (TypeString, TStr _) \<Rightarrow> True
    | (TypeMap, TMap _) \<Rightarrow> True
    | (TypeSet, TSet _) \<Rightarrow> True
    | (TypeList, TList vs) \<Rightarrow> (case e of ElemSchema s \<Rightarrow> list_all (typed s) vs
        | _ \<Rightarrow> list_all (\<lambda>x. case x of TMap _ \<Rightarrow> True | _ \<Rightarrow> False) vs)
    | _ \<Rightarrow> False)"

definition typedAt :: "('w, 'd, 'v) sdk \<Rightarrow> 'd \<Rightarrow> string \<Rightarrow> schema \<Rightarrow> bool" where
  "typedAt S d k s \<longleftrightarrow> typed s (sdGet S d k) \<and> (\<forall>v. sdGetOk S d k = Some v \<longrightarrow> typed s v)"

text \<open>
  \<open>Get\<close> and \<open>GetOk\<close> of the resource data return values of the schema's types, for the attribute, for
  the count \<open>#\<close> of a list and for every index into it.
\<close>

definition indexed :: "string \<Rightarrow> nat \<Rightarrow> string" where
  "indexed k i = k @ CHR ''.'' # decString i"

fun conformsAt :: "('w, 'd, 'v) sdk \<Rightarrow> 'd \<Rightarrow> string \<Rightarrow> schema \<Rightarrow> bool" where
  "conformsAt S d k (Schema a e) \<longleftrightarrow> typedAt S d k (Schema a e)
     \<and> (Type a = TypeList \<longrightarrow> typedAt S d (k @ ''.#'') (Schema (attr TypeInt) NoElem) \<and> (\<forall>i. case e of
          NoElem \<Rightarrow> True
        | ElemSchema s \<Rightarrow> conformsAt S d (indexed k i) s
        | ElemResource fs \<Rightarrow> list_all (\<lambda>f. case f of Field name s \<Rightarrow>
            conformsAt S d (indexed k i @ CHR ''.'' # name) s) fs))"

definition conforms :: "('w, 'd, 'v) sdk \<Rightarrow> field list \<Rightarrow> 'd \<Rightarrow> bool" where
  "conforms S fs d \<longleftrightarrow> list_all (\<lambda>f. case f of Field name s \<Rightarrow> conformsAt S d name s) fs"

end
