(* ===== verification/Provider_Schema.thy ===== *)
theory Provider_Schema
  imports Schema Domain_Handlers
begin

text \<open>
  The schemas of the provider, its resources and its data sources, and that they keep the rules of
  the SDK.
\<close>

section \<open>Storage\<close>

definition xmlBlock :: "attrs \<Rightarrow> field" where
  "xmlBlock a = nested ''xml'' (a\<lparr>MaxItems := 1\<rparr>) [leaf ''xslt'' ((optional TypeString)\<lparr>ForceNew := True\<rparr>)]"

definition resourceLibvirtVolume :: resource where
  "resourceLibvirtVolume = \<lparr>res_Schema = [
     leaf ''name'' ((required TypeString)\<lparr>ForceNew := True\<rparr>),
     leaf ''pool'' ((optional TypeString)\<lparr>Default := Some (TStr ''default''), ForceNew := True\<rparr>),
     leaf ''source'' ((optional TypeString)\<lparr>ForceNew := True\<rparr>),
     leaf ''size'' ((optional TypeInt)\<lparr>Computed := True, ForceNew := True\<rparr>),
     leaf ''format'' ((optional TypeString)\<lparr>Computed := True, ForceNew := True\<rparr>),
     leaf ''base_volume_id'' ((optional TypeString)\<lparr>ForceNew := True\<rparr>),
     leaf ''base_volume_pool'' ((optional TypeString)\<lparr>ForceNew := True\<rparr>),
     leaf ''base_volume_name'' ((optional TypeString)\<lparr>ForceNew := True\<rparr>),
     xmlBlock ((optional TypeList)\<lparr>ForceNew := True\<rparr>)],
     res_Update = False, res_Import = True, res_CreateTimeout = None\<rparr>"

definition resourceLibvirtPool :: resource where
  "resourceLibvirtPool = \<lparr>res_Schema = [
     leaf ''name'' ((required TypeString)\<lparr>ForceNew := True\<rparr>),
     leaf ''type'' ((required TypeString)\<lparr>ForceNew := True\<rparr>),
     leaf ''capacity'' ((optional TypeInt)\<lparr>Computed := True, ForceNew := True\<rparr>),
     leaf ''allocation'' ((optional TypeInt)\<lparr>Computed := True, ForceNew := True\<rparr>),
     leaf ''available'' ((optional TypeInt)\<lparr>Computed := True, ForceNew := True\<rparr>),
     xmlBlock ((optional TypeList)\<lparr>ForceNew := True\<rparr>),
     leaf ''path'' ((optional TypeString)\<lparr>ForceNew := True\<rparr>)],
     res_Update = False, res_Import = True, res_CreateTimeout = None\<rparr>"

definition resourceCloudInitDisk :: resource where
  "resourceCloudInitDisk = \<lparr>res_Schema = [
     leaf ''name'' ((required TypeString)\<lparr>ForceNew := True\<rparr>),
     leaf ''pool'' ((optional TypeString)\<lparr>Default := Some (TStr ''default''), ForceNew := True\<rparr>),
     leaf ''user_data'' ((optional TypeString)\<lparr>ForceNew := True\<rparr>),
     leaf ''meta_data'' ((optional TypeString)\<lparr>ForceNew := True\<rparr>),
     leaf ''network_config'' ((optional TypeString)\<lparr>ForceNew := True\<rparr>)],
     res_Update = False, res_Import = False, res_CreateTimeout = None\<rparr>"

definition resourceIgnition :: resource where
  "resourceIgnition = \<lparr>res_Schema = [
     leaf ''name'' ((required TypeString)\<lparr>ForceNew := True\<rparr>),
     leaf ''pool'' ((optional TypeString)\<lparr>Default := Some (TStr ''default''), ForceNew := True\<rparr>),
     leaf ''content'' ((required TypeString)\<lparr>ForceNew := True\<rparr>)],
     res_Update = False, res_Import = False, res_CreateTimeout = None\<rparr>"

section \<open>Networks\<close>

definition dnsSchema :: "field list" where
  "dnsSchema = [
     leaf ''enabled'' (optional TypeBool),
     leaf ''local_only'' (optional TypeBool),
     nested ''forwarders'' ((optional TypeList)\<lparr>ForceNew := True\<rparr>) [
       leaf ''address'' ((optional TypeString)\<lparr>ForceNew := True\<rparr>),
       leaf ''domain'' ((optional TypeString)\<lparr>ForceNew := True\<rparr>)],
     nested ''srvs'' ((optional TypeList)\<lparr>ForceNew := True\<rparr>) [
       leaf ''service'' ((optional TypeString)\<lparr>ForceNew := True\<rparr>),
       leaf ''protocol'' ((optional TypeString)\<lparr>ForceNew := True\<rparr>),
       leaf ''domain'' ((optional TypeString)\<lparr>ForceNew := True\<rparr>),
       leaf ''target'' ((optional TypeString)\<lparr>ForceNew := True\<rparr>),
       leaf ''port'' ((optional TypeString)\<lparr>ForceNew := True\<rparr>),
       leaf ''weight'' ((optional TypeString)\<lparr>ForceNew := True\<rparr>),
       leaf ''priority'' ((optional TypeString)\<lparr>ForceNew := True\<rparr>)],
     nested ''hosts'' (optional TypeSet) [
       leaf ''ip'' (optional TypeString),
       leaf ''hostname'' (optional TypeString)]]"

definition dhcpSchema :: "field list" where
  "dhcpSchema = [
     nested ''dhcp'' ((optional TypeList)\<lparr>ForceNew := True, MaxItems := 1, Computed := True\<rparr>) [
       leaf ''enabled'' ((optional TypeBool)\<lparr>Computed := True\<rparr>)],
     nested ''routes'' ((optional TypeList)\<lparr>ForceNew := True\<rparr>) [
       leaf ''cidr'' (required TypeString),
       leaf ''gateway'' (required TypeString)],
     nested ''dnsmasq_options'' ((optional TypeList)\<lparr>MaxItems := 1\<rparr>) [
       nested ''options'' (optional TypeList) [
         leaf ''option_name'' (optional TypeString),
         leaf ''option_value'' (optional TypeString)]],
     xmlBlock ((optional TypeList)\<lparr>ForceNew := True\<rparr>)]"

definition resourceLibvirtNetwork :: resource where
  "resourceLibvirtNetwork = \<lparr>res_Schema = [
     leaf ''name'' ((required TypeString)\<lparr>ForceNew := True\<rparr>),
     leaf ''domain'' ((optional TypeString)\<lparr>ForceNew := True\<rparr>),
     leaf ''mode'' ((optional TypeString)\<lparr>ForceNew := True, Default := Some (TStr netModeNat)\<rparr>),
     leaf ''bridge'' ((optional TypeString)\<lparr>Computed := True, ForceNew := True\<rparr>),
     leaf ''mtu'' (optional TypeInt),
     listOf ''addresses'' ((optional TypeList)\<lparr>ForceNew := True\<rparr>) TypeString,
     leaf ''autostart'' ((optional TypeBool)\<lparr>Computed := True\<rparr>),
     nested ''dns'' ((optional TypeList)\<lparr>MaxItems := 1, Computed := True\<rparr>) dnsSchema] @ dhcpSchema,
     res_Update = True, res_Import = True, res_CreateTimeout = None\<rparr>"

section \<open>Domains\<close>

definition basicsSchema :: "field list" where
  "basicsSchema = [
     leaf ''name'' ((required TypeString)\<lparr>ForceNew := True\<rparr>),
     leaf ''description'' ((optional TypeString)\<lparr>ForceNew := True\<rparr>),
     leaf ''metadata'' (optional TypeString),
     leaf ''vcpu'' ((optional TypeInt)\<lparr>Default := Some (TInt 1), ForceNew := True\<rparr>),
     leaf ''memory'' ((optional TypeInt)\<lparr>Default := Some (TInt (uint defaultDomainMemoryMiB)), ForceNew := True\<rparr>),
     leaf ''firmware'' ((optional TypeString)\<lparr>ForceNew := True\<rparr>),
     nested ''nvram'' ((optional TypeList)\<lparr>ForceNew := True, MaxItems := 1\<rparr>) [
       leaf ''file'' ((required TypeString)\<lparr>ForceNew := True\<rparr>),
       leaf ''template'' ((optional TypeString)\<lparr>ForceNew := True\<rparr>)],
     leaf ''running'' ((optional TypeBool)\<lparr>Default := Some (TBool True)\<rparr>),
     leaf ''cloudinit'' (optional TypeString),
     leaf ''coreos_ignition'' ((optional TypeString)\<lparr>ForceNew := True, Default := Some (TStr [])\<rparr>),
     leaf ''fw_cfg_name'' ((optional TypeString)\<lparr>ForceNew := True, Default := Some (TStr ''opt/com.coreos/config'')\<rparr>)]"

definition storageSchema :: "field list" where
  "storageSchema = [
     nested ''filesystem'' ((optional TypeList)\<lparr>ForceNew := True\<rparr>) [
       leaf ''accessmode'' ((optional TypeString)\<lparr>Default := Some (TStr ''mapped'')\<rparr>),
       leaf ''source'' (required TypeString),
       leaf ''target'' (required TypeString),
       leaf ''readonly'' ((optional TypeBool)\<lparr>Default := Some (TBool True)\<rparr>)],
     nested ''disk'' ((optional TypeList)\<lparr>ForceNew := True\<rparr>) [
       leaf ''volume_id'' (optional TypeString),
       leaf ''url'' (optional TypeString),
       leaf ''file'' (optional TypeString),
       leaf ''scsi'' ((optional TypeBool)\<lparr>ForceNew := True, Default := Some (TBool False)\<rparr>),
       leaf ''wwn'' (optional TypeString),
       leaf ''block_device'' (optional TypeString)]]"

definition interfaceSchema :: "field list" where
  "interfaceSchema = [
     nested ''network_interface'' (optional TypeList) [
       leaf ''network_id'' ((optional TypeString)\<lparr>Computed := True\<rparr>),
       leaf ''network_name'' ((optional TypeString)\<lparr>Computed := True\<rparr>),
       leaf ''bridge'' (optional TypeString),
       leaf ''vepa'' (optional TypeString),
       leaf ''macvtap'' (optional TypeString),
       leaf ''passthrough'' (optional TypeString),
       leaf ''hostname'' ((optional TypeString)\<lparr>Computed := True\<rparr>),
       leaf ''mac'' ((optional TypeString)\<lparr>Computed := True, IgnoreCase := True\<rparr>),
       leaf ''wait_for_lease'' (optional TypeBool),
       listOf ''addresses'' ((optional TypeList)\<lparr>Computed := True\<rparr>) TypeString]]"

definition displaySchema :: "field list" where
  "displaySchema = [
     nested ''graphics'' ((optional TypeList)\<lparr>ForceNew := True, MaxItems := 1\<rparr>) [
       leaf ''type'' ((optional TypeString)\<lparr>Default := Some (TStr ''spice''), ForceNew := True\<rparr>),
       leaf ''autoport'' ((optional TypeBool)\<lparr>Default := Some (TBool True), ForceNew := True\<rparr>),
       leaf ''listen_type'' ((optional TypeString)\<lparr>Default := Some (TStr ''none''), ForceNew := True\<rparr>),
       leaf ''listen_address'' ((optional TypeString)\<lparr>Default := Some (TStr ''127.0.0.1''), ForceNew := True\<rparr>),
       leaf ''websocket'' (optional TypeInt)],
     nested ''video'' ((optional TypeList)\<lparr>MaxItems := 1\<rparr>) [
       leaf ''type'' ((optional TypeString)\<lparr>Default := Some (TStr ''cirrus'')\<rparr>)],
     nested ''console'' (optional TypeList) [
       leaf ''type'' ((required TypeString)\<lparr>ForceNew := True\<rparr>),
       leaf ''source_path'' ((optional TypeString)\<lparr>ForceNew := True\<rparr>),
       leaf ''source_host'' ((optional TypeString)\<lparr>ForceNew := True, Default := Some (TStr ''127.0.0.1'')\<rparr>),
       leaf ''source_service'' ((optional TypeString)\<lparr>ForceNew := True, Default := Some (TStr ''0'')\<rparr>),
       leaf ''target_port'' ((required TypeString)\<lparr>ForceNew := True\<rparr>),
       leaf ''target_type'' ((optional TypeString)\<lparr>ForceNew := True\<rparr>)]]"

definition machineSchema :: "field list" where
  "machineSchema = [
     nested ''cpu'' ((optional TypeList)\<lparr>MaxItems := 1, Computed := True, ForceNew := True\<rparr>) [
       leaf ''mode'' ((optional TypeString)\<lparr>Computed := True\<rparr>)],
     leaf ''autostart'' ((optional TypeBool)\<lparr>Computed := True\<rparr>),
     leaf ''machine'' ((optional TypeString)\<lparr>Computed := True\<rparr>),
     leaf ''arch'' ((optional TypeString)\<lparr>Computed := True\<rparr>),
     nested ''boot_device'' (optional TypeList) [listOf ''dev'' (optional TypeList) TypeString],
     leaf ''emulator'' ((optional TypeString)\<lparr>Computed := True\<rparr>),
     leaf ''kernel'' (optional TypeString),
     leaf ''initrd'' (optional TypeString),
     listOf ''cmdline'' ((optional TypeList)\<lparr>ForceNew := True\<rparr>) TypeMap,
     leaf ''qemu_agent'' ((optional TypeBool)\<lparr>Default := Some (TBool False)\<rparr>),
     nested ''tpm'' ((optional TypeList)\<lparr>MaxItems := 1\<rparr>) [
       leaf ''model'' ((optional TypeString)\<lparr>ForceNew := True\<rparr>),
       leaf ''backend_type'' ((optional TypeString)\<lparr>ForceNew := True, Default := Some (TStr ''emulator'')\<rparr>),
       leaf ''backend_device_path'' ((optional TypeString)\<lparr>ForceNew := True\<rparr>),
       leaf ''backend_encryption_secret'' ((optional TypeString)\<lparr>ForceNew := True\<rparr>),
       leaf ''backend_version'' ((optional TypeString)\<lparr>ForceNew := True\<rparr>),
       leaf ''backend_persistent_state'' ((optional TypeBool)\<lparr>ForceNew := True\<rparr>)],
     xmlBlock (optional TypeList)]"

definition domainSchema :: "field list" where
  "domainSchema = basicsSchema @ storageSchema @ interfaceSchema @ displaySchema @ machineSchema"

definition resourceLibvirtDomain :: resource where
  "resourceLibvirtDomain = \<lparr>res_Schema = domainSchema, res_Update = True, res_Import = True,
     res_CreateTimeout = Some 5\<rparr>"

section \<open>Data sources and the provider\<close>

definition datasourceLibvirtNetworkDNSHostTemplate :: "field list" where
  "datasourceLibvirtNetworkDNSHostTemplate = [
     leaf ''ip'' (required TypeString),
     leaf ''hostname'' (required TypeString),
     listOf ''rendered'' (computed TypeMap) TypeString]"

definition datasourceLibvirtNetworkDNSSRVTemplate :: "field list" where
  "datasourceLibvirtNetworkDNSSRVTemplate = [
     leaf ''service'' (required TypeString),
     leaf ''protocol'' (required TypeString),
     leaf ''domain'' (optional TypeString),
     leaf ''target'' (optional TypeString),
     leaf ''port'' (optional TypeString),
     leaf ''weight'' (optional TypeString),
     leaf ''priority'' (optional TypeString),
     leaf ''rendered'' (computed TypeMap)]"

definition datasourceLibvirtNetworkDnsmasqOptionsTemplate :: "field list" where
  "datasourceLibvirtNetworkDnsmasqOptionsTemplate = [
     leaf ''option_name'' (required TypeString),
     leaf ''option_value'' (optional TypeString),
     listOf ''rendered'' (computed TypeMap) TypeString]"

definition providerSchema :: "field list" where
  "providerSchema = [leaf ''uri'' ((required TypeString)\<lparr>DefaultEnv := Some ''LIBVIRT_DEFAULT_URI''\<rparr>)]"

definition ResourcesMap :: "(string \<times> resource) list" where
  "ResourcesMap = [
     (''libvirt_domain'', resourceLibvirtDomain), (''libvirt_volume'', resourceLibvirtVolume),
     (''libvirt_network'', resourceLibvirtNetwork), (''libvirt_pool'', resourceLibvirtPool),
     (''libvirt_cloudinit_disk'', resourceCloudInitDisk), (''libvirt_ignition'', resourceIgnition)]"

definition DataSourcesMap :: "(string \<times> field list) list" where
  "DataSourcesMap = [
     (''libvirt_network_dns_host_template'', datasourceLibvirtNetworkDNSHostTemplate),
     (''libvirt_network_dns_srv_template'', datasourceLibvirtNetworkDNSSRVTemplate),
     (''libvirt_network_dnsmasq_options_template'', datasourceLibvirtNetworkDnsmasqOptionsTemplate)]"

section \<open>The rules\<close>

lemmas schema_defs = resourceLibvirtDomain_def domainSchema_def basicsSchema_def storageSchema_def
  interfaceSchema_def displaySchema_def machineSchema_def resourceLibvirtVolume_def resourceLibvirtPool_def
  resourceLibvirtNetwork_def dnsSchema_def dhcpSchema_def resourceCloudInitDisk_def resourceIgnition_def xmlBlock_def

lemma resources_ok: "list_all (\<lambda>(_, r). resource_ok r) ResourcesMap"
  by code_simp

lemma dataSources_ok: "list_all (\<lambda>(_, fs). distinct (map fieldName fs) \<and> list_all field_ok fs) DataSourcesMap"
  by code_simp

end
