(* ===== verification/Domain_Typed.thy ===== *)
theory Domain_Typed
  imports Provider_Schema Demo_Domain
begin

text \<open>
  Type assertions of the domain resource: on resource data of the schema's types, making up the
  definition of a domain panics in two cases only, a TPM without a type for its backend and an
  identifier of a network that is no UUID.
\<close>

section \<open>Runs without a panic\<close>

definition tame :: "('s \<Rightarrow> bool) \<Rightarrow> ('s, 'a) prog \<Rightarrow> ('a \<Rightarrow> bool) \<Rightarrow> bool" where
  "tame P m \<phi> \<longleftrightarrow> (\<forall>s. P s \<longrightarrow> (\<forall>p. fst (m s) \<noteq> Panic p) \<and> P (snd (m s)) \<and> (\<forall>x. fst (m s) = Ret x \<longrightarrow> \<phi> x))"

abbreviation calm :: "('s \<Rightarrow> bool) \<Rightarrow> ('s, 'a) prog \<Rightarrow> bool" where
  "calm P m \<equiv> tame P m (\<lambda>_. True)"

named_theorems calm_intros \<open>no panic, one rule per combinator\<close>

lemma tameD:
  "tame P m \<phi> \<Longrightarrow> P s \<Longrightarrow> m s = (r, s') \<Longrightarrow> (\<forall>p. r \<noteq> Panic p) \<and> P s' \<and> (\<forall>x. r = Ret x \<longrightarrow> \<phi> x)"
  unfolding tame_def by (metis fst_conv snd_conv)

lemma tameI:
  "(\<And>s r s'. P s \<Longrightarrow> m s = (r, s') \<Longrightarrow> (\<forall>p. r \<noteq> Panic p) \<and> P s' \<and> (\<forall>x. r = Ret x \<longrightarrow> \<phi> x)) \<Longrightarrow> tame P m \<phi>"
  unfolding tame_def by (metis prod.collapse)

lemma tame_ret: "\<phi> x \<Longrightarrow> tame P (ret x) \<phi>"
  by (simp add: tame_def ret_def)

lemma calm_basic [calm_intros]: "calm P (ret x)" "tame P (throw e) \<phi>" "calm P (getS f)" "calm P (liftSum r)"
  by (simp_all add: tame_def ret_def throw_def getS_def liftSum_def split: sum.split)

lemma tame_bind:
  assumes m: "tame P m \<phi>" and f: "\<And>x. \<phi> x \<Longrightarrow> tame P (f x) \<psi>"
  shows "tame P (bindP m f) \<psi>"
proof (rule tameI)
  fix s r s' assume s: "P s" and run: "bindP m f s = (r, s')"
  obtain r1 s1 where ms: "m s = (r1, s1)" by fastforce
  from tameD [OF m s ms] run ms show "(\<forall>p. r \<noteq> Panic p) \<and> P s' \<and> (\<forall>x. r = Ret x \<longrightarrow> \<psi> x)"
    by (cases r1) (auto simp: bindP_def dest!: tameD [OF f])
qed

lemma calm_bind [calm_intros]: "calm P m \<Longrightarrow> (\<And>x. tame P (f x) \<psi>) \<Longrightarrow> tame P (bindP m f) \<psi>"
  by (rule tame_bind)

lemma calm_attempt [calm_intros]: "calm P m \<Longrightarrow> calm P (attempt m)"
  by (rule tameI) (auto simp: attempt_def split: prod.splits outcome.splits dest!: tameD)

lemma calm_orFail [calm_intros]: "calm P m \<Longrightarrow> calm P (orFail m f)"
  unfolding orFail_def
  by (rule tame_bind, erule calm_attempt) (auto intro: calm_intros split: sum.split)

lemma calm_branches [calm_intros]:
  "(b \<Longrightarrow> tame P m \<phi>) \<Longrightarrow> (\<not> b \<Longrightarrow> tame P n \<phi>) \<Longrightarrow> tame P (if b then m else n) \<phi>"
  "(x = None \<Longrightarrow> tame P m \<phi>) \<Longrightarrow> (\<And>y. x = Some y \<Longrightarrow> tame P (f y) \<phi>) \<Longrightarrow>
    tame P (case x of None \<Rightarrow> m | Some y \<Rightarrow> f y) \<phi>"
  "(\<And>y. z = Inl y \<Longrightarrow> tame P (g y) \<phi>) \<Longrightarrow> (\<And>y. z = Inr y \<Longrightarrow> tame P (h y) \<phi>) \<Longrightarrow>
    tame P (case z of Inl y \<Rightarrow> g y | Inr y \<Rightarrow> h y) \<phi>"
  "(\<And>a b. p = (a, b) \<Longrightarrow> tame P (k a b) \<phi>) \<Longrightarrow> tame P (case p of (a, b) \<Rightarrow> k a b) \<phi>"
  "(l = [] \<Longrightarrow> tame P m \<phi>) \<Longrightarrow> (\<And>y ys. l = y # ys \<Longrightarrow> tame P (q y ys) \<phi>) \<Longrightarrow>
    tame P (case l of [] \<Rightarrow> m | y # ys \<Rightarrow> q y ys) \<phi>"
  "(\<And>y. y = v \<Longrightarrow> tame P (w y) \<phi>) \<Longrightarrow> tame P (let y = v in w y) \<phi>"
  by (cases x; cases z; cases p; cases l; simp)+

lemma calm_mapP [calm_intros]: "(\<And>x. x \<in> set xs \<Longrightarrow> calm P (f x)) \<Longrightarrow> calm P (mapP f xs)"
  by (induction xs) (auto intro!: calm_intros)

lemma calm_forP [calm_intros]: "(\<And>x. x \<in> set xs \<Longrightarrow> calm P (f x)) \<Longrightarrow> calm P (forP xs f)"
  by (induction xs) (auto intro!: calm_intros)

section \<open>Reading data\<close>

text \<open>\<open>has d\<close>: the resource data are \<open>d\<close>; calls to the daemon do not change them.\<close>

definition has :: "'d \<Rightarrow> ('w, 'd) prov \<Rightarrow> bool" where
  "has d s \<longleftrightarrow> rdata s = d"

lemma calm_call [calm_intros]: "calm (has d) (call name args f)"
  by (rule tameI) (auto simp: call_def has_def Let_def split: prod.splits sum.splits)

lemma calm_calls [calm_intros]:
  "calm (has d) (domCall name domain f)" "calm (has d) (volCall name v f)" "calm (has d) (netCall name n g)"
  "calm (has d) (lookupVolByKey st key)" "calm (has d) (lookupNetworkByUUID A uuid)"
  unfolding domCall_def volCall_def netCall_def lookupVolByKey_def lookupNetworkByUUID_def
  by (rule calm_call)+

definition isStr :: "tfval \<Rightarrow> bool" where "isStr v \<longleftrightarrow> (\<exists>x. v = TStr x)"
definition isInt :: "tfval \<Rightarrow> bool" where "isInt v \<longleftrightarrow> (\<exists>x. v = TInt x)"
definition isBool :: "tfval \<Rightarrow> bool" where "isBool v \<longleftrightarrow> (\<exists>x. v = TBool x)"
definition isMap :: "tfval \<Rightarrow> bool" where "isMap v \<longleftrightarrow> (\<exists>x. v = TMap x)"
definition isStrs :: "tfval \<Rightarrow> bool" where "isStrs v \<longleftrightarrow> (\<exists>vs. v = TList vs \<and> (\<forall>x \<in> set vs. isStr x))"

definition key :: "('w, 'd, 'v) sdk \<Rightarrow> 'd \<Rightarrow> (tfval \<Rightarrow> bool) \<Rightarrow> string \<Rightarrow> bool" where
  "key S d is k \<longleftrightarrow> is (sdGet S d k) \<and> (\<forall>v. sdGetOk S d k = Some v \<longrightarrow> is v)"

lemma calm_assert:
  "isStr v \<Longrightarrow> calm P (assertStr v)" "isInt v \<Longrightarrow> calm P (assertInt v)" "isBool v \<Longrightarrow> calm P (assertBool v)"
  "isMap v \<Longrightarrow> calm P (assertMap v)" "isStrs v \<Longrightarrow> tame P (assertList v) (\<lambda>vs. \<forall>x \<in> set vs. isStr x)"
  by (auto simp: isStr_def isInt_def isBool_def isMap_def isStrs_def assertStr_def assertInt_def assertBool_def
      assertMap_def assertList_def intro!: calm_basic tame_ret)

lemma tame_getS: "(\<And>s. P s \<Longrightarrow> f s = x) \<Longrightarrow> tame P (g x) \<phi> \<Longrightarrow> tame P (bindP (getS f) g) \<phi>"
  by (rule tame_bind [where \<phi> = "\<lambda>y. y = x"]) (simp_all add: tame_def getS_def)

lemma calm_reads:
  "key S d isStr k \<Longrightarrow> calm (has d) (dStr S k)" "key S d isInt k \<Longrightarrow> calm (has d) (dInt S k)"
  "key S d isBool k \<Longrightarrow> calm (has d) (dBool S k)" "key S d isMap k \<Longrightarrow> calm (has d) (dMap S k)"
  unfolding dStr_def dInt_def dBool_def dMap_def key_def has_def
  by (rule tame_getS [where x = "sdGet S d k"]; simp add: calm_assert)+

text \<open>\<open>GetOk\<close>, with the value it returns.\<close>

lemma tame_dGetOk:
  "tame (has d) (f (sdGetOk S d k)) \<phi> \<Longrightarrow> tame (has d) (bindP (dGetOk S k) f) \<phi>"
  unfolding dGetOk_def has_def by (rule tame_getS) simp_all

lemma calm_dSetTo [calm_intros]: "calm P (dSetTo S k)"
  unfolding dSetTo_def by (rule calm_basic)

lemma calm_dOptStr: "key S d isStr k \<Longrightarrow> calm (has d) (dOptStr S k)"
  unfolding dOptStr_def key_def
  by (rule tame_dGetOk) (auto intro!: calm_intros calm_assert split: option.split)

lemma calm_optional:
  "key S d isBool k \<Longrightarrow> sdGetOk S d k = Some v \<Longrightarrow> calm P (assertBool v)"
  "key S d isInt k \<Longrightarrow> sdGetOk S d k = Some v \<Longrightarrow> calm P (assertInt v)"
  "key S d isStr k \<Longrightarrow> sdGetOk S d k = Some v \<Longrightarrow> calm P (assertStr v)"
  "key S d isStrs k \<Longrightarrow> sdGetOk S d k = Some v \<Longrightarrow> tame P (assertList v) (\<lambda>vs. \<forall>x \<in> set vs. isStr x)"
  by (simp_all add: key_def calm_assert)

lemma calm_strings:
  "key S d isStrs k \<Longrightarrow> sdGetOk S d k = Some v \<Longrightarrow> (\<And>vs. \<forall>x \<in> set vs. isStr x \<Longrightarrow> tame P (f vs) \<psi>) \<Longrightarrow>
    tame P (bindP (assertList v) f) \<psi>"
  by (rule tame_bind [OF calm_optional(4)])

section \<open>Keys of the schema\<close>

lemma typedAt_key:
  "Type a = TypeString \<Longrightarrow> typedAt S d k (Schema a e) = key S d isStr k"
  "Type a = TypeInt \<Longrightarrow> typedAt S d k (Schema a e) = key S d isInt k"
  "Type a = TypeBool \<Longrightarrow> typedAt S d k (Schema a e) = key S d isBool k"
  "Type a = TypeMap \<Longrightarrow> typedAt S d k (Schema a e) = key S d isMap k"
proof -
  have t: "typed (Schema a e) v = (case Type a of TypeString \<Rightarrow> isStr v | TypeInt \<Rightarrow> isInt v
      | TypeBool \<Rightarrow> isBool v | TypeMap \<Rightarrow> isMap v | _ \<Rightarrow> typed (Schema a e) v)" for v
    by (cases "Type a"; cases v) (simp_all add: isStr_def isInt_def isBool_def isMap_def)
  show "Type a = TypeString \<Longrightarrow> typedAt S d k (Schema a e) = key S d isStr k"
    "Type a = TypeInt \<Longrightarrow> typedAt S d k (Schema a e) = key S d isInt k"
    "Type a = TypeBool \<Longrightarrow> typedAt S d k (Schema a e) = key S d isBool k"
    "Type a = TypeMap \<Longrightarrow> typedAt S d k (Schema a e) = key S d isMap k"
    using t by (simp_all add: typedAt_def key_def)
qed

lemma typedAt_strings:
  "Type a = TypeList \<Longrightarrow> typedAt S d k (Schema a (ElemSchema (Schema (attr TypeString) NoElem))) = key S d isStrs k"
proof -
  have "typed (Schema (attr TypeString) NoElem) v = isStr v" for v
    by (cases v) (simp_all add: isStr_def attr_def)
  then have "Type a = TypeList \<Longrightarrow> typed (Schema a (ElemSchema (Schema (attr TypeString) NoElem))) v = isStrs v" for v
    by (cases v) (auto simp: isStrs_def list_all_iff)
  then show "Type a = TypeList \<Longrightarrow> ?thesis" by (simp add: typedAt_def key_def)
qed

lemma indexed_block: "indexed = block"
  by (simp add: indexed_def block_def fun_eq_iff)

lemma conforms_append: "conforms S (as @ bs) d \<longleftrightarrow> conforms S as d \<and> conforms S bs d"
  by (simp add: conforms_def)

lemma block_0: "block k 0 = k @ ''.0''"
proof -
  have "decString 0 = ''0''" by code_simp
  then show ?thesis by (simp add: block_def)
qed

lemmas conforms_simps = conforms_def typedAt_key typedAt_strings [unfolded attr_def] attr_def indexed_block

lemma basics_keys:
  assumes "conforms S basicsSchema d"
  shows "key S d isStr ''name''" "key S d isStr ''description''" "key S d isStr ''cloudinit''"
    "key S d isStr ''coreos_ignition''" "key S d isStr ''fw_cfg_name''" "key S d isStr ''firmware''"
    "key S d isInt ''vcpu''" "key S d isInt ''memory''" "key S d isBool ''running''"
  using assms by (simp_all add: basicsSchema_def conforms_simps)

text \<open>Blocks of which there is one at most are read at index 0.\<close>

lemma nvram_keys:
  assumes "conforms S basicsSchema d"
  shows "key S d isStr ''nvram.0.file''" "key S d isStr ''nvram.0.template''"
proof -
  have "\<forall>i. key S d isStr (block ''nvram'' i @ ''.file'') \<and> key S d isStr (block ''nvram'' i @ ''.template'')"
    using assms by (simp add: basicsSchema_def conforms_simps)
  from spec [OF this, of 0] show "key S d isStr ''nvram.0.file''" "key S d isStr ''nvram.0.template''"
    by (simp_all add: block_0)
qed

lemma storage_keys:
  assumes "conforms S storageSchema d"
  shows "key S d isInt ''filesystem.#''" "key S d isInt ''disk.#''" "key S d isBool (block ''filesystem'' i @ ''.readonly'')"
    "key S d isBool (block ''disk'' i @ ''.scsi'')" "key S d isStr (block ''filesystem'' i @ ''.accessmode'')" "key S d isStr (block ''filesystem'' i @ ''.source'')"
    "key S d isStr (block ''filesystem'' i @ ''.target'')" "key S d isStr (block ''disk'' i @ ''.volume_id'')" "key S d isStr (block ''disk'' i @ ''.url'')"
    "key S d isStr (block ''disk'' i @ ''.file'')" "key S d isStr (block ''disk'' i @ ''.wwn'')" "key S d isStr (block ''disk'' i @ ''.block_device'')"
  using assms by (simp_all add: storageSchema_def conforms_simps)

lemma interface_keys:
  assumes "conforms S interfaceSchema d"
  shows "key S d isInt ''network_interface.#''" "key S d isBool (block ''network_interface'' i @ ''.wait_for_lease'')" "key S d isStrs (block ''network_interface'' i @ ''.addresses'')"
    "key S d isStr (block ''network_interface'' i @ ''.network_id'')" "key S d isStr (block ''network_interface'' i @ ''.network_name'')" "key S d isStr (block ''network_interface'' i @ ''.bridge'')"
    "key S d isStr (block ''network_interface'' i @ ''.vepa'')" "key S d isStr (block ''network_interface'' i @ ''.macvtap'')" "key S d isStr (block ''network_interface'' i @ ''.passthrough'')"
    "key S d isStr (block ''network_interface'' i @ ''.hostname'')" "key S d isStr (block ''network_interface'' i @ ''.mac'')"
  using assms by (simp_all add: interfaceSchema_def conforms_simps)

lemma console_keys:
  assumes "conforms S displaySchema d"
  shows "key S d isInt ''console.#''" "key S d isStr (block ''console'' i @ ''.type'')" "key S d isStr (block ''console'' i @ ''.source_path'')"
    "key S d isStr (block ''console'' i @ ''.source_host'')" "key S d isStr (block ''console'' i @ ''.source_service'')" "key S d isStr (block ''console'' i @ ''.target_port'')"
    "key S d isStr (block ''console'' i @ ''.target_type'')"
  using assms by (simp_all add: displaySchema_def conforms_simps)

lemma display_keys:
  assumes "conforms S displaySchema d"
  shows "key S d isStr ''graphics.0.type''" "key S d isBool ''graphics.0.autoport''" "key S d isStr ''graphics.0.listen_type''"
    "key S d isStr ''graphics.0.listen_address''" "key S d isInt ''graphics.0.websocket''" "key S d isStr ''video.0.type''"
proof -
  have all: "\<forall>i. key S d isStr (block ''graphics'' i @ ''.type'') \<and> key S d isBool (block ''graphics'' i @ ''.autoport'')
      \<and> key S d isStr (block ''graphics'' i @ ''.listen_type'') \<and> key S d isStr (block ''graphics'' i @ ''.listen_address'')
      \<and> key S d isInt (block ''graphics'' i @ ''.websocket'')" "\<forall>i. key S d isStr (block ''video'' i @ ''.type'')"
    using assms by (simp_all add: displaySchema_def conforms_simps)
  from spec [OF all(1), of 0] spec [OF all(2), of 0]
  show "key S d isStr ''graphics.0.type''" "key S d isBool ''graphics.0.autoport''" "key S d isStr ''graphics.0.listen_type''"
    "key S d isStr ''graphics.0.listen_address''" "key S d isInt ''graphics.0.websocket''" "key S d isStr ''video.0.type''"
    by (simp_all add: block_0)
qed

lemma machine_keys:
  assumes "conforms S machineSchema d"
  shows "key S d isStr ''machine''" "key S d isStr ''arch''" "key S d isStr ''emulator''"
    "key S d isStr ''kernel''" "key S d isStr ''initrd''" "key S d isBool ''autostart''"
    "key S d isBool ''qemu_agent''" "key S d isInt ''boot_device.#''" "key S d isInt ''cmdline.#''"
    "key S d isStrs (block ''boot_device'' i @ ''.dev'')" "key S d isMap (block ''cmdline'' i)"
  using assms by (simp_all add: machineSchema_def conforms_simps xmlBlock_def)

lemma cpu_tpm_keys:
  assumes "conforms S machineSchema d"
  shows "key S d isStr ''cpu.0.mode''"
    "key S d isStr ''tpm.0.model''"
    "key S d isStr ''tpm.0.backend_type''"
    "key S d isStr ''tpm.0.backend_device_path''"
    "key S d isStr ''tpm.0.backend_encryption_secret''"
    "key S d isStr ''tpm.0.backend_version''"
    "key S d isBool ''tpm.0.backend_persistent_state''"
proof -
  have all: "\<forall>i. key S d isStr (block ''cpu'' i @ ''.mode'')" "\<forall>i. key S d isStr (block ''tpm'' i @ ''.model'') \<and> key S d isStr (block ''tpm'' i @ ''.backend_type'') \<and> key S d isStr (block ''tpm'' i @ ''.backend_device_path'') \<and> key S d isStr (block ''tpm'' i @ ''.backend_encryption_secret'') \<and> key S d isStr (block ''tpm'' i @ ''.backend_version'') \<and> key S d isBool (block ''tpm'' i @ ''.backend_persistent_state'')"
    using assms by (simp_all add: machineSchema_def conforms_simps xmlBlock_def)
  from spec [OF all(1), of 0] spec [OF all(2), of 0]
  show "key S d isStr ''cpu.0.mode''"
    "key S d isStr ''tpm.0.model''"
    "key S d isStr ''tpm.0.backend_type''"
    "key S d isStr ''tpm.0.backend_device_path''"
    "key S d isStr ''tpm.0.backend_encryption_secret''"
    "key S d isStr ''tpm.0.backend_version''"
    "key S d isBool ''tpm.0.backend_persistent_state''"
    by (simp_all add: block_0)
qed

section \<open>Making up the definition\<close>

text \<open>
  The two kinds of data of the schema's types on which the code panics: a TPM whose backend has no
  type, or an empty one, and a network of interface \<open>i\<close> that is given by an identifier that is no UUID.
\<close>

definition tpm_without_backend :: "('w, 'd, 'v) sdk \<Rightarrow> 'd \<Rightarrow> bool" where
  "tpm_without_backend S d \<longleftrightarrow> sdGetOk S d ''tpm.0'' \<noteq> None \<and> sdGetOk S d ''tpm.0.backend_type'' = None"

definition bad_network_id :: "('w, 'd, 'v) sdk \<Rightarrow> 'w runtime \<Rightarrow> 'd \<Rightarrow> nat \<Rightarrow> bool" where
  "bad_network_id S R d i \<longleftrightarrow> sdGetOk S d (block ''network_interface'' i @ ''.network_name'') = None
     \<and> (\<exists>x. sdGetOk S d (block ''network_interface'' i @ ''.network_id'') = Some (TStr x) \<and> uuidParse R x = None)"

text \<open>Of the schema's types, with nothing at a key that the schema does not have, and free of both.\<close>

definition domain_data :: "('w, 'd, 'v) sdk \<Rightarrow> 'w runtime \<Rightarrow> 'd \<Rightarrow> bool" where
  "domain_data S R d \<longleftrightarrow> conforms S domainSchema d \<and> sdGetOk S d ''.model'' = None
     \<and> \<not> tpm_without_backend S d \<and> (\<forall>i. \<not> bad_network_id S R d i)"

lemma domain_data_parts:
  assumes "domain_data S R d"
  shows "conforms S basicsSchema d" "conforms S storageSchema d" "conforms S interfaceSchema d"
    "conforms S displaySchema d" "conforms S machineSchema d"
  using assms by (simp_all add: domain_data_def domainSchema_def conforms_append)

lemmas domain_keys = basics_keys [OF domain_data_parts(1)] nvram_keys [OF domain_data_parts(1)]
  storage_keys [OF domain_data_parts(2)] interface_keys [OF domain_data_parts(3)]
  display_keys [OF domain_data_parts(4)] console_keys [OF domain_data_parts(4)]
  machine_keys [OF domain_data_parts(5)] cpu_tpm_keys [OF domain_data_parts(5)]

lemmas data_intros = tame_dGetOk calm_reads calm_dOptStr calm_intros

lemma calm_basics:
  assumes "domain_data S R d"
  shows "calm (has d) (newDomainDefForConnection S D)" "calm (has d) (domainBasics S def)"
  unfolding newDomainDefForConnection_def domainBasics_def getHostArchitecture_def getHostCapabilities_def
  by (intro data_intros domain_keys [OF assms]; auto intro: domain_keys [OF assms] calm_optional)+

lemma calm_setVideo:
  assumes "domain_data S R d"
  shows "calm (has d) (setVideo S def)" "calm (has d) (setFirmware S def)" "calm (has d) (setCoreOSIgnition S arch def)"
    "calm (has d) (setConsoles S def)" "calm (has d) (setFilesystems S def)" "calm (has d) (setCmdlineArgs S def)"
  unfolding setVideo_def setFirmware_def setCoreOSIgnition_def setConsoles_def consoleAt_def consoleSource_def
    setFilesystems_def filesystemAt_def setCmdlineArgs_def
  by (intro data_intros domain_keys [OF assms]; auto intro: domain_keys [OF assms] calm_optional)+

lemma calm_setGraphics:
  assumes "domain_data S R d"
  shows "calm (has d) (setGraphics S arch def)"
proof -
  have "calm (has d) (graphicsListener S)"
    unfolding graphicsListener_def by (intro data_intros domain_keys [OF assms])
  then show ?thesis
    unfolding setGraphics_def
    by (intro data_intros domain_keys [OF assms]; auto intro: domain_keys [OF assms] calm_optional)
qed

lemma calm_setBootDevices:
  assumes "domain_data S R d"
  shows "calm (has d) (setBootDevices S def)"
proof -
  have "calm (has d) (bindP (dGetOk S (block ''boot_device'' i @ ''.dev'')) (\<lambda>bootMap. case bootMap of
      None \<Rightarrow> ret [] | Some v \<Rightarrow> bindP (assertList v) (\<lambda>devs. mapP assertStr devs)))" for i
    by (intro tame_dGetOk calm_branches calm_strings [OF machine_keys(10) [OF domain_data_parts(5) [OF assms]]])
      (auto intro!: calm_intros calm_assert)
  then show ?thesis
    unfolding setBootDevices_def
    by (intro calm_bind [OF calm_reads(2)] calm_bind [OF calm_mapP] domain_keys [OF assms] calm_basic)
qed

lemma calm_setTPMs:
  assumes "domain_data S R d"
  shows "calm (has d) (setTPMs S def)"
proof -
  have backend: "calm (has d) (tpmBackend S b)" for b
    unfolding tpmBackend_def
    by (intro data_intros domain_keys [OF assms]; auto intro: domain_keys [OF assms] calm_optional calm_intros)
  have model: "calm (has d) (dOptStr S ''.model'')"
    using assms unfolding dOptStr_def domain_data_def
    by (intro tame_dGetOk) (auto intro: calm_intros)
  show ?thesis
  proof (cases "sdGetOk S d ''tpm.0'' = None")
    case True
    then show ?thesis
      unfolding setTPMs_def dSetTo_def has_def
      by (intro tame_getS [where x = False]) (auto intro: calm_intros)
  next
    case False
    with assms obtain v where "sdGetOk S d ''tpm.0.backend_type'' = Some v"
      by (auto simp: domain_data_def tpm_without_backend_def)
    then show ?thesis
      unfolding setTPMs_def
      by (intro calm_bind [OF calm_dSetTo] calm_branches calm_bind [OF model] tame_dGetOk)
        (auto simp: deref_def intro!: calm_intros backend)
  qed
qed

text \<open>\<open>rand.Intn\<close> of a positive number is below that number.\<close>

definition rand_ok :: "'w domapi \<Rightarrow> bool" where
  "rand_ok D \<longleftrightarrow> (\<forall>n w. 0 < n \<longrightarrow> fst (randIntn D n w) < n)"

lemma calm_randomWWN:
  assumes "rand_ok D"
  shows "calm (has d) (randomWWN D n)"
proof -
  have "calm (has d) (randomChars D n)" for n
  proof (induction n)
    case (Suc n)
    have rest: "calm (has d) (bindP (randomChars D n) (\<lambda>rest. ret (wwnChars ! i # rest)))" for i
      by (intro calm_intros Suc)
    show ?case
    proof (rule tameI)
      fix s r s'
      assume s: "has d s" and run: "randomChars D (Suc n) s = (r, s')"
      obtain i w where i: "randIntn D (length wwnChars) (world s) = (i, w)" by fastforce
      with assms have "i < length wwnChars"
        unfolding rand_ok_def by (metis fst_conv length_greater_0_conv list.distinct(1) wwnChars_def)
      with run i have "bindP (randomChars D n) (\<lambda>rest. ret (wwnChars ! i # rest)) (s\<lparr>world := w\<rparr>) = (r, s')" by simp
      from tameD [OF rest _ this] s show "(\<forall>p. r \<noteq> Panic p) \<and> has d s' \<and> (\<forall>x. r = Ret x \<longrightarrow> True)"
        by (simp add: has_def)
    qed
  qed (auto intro: calm_intros)
  then show ?thesis
    unfolding randomWWN_def by (intro calm_intros)
qed

lemma calm_setDisks:
  assumes "domain_data S R d" "rand_ok D"
  shows "calm (has d) (setDisks S D st def)"
proof -
  have volume: "calm (has d) (volumeDisk st k disk)" for k disk
    unfolding volumeDisk_def newDefVolumeFromLibvirt_def by (intro calm_intros)
  have disk: "calm (has d) (diskAt S D st isos scsis i)" for isos scsis i
    unfolding diskAt_def diskSource_def scsiDisk_def urlDisk_def Let_def
    by (intro data_intros domain_keys [OF assms(1)] calm_randomWWN [OF assms(2)] volume)
  have "calm (has d) (disksLoop S D st isos scsis is)" for isos scsis "is"
    by (induction "is" arbitrary: isos scsis) (auto intro!: calm_intros disk)
  then show ?thesis
    unfolding setDisks_def by (intro data_intros domain_keys [OF assms(1)])
qed

lemma calm_setCloudinit:
  assumes "domain_data S R d"
  shows "calm (has d) (setCloudinit S st def)"
  unfolding setCloudinit_def newDiskForCloudInit_def
  by (intro data_intros domain_keys [OF assms])

text \<open>The DHCP host of an address is always encoded.\<close>

definition encode_ok :: "'w netapi \<Rightarrow> bool" where
  "encode_ok A \<longleftrightarrow> (\<forall>h e. dhcpHostEncode A h \<noteq> Inl e)"

lemma calm_updateOrAddHost:
  assumes "encode_ok A"
  shows "calm (has d) (updateOrAddHost A n ip mac name)"
proof -
  have net: "calm (has d) (getXMLNetworkDefFromLibvirt A n)"
    unfolding getXMLNetworkDefFromLibvirt_def by (intro calm_intros)
  have xml: "calm (has d) (getHostXMLDesc A ip mac name)"
    using assms by (auto simp: getHostXMLDesc_def xmlMarshallIndented_def encode_ok_def intro: calm_intros split: sum.split)
  have update: "calm (has d) (updateNetwork A n cmd sec i x)" for cmd sec i x
    unfolding updateNetwork_def by (intro calm_intros)
  show ?thesis
    unfolding updateOrAddHost_def updateHost_def addHost_def
    by (intro calm_intros net xml update)
qed

lemma calm_interfaces:
  assumes "domain_data S R d" "encode_ok A"
  shows "calm (has d) (setNetworkInterfaces S R D A def)"
proof -
  let ?key = "block ''network_interface''"
  have mac: "calm (has d) (ifaceMAC S D (?key i))" for i
    unfolding ifaceMAC_def by (intro data_intros domain_keys [OF assms(1)])
  have uuid: "calm (has d) (parseUUID R x)" if "sdGetOk S d (?key i @ ''.network_name'') = None"
      "sdGetOk S d (?key i @ ''.network_id'') = Some (TStr x)" for x i
  proof -
    from that assms(1) obtain u where "uuidParse R x = Some u"
      unfolding domain_data_def bad_network_id_def by (cases "uuidParse R x") blast+
    then show ?thesis by (auto simp: parseUUID_def intro: calm_intros)
  qed
  have opt: "tame (has d) (bindP (dOptStr S k) f) (\<lambda>_. True)"
    if "key S d isStr k" "sdGetOk S d k = None \<Longrightarrow> calm (has d) (f None)"
      "\<And>x. sdGetOk S d k = Some (TStr x) \<Longrightarrow> calm (has d) (f (Some x))" for k f
  proof (rule tame_bind [where \<phi> = "\<lambda>v. case v of None \<Rightarrow> sdGetOk S d k = None | Some x \<Rightarrow> sdGetOk S d k = Some (TStr x)"])
    from that(1) show "tame (has d) (dOptStr S k)
        (\<lambda>v. case v of None \<Rightarrow> sdGetOk S d k = None | Some x \<Rightarrow> sdGetOk S d k = Some (TStr x))"
      unfolding dOptStr_def
      by (intro tame_dGetOk)
        (auto simp: key_def isStr_def assertStr_def intro!: tame_ret split: option.split)
  qed (use that(2,3) in \<open>auto split: option.splits\<close>)
  have connection: "calm (has d) (ifaceConnection S R D A (?key i))" for i
    unfolding ifaceConnection_def
    by (intro opt uuid calm_intros domain_keys [OF assms(1)]; assumption?) auto
  have hosts: "calm (has d) (ifaceHosts S A name (?key i) mac wait nw)" for i name mac wait nw
    unfolding ifaceHosts_def getXMLNetworkDefFromLibvirt_def
    by (intro data_intros calm_strings [OF interface_keys(3) [OF domain_data_parts(3) [OF assms(1)]]]
        domain_keys [OF assms(1)] calm_updateOrAddHost [OF assms(2)])
      (auto intro: calm_assert)
  have "calm (has d) (ifaceAt S R D A name i)" for name i
    unfolding ifaceAt_def Let_def
    by (intro data_intros mac connection hosts; auto intro: domain_keys [OF assms(1)] calm_optional)
  then show ?thesis
    unfolding setNetworkInterfaces_def by (intro data_intros domain_keys [OF assms(1)])
qed

lemma domainDefinition_calm:
  assumes "domain_data S R d" "rand_ok D" "encode_ok A"
  shows "calm (has d) (domainDefinition S R D A st)"
proof -
  note devices = calm_setGraphics calm_setVideo calm_setBootDevices calm_setTPMs calm_setCloudinit
  show ?thesis
    unfolding domainDefinition_def domainDevices_def getHostArchitecture_def
    by (intro calm_intros calm_basics [OF assms(1)] devices [OF assms(1)] calm_setDisks [OF assms(1,2)]
        calm_interfaces [OF assms(1,3)])
qed

lemma setTPMs_panics:
  assumes "tpm_without_backend S (rdata s)" "sdGetOk S (rdata s) ''.model'' = None"
  shows "fst (setTPMs S def s) = Panic ''nil pointer dereference''"
  using assms by (simp add: setTPMs_def tpm_without_backend_def dSetTo_def dOptStr_def dGetOk_def getS_def
      bindP_def ret_def deref_def panic_def)

lemma ifaceConnection_panics:
  "bad_network_id S R (rdata s) i \<Longrightarrow>
   fst (ifaceConnection S R D A (block ''network_interface'' i) s) = Panic ''uuid: Parse''"
  by (auto simp: bad_network_id_def ifaceConnection_def dOptStr_def dGetOk_def getS_def bindP_def ret_def
      assertStr_def parseUUID_def panic_def)

text \<open>C13: On resource data with the types of the schema, making up the definition of a domain can panic
  in two cases only: there is a TPM whose backend has no type (one written as the empty text; the
  default is \<open>emulator\<close>), or an interface has an identifier of a network that is no UUID.  So every
  type assertion of the code agrees with the type that the schema declares for its key; at
  \<open>.model\<close>, which the code reads and the schema does not have, there is nothing.  In both cases the code does panic where it gets to: in \<open>setTPMs\<close>, at the nil backend, and at the network of
  the interface.\<close>

theorem domainDefinition_panics:
  assumes "conforms S domainSchema (rdata s)" "sdGetOk S (rdata s) ''.model'' = None" "rand_ok D" "encode_ok A"
  shows "(fst (domainDefinition S R D A st s) = Panic p \<longrightarrow>
      tpm_without_backend S (rdata s) \<or> (\<exists>i. bad_network_id S R (rdata s) i))
    \<and> (tpm_without_backend S (rdata s) \<longrightarrow> fst (setTPMs S def s) = Panic ''nil pointer dereference'')
    \<and> (\<forall>i. bad_network_id S R (rdata s) i \<longrightarrow>
        fst (ifaceConnection S R D A (block ''network_interface'' i) s) = Panic ''uuid: Parse'')"
proof (intro conjI impI allI setTPMs_panics ifaceConnection_panics assms(2))
  assume panic: "fst (domainDefinition S R D A st s) = Panic p"
  have "\<not> domain_data S R (rdata s)"
  proof
    assume "domain_data S R (rdata s)"
    from domainDefinition_calm [OF this assms(3,4), of st] panic show False by (simp add: tame_def has_def)
  qed
  with assms(1,2) show "tpm_without_backend S (rdata s) \<or> (\<exists>i. bad_network_id S R (rdata s) i)"
    unfolding domain_data_def by blast
qed

section \<open>Data that fit the schema\<close>

text \<open>
  Demo data: what is set, and for every other key the zero value of the type that the schema has
  for it, which the last part of the key determines.
\<close>

definition lastPart :: "string \<Rightarrow> string" where
  "lastPart k = rev (takeWhile (\<lambda>c. c \<noteq> CHR ''.'') (rev k))"

definition zeroNames :: "(string \<times> tfval) list" where
  "zeroNames = map (\<lambda>n. (n, TBool False)) [''running'', ''readonly'', ''scsi'', ''wait_for_lease'', ''autoport'',
       ''autostart'', ''qemu_agent'', ''backend_persistent_state'']
     @ map (\<lambda>n. (n, TInt 0)) [''vcpu'', ''memory'', ''websocket'', ''#'']
     @ map (\<lambda>n. (n, TList [])) [''nvram'', ''filesystem'', ''disk'', ''network_interface'', ''addresses'', ''graphics'',
       ''video'', ''console'', ''cpu'', ''boot_device'', ''dev'', ''cmdline'', ''tpm'', ''xml'']"

definition zeroValue :: "string \<Rightarrow> tfval" where
  "zeroValue k = (case map_of zeroNames (lastPart k) of
       Some v \<Rightarrow> v
     | None \<Rightarrow> if list_all isDigit (lastPart k) \<and> (take 8 k = ''cmdline.'' \<or> k = ''tpm.0'') then TMap [] else TStr [])"

definition typed_get :: "rdemo \<Rightarrow> string \<Rightarrow> tfval" where
  "typed_get d k = (case demo_lookup k d of Some v \<Rightarrow> v | None \<Rightarrow> zeroValue k)"

definition typed_sdk :: "(nworld, rdemo, StorageVol) sdk" where
  "typed_sdk = demo_sdk\<lparr>sdGet := typed_get\<rparr>"

definition typed_vals :: "(string \<times> tfval) list" where
  "typed_vals = [(''name'', TStr ''vm''), (''memory'', TInt 1024), (''vcpu'', TInt 2), (''running'', TBool True),
     (''disk.#'', TInt 2), (''disk.0.file'', TStr ''/vm/boot.iso''), (''disk.1.scsi'', TBool True),
     (''disk.1.block_device'', TStr ''/dev/sdb''),
     (''network_interface.#'', TInt 1), (''network_interface.0.network_id'', TStr ''k8s''),
     (''network_interface.0.hostname'', TStr ''node'')]"

text \<open>The same domain with a TPM, whose backend type is the empty text.\<close>

definition tpm_vals :: "(string \<times> tfval) list" where
  "tpm_vals = typed_vals @ [(''tpm.#'', TInt 1), (''tpm.0'', TMap [(''backend_type'', TStr [])]),
     (''tpm.0.backend_type'', TStr [])]"

definition data_of :: "(string \<times> tfval) list \<Rightarrow> rdemo" where
  "data_of vals = \<lparr>rd_vals = vals, rd_id = []\<rparr>"

fun kind :: "tfval \<Rightarrow> nat" where
  "kind (TStr _) = 0" | "kind (TInt _) = 1" | "kind (TBool _) = 2" | "kind (TMap _) = 3"
| "kind (TSet _) = 4" | "kind (TList _) = 5" | "kind TNil = 6"

text \<open>What is set has the type of the zero value, and is no list.\<close>

definition fits :: "(string \<times> tfval) list \<Rightarrow> bool" where
  "fits vals \<longleftrightarrow> list_all (\<lambda>(k, v). kind v = kind (zeroValue k) \<and> kind v < 4) vals"

lemma demo_vals_fit: "fits typed_vals" "fits tpm_vals"
  by code_simp+

lemma typed_zero:
  assumes vals: "fits vals" and zero: "typed s (zeroValue k)"
  shows "typedAt typed_sdk (data_of vals) k s"
proof -
  have get: "typed s v" if "demo_lookup k (data_of vals) = Some v" for v
  proof -
    from that have "(k, v) \<in> set vals" by (simp add: demo_lookup_def data_of_def map_of_SomeD)
    with vals have "kind v = kind (zeroValue k) \<and> kind v < 4" by (auto simp: fits_def list_all_iff)
    with zero show ?thesis
      by (cases s; cases v; cases "zeroValue k") (auto split: vtype.splits)
  qed
  then show ?thesis
    using zero by (auto simp: typedAt_def typed_sdk_def demo_sdk_def typed_get_def demo_getok_def Let_def
        split: option.split if_splits)
qed

lemma lastPart_append: "CHR ''.'' \<in> set y \<Longrightarrow> lastPart (x @ y) = lastPart y"
  by (simp add: lastPart_def takeWhile_append1)

lemma lastPart_indexed: "lastPart (indexed k i) = decString i"
proof -
  have "\<not> isDigit CHR ''.''" by code_simp
  then have "CHR ''.'' \<notin> set (decString i)" using decString_digits by blast
  then have "takeWhile (\<lambda>c. c \<noteq> CHR ''.'') (rev (decString i) @ CHR ''.'' # rev k) = rev (decString i)"
    by (subst takeWhile_append2) auto
  then show ?thesis by (simp add: lastPart_def indexed_def)
qed

lemma zeroValue_indexed:
  "zeroValue (indexed k i) = (if take 8 (indexed k i) = ''cmdline.'' \<or> indexed k i = ''tpm.0'' then TMap [] else TStr [])"
proof -
  have "list_all (\<lambda>(n, v). \<not> list_all isDigit n) zeroNames" by code_simp
  moreover have "list_all isDigit (decString i)" by (simp add: list_all_iff decString_digits)
  ultimately have "map_of zeroNames (decString i) = None"
    by (auto simp: map_of_eq_None_iff list_all_iff)
  then show ?thesis
    by (simp add: zeroValue_def lastPart_indexed list_all_iff decString_digits)
qed

lemma zeroValue_append:
  "CHR ''.'' \<in> set y \<Longrightarrow> \<not> list_all isDigit (lastPart y) \<Longrightarrow> zeroValue (x @ y) = zeroValue y"
  by (simp add: zeroValue_def lastPart_append split: option.split)

text \<open>A check of a schema that computes: the zero values have its types.\<close>

fun leaf_ok :: "string \<Rightarrow> field \<Rightarrow> bool" where
  "leaf_ok k (Field n (Schema a e)) \<longleftrightarrow> \<not> list_all isDigit (lastPart (CHR ''.'' # n))
     \<and> typed (Schema a e) (zeroValue (CHR ''.'' # n))
     \<and> (Type a = TypeList \<longrightarrow> take 1 k \<noteq> ''c'' \<and> k \<noteq> [] \<and> (case e of
          ElemSchema (Schema b NoElem) \<Rightarrow> Type b = TypeString | _ \<Rightarrow> False))"

fun top_ok :: "field \<Rightarrow> bool" where
  "top_ok (Field k (Schema a e)) \<longleftrightarrow> typed (Schema a e) (zeroValue k)
     \<and> (Type a = TypeList \<longrightarrow> (case e of
          ElemSchema (Schema b NoElem) \<Rightarrow> Type b = TypeMap \<and> k = ''cmdline''
        | ElemResource fs \<Rightarrow> list_all (leaf_ok k) fs | _ \<Rightarrow> False))"

lemma zeroValue_count: "zeroValue (k @ ''.#'') = TInt 0"
proof -
  have "\<not> list_all isDigit (lastPart ''.#'') \<and> zeroValue ''.#'' = TInt 0" by code_simp
  then show ?thesis by (subst zeroValue_append) simp_all
qed

lemma count_typed: "fits vals \<Longrightarrow> typedAt typed_sdk (data_of vals) (k @ ''.#'') (Schema (attr TypeInt) NoElem)"
  by (erule typed_zero) (simp add: zeroValue_count attr_def)

lemma leaf_conforms:
  assumes "leaf_ok k (Field n s)" and fit: "fits vals"
  shows "conformsAt typed_sdk (data_of vals) (indexed k i @ CHR ''.'' # n) s"
proof -
  obtain a e where s: "s = Schema a e" by (cases s)
  let ?n = "CHR ''.'' # n"
  have "zeroValue (indexed k i @ ?n) = zeroValue ?n" using assms s by (intro zeroValue_append) simp_all
  then have at: "typedAt typed_sdk (data_of vals) (indexed k i @ ?n) s" using assms s by (intro typed_zero [OF fit]) simp
  show ?thesis
  proof (cases "Type a = TypeList")
    case True
    with assms s obtain b where e: "e = ElemSchema (Schema b NoElem)" "Type b = TypeString" and k: "take 1 k \<noteq> ''c''" "k \<noteq> []"
      by (auto split: elem.splits schema.splits)
    have "take 8 (indexed (indexed k i @ ?n) j) \<noteq> ''cmdline.''" for j
      using k by (cases k) (simp_all add: indexed_def)
    moreover have "indexed (indexed k i @ ?n) j \<noteq> ''tpm.0''" for j
      by (rule notI, drule arg_cong [where f = "\<lambda>x. length (filter (\<lambda>c. c = CHR ''.'') x)"]) (simp add: indexed_def)
    ultimately have "typedAt typed_sdk (data_of vals) (indexed (indexed k i @ ?n) j) (Schema b NoElem)" for j
      using e by (intro typed_zero [OF fit]) (simp add: zeroValue_indexed)
    with at e s count_typed [OF fit, of "indexed k i @ ?n"] show ?thesis by simp
  qed (use at s in simp)
qed

lemma top_conforms:
  assumes "top_ok f" and fit: "fits vals"
  shows "case f of Field k s \<Rightarrow> conformsAt typed_sdk (data_of vals) k s"
proof -
  obtain k a e where f: "f = Field k (Schema a e)" by (metis field.exhaust schema.exhaust)
  have at: "typedAt typed_sdk (data_of vals) k (Schema a e)" using assms f by (intro typed_zero [OF fit]) simp
  show ?thesis
  proof (cases "Type a = TypeList")
    case True
    from assms f True consider (map) b where "e = ElemSchema (Schema b NoElem)" "Type b = TypeMap" "k = ''cmdline''"
      | (block) fs where "e = ElemResource fs" "list_all (leaf_ok k) fs"
      by (auto split: elem.splits schema.splits)
    then show ?thesis
    proof cases
      case map
      have "typedAt typed_sdk (data_of vals) (indexed k j) (Schema b NoElem)" for j
        using map by (intro typed_zero [OF fit]) (simp add: zeroValue_indexed, simp add: indexed_def)
      with at f map count_typed [OF fit, of k] show ?thesis by simp
    next
      case block
      have "case g of Field n s \<Rightarrow> conformsAt typed_sdk (data_of vals) (indexed k i @ CHR ''.'' # n) s"
        if "g \<in> set fs" for g i
      proof -
        have "leaf_ok k g" using that block by (simp add: list_all_iff)
        then show ?thesis by (cases g) (simp del: leaf_ok.simps conformsAt.simps add: leaf_conforms fit)
      qed
      with at f block count_typed [OF fit, of k] show ?thesis by (auto simp: list_all_iff)
    qed
  qed (use at f in simp)
qed

lemma data_conforms: "fits vals \<Longrightarrow> conforms typed_sdk domainSchema (data_of vals)"
proof -
  have "list_all top_ok domainSchema" by code_simp
  then show "fits vals \<Longrightarrow> ?thesis" using top_conforms by (auto simp: conforms_def list_all_iff)
qed

definition typed_state :: "(string \<times> tfval) list \<Rightarrow> (nworld, rdemo) prov" where
  "typed_state vals = (demo_net_state [] [])\<lparr>rdata := data_of vals\<rparr>"

lemma rdata_typed_state [simp]: "rdata (typed_state vals) = data_of vals"
  by (simp add: typed_state_def)

text \<open>The domain without a TPM is made up without a panic; the other one is not.\<close>

theorem domainDefinition_panics_witness:
  "\<forall>st p def. fst (domainDefinition typed_sdk demo_net_runtime (demo_domapi 1) demo_netapi st (typed_state typed_vals)) \<noteq> Panic p
     \<and> fst (setTPMs typed_sdk def (typed_state tpm_vals)) = Panic ''nil pointer dereference''"
proof (intro allI conjI)
  have model: "sdGetOk typed_sdk (data_of vals) ''.model'' = None" if "vals \<in> {typed_vals, tpm_vals}" for vals
    using that by (simp add: typed_sdk_def demo_sdk_def) (elim disjE; simp; code_simp)
  have laws: "rand_ok (demo_domapi 1 :: nworld domapi)" "encode_ok demo_netapi"
    by (simp_all add: rand_ok_def encode_ok_def demo_domapi_def demo_netapi_def)
  have tpm: "\<not> tpm_without_backend typed_sdk (data_of typed_vals)" "tpm_without_backend typed_sdk (data_of tpm_vals)"
    by code_simp+
  have ids: "\<not> bad_network_id typed_sdk demo_net_runtime d i" for d i
    by (simp add: bad_network_id_def demo_net_runtime_def)
  fix st p def
  show "fst (domainDefinition typed_sdk demo_net_runtime (demo_domapi 1) demo_netapi st (typed_state typed_vals)) \<noteq> Panic p"
    using domainDefinition_panics [of typed_sdk "typed_state typed_vals" "demo_domapi 1" demo_netapi demo_net_runtime]
      data_conforms [OF demo_vals_fit(1)] model laws tpm ids by auto
  show "fst (setTPMs typed_sdk def (typed_state tpm_vals)) = Panic ''nil pointer dereference''"
    using domainDefinition_panics [of typed_sdk "typed_state tpm_vals" "demo_domapi 1" demo_netapi demo_net_runtime]
      data_conforms [OF demo_vals_fit(2)] model laws tpm by auto
qed

end
