(* ===== verification/Connection_URI.thy ===== *)
theory Connection_URI
  imports Terraform_SDK
begin

text \<open>
  The package \<open>uri\<close>: the transport, driver and remote name of a libvirt connection URI, and how the
  four transports are dialled.  Sockets, files, the TLS and SSH libraries and the printing of URLs
  are arguments; the state is the world.
\<close>

section \<open>URIs\<close>

text \<open>
  \<open>net/url\<close>: the user is a name with an optional password, \<open>cu_Query\<close> the decoded parameters.
\<close>

record ConnectionURI =
  cu_Scheme :: string
  cu_User :: "(string \<times> string option) option"
  cu_Host :: string
  cu_Path :: string
  cu_Query :: "(string \<times> string) list"

definition query_Get :: "ConnectionURI \<Rightarrow> string \<Rightarrow> string" where
  "query_Get u k = (case map_of (cu_Query u) k of Some v \<Rightarrow> v | None \<Rightarrow> [])"

text \<open>\<open>URL.Port\<close> and \<open>URL.Hostname\<close>: the host is a name or an address in brackets, with an optional
  port after the last colon.\<close>

definition splitPort :: "string \<Rightarrow> string \<times> string" where
  "splitPort hostPort =
     (let digits = takeWhile isDigit (rev hostPort); r = dropWhile isDigit (rev hostPort)
      in case r of
           c # h \<Rightarrow> if c = CHR '':'' then (rev h, rev digits) else (hostPort, [])
         | [] \<Rightarrow> (hostPort, []))"

definition unbracket :: "string \<Rightarrow> string" where
  "unbracket h = (if h \<noteq> [] \<and> hd h = CHR ''['' \<and> last h = CHR '']'' then butlast (tl h) else h)"

definition url_Hostname :: "ConnectionURI \<Rightarrow> string" where
  "url_Hostname u = unbracket (fst (splitPort (cu_Host u)))"

definition url_Port :: "ConnectionURI \<Rightarrow> string" where
  "url_Port u = snd (splitPort (cu_Host u))"

definition hostPort :: "ConnectionURI \<Rightarrow> string \<Rightarrow> string" where
  "hostPort u defaultPort = url_Hostname u @ CHR '':'' # (if url_Port u = [] then defaultPort else url_Port u)"

definition driver :: "ConnectionURI \<Rightarrow> string" where
  "driver u = hd (strSplit CHR ''+'' (cu_Scheme u))"

definition transport :: "ConnectionURI \<Rightarrow> string" where
  "transport u = (case strSplit CHR ''+'' (cu_Scheme u) of
      _ # t # _ \<Rightarrow> t
    | _ \<Rightarrow> if cu_Host u \<noteq> [] then ''tls'' else ''unix'')"

text \<open>\<open>printURL\<close> is \<open>URL.String\<close>.\<close>

definition RemoteName :: "(ConnectionURI \<Rightarrow> string) \<Rightarrow> ConnectionURI \<Rightarrow> string" where
  "RemoteName printURL u =
     (let name = query_Get u ''name''
      in if name \<noteq> [] then name
         else printURL (u\<lparr>cu_Scheme := driver u, cu_Host := [], cu_Query := []\<rparr>))"

section \<open>The system\<close>

datatype file_stat = NotExist | Directory | RegularFile | StatError goerror

text \<open>\<open>PublicKeys\<close> keeps the signer, \<open>None\<close> for the nil that a key that cannot be parsed leaves.\<close>

datatype ('c, 'k) auth_method = AgentKeys 'c | PublicKeys "'k option" | PasswordAuth string

datatype host_key_callback = InsecureIgnoreHostKey | KnownHosts string

record ('c, 'k) ssh_config =
  cfg_User :: string
  cfg_HostKeyCallback :: host_key_callback
  cfg_Auth :: "('c, 'k) auth_method list"
  cfg_Timeout :: nat

record tls_config =
  tls_RootCAs :: string
  tls_Certificate :: "string \<times> string"
  InsecureSkipVerify :: bool

record ('w, 'c, 'k) sys =
  Getenv :: "string \<Rightarrow> 'w \<Rightarrow> string"
  ExpandEnv :: "string \<Rightarrow> 'w \<Rightarrow> string"
  pathJoin :: "string \<Rightarrow> string \<Rightarrow> string"
  Stat :: "string \<Rightarrow> 'w \<Rightarrow> file_stat"
  ReadFile :: "string \<Rightarrow> ('w, string) rpc"
  userCurrent :: "('w, string \<times> string) rpc"
  DialTimeout :: "string \<Rightarrow> string \<Rightarrow> nat \<Rightarrow> ('w, 'c) rpc"
  netDial :: "string \<Rightarrow> string \<Rightarrow> ('w, 'c) rpc"
  ParsePrivateKey :: "string \<Rightarrow> goerror + 'k"
  knownhostsNew :: "string \<Rightarrow> ('w, unit) rpc"
  sshDial :: "string \<Rightarrow> string \<Rightarrow> ('c, 'k) ssh_config \<Rightarrow> ('w, 'c) rpc"
  sshClientDial :: "'c \<Rightarrow> string \<Rightarrow> string \<Rightarrow> ('w, 'c) rpc"
  AppendCertsFromPEM :: "string \<Rightarrow> bool"
  LoadX509KeyPair :: "string \<Rightarrow> string \<Rightarrow> ('w, string \<times> string) rpc"
  tlsDial :: "string \<Rightarrow> string \<Rightarrow> tls_config \<Rightarrow> ('w, 'c) rpc"

definition sysCall :: "('w, 'a) rpc \<Rightarrow> ('w, 'a) prog" where
  "sysCall f = (\<lambda>w. case f w of (Inl e, w') \<Rightarrow> (Err e, w') | (Inr x, w') \<Rightarrow> (Ret x, w'))"

definition dialTimeout :: nat where "dialTimeout = 2"

section \<open>TCP and UNIX sockets\<close>

definition defaultTCPPort :: string where "defaultTCPPort = ''16509''"
definition defaultUnixSock :: string where "defaultUnixSock = ''/var/run/libvirt/libvirt-sock''"

definition dialTCP :: "('w, 'c, 'k) sys \<Rightarrow> ConnectionURI \<Rightarrow> ('w, 'c) prog" where
  "dialTCP y u = sysCall (DialTimeout y ''tcp'' (hostPort u defaultTCPPort) dialTimeout)"

definition socketOf :: "ConnectionURI \<Rightarrow> string" where
  "socketOf u = (let address = query_Get u ''socket'' in if address = [] then defaultUnixSock else address)"

definition dialUNIX :: "('w, 'c, 'k) sys \<Rightarrow> ConnectionURI \<Rightarrow> ('w, 'c) prog" where
  "dialUNIX y u = sysCall (DialTimeout y ''unix'' (socketOf u) dialTimeout)"

section \<open>TLS\<close>

definition defaultTLSPort :: string where "defaultTLSPort = ''16514''"
definition caCertName :: string where "caCertName = ''cacert.pem''"
definition clientCertName :: string where "clientCertName = ''clientcert.pem''"
definition clientKeyName :: string where "clientKeyName = ''clientkey.pem''"
definition defaultUserPKIPath :: string where "defaultUserPKIPath = ''${HOME}/.pki/libvirt''"
definition defaultGlobalCACertPath :: string where "defaultGlobalCACertPath = ''/etc/pki/CA''"
definition defaultGlobalClientCertPath :: string where "defaultGlobalClientCertPath = ''/etc/pki/libvirt''"
definition defaultGlobalClientKeyPath :: string where "defaultGlobalClientKeyPath = ''/etc/pki/libvirt/private''"

text \<open>A directory is neither the resource nor missing: the code returns its error, which is nil.\<close>

fun findResource :: "('w, 'c, 'k) sys \<Rightarrow> string \<Rightarrow> string list \<Rightarrow> ('w, string) prog" where
  "findResource y name [] = throw (Wrapf ''can't locate resource '%s' in %v: %w'' [SArg name] (SysError ''file does not exist''))"
| "findResource y name (dir # dirs) = (\<lambda>w.
     let path = pathJoin y (ExpandEnv y dir w) name
     in (case Stat y path w of
           RegularFile \<Rightarrow> ret path
         | NotExist \<Rightarrow> findResource y name dirs
         | Directory \<Rightarrow> ret []
         | StatError e \<Rightarrow> throw e) w)"

definition amIRoot :: "('w, 'c, 'k) sys \<Rightarrow> ('w, bool) prog" where
  "amIRoot y = bindP (sysCall (userCurrent y)) (\<lambda>(uid, _). ret (uid = ''0''))"

definition nonZero :: "string \<Rightarrow> bool" where
  "nonZero s = (case atoi s of (n, err) \<Rightarrow>
     n \<noteq> 0 \<and> err = None \<or> 0 < length s \<and> n = 0 \<and> err \<noteq> None)"

text \<open>The directories searched for the CA certificate, the client certificate and the client key.\<close>

definition searchPaths :: "('w, 'c, 'k) sys \<Rightarrow> ConnectionURI \<Rightarrow> ('w, string list \<times> string list \<times> string list) prog" where
  "searchPaths y u =
     (let pkipath = query_Get u ''pkipath'' in
      if pkipath \<noteq> [] then ret ([pkipath], [pkipath], [pkipath])
      else bindP (amIRoot y) (\<lambda>root.
        bindP (getS (ExpandEnv y defaultUserPKIPath)) (\<lambda>user.
        let first = (if root then [] else [user])
        in ret (first @ [defaultGlobalCACertPath], first @ [defaultGlobalClientCertPath],
                first @ [defaultGlobalClientKeyPath]))))"

definition tlsConfig :: "('w, 'c, 'k) sys \<Rightarrow> ConnectionURI \<Rightarrow> ('w, tls_config) prog" where
  "tlsConfig y u =
     bindP (searchPaths y u) (\<lambda>(caPath, certPath, keyPath).
     bindP (findResource y caCertName caPath) (\<lambda>caCertPath.
     bindP (findResource y clientCertName certPath) (\<lambda>clientCertPath.
     bindP (findResource y clientKeyName keyPath) (\<lambda>clientKeyPath.
     bindP (orFail (sysCall (ReadFile y caCertPath)) (Wrapf (''can't read certificate '%s': %w'') [SArg []])) (\<lambda>caCert.
     if \<not> AppendCertsFromPEM y caCert then
       throw (Errorf (''failed to parse CA certificate '%s'' @ [CHR 0x27]) [SArg caCertPath])
     else
       bindP (sysCall (LoadX509KeyPair y clientCertPath clientKeyPath)) (\<lambda>clientCert.
       ret \<lparr>tls_RootCAs = caCert, tls_Certificate = clientCert,
            InsecureSkipVerify = nonZero (query_Get u ''no_verify'')\<rparr>))))))"

definition dialTLS :: "('w, 'c, 'k) sys \<Rightarrow> ConnectionURI \<Rightarrow> ('w, 'c) prog" where
  "dialTLS y u =
     bindP (tlsConfig y u) (\<lambda>cfg. sysCall (tlsDial y ''tcp'' (hostPort u defaultTLSPort) cfg))"

section \<open>SSH\<close>

definition defaultSSHPort :: string where "defaultSSHPort = ''22''"
definition defaultSSHKeyPath :: string where "defaultSSHKeyPath = ''${HOME}/.ssh/id_rsa''"
definition defaultSSHKnownHostsPath :: string where "defaultSSHKnownHostsPath = ''${HOME}/.ssh/known_hosts''"
definition defaultSSHAuthMethods :: string where "defaultSSHAuthMethods = ''agent,privkey''"

definition user_Username :: "ConnectionURI \<Rightarrow> string" where
  "user_Username u = (case cu_User u of Some (name, _) \<Rightarrow> name | None \<Rightarrow> [])"

definition user_Password :: "ConnectionURI \<Rightarrow> string option" where
  "user_Password u = (case cu_User u of Some (_, p) \<Rightarrow> p | None \<Rightarrow> None)"

definition orDefault :: "string \<Rightarrow> string \<Rightarrow> string" where
  "orDefault x d = (if x = [] then d else x)"

text \<open>The methods that one name of the list \<open>sshauth\<close> contributes.\<close>

definition authMethod :: "('w, 'c, 'k) sys \<Rightarrow> ConnectionURI \<Rightarrow> string \<Rightarrow> ('w, ('c, 'k) auth_method list) prog" where
  "authMethod y u v =
     (if v = ''agent'' then
        bindP (getS (Getenv y ''SSH_AUTH_SOCK'')) (\<lambda>socket.
        if socket = [] then ret []
        else bindP (attempt (sysCall (netDial y ''unix'' socket))) (\<lambda>r.
          ret (case r of Inl _ \<Rightarrow> [] | Inr conn \<Rightarrow> [AgentKeys conn])))
      else if v = ''privkey'' then
        bindP (getS (ExpandEnv y (orDefault (query_Get u ''keyfile'') defaultSSHKeyPath))) (\<lambda>path.
        bindP (attempt (sysCall (ReadFile y path))) (\<lambda>r.
        ret (case r of Inl _ \<Rightarrow> []
          | Inr sshKey \<Rightarrow> [PublicKeys (case ParsePrivateKey y sshKey of Inl _ \<Rightarrow> None | Inr signer \<Rightarrow> Some signer)])))
      else if v = ''ssh-password'' then
        ret (case user_Password u of Some p \<Rightarrow> [PasswordAuth p] | None \<Rightarrow> [])
      else ret [])"

definition parseAuthMethods :: "('w, 'c, 'k) sys \<Rightarrow> ConnectionURI \<Rightarrow> ('w, ('c, 'k) auth_method list) prog" where
  "parseAuthMethods y u =
     bindP (mapP (authMethod y u) (strSplit CHR '','' (orDefault (query_Get u ''sshauth'') defaultSSHAuthMethods)))
       (\<lambda>ls. ret (concat ls))"

definition doVerify :: "ConnectionURI \<Rightarrow> bool" where
  "doVerify u = (if query_Get u ''known_hosts_verify'' = ''ignore'' then False else query_Get u ''no_verify'' = [])"

definition hostKeyCallback :: "('w, 'c, 'k) sys \<Rightarrow> ConnectionURI \<Rightarrow> ('w, host_key_callback) prog" where
  "hostKeyCallback y u =
     (if doVerify u then
        bindP (getS (ExpandEnv y (orDefault (query_Get u ''knownhosts'') defaultSSHKnownHostsPath))) (\<lambda>path.
        bindP (orFail (sysCall (knownhostsNew y path)) (Wrapf ''failed to read ssh known hosts: %w'' [])) (\<lambda>_.
        ret (KnownHosts path)))
      else ret InsecureIgnoreHostKey)"

definition dialSSH :: "('w, 'c, 'k) sys \<Rightarrow> ConnectionURI \<Rightarrow> ('w, 'c) prog" where
  "dialSSH y u =
     bindP (parseAuthMethods y u) (\<lambda>authMethods.
     if length authMethods < 1 then throw (Errorf ''could not configure SSH authentication methods'' [])
     else
       bindP (hostKeyCallback y u) (\<lambda>callback.
       bindP (if user_Username u = [] then bindP (sysCall (userCurrent y)) (\<lambda>(_, name). ret name)
              else ret (user_Username u)) (\<lambda>username.
       let cfg = \<lparr>cfg_User = username, cfg_HostKeyCallback = callback, cfg_Auth = authMethods,
                  cfg_Timeout = dialTimeout\<rparr>
       in bindP (sysCall (sshDial y ''tcp'' (hostPort u defaultSSHPort) cfg)) (\<lambda>sshClient.
          orFail (sysCall (sshClientDial y sshClient ''unix'' (socketOf u)))
            (Wrapf ''failed to connect to libvirt on the remote host: %w'' [])))))"

definition Dial :: "('w, 'c, 'k) sys \<Rightarrow> ConnectionURI \<Rightarrow> ('w, 'c) prog" where
  "Dial y u =
     (let t = transport u in
      if t = ''tcp'' then dialTCP y u
      else if t = ''tls'' then dialTLS y u
      else if t = ''unix'' then dialUNIX y u
      else if t = ''ssh'' then dialSSH y u
      else throw (Errorf ''transport '%s' not implemented'' [SArg t]))"

section \<open>What is dialled\<close>

lemma runs_to_sysCall: "runs_to (sysCall f) w x w' \<longleftrightarrow> f w = (Inr x, w')"
  by (auto simp: runs_to_def sysCall_def split: prod.splits sum.splits)

lemma runs_to_getS: "runs_to (getS f) w x w' \<longleftrightarrow> x = f w \<and> w' = w"
  by (auto simp: runs_to_def getS_def)

lemma hostKeyCallback_runs:
  "runs_to (hostKeyCallback y u) w cb w' \<Longrightarrow> if doVerify u then \<exists>path. cb = KnownHosts path
      \<and> knownhostsNew y path w = (Inr (), w') else cb = InsecureIgnoreHostKey \<and> w' = w"
  by (auto simp: hostKeyCallback_def runs_to_getS runs_to_sysCall split: if_splits elim!: runs_to_bindE)

text \<open>C15: A connection over SSH is only made with at least one authentication method, to the host of
  the URI and its port or 22, and with the host key checked against a file of known hosts that
  could be read, unless the URI has \<open>known_hosts_verify=ignore\<close> or any non-empty \<open>no_verify\<close>
  (\<open>no_verify=0\<close> too).\<close>

theorem dialSSH_checks:
  assumes "dialSSH y u w = (Ret c, w')"
  shows "\<exists>client cfg w1 w2. sshDial y ''tcp'' (hostPort u defaultSSHPort) cfg w1 = (Inr client, w2)
    \<and> sshClientDial y client ''unix'' (socketOf u) w2 = (Inr c, w') \<and> cfg_Auth cfg \<noteq> []
    \<and> (if query_Get u ''known_hosts_verify'' \<noteq> ''ignore'' \<and> query_Get u ''no_verify'' = []
       then \<exists>path w3 w4. cfg_HostKeyCallback cfg = KnownHosts path \<and> knownhostsNew y path w3 = (Inr (), w4)
       else cfg_HostKeyCallback cfg = InsecureIgnoreHostKey)"
proof -
  from assms have "runs_to (dialSSH y u) w c w'" by (simp add: runs_to_def)
  then obtain auth cb name w1 w2 w3 w4 client where r: "runs_to (hostKeyCallback y u) w1 cb w2" "\<not> length auth < 1"
    "runs_to (sysCall (sshDial y ''tcp'' (hostPort u defaultSSHPort) \<lparr>cfg_User = name, cfg_HostKeyCallback = cb,
        cfg_Auth = auth, cfg_Timeout = dialTimeout\<rparr>)) w3 client w4"
    "runs_to (sysCall (sshClientDial y client ''unix'' (socketOf u))) w4 c w'"
    unfolding dialSSH_def Let_def by (auto elim!: runs_to_bindE split: if_splits)
  then show ?thesis
    using hostKeyCallback_runs [OF r(1)] unfolding runs_to_sysCall
    by (intro exI conjI) (auto simp: doVerify_def split: if_splits, blast)
qed

text \<open>A system in which every call succeeds; a connection is the text of what was dialled.\<close>

definition ok :: "'a \<Rightarrow> ('w, 'a) rpc" where
  "ok x w = (Inr x, w)"

definition demo_sys :: "(unit, string, unit) sys" where
  "demo_sys = \<lparr>
     Getenv = (\<lambda>_ _. ''/run/agent''), ExpandEnv = (\<lambda>p _. p), pathJoin = (\<lambda>d n. d @ ''/'' @ n),
     Stat = (\<lambda>_ _. RegularFile), ReadFile = ok, userCurrent = ok (''1000'', ''me''),
     DialTimeout = (\<lambda>n a _. ok (n @ '':'' @ a)), netDial = (\<lambda>n a. ok (n @ '':'' @ a)),
     ParsePrivateKey = (\<lambda>_. Inr ()), knownhostsNew = (\<lambda>_. ok ()),
     sshDial = (\<lambda>n a cfg. ok (cfg_User cfg @ ''@'' @ a)), sshClientDial = (\<lambda>c n a. ok (c @ '' '' @ a)),
     AppendCertsFromPEM = (\<lambda>_. True), LoadX509KeyPair = (\<lambda>c k. ok (c, k)), tlsDial = (\<lambda>n a _. ok a)\<rparr>"

definition demo_url :: ConnectionURI where
  "demo_url = \<lparr>cu_Scheme = ''qemu+ssh'', cu_User = Some (''root'', None), cu_Host = ''host:2222'',
     cu_Path = ''/system'', cu_Query = [(''no_verify'', ''0'')]\<rparr>"

theorem dialSSH_checks_witness:
  "dialSSH demo_sys demo_url () = (Ret ''root@host:2222 /var/run/libvirt/libvirt-sock'', ())
   \<and> (\<exists>client cfg w1 w2. sshDial demo_sys ''tcp'' (hostPort demo_url defaultSSHPort) cfg w1 = (Inr client, w2)
        \<and> cfg_HostKeyCallback cfg = InsecureIgnoreHostKey)"
proof
  show run: "dialSSH demo_sys demo_url () = (Ret ''root@host:2222 /var/run/libvirt/libvirt-sock'', ())"
    by code_simp
  show "\<exists>client cfg w1 w2. sshDial demo_sys ''tcp'' (hostPort demo_url defaultSSHPort) cfg w1 = (Inr client, w2)
        \<and> cfg_HostKeyCallback cfg = InsecureIgnoreHostKey"
    using dialSSH_checks [OF run] by (auto simp: demo_url_def query_Get_def)
qed

section \<open>Search for certificates\<close>

text \<open>The first of the files that exists is taken, unless a directory of that name comes before it:
  then the result is the empty path, without an error.\<close>

lemma findResource_first:
  assumes "\<forall>d \<in> set before. Stat y (pathJoin y (ExpandEnv y d w) name) w = NotExist"
  shows "findResource y name (before @ dir # dirs) w =
    (let path = pathJoin y (ExpandEnv y dir w) name in case Stat y path w of
       RegularFile \<Rightarrow> (Ret path, w) | Directory \<Rightarrow> (Ret [], w) | StatError e \<Rightarrow> (Err e, w)
     | NotExist \<Rightarrow> findResource y name dirs w)"
  using assms by (induction before) (simp_all add: Let_def ret_def throw_def split: file_stat.split)

end
