(* ===== verification/Provider_Config.thy ===== *)
theory Provider_Config
  imports Connection_URI Demo_World
begin

text \<open>
  The clients of the provider (\<open>config.go\<close>, \<open>provider.go\<close>): a client is a pointer to a connection
  with its mutexes, made once for every connection URI and shared afterwards.  The libvirt library
  is an argument; \<open>ConnectToURI\<close> gets the dialler and the name of the remote.
\<close>

section \<open>State\<close>

text \<open>A \<open>*Client\<close> is an index into \<open>clients\<close>.\<close>

record 'l client =
  cl_libvirt :: 'l
  cl_poolMutexKV :: mutexkv
  cl_networkMutex :: bool

record ('w, 'l) globals =
  globalClientMap :: "(string \<times> nat) list"
  clients :: "'l client list"
  gworld :: 'w

record ('w, 'c, 'l) golibvirt =
  urlParse :: "string \<Rightarrow> goerror + ConnectionURI"
  printURL :: "ConnectionURI \<Rightarrow> string"
  ConnectToURI :: "('w, 'c) prog \<Rightarrow> string \<Rightarrow> ('w, 'l) rpc"
  ConnectGetLibVersion :: "'l \<Rightarrow> ('w, nat) rpc"
  ConnectClose :: "'l \<Rightarrow> ('w, unit) rpc"

definition globalCall :: "('w, 'a) rpc \<Rightarrow> (('w, 'l) globals, 'a) prog" where
  "globalCall f = (\<lambda>g. case f (gworld g) of
      (Inl e, w) \<Rightarrow> (Err e, g\<lparr>gworld := w\<rparr>) | (Inr x, w) \<Rightarrow> (Ret x, g\<lparr>gworld := w\<rparr>))"

section \<open>Making clients\<close>

definition newClient :: "'l \<Rightarrow> (('w, 'l) globals, nat) prog" where
  "newClient l = (\<lambda>g. (Ret (length (clients g)),
     g\<lparr>clients := clients g @ [\<lparr>cl_libvirt = l, cl_poolMutexKV = NewMutexKV, cl_networkMutex = False\<rparr>]\<rparr>))"

definition config_Client ::
  "('w, 'c, 'k) sys \<Rightarrow> ('w, 'c, 'l) golibvirt \<Rightarrow> string \<Rightarrow> (('w, 'l) globals, nat) prog" where
  "config_Client y L uri =
     bindP (liftSum (urlParse L uri)) (\<lambda>u.
     bindP (orFail (globalCall (ConnectToURI L (Dial y u) (RemoteName (printURL L) u)))
              (Wrapf ''failed to connect: %w'' [])) (\<lambda>l.
     bindP (orFail (globalCall (ConnectGetLibVersion L l))
              (Wrapf ''failed to retrieve libvirt version: %w'' [])) (\<lambda>_.
     newClient l)))"

definition providerConfigure ::
  "('w, 'd, 'v) sdk \<Rightarrow> ('w, 'c, 'k) sys \<Rightarrow> ('w, 'c, 'l) golibvirt \<Rightarrow> 'd \<Rightarrow> (('w, 'l) globals, nat) prog" where
  "providerConfigure S y L d =
     (case sdGet S d ''uri'' of
        TStr uri \<Rightarrow>
          bindP (getS (\<lambda>g. map_of (globalClientMap g) uri)) (\<lambda>known. case known of
            Some client \<Rightarrow> ret client
          | None \<Rightarrow>
              bindP (config_Client y L uri) (\<lambda>client.
              bindP (updS (\<lambda>g. g\<lparr>globalClientMap := (uri, client) # globalClientMap g\<rparr>)) (\<lambda>_.
              ret client)))
      | _ \<Rightarrow> panic ''interface conversion'')"

text \<open>\<open>order\<close> is the order in which Go visits the map; errors of \<open>ConnectClose\<close> are only logged.\<close>

definition CleanupLibvirtConnections ::
  "((string \<times> nat) list \<Rightarrow> (string \<times> nat) list) \<Rightarrow> ('w, 'c, 'l) golibvirt \<Rightarrow> (('w, 'l) globals, unit) prog" where
  "CleanupLibvirtConnections order L =
     bindP (getS (\<lambda>g. order (globalClientMap g))) (\<lambda>cs.
     forP cs (\<lambda>(uri, client).
       bindP (getS (\<lambda>g. cl_libvirt (clients g ! client))) (\<lambda>l.
       bindP (attempt (globalCall (ConnectClose L l))) (\<lambda>_. ret ()))))"

text \<open>A handler runs on the client that was configured for its resource.\<close>

definition runHandler ::
  "nat \<Rightarrow> (('w, 'd) prov, 'a) prog \<Rightarrow> 'd \<Rightarrow> ('w, 'l) globals \<Rightarrow> 'a outcome \<times> ('w, 'l) globals" where
  "runHandler p m d g =
     (let c = clients g ! p;
          (r, s) = m \<lparr>connected = True, poolMutexKV = cl_poolMutexKV c, networkMutex = cl_networkMutex c,
                      world = gworld g, rdata = d, trace = []\<rparr>
      in (r, g\<lparr>gworld := world s, clients := (clients g)[p := c\<lparr>cl_poolMutexKV := poolMutexKV s,
                cl_networkMutex := networkMutex s\<rparr>]\<rparr>))"

section \<open>Clients are shared\<close>

text \<open>
  The life of the provider: it is configured, any number of times and for any URIs, handlers run
  on configured clients (each with a discipline \<open>E\<close> of its own that it keeps), and connections are closed.  The log has the URI and the client of every
  successful configuration.
\<close>

inductive provider_run ::
  "('w, 'd, 'v) sdk \<Rightarrow> ('w, 'c, 'k) sys \<Rightarrow> ('w, 'c, 'l) golibvirt \<Rightarrow> (string \<times> nat) list \<Rightarrow> ('w, 'l) globals \<Rightarrow> bool"
  for S y L where
  start: "provider_run S y L [] \<lparr>globalClientMap = [], clients = [], gworld = w\<rparr>"
| configured: "\<lbrakk>provider_run S y L log g; sdGet S d ''uri'' = TStr uri; providerConfigure S y L d g = (Ret p, g')\<rbrakk>
    \<Longrightarrow> provider_run S y L ((uri, p) # log) g'"
| failed: "\<lbrakk>provider_run S y L log g; providerConfigure S y L d g = (Err e, g')\<rbrakk> \<Longrightarrow> provider_run S y L log g'"
| handled: "\<lbrakk>provider_run S y L log g; (uri, p) \<in> set log; handler_keeps E (m :: (('w, 'd) prov, unit) prog);
      runHandler p m d g = (r, g')\<rbrakk> \<Longrightarrow> provider_run S y L log g'"
| cleaned: "\<lbrakk>provider_run S y L log g; set (order (globalClientMap g)) = set (globalClientMap g);
      CleanupLibvirtConnections order L g = (r, g')\<rbrakk> \<Longrightarrow> provider_run S y L log g'"

text \<open>Between steps no mutex is held, and the map has one pointer for each URI, all different.\<close>

definition client_idle :: "'l client \<Rightarrow> bool" where
  "client_idle c \<longleftrightarrow> kv_ok (cl_poolMutexKV c) \<and> holds (cl_poolMutexKV c) = (\<lambda>_. False) \<and> \<not> cl_networkMutex c"

definition clients_inv :: "(string \<times> nat) list \<Rightarrow> ('w, 'l) globals \<Rightarrow> bool" where
  "clients_inv log g \<longleftrightarrow> distinct (map snd (globalClientMap g))
     \<and> (\<forall>(u, p) \<in> set (globalClientMap g). p < length (clients g))
     \<and> (\<forall>(u, p) \<in> set log. map_of (globalClientMap g) u = Some p)
     \<and> list_all client_idle (clients g)"

lemma client_idle_new: "client_idle \<lparr>cl_libvirt = l, cl_poolMutexKV = NewMutexKV, cl_networkMutex = False\<rparr>"
  by (simp add: client_idle_def kv_ok_New, simp add: holds_def NewMutexKV_def fun_eq_iff)

text \<open>A new client is a new pointer, and there is none after an error.\<close>

lemma config_Client_result:
  assumes "config_Client y L uri g = (r, g')"
  shows "globalClientMap g' = globalClientMap g \<and> (case r of
      Ret p \<Rightarrow> p = length (clients g) \<and> (\<exists>l. clients g' = clients g @ [\<lparr>cl_libvirt = l, cl_poolMutexKV = NewMutexKV, cl_networkMutex = False\<rparr>])
    | _ \<Rightarrow> clients g' = clients g)"
  using assms
  by (auto simp: config_Client_def bindP_def orFail_def attempt_def liftSum_def globalCall_def newClient_def ret_def
      throw_def split: prod.splits sum.splits outcome.splits)

lemma providerConfigure_known:
  assumes "map_of (globalClientMap g) uri = Some p" "sdGet S d ''uri'' = TStr uri"
  shows "providerConfigure S y L d g = (Ret p, g)"
  using assms by (simp add: providerConfigure_def bindP_def getS_def ret_def)

lemma providerConfigure_new:
  assumes "map_of (globalClientMap g) uri = None" "sdGet S d ''uri'' = TStr uri"
  shows "providerConfigure S y L d g = (case config_Client y L uri g of
      (Ret p, g') \<Rightarrow> (Ret p, g'\<lparr>globalClientMap := (uri, p) # globalClientMap g'\<rparr>) | (r, g') \<Rightarrow> (r, g'))"
  using assms by (simp add: providerConfigure_def bindP_def getS_def ret_def updS_def
      split: prod.split outcome.split)

text \<open>A configuration that fails caches nothing.\<close>

lemma providerConfigure_fails:
  assumes "providerConfigure S y L d g = (Err e, g')"
  shows "globalClientMap g' = globalClientMap g \<and> clients g' = clients g"
proof (cases "\<exists>uri. sdGet S d ''uri'' = TStr uri")
  case True
  then obtain uri where uri: "sdGet S d ''uri'' = TStr uri" by blast
  show ?thesis
  proof (cases "map_of (globalClientMap g) uri")
    case None
    from assms show ?thesis
      unfolding providerConfigure_new [OF None uri]
      by (auto split: prod.splits outcome.splits dest: config_Client_result)
  qed (use assms uri in \<open>simp add: providerConfigure_known\<close>)
qed (use assms in \<open>auto simp: providerConfigure_def bindP_def panic_def split: tfval.splits\<close>)

lemma clients_inv_configured:
  assumes "clients_inv log g" "sdGet S d ''uri'' = TStr uri" "providerConfigure S y L d g = (Ret p, g')"
  shows "clients_inv ((uri, p) # log) g'"
proof (cases "map_of (globalClientMap g) uri")
  case None
  then obtain l g1 where c: "config_Client y L uri g = (Ret p, g1)" "g' = g1\<lparr>globalClientMap := (uri, p) # globalClientMap g1\<rparr>"
    using assms(2,3) by (auto simp: providerConfigure_new split: prod.splits outcome.splits)
  with None assms(1) config_Client_result [OF c(1)] show ?thesis
    by (fastforce simp: clients_inv_def client_idle_new)
next
  case (Some q)
  with assms show ?thesis by (auto simp: clients_inv_def providerConfigure_known)
qed

lemma clients_inv_same:
  "clients_inv log g \<Longrightarrow> globalClientMap g' = globalClientMap g \<Longrightarrow> clients g' = clients g \<Longrightarrow> clients_inv log g'"
  by (simp add: clients_inv_def)

lemma clients_inv_handled:
  assumes inv: "clients_inv log g" and p: "(uri, p) \<in> set log" and m: "handler_keeps E m" and run: "runHandler p m d g = (r, g')"
  shows "clients_inv log g'"
proof -
  let ?c = "clients g ! p"
  let ?s = "\<lparr>connected = True, poolMutexKV = cl_poolMutexKV ?c, networkMutex = cl_networkMutex ?c,
      world = gworld g, rdata = d, trace = []\<rparr>"
  from inv p have "map_of (globalClientMap g) uri = Some p" by (auto simp: clients_inv_def)
  then have "p < length (clients g)" using inv by (auto simp: clients_inv_def dest: map_of_SomeD)
  then have "client_idle ?c" using inv by (simp add: clients_inv_def list_all_length)
  then have "Provider_State.inv (\<lambda>_. False) False E ?s" by (simp add: client_idle_def inv_def)
  then have "Provider_State.inv (\<lambda>_. False) False E (snd (m ?s))" using m by (simp add: handler_keeps_def)
  then have "client_idle (?c\<lparr>cl_poolMutexKV := poolMutexKV (snd (m ?s)), cl_networkMutex := networkMutex (snd (m ?s))\<rparr>)"
    by (simp add: client_idle_def inv_def)
  with inv run show ?thesis
    by (auto simp: clients_inv_def runHandler_def Let_def list_all_iff split: prod.splits
        dest!: set_update_subset_insert [THEN subsetD])
qed

lemma cleanup_keeps:
  assumes "CleanupLibvirtConnections order L g = (r, g')"
  shows "globalClientMap g' = globalClientMap g \<and> clients g' = clients g \<and> r = Ret ()"
proof -
  let ?close = "\<lambda>(uri::string, client). bindP (getS (\<lambda>g. cl_libvirt (clients g ! client))) (\<lambda>l.
      bindP (attempt (globalCall (ConnectClose L l))) (\<lambda>_. ret ()))"
  have close: "\<exists>g'. ?close c g = (Ret (), g') \<and> globalClientMap g' = globalClientMap g \<and> clients g' = clients g" for c g
    by (cases c) (simp add: bindP_def attempt_def getS_def globalCall_def ret_def split: prod.split sum.split)
  have "\<exists>g'. forP cs ?close g = (Ret (), g') \<and> globalClientMap g' = globalClientMap g \<and> clients g' = clients g" for cs g
  proof (induction cs arbitrary: g)
    case (Cons c cs)
    from close [of c g] obtain g1 where "?close c g = (Ret (), g1)"
      and g1: "globalClientMap g1 = globalClientMap g" "clients g1 = clients g" by blast
    then have "forP (c # cs) ?close g = forP cs ?close g1" by (simp add: bindP_def)
    with Cons.IH [of g1] g1 show ?case by simp
  qed (simp add: ret_def)
  from this [of "order (globalClientMap g)" g] assms show ?thesis
    by (auto simp: CleanupLibvirtConnections_def bindP_def getS_def)
qed

lemma provider_run_inv: "provider_run S y L log g \<Longrightarrow> clients_inv log g"
proof (induction rule: provider_run.induct)
  case (start w)
  show ?case by (simp add: clients_inv_def)
qed (auto intro: clients_inv_same clients_inv_configured clients_inv_handled dest: providerConfigure_fails cleanup_keeps)

text \<open>C12: In every life of the provider (configurations for any URIs, failed ones, handlers that keep a
  locking discipline, clean-ups), two successful configurations give the same client exactly
  when they are for the same URI, and between steps no mutex of any client is locked.\<close>

theorem providerConfigure_shares:
  assumes "provider_run S y L log g" "(u, p) \<in> set log" "(v, q) \<in> set log"
  shows "(p = q \<longleftrightarrow> u = v) \<and> p < length (clients g) \<and> client_idle (clients g ! p)"
proof -
  have inv: "clients_inv log g" using assms(1) by (rule provider_run_inv)
  with assms(2,3) have m: "map_of (globalClientMap g) u = Some p" "map_of (globalClientMap g) v = Some q"
    by (auto simp: clients_inv_def)
  then have "(u, p) \<in> set (globalClientMap g)" "(v, q) \<in> set (globalClientMap g)" by (auto dest: map_of_SomeD)
  moreover from inv have "inj_on snd (set (globalClientMap g))" by (simp add: clients_inv_def distinct_map)
  ultimately have "p = q \<Longrightarrow> u = v" "p < length (clients g)"
    using inv inj_onD [of snd "set (globalClientMap g)" "(u, p)" "(v, q)"] by (auto simp: clients_inv_def)
  with m inv show ?thesis by (auto simp: clients_inv_def list_all_length)
qed

section \<open>A library that connects\<close>

text \<open>It connects to every URI but the empty one, which does not parse.\<close>

definition demo_libvirt :: "(unit, string, string) golibvirt" where
  "demo_libvirt = \<lparr>urlParse = (\<lambda>x. if x = [] then Inl (SysError ''empty url'') else Inr (demo_url\<lparr>cu_Path := x\<rparr>)),
     printURL = cu_Path,
     ConnectToURI = (\<lambda>dial name w. case dial w of
        (Ret c, w') \<Rightarrow> (Inr (c @ '' '' @ name), w') | (_, w') \<Rightarrow> (Inl (SysError ''dial''), w')),
     ConnectGetLibVersion = (\<lambda>_. ok 8000000), ConnectClose = (\<lambda>_. ok ())\<rparr>"

definition demo_config :: "string \<Rightarrow> rdemo" where
  "demo_config uri = \<lparr>rd_vals = [(''uri'', TStr uri)], rd_id = []\<rparr>"

definition uri_sdk :: "(unit, rdemo, StorageVol) sdk" where
  "uri_sdk = demo_sdk"

abbreviation demo_configure :: "string \<Rightarrow> ((unit, string) globals, nat) prog" where
  "demo_configure uri \<equiv> providerConfigure uri_sdk demo_sys demo_libvirt (demo_config uri)"

definition demo_client :: "string \<Rightarrow> string client" where
  "demo_client path = \<lparr>cl_libvirt = ''root@host:2222 /var/run/libvirt/libvirt-sock '' @ path,
     cl_poolMutexKV = NewMutexKV, cl_networkMutex = False\<rparr>"

definition demo_globals :: "(string \<times> nat) list \<Rightarrow> (unit, string) globals" where
  "demo_globals cs = \<lparr>globalClientMap = cs, clients = rev (map (\<lambda>(path, _). demo_client path) cs), gworld = ()\<rparr>"

lemma demo_uri: "sdGet uri_sdk (demo_config uri) ''uri'' = TStr uri"
  by (simp add: uri_sdk_def demo_sdk_def demo_get_def demo_lookup_def demo_config_def)

lemma demo_dial: "Dial demo_sys (demo_url\<lparr>cu_Path := path\<rparr>) w = (Ret ''root@host:2222 /var/run/libvirt/libvirt-sock'', w)"
  by code_simp

lemma demo_first:
  assumes "map_of cs uri = None" "uri \<noteq> []"
  shows "demo_configure uri (demo_globals cs) = (Ret (length cs), demo_globals ((uri, length cs) # cs))"
  using assms
  by (simp add: providerConfigure_new demo_uri demo_globals_def config_Client_def demo_libvirt_def bindP_def liftSum_def
      orFail_def attempt_def globalCall_def demo_dial RemoteName_def query_Get_def ok_def newClient_def ret_def
      demo_client_def) (simp add: demo_url_def)

theorem providerConfigure_shares_witness:
  "\<exists>g. provider_run uri_sdk demo_sys demo_libvirt [(''/a'', 0), (''/b'', 1), (''/a'', 0)] g
     \<and> client_idle (clients g ! 1)"
proof -
  let ?run = "provider_run uri_sdk demo_sys demo_libvirt"
  have "?run [] (demo_globals [])" using provider_run.start by (simp add: demo_globals_def)
  from provider_run.configured [OF this demo_uri demo_first]
  have "?run [(''/a'', 0)] (demo_globals [(''/a'', 0)])" by (simp add: numeral_eq_Suc)
  from provider_run.configured [OF this demo_uri demo_first]
  have b: "?run [(''/b'', 1), (''/a'', 0)] (demo_globals [(''/b'', 1), (''/a'', 0)])" by simp
  have "demo_configure ''/a'' (demo_globals [(''/b'', 1), (''/a'', 0)]) = (Ret 0, demo_globals [(''/b'', 1), (''/a'', 0)])"
    by (rule providerConfigure_known [OF _ demo_uri]) (simp add: demo_globals_def)
  from provider_run.configured [OF b demo_uri this]
  have run: "?run [(''/a'', 0), (''/b'', 1), (''/a'', 0)] (demo_globals [(''/b'', 1), (''/a'', 0)])" .
  with providerConfigure_shares [OF run, of "''/b''" 1 "''/a''" 0] show ?thesis by auto
qed

end
