(* ===== verification/Data_Source.thy ===== *)
theory Data_Source
  imports Domain_Devices Net_Text
begin

text \<open>
  The data sources of \<open>data_source_libvirt_network.go\<close>: templates that render their attributes as a
  map, with a hash of the map as the identifier.
\<close>

text \<open>\<open>fmt.Sprintf("%v", m)\<close> prints a map with its keys in order.\<close>

definition fmtMap :: "(string \<times> string) list \<Rightarrow> string" where
  "fmtMap m = ''map['' @ strJoin CHR '' '' (map (\<lambda>(k, v). k @ CHR '':'' # v) (sort_key fst m)) @ '']''"

definition strconv_Itoa :: "int \<Rightarrow> string" where
  "strconv_Itoa i = (if i < 0 then CHR ''-'' # decString (nat (- i)) else decString (nat i))"

text \<open>\<open>if v, ok := d.GetOk(k); ok { m[k] = v.(string) }\<close>\<close>

definition putOk :: "('w, 'd, 'v) sdk \<Rightarrow> (string \<times> string) list \<Rightarrow> string
    \<Rightarrow> (('w, 'd) prov, (string \<times> string) list) prog" where
  "putOk S m k = bindP (dOptStr S k) (\<lambda>v. ret (case v of Some x \<Rightarrow> m @ [(k, x)] | None \<Rightarrow> m))"

fun putAll :: "('w, 'd, 'v) sdk \<Rightarrow> (string \<times> string) list \<Rightarrow> string list
    \<Rightarrow> (('w, 'd) prov, (string \<times> string) list) prog" where
  "putAll S m [] = ret m"
| "putAll S m (k # ks) = bindP (putOk S m k) (\<lambda>m'. putAll S m' ks)"

definition setRendered :: "('w, 'd, 'v) sdk \<Rightarrow> (string \<times> string) list \<Rightarrow> (('w, 'd) prov, unit) prog" where
  "setRendered S m =
     bindP (dSet S ''rendered'' (TMap (map (\<lambda>(k, x). (k, TStr x)) m))) (\<lambda>_.
     dSetId S (strconv_Itoa (hashcode_String (fmtMap m))))"

definition resourceLibvirtNetworkDNSHostRead :: "('w, 'd, 'v) sdk \<Rightarrow> (('w, 'd) prov, unit) prog" where
  "resourceLibvirtNetworkDNSHostRead S =
     bindP (dOptStr S ''ip'') (\<lambda>address.
     bindP (case address of
         None \<Rightarrow> ret []
       | Some a \<Rightarrow> (case ParseIP a of
             None \<Rightarrow> throw (Errorf (''could not parse address '%s'' @ [CHR 0x27]) [SArg a])
           | Some ip \<Rightarrow> ret [(''ip'', ipString ip)])) (\<lambda>dnsHost.
     bindP (putOk S dnsHost ''hostname'') (\<lambda>dnsHost.
     setRendered S dnsHost)))"

definition resourceLibvirtNetworkDNSSRVRead :: "('w, 'd, 'v) sdk \<Rightarrow> (('w, 'd) prov, unit) prog" where
  "resourceLibvirtNetworkDNSSRVRead S =
     bindP (putAll S [] [''service'', ''protocol'', ''domain'', ''target'', ''port'', ''weight'', ''priority''])
       (setRendered S)"

definition resourceLibvirtNetworkDnsmasqOptionsRead :: "('w, 'd, 'v) sdk \<Rightarrow> (('w, 'd) prov, unit) prog" where
  "resourceLibvirtNetworkDnsmasqOptionsRead S =
     bindP (putAll S [] [''option_name'', ''option_value'']) (setRendered S)"

section \<open>What is rendered\<close>

text \<open>The attributes that are set, in the order in which they are read.\<close>

definition setAttrs :: "('w, 'd, 'v) sdk \<Rightarrow> 'd \<Rightarrow> string list \<Rightarrow> (string \<times> string) list" where
  "setAttrs S d ks = concat (map (\<lambda>k. case sdGetOk S d k of Some (TStr x) \<Rightarrow> [(k, x)] | _ \<Rightarrow> []) ks)"

definition strings_at :: "('w, 'd, 'v) sdk \<Rightarrow> 'd \<Rightarrow> string list \<Rightarrow> bool" where
  "strings_at S d ks \<longleftrightarrow> (\<forall>k \<in> set ks. \<forall>v. sdGetOk S d k = Some v \<longrightarrow> (\<exists>x. v = TStr x))"

lemma putAll_run:
  "strings_at S (rdata s) ks \<Longrightarrow> putAll S m ks s = (Ret (m @ setAttrs S (rdata s) ks), s)"
proof (induction ks arbitrary: m)
  case (Cons k ks)
  then have "strings_at S (rdata s) ks" by (simp add: strings_at_def)
  with Cons show ?case
    by (auto simp: putOk_def dOptStr_def dGetOk_def bindP_def getS_def ret_def setAttrs_def strings_at_def assertStr_def
        split: option.split)
qed (simp add: ret_def setAttrs_def)

definition rendered :: "('w, 'd, 'v) sdk \<Rightarrow> (string \<times> string) list \<Rightarrow> ('w, 'd) prov \<Rightarrow> ('w, 'd) prov" where
  "rendered S m s = s\<lparr>rdata := sdSetId S (strconv_Itoa (hashcode_String (fmtMap m)))
     (snd (sdSet S ''rendered'' (TMap (map (\<lambda>(k, x). (k, TStr x)) m)) (rdata s)))\<rparr>"

lemma setRendered_run: "setRendered S m s = (Ret (), rendered S m s)"
  by (simp add: setRendered_def rendered_def dSet_def dSetId_def bindP_def updS_def)

lemma templates_render:
  "strings_at S (rdata s) [''service'', ''protocol'', ''domain'', ''target'', ''port'', ''weight'', ''priority''] \<Longrightarrow>
    resourceLibvirtNetworkDNSSRVRead S s = (Ret (), rendered S (setAttrs S (rdata s)
      [''service'', ''protocol'', ''domain'', ''target'', ''port'', ''weight'', ''priority'']) s)"
  "strings_at S (rdata s) [''option_name'', ''option_value''] \<Longrightarrow>
    resourceLibvirtNetworkDnsmasqOptionsRead S s =
      (Ret (), rendered S (setAttrs S (rdata s) [''option_name'', ''option_value'']) s)"
  unfolding resourceLibvirtNetworkDNSSRVRead_def resourceLibvirtNetworkDnsmasqOptionsRead_def bindP_def
  by (simp_all only: putAll_run setRendered_run append_Nil prod.case outcome.case)

text \<open>The identifier is a decimal number below \<open>2 ^ 32\<close>, without a sign.\<close>

lemma rendered_id: "strconv_Itoa (hashcode_String m) = decString (nat (hashcode_String m))"
  using hashcode_String_range [of m] by (simp add: strconv_Itoa_def)

text \<open>An address is rendered in its normal form; one that does not parse leaves the data as they were.\<close>

lemma host_rendered:
  assumes "sdGetOk S (rdata s) ''ip'' = Some (TStr a)" "strings_at S (rdata s) [''hostname'']"
  shows "resourceLibvirtNetworkDNSHostRead S s = (case ParseIP a of
      Some ip \<Rightarrow> (Ret (), rendered S ((''ip'', ipString ip) # setAttrs S (rdata s) [''hostname'']) s)
    | None \<Rightarrow> (Err (Errorf (''could not parse address '%s'' @ [CHR 0x27]) [SArg a]), s))"
proof -
  have put: "putOk S m ''hostname'' s = (Ret (m @ setAttrs S (rdata s) [''hostname'']), s)" for m
    using putAll_run [OF assms(2), of m] by (simp add: bindP_def ret_def split: prod.splits outcome.splits)
  have ip: "dOptStr S ''ip'' s = (Ret (Some a), s)"
    using assms(1) by (simp add: dOptStr_def dGetOk_def bindP_def getS_def assertStr_def ret_def)
  show ?thesis
    unfolding resourceLibvirtNetworkDNSHostRead_def bindP_def
    by (simp add: ip put setRendered_run ret_def throw_def split: option.split)
qed

end
